(* ===== verification/Prelude.thy ===== *)
theory Prelude
  imports Main "HOL-Library.Word" "HOL-Library.Signed_Division"
begin

text \<open>
  Shared vocabulary of the development.  The programs modelled here are C programs that
  run to completion as one process: they read strings, write to standard output, call
  \<open>exit\<close> or \<open>errx\<close>, and may run into undefined behaviour.  This theory holds the type of
  such a run, the C library's character classes and number conversions, and the generic
  list facts that the component theories share.
\<close>

named_theorems ctype_simps \<open>the character classes of ctype.h, unfolded\<close>
named_theorems run_simps \<open>equations that execute a run\<close>

section \<open>Runs of a C program\<close>

text \<open>
  \<open>Ret out a\<close>: the call returned \<open>a\<close> after writing \<open>out\<close>; \<open>Exit out err n\<close>: the process
  wrote \<open>out\<close> to standard output, the message \<open>err\<close> to standard error and exited with
  status \<open>n\<close>; \<open>Undef out\<close>: after writing \<open>out\<close> the program did something whose behaviour C
  leaves undefined (an access outside an array, a division by zero).
\<close>

datatype 'a run = Ret string 'a | Exit string string int | Undef string

fun bind_run :: "'a run \<Rightarrow> ('a \<Rightarrow> 'b run) \<Rightarrow> 'b run" where
  "bind_run (Ret out a) f =
     (case f a of Ret out' b \<Rightarrow> Ret (out @ out') b
                | Exit out' err n \<Rightarrow> Exit (out @ out') err n
                | Undef out' \<Rightarrow> Undef (out @ out'))"
| "bind_run (Exit out err n) f = Exit out err n"
| "bind_run (Undef out) f = Undef out"

abbreviation ret :: "'a \<Rightarrow> 'a run" where
  "ret a \<equiv> Ret [] a"

abbreviation put :: "string \<Rightarrow> unit run" where
  "put s \<equiv> Ret s ()"

fun run_output :: "'a run \<Rightarrow> string" where
  "run_output (Ret out a) = out"
| "run_output (Exit out err n) = out"
| "run_output (Undef out) = out"

lemma bind_run_ret [simp]: "bind_run (Ret [] a) f = f a"
  by (cases "f a") auto

lemma bind_run_ret_right [simp]: "bind_run r (Ret []) = r"
  by (cases r) auto

lemma bind_run_assoc: "bind_run (bind_run r f) g = bind_run r (\<lambda>a. bind_run (f a) g)"
proof (cases r)
  case (Ret out a)
  then show ?thesis
    by (cases "f a") (auto split: run.splits)
qed auto

lemma bind_run_eq_Ret:
  "bind_run r f = Ret out b \<longleftrightarrow>
     (\<exists>o1 a o2. r = Ret o1 a \<and> f a = Ret o2 b \<and> out = o1 @ o2)"
  by (cases r) (auto split: run.splits)

lemma bind_run_eq_Undef:
  "bind_run r f = Undef out \<longleftrightarrow>
     r = Undef out \<or> (\<exists>o1 a o2. r = Ret o1 a \<and> f a = Undef o2 \<and> out = o1 @ o2)"
  by (cases r) (auto split: run.splits)

section \<open>Characters\<close>

text \<open>
  A \<open>char\<close> of HOL is a byte; \<open>code c\<close> is its value as an \<open>unsigned char\<close>.  The classes are
  those of the C locale.
\<close>

abbreviation code :: "char \<Rightarrow> nat" where
  "code c \<equiv> of_char c"

abbreviation NL :: char where "NL \<equiv> CHR 0x0A"
abbreviation TAB :: char where "TAB \<equiv> CHR 0x09"
abbreviation NUL :: char where "NUL \<equiv> CHR 0x00"
abbreviation FF :: char where "FF \<equiv> CHR 0x0C"
abbreviation BS :: char where "BS \<equiv> CHR 0x08"
abbreviation CR :: char where "CR \<equiv> CHR 0x0D"

definition isdigit :: "char \<Rightarrow> bool" where
  [ctype_simps]: "isdigit c \<longleftrightarrow> 48 \<le> code c \<and> code c \<le> 57"

definition isupper :: "char \<Rightarrow> bool" where
  [ctype_simps]: "isupper c \<longleftrightarrow> 65 \<le> code c \<and> code c \<le> 90"

definition islower :: "char \<Rightarrow> bool" where
  [ctype_simps]: "islower c \<longleftrightarrow> 97 \<le> code c \<and> code c \<le> 122"

definition isalpha :: "char \<Rightarrow> bool" where
  [ctype_simps]: "isalpha c \<longleftrightarrow> isupper c \<or> islower c"

definition isalnum :: "char \<Rightarrow> bool" where
  [ctype_simps]: "isalnum c \<longleftrightarrow> isalpha c \<or> isdigit c"

definition isblank :: "char \<Rightarrow> bool" where
  [ctype_simps]: "isblank c \<longleftrightarrow> c = CHR '' '' \<or> c = TAB"

definition isspace :: "char \<Rightarrow> bool" where
  [ctype_simps]: "isspace c \<longleftrightarrow> code c = 32 \<or> 9 \<le> code c \<and> code c \<le> 13"

definition isprint :: "char \<Rightarrow> bool" where
  [ctype_simps]: "isprint c \<longleftrightarrow> 32 \<le> code c \<and> code c \<le> 126"

definition tolower :: "char \<Rightarrow> char" where
  [ctype_simps]: "tolower c = (if isupper c then char_of (code c + 32) else c)"

definition toupper :: "char \<Rightarrow> char" where
  [ctype_simps]: "toupper c = (if islower c then char_of (code c - 32) else c)"

text \<open>The C string that starts at a buffer: everything before the first NUL.\<close>

definition cstr :: "string \<Rightarrow> string" where
  "cstr s = takeWhile (\<lambda>c. c \<noteq> NUL) s"

text \<open>\<open>*p\<close> for a C string \<open>p\<close>: its first character, NUL at its end.\<close>

fun deref :: "string \<Rightarrow> char" where
  "deref [] = NUL"
| "deref (c # s) = c"

lemma code_inj [simp]: "code c = code d \<longleftrightarrow> c = d"
  by (metis char_of_char)

lemma code_bound [simp]: "code c < 256"
  using of_char_mod_256 [of c, where 'a = nat] by (metis mod_less_divisor zero_less_numeral)

lemma code_char_of [simp]: "n < 256 \<Longrightarrow> code (char_of n) = n"
  by simp

lemma char_of_eq: "n < 256 \<Longrightarrow> char_of n = c \<longleftrightarrow> n = code c"
  by (metis char_of_char code_char_of)

section \<open>Digits and numbers\<close>

text \<open>The digit a character stands for in \<open>strtoul\<close> and \<open>strtol\<close>, if it is one.\<close>

definition digit_of :: "char \<Rightarrow> nat option" where
  "digit_of c =
     (if isdigit c then Some (code c - 48)
      else if isupper c then Some (code c - 55)
      else if islower c then Some (code c - 87)
      else None)"

definition is_digit_in :: "nat \<Rightarrow> char \<Rightarrow> bool" where
  "is_digit_in b c = (case digit_of c of None \<Rightarrow> False | Some d \<Rightarrow> d < b)"

definition digit_val :: "char \<Rightarrow> nat" where
  "digit_val c = (case digit_of c of None \<Rightarrow> 0 | Some d \<Rightarrow> d)"

definition digits_val :: "nat \<Rightarrow> string \<Rightarrow> nat" where
  "digits_val b s = foldl (\<lambda>n c. n * b + digit_val c) 0 s"

definition hexchar :: "nat \<Rightarrow> char" where
  "hexchar d = (if d < 10 then char_of (d + 48) else char_of (d + 87))"

text \<open>The digits \<open>printf\<close> writes for an unsigned number (\<open>%lu\<close>, \<open>%lx\<close>, \<open>%o\<close>).\<close>

fun show_base :: "nat \<Rightarrow> nat \<Rightarrow> string" where
  "show_base b n =
     (if b < 2 \<or> n < b then [hexchar n] else show_base b (n div b) @ [hexchar (n mod b)])"

declare show_base.simps [simp del]

definition show_nat :: "nat \<Rightarrow> string" where
  "show_nat n = show_base 10 n"

definition show_hex :: "nat \<Rightarrow> string" where
  "show_hex n = show_base 16 n"

definition show_int :: "int \<Rightarrow> string" where
  "show_int i = (if i < 0 then CHR ''-'' # show_nat (nat (- i)) else show_nat (nat i))"

lemma digits_val_Nil [simp]: "digits_val b [] = 0"
  by (simp add: digits_val_def)

lemma digits_val_snoc [simp]: "digits_val b (s @ [c]) = digits_val b s * b + digit_val c"
  by (simp add: digits_val_def)

lemma digit_of_hexchar:
  assumes "d < 16" shows "digit_of (hexchar d) = Some d"
  using assms by (auto simp: digit_of_def hexchar_def ctype_simps)

lemma is_digit_in_hexchar: "d < b \<Longrightarrow> d < 16 \<Longrightarrow> is_digit_in b (hexchar d)"
  by (simp add: is_digit_in_def digit_of_hexchar)

lemma show_base_digits:
  assumes "2 \<le> b" "b \<le> 16"
  shows "\<forall>c \<in> set (show_base b n). is_digit_in b c"
proof (induction n rule: less_induct)
  case (less n)
  show ?case
  proof (cases "n < b")
    case True
    then show ?thesis using assms by (subst show_base.simps) (simp add: is_digit_in_hexchar)
  next
    case False
    then have "n div b < n" using assms by (simp add: div_less_dividend)
    with less have "\<forall>c \<in> set (show_base b (n div b)). is_digit_in b c" by blast
    moreover have "is_digit_in b (hexchar (n mod b))"
      using assms mod_less_divisor [of b n] by (intro is_digit_in_hexchar) linarith+
    ultimately show ?thesis using False assms
      by (subst show_base.simps) auto
  qed
qed

lemma show_base_val:
  assumes "2 \<le> b" "b \<le> 16"
  shows "digits_val b (show_base b n) = n"
proof (induction n rule: less_induct)
  case (less n)
  show ?case
  proof (cases "n < b")
    case True
    then show ?thesis using assms
      by (subst show_base.simps) (simp add: digits_val_def digit_val_def digit_of_hexchar)
  next
    case False
    then have "n div b < n" using assms by (simp add: div_less_dividend)
    with less have IH: "digits_val b (show_base b (n div b)) = n div b" by blast
    have "n mod b < 16" using assms mod_less_divisor [of b n] by linarith
    with IH False assms show ?thesis
      by (subst show_base.simps) (simp add: digit_val_def digit_of_hexchar)
  qed
qed

lemma show_base_not_Nil [simp]: "show_base b n \<noteq> []"
  by (subst show_base.simps) simp

text \<open>
  \<open>strtoul(str, &end, base)\<close> on a 64-bit machine: the value, whether \<open>errno\<close> stayed 0 (it is
  set to \<open>EINVAL\<close> when there are no digits and to \<open>ERANGE\<close> on overflow), and the text at
  \<open>end\<close>.  White space is skipped, one sign is accepted, base 16 allows a \<open>0x\<close> that a
  hexadecimal digit follows, and base 0 takes the base from the prefix; a minus sign negates
  modulo \<open>2^64\<close>.
\<close>

definition has_hex_prefix :: "string \<Rightarrow> bool" where
  "has_hex_prefix s \<longleftrightarrow>
     (case s of z # x # d # _ \<Rightarrow> z = CHR ''0'' \<and> tolower x = CHR ''x'' \<and> is_digit_in 16 d
              | _ \<Rightarrow> False)"

definition strto_prefix :: "nat \<Rightarrow> string \<Rightarrow> nat \<times> string" where
  "strto_prefix base s =
     (if (base = 0 \<or> base = 16) \<and> has_hex_prefix s then (16, drop 2 s)
      else if base = 0 then (if deref s = CHR ''0'' then 8 else 10, s)
      else (base, s))"

definition is_sign :: "char \<Rightarrow> bool" where
  "is_sign c \<longleftrightarrow> c = CHR ''-'' \<or> c = CHR ''+''"

text \<open>\<open>atoi\<close>; \<open>None\<close> is a value outside \<open>int\<close>.\<close>

definition atoi :: "string \<Rightarrow> int option" where
  "atoi str =
     (let s0 = dropWhile isspace str;
          s = (if is_sign (deref s0) then tl s0 else s0);
          n = int (digits_val 10 (takeWhile isdigit s));
          v = (if deref s0 = CHR ''-'' then - n else n)
      in if - (2 ^ 31) \<le> v \<and> v < 2 ^ 31 then Some v else None)"

definition strtoul :: "nat \<Rightarrow> string \<Rightarrow> 64 word \<times> bool \<times> string" where
  "strtoul base str =
     (let s = dropWhile isspace str;
          neg = (deref s = CHR ''-'');
          s1 = (if is_sign (deref s) then tl s else s);
          (b, s2) = strto_prefix base s1;
          ds = takeWhile (is_digit_in b) s2;
          n = digits_val b ds
      in if ds = [] then (0, False, str)
         else if 2 ^ 64 \<le> n then (- 1, False, dropWhile (is_digit_in b) s2)
         else (if neg then - word_of_nat n else word_of_nat n, True,
               dropWhile (is_digit_in b) s2))"

text \<open>Facts about digits and about the digits of a number that several programs use.\<close>

lemma is_digit_10: "is_digit_in 10 c \<longleftrightarrow> isdigit c"
  by (auto simp: is_digit_in_def digit_of_def ctype_simps)

lemma show_nat_digits: "list_all isdigit (show_nat n)"
  using show_base_digits [of 10 n] by (simp add: show_nat_def is_digit_10 list_all_iff)

lemma show_nat_cons: "\<exists>c cs. show_nat n = c # cs \<and> isdigit c \<and> list_all isdigit cs"
  using show_nat_digits [of n] show_base_not_Nil [of 10 n]
  by (cases "show_nat n") (auto simp: show_nat_def)

lemma isdigit_facts:
  assumes "isdigit c"
  shows "\<not> isspace c" "\<not> is_sign c" "c \<noteq> CHR ''-''" "tolower c = c" "c \<noteq> CHR ''i''" "c \<noteq> CHR ''n''"
    "c \<noteq> CHR ''x''" "c \<noteq> NUL" "c \<noteq> NL" "\<not> isblank c"
  using assms by (auto simp: ctype_simps is_sign_def)

section \<open>Lists\<close>

lemma takeWhile_all_append:
  "\<forall>c \<in> set xs. P c \<Longrightarrow> takeWhile P (xs @ ys) = xs @ takeWhile P ys"
  by (induction xs) auto

lemma dropWhile_all_append:
  "\<forall>c \<in> set xs. P c \<Longrightarrow> dropWhile P (xs @ ys) = dropWhile P ys"
  by (induction xs) auto

end
