(* ===== verification/Prime_Table.thy ===== *)
theory Prime_Table
  imports Prelude
begin

text \<open>
  The table of primes of \<^verbatim>\<open>src/bsd_additions/factor/pr_tbl.c\<close>, row by row (each definition
  holds ten source lines), and the check that no prime up to the last entry is missing.
  \<open>walk\<close> steps through the numbers that are divisible neither by 2 nor by 3 and wants each to
  be the next entry of the table or the product that the next certificate names, so the
  check costs one multiplication per number and no division.
\<close>

section \<open>Primes\<close>

definition is_prime :: "nat \<Rightarrow> bool" where
  "is_prime n \<longleftrightarrow> 1 < n \<and> (\<forall>d. d dvd n \<longrightarrow> d = 1 \<or> d = n)"

section \<open>The table\<close>

definition prime_rows_55 :: "int list" where
  "prime_rows_55 =
    [2, 3, 5, 7, 11, 13, 17, 19, 23, 29, 31, 37, 41, 43, 47, 53, 59, 61, 67, 71, 73, 79, 83,
     89, 97, 101, 103, 107, 109, 113, 127, 131, 137, 139, 149, 151, 157, 163, 167, 173, 179,
     181, 191, 193, 197, 199, 211, 223, 227, 229, 233, 239, 241, 251, 257, 263, 269, 271, 277,
     281, 283, 293, 307, 311, 313, 317, 331, 337, 347, 349, 353, 359, 367, 373, 379, 383, 389,
     397, 401, 409, 419, 421, 431, 433, 439, 443, 449, 457, 461, 463, 467, 479, 487, 491, 499,
     503, 509, 521, 523, 541, 547, 557, 563, 569, 571, 577, 587, 593, 599, 601, 607, 613, 617,
     619, 631, 641, 643, 647, 653, 659, 661, 673, 677, 683, 691, 701, 709, 719, 727, 733, 739,
     743, 751, 757, 761, 769, 773, 787, 797, 809, 811, 821, 823, 827, 829, 839, 853, 857, 859,
     863, 877, 881, 883, 887, 907, 911, 919, 929, 937, 941, 947, 953, 967, 971, 977, 983, 991,
     997, 1009, 1013, 1019, 1021, 1031, 1033, 1039, 1049, 1051, 1061, 1063, 1069, 1087, 1091,
     1093, 1097, 1103, 1109, 1117, 1123, 1129, 1151, 1153, 1163]"

definition prime_rows_65 :: "int list" where
  "prime_rows_65 =
    [1171, 1181, 1187, 1193, 1201, 1213, 1217, 1223, 1229, 1231, 1237, 1249, 1259, 1277, 1279,
     1283, 1289, 1291, 1297, 1301, 1303, 1307, 1319, 1321, 1327, 1361, 1367, 1373, 1381, 1399,
     1409, 1423, 1427, 1429, 1433, 1439, 1447, 1451, 1453, 1459, 1471, 1481, 1483, 1487, 1489,
     1493, 1499, 1511, 1523, 1531, 1543, 1549, 1553, 1559, 1567, 1571, 1579, 1583, 1597, 1601,
     1607, 1609, 1613, 1619, 1621, 1627, 1637, 1657, 1663, 1667, 1669, 1693, 1697, 1699, 1709,
     1721, 1723, 1733, 1741, 1747, 1753, 1759, 1777, 1783, 1787, 1789, 1801, 1811, 1823, 1831,
     1847, 1861, 1867, 1871, 1873, 1877, 1879, 1889, 1901, 1907, 1913, 1931, 1933, 1949, 1951,
     1973, 1979, 1987, 1993, 1997, 1999, 2003, 2011, 2017, 2027, 2029, 2039, 2053, 2063, 2069,
     2081, 2083, 2087, 2089, 2099, 2111, 2113, 2129, 2131, 2137, 2141, 2143, 2153, 2161, 2179,
     2203, 2207, 2213, 2221, 2237, 2239, 2243, 2251, 2267, 2269, 2273, 2281, 2287, 2293, 2297]"

definition prime_rows_75 :: "int list" where
  "prime_rows_75 =
    [2309, 2311, 2333, 2339, 2341, 2347, 2351, 2357, 2371, 2377, 2381, 2383, 2389, 2393, 2399,
     2411, 2417, 2423, 2437, 2441, 2447, 2459, 2467, 2473, 2477, 2503, 2521, 2531, 2539, 2543,
     2549, 2551, 2557, 2579, 2591, 2593, 2609, 2617, 2621, 2633, 2647, 2657, 2659, 2663, 2671,
     2677, 2683, 2687, 2689, 2693, 2699, 2707, 2711, 2713, 2719, 2729, 2731, 2741, 2749, 2753,
     2767, 2777, 2789, 2791, 2797, 2801, 2803, 2819, 2833, 2837, 2843, 2851, 2857, 2861, 2879,
     2887, 2897, 2903, 2909, 2917, 2927, 2939, 2953, 2957, 2963, 2969, 2971, 2999, 3001, 3011,
     3019, 3023, 3037, 3041, 3049, 3061, 3067, 3079, 3083, 3089, 3109, 3119, 3121, 3137, 3163,
     3167, 3169, 3181, 3187, 3191, 3203, 3209, 3217, 3221, 3229, 3251, 3253, 3257, 3259, 3271,
     3299, 3301, 3307, 3313, 3319, 3323, 3329, 3331, 3343, 3347, 3359, 3361, 3371, 3373, 3389,
     3391, 3407, 3413, 3433, 3449, 3457, 3461, 3463, 3467, 3469, 3491, 3499, 3511, 3517, 3527]"

definition prime_rows_85 :: "int list" where
  "prime_rows_85 =
    [3529, 3533, 3539, 3541, 3547, 3557, 3559, 3571, 3581, 3583, 3593, 3607, 3613, 3617, 3623,
     3631, 3637, 3643, 3659, 3671, 3673, 3677, 3691, 3697, 3701, 3709, 3719, 3727, 3733, 3739,
     3761, 3767, 3769, 3779, 3793, 3797, 3803, 3821, 3823, 3833, 3847, 3851, 3853, 3863, 3877,
     3881, 3889, 3907, 3911, 3917, 3919, 3923, 3929, 3931, 3943, 3947, 3967, 3989, 4001, 4003,
     4007, 4013, 4019, 4021, 4027, 4049, 4051, 4057, 4073, 4079, 4091, 4093, 4099, 4111, 4127,
     4129, 4133, 4139, 4153, 4157, 4159, 4177, 4201, 4211, 4217, 4219, 4229, 4231, 4241, 4243,
     4253, 4259, 4261, 4271, 4273, 4283, 4289, 4297, 4327, 4337, 4339, 4349, 4357, 4363, 4373,
     4391, 4397, 4409, 4421, 4423, 4441, 4447, 4451, 4457, 4463, 4481, 4483, 4493, 4507, 4513,
     4517, 4519, 4523, 4547, 4549, 4561, 4567, 4583, 4591, 4597, 4603, 4621, 4637, 4639, 4643,
     4649, 4651, 4657, 4663, 4673, 4679, 4691, 4703, 4721, 4723, 4729, 4733, 4751, 4759, 4783]"

definition prime_rows_95 :: "int list" where
  "prime_rows_95 =
    [4787, 4789, 4793, 4799, 4801, 4813, 4817, 4831, 4861, 4871, 4877, 4889, 4903, 4909, 4919,
     4931, 4933, 4937, 4943, 4951, 4957, 4967, 4969, 4973, 4987, 4993, 4999, 5003, 5009, 5011,
     5021, 5023, 5039, 5051, 5059, 5077, 5081, 5087, 5099, 5101, 5107, 5113, 5119, 5147, 5153,
     5167, 5171, 5179, 5189, 5197, 5209, 5227, 5231, 5233, 5237, 5261, 5273, 5279, 5281, 5297,
     5303, 5309, 5323, 5333, 5347, 5351, 5381, 5387, 5393, 5399, 5407, 5413, 5417, 5419, 5431,
     5437, 5441, 5443, 5449, 5471, 5477, 5479, 5483, 5501, 5503, 5507, 5519, 5521, 5527, 5531,
     5557, 5563, 5569, 5573, 5581, 5591, 5623, 5639, 5641, 5647, 5651, 5653, 5657, 5659, 5669,
     5683, 5689, 5693, 5701, 5711, 5717, 5737, 5741, 5743, 5749, 5779, 5783, 5791, 5801, 5807,
     5813, 5821, 5827, 5839, 5843, 5849, 5851, 5857, 5861, 5867, 5869, 5879, 5881, 5897, 5903,
     5923, 5927, 5939, 5953, 5981, 5987, 6007, 6011, 6029, 6037, 6043, 6047, 6053, 6067, 6073]"

definition prime_rows_105 :: "int list" where
  "prime_rows_105 =
    [6079, 6089, 6091, 6101, 6113, 6121, 6131, 6133, 6143, 6151, 6163, 6173, 6197, 6199, 6203,
     6211, 6217, 6221, 6229, 6247, 6257, 6263, 6269, 6271, 6277, 6287, 6299, 6301, 6311, 6317,
     6323, 6329, 6337, 6343, 6353, 6359, 6361, 6367, 6373, 6379, 6389, 6397, 6421, 6427, 6449,
     6451, 6469, 6473, 6481, 6491, 6521, 6529, 6547, 6551, 6553, 6563, 6569, 6571, 6577, 6581,
     6599, 6607, 6619, 6637, 6653, 6659, 6661, 6673, 6679, 6689, 6691, 6701, 6703, 6709, 6719,
     6733, 6737, 6761, 6763, 6779, 6781, 6791, 6793, 6803, 6823, 6827, 6829, 6833, 6841, 6857,
     6863, 6869, 6871, 6883, 6899, 6907, 6911, 6917, 6947, 6949, 6959, 6961, 6967, 6971, 6977,
     6983, 6991, 6997, 7001, 7013, 7019, 7027, 7039, 7043, 7057, 7069, 7079, 7103, 7109, 7121,
     7127, 7129, 7151, 7159, 7177, 7187, 7193, 7207, 7211, 7213, 7219, 7229, 7237, 7243, 7247,
     7253, 7283, 7297, 7307, 7309, 7321, 7331, 7333, 7349, 7351, 7369, 7393, 7411, 7417, 7433]"

definition prime_rows_115 :: "int list" where
  "prime_rows_115 =
    [7451, 7457, 7459, 7477, 7481, 7487, 7489, 7499, 7507, 7517, 7523, 7529, 7537, 7541, 7547,
     7549, 7559, 7561, 7573, 7577, 7583, 7589, 7591, 7603, 7607, 7621, 7639, 7643, 7649, 7669,
     7673, 7681, 7687, 7691, 7699, 7703, 7717, 7723, 7727, 7741, 7753, 7757, 7759, 7789, 7793,
     7817, 7823, 7829, 7841, 7853, 7867, 7873, 7877, 7879, 7883, 7901, 7907, 7919, 7927, 7933,
     7937, 7949, 7951, 7963, 7993, 8009, 8011, 8017, 8039, 8053, 8059, 8069, 8081, 8087, 8089,
     8093, 8101, 8111, 8117, 8123, 8147, 8161, 8167, 8171, 8179, 8191, 8209, 8219, 8221, 8231,
     8233, 8237, 8243, 8263, 8269, 8273, 8287, 8291, 8293, 8297, 8311, 8317, 8329, 8353, 8363,
     8369, 8377, 8387, 8389, 8419, 8423, 8429, 8431, 8443, 8447, 8461, 8467, 8501, 8513, 8521,
     8527, 8537, 8539, 8543, 8563, 8573, 8581, 8597, 8599, 8609, 8623, 8627, 8629, 8641, 8647,
     8663, 8669, 8677, 8681, 8689, 8693, 8699, 8707, 8713, 8719, 8731, 8737, 8741, 8747, 8753]"

definition prime_rows_125 :: "int list" where
  "prime_rows_125 =
    [8761, 8779, 8783, 8803, 8807, 8819, 8821, 8831, 8837, 8839, 8849, 8861, 8863, 8867, 8887,
     8893, 8923, 8929, 8933, 8941, 8951, 8963, 8969, 8971, 8999, 9001, 9007, 9011, 9013, 9029,
     9041, 9043, 9049, 9059, 9067, 9091, 9103, 9109, 9127, 9133, 9137, 9151, 9157, 9161, 9173,
     9181, 9187, 9199, 9203, 9209, 9221, 9227, 9239, 9241, 9257, 9277, 9281, 9283, 9293, 9311,
     9319, 9323, 9337, 9341, 9343, 9349, 9371, 9377, 9391, 9397, 9403, 9413, 9419, 9421, 9431,
     9433, 9437, 9439, 9461, 9463, 9467, 9473, 9479, 9491, 9497, 9511, 9521, 9533, 9539, 9547,
     9551, 9587, 9601, 9613, 9619, 9623, 9629, 9631, 9643, 9649, 9661, 9677, 9679, 9689, 9697,
     9719, 9721, 9733, 9739, 9743, 9749, 9767, 9769, 9781, 9787, 9791, 9803, 9811, 9817, 9829,
     9833, 9839, 9851, 9857, 9859, 9871, 9883, 9887, 9901, 9907, 9923, 9929, 9931, 9941, 9949,
     9967, 9973, 10007, 10009, 10037, 10039, 10061, 10067, 10069, 10079, 10091, 10093, 10099]"

definition prime_rows_135 :: "int list" where
  "prime_rows_135 =
    [10103, 10111, 10133, 10139, 10141, 10151, 10159, 10163, 10169, 10177, 10181, 10193, 10211,
     10223, 10243, 10247, 10253, 10259, 10267, 10271, 10273, 10289, 10301, 10303, 10313, 10321,
     10331, 10333, 10337, 10343, 10357, 10369, 10391, 10399, 10427, 10429, 10433, 10453, 10457,
     10459, 10463, 10477, 10487, 10499, 10501, 10513, 10529, 10531, 10559, 10567, 10589, 10597,
     10601, 10607, 10613, 10627, 10631, 10639, 10651, 10657, 10663, 10667, 10687, 10691, 10709,
     10711, 10723, 10729, 10733, 10739, 10753, 10771, 10781, 10789, 10799, 10831, 10837, 10847,
     10853, 10859, 10861, 10867, 10883, 10889, 10891, 10903, 10909, 10937, 10939, 10949, 10957,
     10973, 10979, 10987, 10993, 11003, 11027, 11047, 11057, 11059, 11069, 11071, 11083, 11087,
     11093, 11113, 11117, 11119, 11131, 11149, 11159, 11161, 11171, 11173, 11177, 11197, 11213,
     11239, 11243, 11251, 11257, 11261, 11273, 11279, 11287, 11299, 11311, 11317, 11321, 11329]"

definition prime_rows_145 :: "int list" where
  "prime_rows_145 =
    [11351, 11353, 11369, 11383, 11393, 11399, 11411, 11423, 11437, 11443, 11447, 11467, 11471,
     11483, 11489, 11491, 11497, 11503, 11519, 11527, 11549, 11551, 11579, 11587, 11593, 11597,
     11617, 11621, 11633, 11657, 11677, 11681, 11689, 11699, 11701, 11717, 11719, 11731, 11743,
     11777, 11779, 11783, 11789, 11801, 11807, 11813, 11821, 11827, 11831, 11833, 11839, 11863,
     11867, 11887, 11897, 11903, 11909, 11923, 11927, 11933, 11939, 11941, 11953, 11959, 11969,
     11971, 11981, 11987, 12007, 12011, 12037, 12041, 12043, 12049, 12071, 12073, 12097, 12101,
     12107, 12109, 12113, 12119, 12143, 12149, 12157, 12161, 12163, 12197, 12203, 12211, 12227,
     12239, 12241, 12251, 12253, 12263, 12269, 12277, 12281, 12289, 12301, 12323, 12329, 12343,
     12347, 12373, 12377, 12379, 12391, 12401, 12409, 12413, 12421, 12433, 12437, 12451, 12457,
     12473, 12479, 12487, 12491, 12497, 12503, 12511, 12517, 12527, 12539, 12541, 12547, 12553]"

definition prime_rows_155 :: "int list" where
  "prime_rows_155 =
    [12569, 12577, 12583, 12589, 12601, 12611, 12613, 12619, 12637, 12641, 12647, 12653, 12659,
     12671, 12689, 12697, 12703, 12713, 12721, 12739, 12743, 12757, 12763, 12781, 12791, 12799,
     12809, 12821, 12823, 12829, 12841, 12853, 12889, 12893, 12899, 12907, 12911, 12917, 12919,
     12923, 12941, 12953, 12959, 12967, 12973, 12979, 12983, 13001, 13003, 13007, 13009, 13033,
     13037, 13043, 13049, 13063, 13093, 13099, 13103, 13109, 13121, 13127, 13147, 13151, 13159,
     13163, 13171, 13177, 13183, 13187, 13217, 13219, 13229, 13241, 13249, 13259, 13267, 13291,
     13297, 13309, 13313, 13327, 13331, 13337, 13339, 13367, 13381, 13397, 13399, 13411, 13417,
     13421, 13441, 13451, 13457, 13463, 13469, 13477, 13487, 13499, 13513, 13523, 13537, 13553,
     13567, 13577, 13591, 13597, 13613, 13619, 13627, 13633, 13649, 13669, 13679, 13681, 13687,
     13691, 13693, 13697, 13709, 13711, 13721, 13723, 13729, 13751, 13757, 13759, 13763, 13781]"

definition prime_rows_165 :: "int list" where
  "prime_rows_165 =
    [13789, 13799, 13807, 13829, 13831, 13841, 13859, 13873, 13877, 13879, 13883, 13901, 13903,
     13907, 13913, 13921, 13931, 13933, 13963, 13967, 13997, 13999, 14009, 14011, 14029, 14033,
     14051, 14057, 14071, 14081, 14083, 14087, 14107, 14143, 14149, 14153, 14159, 14173, 14177,
     14197, 14207, 14221, 14243, 14249, 14251, 14281, 14293, 14303, 14321, 14323, 14327, 14341,
     14347, 14369, 14387, 14389, 14401, 14407, 14411, 14419, 14423, 14431, 14437, 14447, 14449,
     14461, 14479, 14489, 14503, 14519, 14533, 14537, 14543, 14549, 14551, 14557, 14561, 14563,
     14591, 14593, 14621, 14627, 14629, 14633, 14639, 14653, 14657, 14669, 14683, 14699, 14713,
     14717, 14723, 14731, 14737, 14741, 14747, 14753, 14759, 14767, 14771, 14779, 14783, 14797,
     14813, 14821, 14827, 14831, 14843, 14851, 14867, 14869, 14879, 14887, 14891, 14897, 14923,
     14929, 14939, 14947, 14951, 14957, 14969, 14983, 15013, 15017, 15031, 15053, 15061, 15073]"

definition prime_rows_175 :: "int list" where
  "prime_rows_175 =
    [15077, 15083, 15091, 15101, 15107, 15121, 15131, 15137, 15139, 15149, 15161, 15173, 15187,
     15193, 15199, 15217, 15227, 15233, 15241, 15259, 15263, 15269, 15271, 15277, 15287, 15289,
     15299, 15307, 15313, 15319, 15329, 15331, 15349, 15359, 15361, 15373, 15377, 15383, 15391,
     15401, 15413, 15427, 15439, 15443, 15451, 15461, 15467, 15473, 15493, 15497, 15511, 15527,
     15541, 15551, 15559, 15569, 15581, 15583, 15601, 15607, 15619, 15629, 15641, 15643, 15647,
     15649, 15661, 15667, 15671, 15679, 15683, 15727, 15731, 15733, 15737, 15739, 15749, 15761,
     15767, 15773, 15787, 15791, 15797, 15803, 15809, 15817, 15823, 15859, 15877, 15881, 15887,
     15889, 15901, 15907, 15913, 15919, 15923, 15937, 15959, 15971, 15973, 15991, 16001, 16007,
     16033, 16057, 16061, 16063, 16067, 16069, 16073, 16087, 16091, 16097, 16103, 16111, 16127,
     16139, 16141, 16183, 16187, 16189, 16193, 16217, 16223, 16229, 16231, 16249, 16253, 16267]"

definition prime_rows_185 :: "int list" where
  "prime_rows_185 =
    [16273, 16301, 16319, 16333, 16339, 16349, 16361, 16363, 16369, 16381, 16411, 16417, 16421,
     16427, 16433, 16447, 16451, 16453, 16477, 16481, 16487, 16493, 16519, 16529, 16547, 16553,
     16561, 16567, 16573, 16603, 16607, 16619, 16631, 16633, 16649, 16651, 16657, 16661, 16673,
     16691, 16693, 16699, 16703, 16729, 16741, 16747, 16759, 16763, 16787, 16811, 16823, 16829,
     16831, 16843, 16871, 16879, 16883, 16889, 16901, 16903, 16921, 16927, 16931, 16937, 16943,
     16963, 16979, 16981, 16987, 16993, 17011, 17021, 17027, 17029, 17033, 17041, 17047, 17053,
     17077, 17093, 17099, 17107, 17117, 17123, 17137, 17159, 17167, 17183, 17189, 17191, 17203,
     17207, 17209, 17231, 17239, 17257, 17291, 17293, 17299, 17317, 17321, 17327, 17333, 17341,
     17351, 17359, 17377, 17383, 17387, 17389, 17393, 17401, 17417, 17419, 17431, 17443, 17449,
     17467, 17471, 17477, 17483, 17489, 17491, 17497, 17509, 17519, 17539, 17551, 17569, 17573]"

definition prime_rows_195 :: "int list" where
  "prime_rows_195 =
    [17579, 17581, 17597, 17599, 17609, 17623, 17627, 17657, 17659, 17669, 17681, 17683, 17707,
     17713, 17729, 17737, 17747, 17749, 17761, 17783, 17789, 17791, 17807, 17827, 17837, 17839,
     17851, 17863, 17881, 17891, 17903, 17909, 17911, 17921, 17923, 17929, 17939, 17957, 17959,
     17971, 17977, 17981, 17987, 17989, 18013, 18041, 18043, 18047, 18049, 18059, 18061, 18077,
     18089, 18097, 18119, 18121, 18127, 18131, 18133, 18143, 18149, 18169, 18181, 18191, 18199,
     18211, 18217, 18223, 18229, 18233, 18251, 18253, 18257, 18269, 18287, 18289, 18301, 18307,
     18311, 18313, 18329, 18341, 18353, 18367, 18371, 18379, 18397, 18401, 18413, 18427, 18433,
     18439, 18443, 18451, 18457, 18461, 18481, 18493, 18503, 18517, 18521, 18523, 18539, 18541,
     18553, 18583, 18587, 18593, 18617, 18637, 18661, 18671, 18679, 18691, 18701, 18713, 18719,
     18731, 18743, 18749, 18757, 18773, 18787, 18793, 18797, 18803, 18839, 18859, 18869, 18899]"

definition prime_rows_205 :: "int list" where
  "prime_rows_205 =
    [18911, 18913, 18917, 18919, 18947, 18959, 18973, 18979, 19001, 19009, 19013, 19031, 19037,
     19051, 19069, 19073, 19079, 19081, 19087, 19121, 19139, 19141, 19157, 19163, 19181, 19183,
     19207, 19211, 19213, 19219, 19231, 19237, 19249, 19259, 19267, 19273, 19289, 19301, 19309,
     19319, 19333, 19373, 19379, 19381, 19387, 19391, 19403, 19417, 19421, 19423, 19427, 19429,
     19433, 19441, 19447, 19457, 19463, 19469, 19471, 19477, 19483, 19489, 19501, 19507, 19531,
     19541, 19543, 19553, 19559, 19571, 19577, 19583, 19597, 19603, 19609, 19661, 19681, 19687,
     19697, 19699, 19709, 19717, 19727, 19739, 19751, 19753, 19759, 19763, 19777, 19793, 19801,
     19813, 19819, 19841, 19843, 19853, 19861, 19867, 19889, 19891, 19913, 19919, 19927, 19937,
     19949, 19961, 19963, 19973, 19979, 19991, 19993, 19997, 20011, 20021, 20023, 20029, 20047,
     20051, 20063, 20071, 20089, 20101, 20107, 20113, 20117, 20123, 20129, 20143, 20147, 20149]"

definition prime_rows_215 :: "int list" where
  "prime_rows_215 =
    [20161, 20173, 20177, 20183, 20201, 20219, 20231, 20233, 20249, 20261, 20269, 20287, 20297,
     20323, 20327, 20333, 20341, 20347, 20353, 20357, 20359, 20369, 20389, 20393, 20399, 20407,
     20411, 20431, 20441, 20443, 20477, 20479, 20483, 20507, 20509, 20521, 20533, 20543, 20549,
     20551, 20563, 20593, 20599, 20611, 20627, 20639, 20641, 20663, 20681, 20693, 20707, 20717,
     20719, 20731, 20743, 20747, 20749, 20753, 20759, 20771, 20773, 20789, 20807, 20809, 20849,
     20857, 20873, 20879, 20887, 20897, 20899, 20903, 20921, 20929, 20939, 20947, 20959, 20963,
     20981, 20983, 21001, 21011, 21013, 21017, 21019, 21023, 21031, 21059, 21061, 21067, 21089,
     21101, 21107, 21121, 21139, 21143, 21149, 21157, 21163, 21169, 21179, 21187, 21191, 21193,
     21211, 21221, 21227, 21247, 21269, 21277, 21283, 21313, 21317, 21319, 21323, 21341, 21347,
     21377, 21379, 21383, 21391, 21397, 21401, 21407, 21419, 21433, 21467, 21481, 21487, 21491]"

definition prime_rows_225 :: "int list" where
  "prime_rows_225 =
    [21493, 21499, 21503, 21517, 21521, 21523, 21529, 21557, 21559, 21563, 21569, 21577, 21587,
     21589, 21599, 21601, 21611, 21613, 21617, 21647, 21649, 21661, 21673, 21683, 21701, 21713,
     21727, 21737, 21739, 21751, 21757, 21767, 21773, 21787, 21799, 21803, 21817, 21821, 21839,
     21841, 21851, 21859, 21863, 21871, 21881, 21893, 21911, 21929, 21937, 21943, 21961, 21977,
     21991, 21997, 22003, 22013, 22027, 22031, 22037, 22039, 22051, 22063, 22067, 22073, 22079,
     22091, 22093, 22109, 22111, 22123, 22129, 22133, 22147, 22153, 22157, 22159, 22171, 22189,
     22193, 22229, 22247, 22259, 22271, 22273, 22277, 22279, 22283, 22291, 22303, 22307, 22343,
     22349, 22367, 22369, 22381, 22391, 22397, 22409, 22433, 22441, 22447, 22453, 22469, 22481,
     22483, 22501, 22511, 22531, 22541, 22543, 22549, 22567, 22571, 22573, 22613, 22619, 22621,
     22637, 22639, 22643, 22651, 22669, 22679, 22691, 22697, 22699, 22709, 22717, 22721, 22727]"

definition prime_rows_235 :: "int list" where
  "prime_rows_235 =
    [22739, 22741, 22751, 22769, 22777, 22783, 22787, 22807, 22811, 22817, 22853, 22859, 22861,
     22871, 22877, 22901, 22907, 22921, 22937, 22943, 22961, 22963, 22973, 22993, 23003, 23011,
     23017, 23021, 23027, 23029, 23039, 23041, 23053, 23057, 23059, 23063, 23071, 23081, 23087,
     23099, 23117, 23131, 23143, 23159, 23167, 23173, 23189, 23197, 23201, 23203, 23209, 23227,
     23251, 23269, 23279, 23291, 23293, 23297, 23311, 23321, 23327, 23333, 23339, 23357, 23369,
     23371, 23399, 23417, 23431, 23447, 23459, 23473, 23497, 23509, 23531, 23537, 23539, 23549,
     23557, 23561, 23563, 23567, 23581, 23593, 23599, 23603, 23609, 23623, 23627, 23629, 23633,
     23663, 23669, 23671, 23677, 23687, 23689, 23719, 23741, 23743, 23747, 23753, 23761, 23767,
     23773, 23789, 23801, 23813, 23819, 23827, 23831, 23833, 23857, 23869, 23873, 23879, 23887,
     23893, 23899, 23909, 23911, 23917, 23929, 23957, 23971, 23977, 23981, 23993, 24001, 24007]"

definition prime_rows_245 :: "int list" where
  "prime_rows_245 =
    [24019, 24023, 24029, 24043, 24049, 24061, 24071, 24077, 24083, 24091, 24097, 24103, 24107,
     24109, 24113, 24121, 24133, 24137, 24151, 24169, 24179, 24181, 24197, 24203, 24223, 24229,
     24239, 24247, 24251, 24281, 24317, 24329, 24337, 24359, 24371, 24373, 24379, 24391, 24407,
     24413, 24419, 24421, 24439, 24443, 24469, 24473, 24481, 24499, 24509, 24517, 24527, 24533,
     24547, 24551, 24571, 24593, 24611, 24623, 24631, 24659, 24671, 24677, 24683, 24691, 24697,
     24709, 24733, 24749, 24763, 24767, 24781, 24793, 24799, 24809, 24821, 24841, 24847, 24851,
     24859, 24877, 24889, 24907, 24917, 24919, 24923, 24943, 24953, 24967, 24971, 24977, 24979,
     24989, 25013, 25031, 25033, 25037, 25057, 25073, 25087, 25097, 25111, 25117, 25121, 25127,
     25147, 25153, 25163, 25169, 25171, 25183, 25189, 25219, 25229, 25237, 25243, 25247, 25253,
     25261, 25301, 25303, 25307, 25309, 25321, 25339, 25343, 25349, 25357, 25367, 25373, 25391]"

definition prime_rows_255 :: "int list" where
  "prime_rows_255 =
    [25409, 25411, 25423, 25439, 25447, 25453, 25457, 25463, 25469, 25471, 25523, 25537, 25541,
     25561, 25577, 25579, 25583, 25589, 25601, 25603, 25609, 25621, 25633, 25639, 25643, 25657,
     25667, 25673, 25679, 25693, 25703, 25717, 25733, 25741, 25747, 25759, 25763, 25771, 25793,
     25799, 25801, 25819, 25841, 25847, 25849, 25867, 25873, 25889, 25903, 25913, 25919, 25931,
     25933, 25939, 25943, 25951, 25969, 25981, 25997, 25999, 26003, 26017, 26021, 26029, 26041,
     26053, 26083, 26099, 26107, 26111, 26113, 26119, 26141, 26153, 26161, 26171, 26177, 26183,
     26189, 26203, 26209, 26227, 26237, 26249, 26251, 26261, 26263, 26267, 26293, 26297, 26309,
     26317, 26321, 26339, 26347, 26357, 26371, 26387, 26393, 26399, 26407, 26417, 26423, 26431,
     26437, 26449, 26459, 26479, 26489, 26497, 26501, 26513, 26539, 26557, 26561, 26573, 26591,
     26597, 26627, 26633, 26641, 26647, 26669, 26681, 26683, 26687, 26693, 26699, 26701, 26711]"

definition prime_rows_265 :: "int list" where
  "prime_rows_265 =
    [26713, 26717, 26723, 26729, 26731, 26737, 26759, 26777, 26783, 26801, 26813, 26821, 26833,
     26839, 26849, 26861, 26863, 26879, 26881, 26891, 26893, 26903, 26921, 26927, 26947, 26951,
     26953, 26959, 26981, 26987, 26993, 27011, 27017, 27031, 27043, 27059, 27061, 27067, 27073,
     27077, 27091, 27103, 27107, 27109, 27127, 27143, 27179, 27191, 27197, 27211, 27239, 27241,
     27253, 27259, 27271, 27277, 27281, 27283, 27299, 27329, 27337, 27361, 27367, 27397, 27407,
     27409, 27427, 27431, 27437, 27449, 27457, 27479, 27481, 27487, 27509, 27527, 27529, 27539,
     27541, 27551, 27581, 27583, 27611, 27617, 27631, 27647, 27653, 27673, 27689, 27691, 27697,
     27701, 27733, 27737, 27739, 27743, 27749, 27751, 27763, 27767, 27773, 27779, 27791, 27793,
     27799, 27803, 27809, 27817, 27823, 27827, 27847, 27851, 27883, 27893, 27901, 27917, 27919,
     27941, 27943, 27947, 27953, 27961, 27967, 27983, 27997, 28001, 28019, 28027, 28031, 28051]"

definition prime_rows_275 :: "int list" where
  "prime_rows_275 =
    [28057, 28069, 28081, 28087, 28097, 28099, 28109, 28111, 28123, 28151, 28163, 28181, 28183,
     28201, 28211, 28219, 28229, 28277, 28279, 28283, 28289, 28297, 28307, 28309, 28319, 28349,
     28351, 28387, 28393, 28403, 28409, 28411, 28429, 28433, 28439, 28447, 28463, 28477, 28493,
     28499, 28513, 28517, 28537, 28541, 28547, 28549, 28559, 28571, 28573, 28579, 28591, 28597,
     28603, 28607, 28619, 28621, 28627, 28631, 28643, 28649, 28657, 28661, 28663, 28669, 28687,
     28697, 28703, 28711, 28723, 28729, 28751, 28753, 28759, 28771, 28789, 28793, 28807, 28813,
     28817, 28837, 28843, 28859, 28867, 28871, 28879, 28901, 28909, 28921, 28927, 28933, 28949,
     28961, 28979, 29009, 29017, 29021, 29023, 29027, 29033, 29059, 29063, 29077, 29101, 29123,
     29129, 29131, 29137, 29147, 29153, 29167, 29173, 29179, 29191, 29201, 29207, 29209, 29221,
     29231, 29243, 29251, 29269, 29287, 29297, 29303, 29311, 29327, 29333, 29339, 29347, 29363]"

definition prime_rows_285 :: "int list" where
  "prime_rows_285 =
    [29383, 29387, 29389, 29399, 29401, 29411, 29423, 29429, 29437, 29443, 29453, 29473, 29483,
     29501, 29527, 29531, 29537, 29567, 29569, 29573, 29581, 29587, 29599, 29611, 29629, 29633,
     29641, 29663, 29669, 29671, 29683, 29717, 29723, 29741, 29753, 29759, 29761, 29789, 29803,
     29819, 29833, 29837, 29851, 29863, 29867, 29873, 29879, 29881, 29917, 29921, 29927, 29947,
     29959, 29983, 29989, 30011, 30013, 30029, 30047, 30059, 30071, 30089, 30091, 30097, 30103,
     30109, 30113, 30119, 30133, 30137, 30139, 30161, 30169, 30181, 30187, 30197, 30203, 30211,
     30223, 30241, 30253, 30259, 30269, 30271, 30293, 30307, 30313, 30319, 30323, 30341, 30347,
     30367, 30389, 30391, 30403, 30427, 30431, 30449, 30467, 30469, 30491, 30493, 30497, 30509,
     30517, 30529, 30539, 30553, 30557, 30559, 30577, 30593, 30631, 30637, 30643, 30649, 30661,
     30671, 30677, 30689, 30697, 30703, 30707, 30713, 30727, 30757, 30763, 30773, 30781, 30803]"

definition prime_rows_295 :: "int list" where
  "prime_rows_295 =
    [30809, 30817, 30829, 30839, 30841, 30851, 30853, 30859, 30869, 30871, 30881, 30893, 30911,
     30931, 30937, 30941, 30949, 30971, 30977, 30983, 31013, 31019, 31033, 31039, 31051, 31063,
     31069, 31079, 31081, 31091, 31121, 31123, 31139, 31147, 31151, 31153, 31159, 31177, 31181,
     31183, 31189, 31193, 31219, 31223, 31231, 31237, 31247, 31249, 31253, 31259, 31267, 31271,
     31277, 31307, 31319, 31321, 31327, 31333, 31337, 31357, 31379, 31387, 31391, 31393, 31397,
     31469, 31477, 31481, 31489, 31511, 31513, 31517, 31531, 31541, 31543, 31547, 31567, 31573,
     31583, 31601, 31607, 31627, 31643, 31649, 31657, 31663, 31667, 31687, 31699, 31721, 31723,
     31727, 31729, 31741, 31751, 31769, 31771, 31793, 31799, 31817, 31847, 31849, 31859, 31873,
     31883, 31891, 31907, 31957, 31963, 31973, 31981, 31991, 32003, 32009, 32027, 32029, 32051,
     32057, 32059, 32063, 32069, 32077, 32083, 32089, 32099, 32117, 32119, 32141, 32143, 32159]"

definition prime_rows_305 :: "int list" where
  "prime_rows_305 =
    [32173, 32183, 32189, 32191, 32203, 32213, 32233, 32237, 32251, 32257, 32261, 32297, 32299,
     32303, 32309, 32321, 32323, 32327, 32341, 32353, 32359, 32363, 32369, 32371, 32377, 32381,
     32401, 32411, 32413, 32423, 32429, 32441, 32443, 32467, 32479, 32491, 32497, 32503, 32507,
     32531, 32533, 32537, 32561, 32563, 32569, 32573, 32579, 32587, 32603, 32609, 32611, 32621,
     32633, 32647, 32653, 32687, 32693, 32707, 32713, 32717, 32719, 32749, 32771, 32779, 32783,
     32789, 32797, 32801, 32803, 32831, 32833, 32839, 32843, 32869, 32887, 32909, 32911, 32917,
     32933, 32939, 32941, 32957, 32969, 32971, 32983, 32987, 32993, 32999, 33013, 33023, 33029,
     33037, 33049, 33053, 33071, 33073, 33083, 33091, 33107, 33113, 33119, 33149, 33151, 33161,
     33179, 33181, 33191, 33199, 33203, 33211, 33223, 33247, 33287, 33289, 33301, 33311, 33317,
     33329, 33331, 33343, 33347, 33349, 33353, 33359, 33377, 33391, 33403, 33409, 33413, 33427]"

definition prime_rows_315 :: "int list" where
  "prime_rows_315 =
    [33457, 33461, 33469, 33479, 33487, 33493, 33503, 33521, 33529, 33533, 33547, 33563, 33569,
     33577, 33581, 33587, 33589, 33599, 33601, 33613, 33617, 33619, 33623, 33629, 33637, 33641,
     33647, 33679, 33703, 33713, 33721, 33739, 33749, 33751, 33757, 33767, 33769, 33773, 33791,
     33797, 33809, 33811, 33827, 33829, 33851, 33857, 33863, 33871, 33889, 33893, 33911, 33923,
     33931, 33937, 33941, 33961, 33967, 33997, 34019, 34031, 34033, 34039, 34057, 34061, 34123,
     34127, 34129, 34141, 34147, 34157, 34159, 34171, 34183, 34211, 34213, 34217, 34231, 34253,
     34259, 34261, 34267, 34273, 34283, 34297, 34301, 34303, 34313, 34319, 34327, 34337, 34351,
     34361, 34367, 34369, 34381, 34403, 34421, 34429, 34439, 34457, 34469, 34471, 34483, 34487,
     34499, 34501, 34511, 34513, 34519, 34537, 34543, 34549, 34583, 34589, 34591, 34603, 34607,
     34613, 34631, 34649, 34651, 34667, 34673, 34679, 34687, 34693, 34703, 34721, 34729, 34739]"

definition prime_rows_325 :: "int list" where
  "prime_rows_325 =
    [34747, 34757, 34759, 34763, 34781, 34807, 34819, 34841, 34843, 34847, 34849, 34871, 34877,
     34883, 34897, 34913, 34919, 34939, 34949, 34961, 34963, 34981, 35023, 35027, 35051, 35053,
     35059, 35069, 35081, 35083, 35089, 35099, 35107, 35111, 35117, 35129, 35141, 35149, 35153,
     35159, 35171, 35201, 35221, 35227, 35251, 35257, 35267, 35279, 35281, 35291, 35311, 35317,
     35323, 35327, 35339, 35353, 35363, 35381, 35393, 35401, 35407, 35419, 35423, 35437, 35447,
     35449, 35461, 35491, 35507, 35509, 35521, 35527, 35531, 35533, 35537, 35543, 35569, 35573,
     35591, 35593, 35597, 35603, 35617, 35671, 35677, 35729, 35731, 35747, 35753, 35759, 35771,
     35797, 35801, 35803, 35809, 35831, 35837, 35839, 35851, 35863, 35869, 35879, 35897, 35899,
     35911, 35923, 35933, 35951, 35963, 35969, 35977, 35983, 35993, 35999, 36007, 36011, 36013,
     36017, 36037, 36061, 36067, 36073, 36083, 36097, 36107, 36109, 36131, 36137, 36151, 36161]"

definition prime_rows_335 :: "int list" where
  "prime_rows_335 =
    [36187, 36191, 36209, 36217, 36229, 36241, 36251, 36263, 36269, 36277, 36293, 36299, 36307,
     36313, 36319, 36341, 36343, 36353, 36373, 36383, 36389, 36433, 36451, 36457, 36467, 36469,
     36473, 36479, 36493, 36497, 36523, 36527, 36529, 36541, 36551, 36559, 36563, 36571, 36583,
     36587, 36599, 36607, 36629, 36637, 36643, 36653, 36671, 36677, 36683, 36691, 36697, 36709,
     36713, 36721, 36739, 36749, 36761, 36767, 36779, 36781, 36787, 36791, 36793, 36809, 36821,
     36833, 36847, 36857, 36871, 36877, 36887, 36899, 36901, 36913, 36919, 36923, 36929, 36931,
     36943, 36947, 36973, 36979, 36997, 37003, 37013, 37019, 37021, 37039, 37049, 37057, 37061,
     37087, 37097, 37117, 37123, 37139, 37159, 37171, 37181, 37189, 37199, 37201, 37217, 37223,
     37243, 37253, 37273, 37277, 37307, 37309, 37313, 37321, 37337, 37339, 37357, 37361, 37363,
     37369, 37379, 37397, 37409, 37423, 37441, 37447, 37463, 37483, 37489, 37493, 37501, 37507]"

definition prime_rows_345 :: "int list" where
  "prime_rows_345 =
    [37511, 37517, 37529, 37537, 37547, 37549, 37561, 37567, 37571, 37573, 37579, 37589, 37591,
     37607, 37619, 37633, 37643, 37649, 37657, 37663, 37691, 37693, 37699, 37717, 37747, 37781,
     37783, 37799, 37811, 37813, 37831, 37847, 37853, 37861, 37871, 37879, 37889, 37897, 37907,
     37951, 37957, 37963, 37967, 37987, 37991, 37993, 37997, 38011, 38039, 38047, 38053, 38069,
     38083, 38113, 38119, 38149, 38153, 38167, 38177, 38183, 38189, 38197, 38201, 38219, 38231,
     38237, 38239, 38261, 38273, 38281, 38287, 38299, 38303, 38317, 38321, 38327, 38329, 38333,
     38351, 38371, 38377, 38393, 38431, 38447, 38449, 38453, 38459, 38461, 38501, 38543, 38557,
     38561, 38567, 38569, 38593, 38603, 38609, 38611, 38629, 38639, 38651, 38653, 38669, 38671,
     38677, 38693, 38699, 38707, 38711, 38713, 38723, 38729, 38737, 38747, 38749, 38767, 38783,
     38791, 38803, 38821, 38833, 38839, 38851, 38861, 38867, 38873, 38891, 38903, 38917, 38921]"

definition prime_rows_355 :: "int list" where
  "prime_rows_355 =
    [38923, 38933, 38953, 38959, 38971, 38977, 38993, 39019, 39023, 39041, 39043, 39047, 39079,
     39089, 39097, 39103, 39107, 39113, 39119, 39133, 39139, 39157, 39161, 39163, 39181, 39191,
     39199, 39209, 39217, 39227, 39229, 39233, 39239, 39241, 39251, 39293, 39301, 39313, 39317,
     39323, 39341, 39343, 39359, 39367, 39371, 39373, 39383, 39397, 39409, 39419, 39439, 39443,
     39451, 39461, 39499, 39503, 39509, 39511, 39521, 39541, 39551, 39563, 39569, 39581, 39607,
     39619, 39623, 39631, 39659, 39667, 39671, 39679, 39703, 39709, 39719, 39727, 39733, 39749,
     39761, 39769, 39779, 39791, 39799, 39821, 39827, 39829, 39839, 39841, 39847, 39857, 39863,
     39869, 39877, 39883, 39887, 39901, 39929, 39937, 39953, 39971, 39979, 39983, 39989, 40009,
     40013, 40031, 40037, 40039, 40063, 40087, 40093, 40099, 40111, 40123, 40127, 40129, 40151,
     40153, 40163, 40169, 40177, 40189, 40193, 40213, 40231, 40237, 40241, 40253, 40277, 40283]"

definition prime_rows_365 :: "int list" where
  "prime_rows_365 =
    [40289, 40343, 40351, 40357, 40361, 40387, 40423, 40427, 40429, 40433, 40459, 40471, 40483,
     40487, 40493, 40499, 40507, 40519, 40529, 40531, 40543, 40559, 40577, 40583, 40591, 40597,
     40609, 40627, 40637, 40639, 40693, 40697, 40699, 40709, 40739, 40751, 40759, 40763, 40771,
     40787, 40801, 40813, 40819, 40823, 40829, 40841, 40847, 40849, 40853, 40867, 40879, 40883,
     40897, 40903, 40927, 40933, 40939, 40949, 40961, 40973, 40993, 41011, 41017, 41023, 41039,
     41047, 41051, 41057, 41077, 41081, 41113, 41117, 41131, 41141, 41143, 41149, 41161, 41177,
     41179, 41183, 41189, 41201, 41203, 41213, 41221, 41227, 41231, 41233, 41243, 41257, 41263,
     41269, 41281, 41299, 41333, 41341, 41351, 41357, 41381, 41387, 41389, 41399, 41411, 41413,
     41443, 41453, 41467, 41479, 41491, 41507, 41513, 41519, 41521, 41539, 41543, 41549, 41579,
     41593, 41597, 41603, 41609, 41611, 41617, 41621, 41627, 41641, 41647, 41651, 41659, 41669]"

definition prime_rows_375 :: "int list" where
  "prime_rows_375 =
    [41681, 41687, 41719, 41729, 41737, 41759, 41761, 41771, 41777, 41801, 41809, 41813, 41843,
     41849, 41851, 41863, 41879, 41887, 41893, 41897, 41903, 41911, 41927, 41941, 41947, 41953,
     41957, 41959, 41969, 41981, 41983, 41999, 42013, 42017, 42019, 42023, 42043, 42061, 42071,
     42073, 42083, 42089, 42101, 42131, 42139, 42157, 42169, 42179, 42181, 42187, 42193, 42197,
     42209, 42221, 42223, 42227, 42239, 42257, 42281, 42283, 42293, 42299, 42307, 42323, 42331,
     42337, 42349, 42359, 42373, 42379, 42391, 42397, 42403, 42407, 42409, 42433, 42437, 42443,
     42451, 42457, 42461, 42463, 42467, 42473, 42487, 42491, 42499, 42509, 42533, 42557, 42569,
     42571, 42577, 42589, 42611, 42641, 42643, 42649, 42667, 42677, 42683, 42689, 42697, 42701,
     42703, 42709, 42719, 42727, 42737, 42743, 42751, 42767, 42773, 42787, 42793, 42797, 42821,
     42829, 42839, 42841, 42853, 42859, 42863, 42899, 42901, 42923, 42929, 42937, 42943, 42953]"

definition prime_rows_385 :: "int list" where
  "prime_rows_385 =
    [42961, 42967, 42979, 42989, 43003, 43013, 43019, 43037, 43049, 43051, 43063, 43067, 43093,
     43103, 43117, 43133, 43151, 43159, 43177, 43189, 43201, 43207, 43223, 43237, 43261, 43271,
     43283, 43291, 43313, 43319, 43321, 43331, 43391, 43397, 43399, 43403, 43411, 43427, 43441,
     43451, 43457, 43481, 43487, 43499, 43517, 43541, 43543, 43573, 43577, 43579, 43591, 43597,
     43607, 43609, 43613, 43627, 43633, 43649, 43651, 43661, 43669, 43691, 43711, 43717, 43721,
     43753, 43759, 43777, 43781, 43783, 43787, 43789, 43793, 43801, 43853, 43867, 43889, 43891,
     43913, 43933, 43943, 43951, 43961, 43963, 43969, 43973, 43987, 43991, 43997, 44017, 44021,
     44027, 44029, 44041, 44053, 44059, 44071, 44087, 44089, 44101, 44111, 44119, 44123, 44129,
     44131, 44159, 44171, 44179, 44189, 44201, 44203, 44207, 44221, 44249, 44257, 44263, 44267,
     44269, 44273, 44279, 44281, 44293, 44351, 44357, 44371, 44381, 44383, 44389, 44417, 44449]"

definition prime_rows_395 :: "int list" where
  "prime_rows_395 =
    [44453, 44483, 44491, 44497, 44501, 44507, 44519, 44531, 44533, 44537, 44543, 44549, 44563,
     44579, 44587, 44617, 44621, 44623, 44633, 44641, 44647, 44651, 44657, 44683, 44687, 44699,
     44701, 44711, 44729, 44741, 44753, 44771, 44773, 44777, 44789, 44797, 44809, 44819, 44839,
     44843, 44851, 44867, 44879, 44887, 44893, 44909, 44917, 44927, 44939, 44953, 44959, 44963,
     44971, 44983, 44987, 45007, 45013, 45053, 45061, 45077, 45083, 45119, 45121, 45127, 45131,
     45137, 45139, 45161, 45179, 45181, 45191, 45197, 45233, 45247, 45259, 45263, 45281, 45289,
     45293, 45307, 45317, 45319, 45329, 45337, 45341, 45343, 45361, 45377, 45389, 45403, 45413,
     45427, 45433, 45439, 45481, 45491, 45497, 45503, 45523, 45533, 45541, 45553, 45557, 45569,
     45587, 45589, 45599, 45613, 45631, 45641, 45659, 45667, 45673, 45677, 45691, 45697, 45707,
     45737, 45751, 45757, 45763, 45767, 45779, 45817, 45821, 45823, 45827, 45833, 45841, 45853]"

definition prime_rows_405 :: "int list" where
  "prime_rows_405 =
    [45863, 45869, 45887, 45893, 45943, 45949, 45953, 45959, 45971, 45979, 45989, 46021, 46027,
     46049, 46051, 46061, 46073, 46091, 46093, 46099, 46103, 46133, 46141, 46147, 46153, 46171,
     46181, 46183, 46187, 46199, 46219, 46229, 46237, 46261, 46271, 46273, 46279, 46301, 46307,
     46309, 46327, 46337, 46349, 46351, 46381, 46399, 46411, 46439, 46441, 46447, 46451, 46457,
     46471, 46477, 46489, 46499, 46507, 46511, 46523, 46549, 46559, 46567, 46573, 46589, 46591,
     46601, 46619, 46633, 46639, 46643, 46649, 46663, 46679, 46681, 46687, 46691, 46703, 46723,
     46727, 46747, 46751, 46757, 46769, 46771, 46807, 46811, 46817, 46819, 46829, 46831, 46853,
     46861, 46867, 46877, 46889, 46901, 46919, 46933, 46957, 46993, 46997, 47017, 47041, 47051,
     47057, 47059, 47087, 47093, 47111, 47119, 47123, 47129, 47137, 47143, 47147, 47149, 47161,
     47189, 47207, 47221, 47237, 47251, 47269, 47279, 47287, 47293, 47297, 47303, 47309, 47317]"

definition prime_rows_415 :: "int list" where
  "prime_rows_415 =
    [47339, 47351, 47353, 47363, 47381, 47387, 47389, 47407, 47417, 47419, 47431, 47441, 47459,
     47491, 47497, 47501, 47507, 47513, 47521, 47527, 47533, 47543, 47563, 47569, 47581, 47591,
     47599, 47609, 47623, 47629, 47639, 47653, 47657, 47659, 47681, 47699, 47701, 47711, 47713,
     47717, 47737, 47741, 47743, 47777, 47779, 47791, 47797, 47807, 47809, 47819, 47837, 47843,
     47857, 47869, 47881, 47903, 47911, 47917, 47933, 47939, 47947, 47951, 47963, 47969, 47977,
     47981, 48017, 48023, 48029, 48049, 48073, 48079, 48091, 48109, 48119, 48121, 48131, 48157,
     48163, 48179, 48187, 48193, 48197, 48221, 48239, 48247, 48259, 48271, 48281, 48299, 48311,
     48313, 48337, 48341, 48353, 48371, 48383, 48397, 48407, 48409, 48413, 48437, 48449, 48463,
     48473, 48479, 48481, 48487, 48491, 48497, 48523, 48527, 48533, 48539, 48541, 48563, 48571,
     48589, 48593, 48611, 48619, 48623, 48647, 48649, 48661, 48673, 48677, 48679, 48731, 48733]"

definition prime_rows_425 :: "int list" where
  "prime_rows_425 =
    [48751, 48757, 48761, 48767, 48779, 48781, 48787, 48799, 48809, 48817, 48821, 48823, 48847,
     48857, 48859, 48869, 48871, 48883, 48889, 48907, 48947, 48953, 48973, 48989, 48991, 49003,
     49009, 49019, 49031, 49033, 49037, 49043, 49057, 49069, 49081, 49103, 49109, 49117, 49121,
     49123, 49139, 49157, 49169, 49171, 49177, 49193, 49199, 49201, 49207, 49211, 49223, 49253,
     49261, 49277, 49279, 49297, 49307, 49331, 49333, 49339, 49363, 49367, 49369, 49391, 49393,
     49409, 49411, 49417, 49429, 49433, 49451, 49459, 49463, 49477, 49481, 49499, 49523, 49529,
     49531, 49537, 49547, 49549, 49559, 49597, 49603, 49613, 49627, 49633, 49639, 49663, 49667,
     49669, 49681, 49697, 49711, 49727, 49739, 49741, 49747, 49757, 49783, 49787, 49789, 49801,
     49807, 49811, 49823, 49831, 49843, 49853, 49871, 49877, 49891, 49919, 49921, 49927, 49937,
     49939, 49943, 49957, 49991, 49993, 49999, 50021, 50023, 50033, 50047, 50051, 50053, 50069]"

definition prime_rows_435 :: "int list" where
  "prime_rows_435 =
    [50077, 50087, 50093, 50101, 50111, 50119, 50123, 50129, 50131, 50147, 50153, 50159, 50177,
     50207, 50221, 50227, 50231, 50261, 50263, 50273, 50287, 50291, 50311, 50321, 50329, 50333,
     50341, 50359, 50363, 50377, 50383, 50387, 50411, 50417, 50423, 50441, 50459, 50461, 50497,
     50503, 50513, 50527, 50539, 50543, 50549, 50551, 50581, 50587, 50591, 50593, 50599, 50627,
     50647, 50651, 50671, 50683, 50707, 50723, 50741, 50753, 50767, 50773, 50777, 50789, 50821,
     50833, 50839, 50849, 50857, 50867, 50873, 50891, 50893, 50909, 50923, 50929, 50951, 50957,
     50969, 50971, 50989, 50993, 51001, 51031, 51043, 51047, 51059, 51061, 51071, 51109, 51131,
     51133, 51137, 51151, 51157, 51169, 51193, 51197, 51199, 51203, 51217, 51229, 51239, 51241,
     51257, 51263, 51283, 51287, 51307, 51329, 51341, 51343, 51347, 51349, 51361, 51383, 51407,
     51413, 51419, 51421, 51427, 51431, 51437, 51439, 51449, 51461, 51473, 51479, 51481, 51487]"

definition prime_rows_445 :: "int list" where
  "prime_rows_445 =
    [51503, 51511, 51517, 51521, 51539, 51551, 51563, 51577, 51581, 51593, 51599, 51607, 51613,
     51631, 51637, 51647, 51659, 51673, 51679, 51683, 51691, 51713, 51719, 51721, 51749, 51767,
     51769, 51787, 51797, 51803, 51817, 51827, 51829, 51839, 51853, 51859, 51869, 51871, 51893,
     51899, 51907, 51913, 51929, 51941, 51949, 51971, 51973, 51977, 51991, 52009, 52021, 52027,
     52051, 52057, 52067, 52069, 52081, 52103, 52121, 52127, 52147, 52153, 52163, 52177, 52181,
     52183, 52189, 52201, 52223, 52237, 52249, 52253, 52259, 52267, 52289, 52291, 52301, 52313,
     52321, 52361, 52363, 52369, 52379, 52387, 52391, 52433, 52453, 52457, 52489, 52501, 52511,
     52517, 52529, 52541, 52543, 52553, 52561, 52567, 52571, 52579, 52583, 52609, 52627, 52631,
     52639, 52667, 52673, 52691, 52697, 52709, 52711, 52721, 52727, 52733, 52747, 52757, 52769,
     52783, 52807, 52813, 52817, 52837, 52859, 52861, 52879, 52883, 52889, 52901, 52903, 52919]"

definition prime_rows_455 :: "int list" where
  "prime_rows_455 =
    [52937, 52951, 52957, 52963, 52967, 52973, 52981, 52999, 53003, 53017, 53047, 53051, 53069,
     53077, 53087, 53089, 53093, 53101, 53113, 53117, 53129, 53147, 53149, 53161, 53171, 53173,
     53189, 53197, 53201, 53231, 53233, 53239, 53267, 53269, 53279, 53281, 53299, 53309, 53323,
     53327, 53353, 53359, 53377, 53381, 53401, 53407, 53411, 53419, 53437, 53441, 53453, 53479,
     53503, 53507, 53527, 53549, 53551, 53569, 53591, 53593, 53597, 53609, 53611, 53617, 53623,
     53629, 53633, 53639, 53653, 53657, 53681, 53693, 53699, 53717, 53719, 53731, 53759, 53773,
     53777, 53783, 53791, 53813, 53819, 53831, 53849, 53857, 53861, 53881, 53887, 53891, 53897,
     53899, 53917, 53923, 53927, 53939, 53951, 53959, 53987, 53993, 54001, 54011, 54013, 54037,
     54049, 54059, 54083, 54091, 54101, 54121, 54133, 54139, 54151, 54163, 54167, 54181, 54193,
     54217, 54251, 54269, 54277, 54287, 54293, 54311, 54319, 54323, 54331, 54347, 54361, 54367]"

definition prime_rows_465 :: "int list" where
  "prime_rows_465 =
    [54371, 54377, 54401, 54403, 54409, 54413, 54419, 54421, 54437, 54443, 54449, 54469, 54493,
     54497, 54499, 54503, 54517, 54521, 54539, 54541, 54547, 54559, 54563, 54577, 54581, 54583,
     54601, 54617, 54623, 54629, 54631, 54647, 54667, 54673, 54679, 54709, 54713, 54721, 54727,
     54751, 54767, 54773, 54779, 54787, 54799, 54829, 54833, 54851, 54869, 54877, 54881, 54907,
     54917, 54919, 54941, 54949, 54959, 54973, 54979, 54983, 55001, 55009, 55021, 55049, 55051,
     55057, 55061, 55073, 55079, 55103, 55109, 55117, 55127, 55147, 55163, 55171, 55201, 55207,
     55213, 55217, 55219, 55229, 55243, 55249, 55259, 55291, 55313, 55331, 55333, 55337, 55339,
     55343, 55351, 55373, 55381, 55399, 55411, 55439, 55441, 55457, 55469, 55487, 55501, 55511,
     55529, 55541, 55547, 55579, 55589, 55603, 55609, 55619, 55621, 55631, 55633, 55639, 55661,
     55663, 55667, 55673, 55681, 55691, 55697, 55711, 55717, 55721, 55733, 55763, 55787, 55793]"

definition prime_rows_475 :: "int list" where
  "prime_rows_475 =
    [55799, 55807, 55813, 55817, 55819, 55823, 55829, 55837, 55843, 55849, 55871, 55889, 55897,
     55901, 55903, 55921, 55927, 55931, 55933, 55949, 55967, 55987, 55997, 56003, 56009, 56039,
     56041, 56053, 56081, 56087, 56093, 56099, 56101, 56113, 56123, 56131, 56149, 56167, 56171,
     56179, 56197, 56207, 56209, 56237, 56239, 56249, 56263, 56267, 56269, 56299, 56311, 56333,
     56359, 56369, 56377, 56383, 56393, 56401, 56417, 56431, 56437, 56443, 56453, 56467, 56473,
     56477, 56479, 56489, 56501, 56503, 56509, 56519, 56527, 56531, 56533, 56543, 56569, 56591,
     56597, 56599, 56611, 56629, 56633, 56659, 56663, 56671, 56681, 56687, 56701, 56711, 56713,
     56731, 56737, 56747, 56767, 56773, 56779, 56783, 56807, 56809, 56813, 56821, 56827, 56843,
     56857, 56873, 56891, 56893, 56897, 56909, 56911, 56921, 56923, 56929, 56941, 56951, 56957,
     56963, 56983, 56989, 56993, 56999, 57037, 57041, 57047, 57059, 57073, 57077, 57089, 57097]"

definition prime_rows_485 :: "int list" where
  "prime_rows_485 =
    [57107, 57119, 57131, 57139, 57143, 57149, 57163, 57173, 57179, 57191, 57193, 57203, 57221,
     57223, 57241, 57251, 57259, 57269, 57271, 57283, 57287, 57301, 57329, 57331, 57347, 57349,
     57367, 57373, 57383, 57389, 57397, 57413, 57427, 57457, 57467, 57487, 57493, 57503, 57527,
     57529, 57557, 57559, 57571, 57587, 57593, 57601, 57637, 57641, 57649, 57653, 57667, 57679,
     57689, 57697, 57709, 57713, 57719, 57727, 57731, 57737, 57751, 57773, 57781, 57787, 57791,
     57793, 57803, 57809, 57829, 57839, 57847, 57853, 57859, 57881, 57899, 57901, 57917, 57923,
     57943, 57947, 57973, 57977, 57991, 58013, 58027, 58031, 58043, 58049, 58057, 58061, 58067,
     58073, 58099, 58109, 58111, 58129, 58147, 58151, 58153, 58169, 58171, 58189, 58193, 58199,
     58207, 58211, 58217, 58229, 58231, 58237, 58243, 58271, 58309, 58313, 58321, 58337, 58363,
     58367, 58369, 58379, 58391, 58393, 58403, 58411, 58417, 58427, 58439, 58441, 58451, 58453]"

definition prime_rows_495 :: "int list" where
  "prime_rows_495 =
    [58477, 58481, 58511, 58537, 58543, 58549, 58567, 58573, 58579, 58601, 58603, 58613, 58631,
     58657, 58661, 58679, 58687, 58693, 58699, 58711, 58727, 58733, 58741, 58757, 58763, 58771,
     58787, 58789, 58831, 58889, 58897, 58901, 58907, 58909, 58913, 58921, 58937, 58943, 58963,
     58967, 58979, 58991, 58997, 59009, 59011, 59021, 59023, 59029, 59051, 59053, 59063, 59069,
     59077, 59083, 59093, 59107, 59113, 59119, 59123, 59141, 59149, 59159, 59167, 59183, 59197,
     59207, 59209, 59219, 59221, 59233, 59239, 59243, 59263, 59273, 59281, 59333, 59341, 59351,
     59357, 59359, 59369, 59377, 59387, 59393, 59399, 59407, 59417, 59419, 59441, 59443, 59447,
     59453, 59467, 59471, 59473, 59497, 59509, 59513, 59539, 59557, 59561, 59567, 59581, 59611,
     59617, 59621, 59627, 59629, 59651, 59659, 59663, 59669, 59671, 59693, 59699, 59707, 59723,
     59729, 59743, 59747, 59753, 59771, 59779, 59791, 59797, 59809, 59833, 59863, 59879, 59887]"

definition prime_rows_505 :: "int list" where
  "prime_rows_505 =
    [59921, 59929, 59951, 59957, 59971, 59981, 59999, 60013, 60017, 60029, 60037, 60041, 60077,
     60083, 60089, 60091, 60101, 60103, 60107, 60127, 60133, 60139, 60149, 60161, 60167, 60169,
     60209, 60217, 60223, 60251, 60257, 60259, 60271, 60289, 60293, 60317, 60331, 60337, 60343,
     60353, 60373, 60383, 60397, 60413, 60427, 60443, 60449, 60457, 60493, 60497, 60509, 60521,
     60527, 60539, 60589, 60601, 60607, 60611, 60617, 60623, 60631, 60637, 60647, 60649, 60659,
     60661, 60679, 60689, 60703, 60719, 60727, 60733, 60737, 60757, 60761, 60763, 60773, 60779,
     60793, 60811, 60821, 60859, 60869, 60887, 60889, 60899, 60901, 60913, 60917, 60919, 60923,
     60937, 60943, 60953, 60961, 61001, 61007, 61027, 61031, 61043, 61051, 61057, 61091, 61099,
     61121, 61129, 61141, 61151, 61153, 61169, 61211, 61223, 61231, 61253, 61261, 61283, 61291,
     61297, 61331, 61333, 61339, 61343, 61357, 61363, 61379, 61381, 61403, 61409, 61417, 61441]"

definition prime_rows_515 :: "int list" where
  "prime_rows_515 =
    [61463, 61469, 61471, 61483, 61487, 61493, 61507, 61511, 61519, 61543, 61547, 61553, 61559,
     61561, 61583, 61603, 61609, 61613, 61627, 61631, 61637, 61643, 61651, 61657, 61667, 61673,
     61681, 61687, 61703, 61717, 61723, 61729, 61751, 61757, 61781, 61813, 61819, 61837, 61843,
     61861, 61871, 61879, 61909, 61927, 61933, 61949, 61961, 61967, 61979, 61981, 61987, 61991,
     62003, 62011, 62017, 62039, 62047, 62053, 62057, 62071, 62081, 62099, 62119, 62129, 62131,
     62137, 62141, 62143, 62171, 62189, 62191, 62201, 62207, 62213, 62219, 62233, 62273, 62297,
     62299, 62303, 62311, 62323, 62327, 62347, 62351, 62383, 62401, 62417, 62423, 62459, 62467,
     62473, 62477, 62483, 62497, 62501, 62507, 62533, 62539, 62549, 62563, 62581, 62591, 62597,
     62603, 62617, 62627, 62633, 62639, 62653, 62659, 62683, 62687, 62701, 62723, 62731, 62743,
     62753, 62761, 62773, 62791, 62801, 62819, 62827, 62851, 62861, 62869, 62873, 62897, 62903]"

definition prime_rows_525 :: "int list" where
  "prime_rows_525 =
    [62921, 62927, 62929, 62939, 62969, 62971, 62981, 62983, 62987, 62989, 63029, 63031, 63059,
     63067, 63073, 63079, 63097, 63103, 63113, 63127, 63131, 63149, 63179, 63197, 63199, 63211,
     63241, 63247, 63277, 63281, 63299, 63311, 63313, 63317, 63331, 63337, 63347, 63353, 63361,
     63367, 63377, 63389, 63391, 63397, 63409, 63419, 63421, 63439, 63443, 63463, 63467, 63473,
     63487, 63493, 63499, 63521, 63527, 63533, 63541, 63559, 63577, 63587, 63589, 63599, 63601,
     63607, 63611, 63617, 63629, 63647, 63649, 63659, 63667, 63671, 63689, 63691, 63697, 63703,
     63709, 63719, 63727, 63737, 63743, 63761, 63773, 63781, 63793, 63799, 63803, 63809, 63823,
     63839, 63841, 63853, 63857, 63863, 63901, 63907, 63913, 63929, 63949, 63977, 63997, 64007,
     64013, 64019, 64033, 64037, 64063, 64067, 64081, 64091, 64109, 64123, 64151, 64153, 64157,
     64171, 64187, 64189, 64217, 64223, 64231, 64237, 64271, 64279, 64283, 64301, 64303, 64319]"

definition prime_rows_535 :: "int list" where
  "prime_rows_535 =
    [64327, 64333, 64373, 64381, 64399, 64403, 64433, 64439, 64451, 64453, 64483, 64489, 64499,
     64513, 64553, 64567, 64577, 64579, 64591, 64601, 64609, 64613, 64621, 64627, 64633, 64661,
     64663, 64667, 64679, 64693, 64709, 64717, 64747, 64763, 64781, 64783, 64793, 64811, 64817,
     64849, 64853, 64871, 64877, 64879, 64891, 64901, 64919, 64921, 64927, 64937, 64951, 64969,
     64997, 65003, 65011, 65027, 65029, 65033, 65053, 65063, 65071, 65089, 65099, 65101, 65111,
     65119, 65123, 65129, 65141, 65147, 65167, 65171, 65173, 65179, 65183, 65203, 65213, 65239,
     65257, 65267, 65269, 65287, 65293, 65309, 65323, 65327, 65353, 65357, 65371, 65381, 65393,
     65407, 65413, 65419, 65423, 65437, 65447, 65449, 65479, 65497, 65519, 65521, 65537]"

definition prime_ints :: "int list" where
  "prime_ints =
     prime_rows_55 @
     prime_rows_65 @
     prime_rows_75 @
     prime_rows_85 @
     prime_rows_95 @
     prime_rows_105 @
     prime_rows_115 @
     prime_rows_125 @
     prime_rows_135 @
     prime_rows_145 @
     prime_rows_155 @
     prime_rows_165 @
     prime_rows_175 @
     prime_rows_185 @
     prime_rows_195 @
     prime_rows_205 @
     prime_rows_215 @
     prime_rows_225 @
     prime_rows_235 @
     prime_rows_245 @
     prime_rows_255 @
     prime_rows_265 @
     prime_rows_275 @
     prime_rows_285 @
     prime_rows_295 @
     prime_rows_305 @
     prime_rows_315 @
     prime_rows_325 @
     prime_rows_335 @
     prime_rows_345 @
     prime_rows_355 @
     prime_rows_365 @
     prime_rows_375 @
     prime_rows_385 @
     prime_rows_395 @
     prime_rows_405 @
     prime_rows_415 @
     prime_rows_425 @
     prime_rows_435 @
     prime_rows_445 @
     prime_rows_455 @
     prime_rows_465 @
     prime_rows_475 @
     prime_rows_485 @
     prime_rows_495 @
     prime_rows_505 @
     prime_rows_515 @
     prime_rows_525 @
     prime_rows_535"

section \<open>Checking a stretch of the table\<close>

text \<open>
  \<open>walk n g ps cs\<close>: from the candidate \<open>n\<close>, with gap \<open>g\<close> (2 or 4) to the next candidate, the
  entries \<open>ps\<close> and the products \<open>cs\<close> account for every candidate; the result is the first
  candidate beyond them and its gap.
\<close>

fun walk :: "int \<Rightarrow> int \<Rightarrow> int list \<Rightarrow> (int \<times> int) list \<Rightarrow> (int \<times> int) option" where
  "walk n g [] [] = Some (n, g)"
| "walk n g [] (c # cs) = None"
| "walk n g (p # ps) [] = (if n = p then walk (n + g) (6 - g) ps [] else None)"
| "walk n g (p # ps) ((d, e) # cs) =
     (if n = p then walk (n + g) (6 - g) ps ((d, e) # cs)
      else if d * e = n \<and> 1 < d \<and> 1 < e then walk (n + g) (6 - g) (p # ps) cs
      else None)"

definition candidate :: "int \<Rightarrow> bool" where
  "candidate m \<longleftrightarrow> m mod 6 = 1 \<or> m mod 6 = 5"

definition in_step :: "int \<Rightarrow> int \<Rightarrow> bool" where
  "in_step n g \<longleftrightarrow> n mod 6 = 5 \<and> g = 2 \<or> n mod 6 = 1 \<and> g = 4"

definition composite :: "int \<Rightarrow> bool" where
  "composite m \<longleftrightarrow> (\<exists>d e. m = d * e \<and> 1 < d \<and> 1 < e)"

lemma in_step_next: "in_step n g \<Longrightarrow> in_step (n + g) (6 - g)"
  unfolding in_step_def by presburger

lemma in_step_gap:
  "in_step n g \<Longrightarrow> candidate m \<Longrightarrow> n \<le> m \<Longrightarrow> m \<noteq> n \<Longrightarrow> n + g \<le> m"
  unfolding in_step_def candidate_def by presburger

lemma in_step_candidate: "in_step n g \<Longrightarrow> candidate n"
  by (auto simp: in_step_def candidate_def)

lemma in_step_pos: "in_step n g \<Longrightarrow> 0 < g"
  by (auto simp: in_step_def)

lemma walk_accounts:
  assumes "walk n g ps cs = Some (n', g')" "in_step n g"
  shows "n \<le> n' \<and> in_step n' g' \<and> sorted_wrt (<) ps \<and> (\<forall>p \<in> set ps. n \<le> p \<and> p < n' \<and> candidate p) \<and>
    (\<forall>m. candidate m \<longrightarrow> n \<le> m \<longrightarrow> m < n' \<longrightarrow> m \<in> set ps \<or> composite m)"
  using assms
proof (induction n g ps cs rule: walk.induct)
  case (1 n g)
  then show ?case by auto
next
  case (2 n g c cs)
  then show ?case by simp
next
  case (3 n g p ps)
  then have eq: "n = p" and w: "walk (n + g) (6 - g) ps [] = Some (n', g')"
    by (auto split: if_splits)
  note IH = "3.IH" [OF eq w in_step_next [OF "3.prems"(2)]]
  with eq in_step_pos [OF "3.prems"(2)] in_step_gap [OF "3.prems"(2)]
    in_step_candidate [OF "3.prems"(2)]
  show ?case by fastforce
next
  case (4 n g p ps d e cs)
  note pos = in_step_pos [OF "4.prems"(2)] and gap = in_step_gap [OF "4.prems"(2)]
    and cand = in_step_candidate [OF "4.prems"(2)]
  show ?case
  proof (cases "n = p")
    case True
    with "4.prems" have w: "walk (n + g) (6 - g) ps ((d, e) # cs) = Some (n', g')" by simp
    note IH = "4.IH"(1) [OF True w in_step_next [OF "4.prems"(2)]]
    with True pos gap cand show ?thesis by fastforce
  next
    case False
    with "4.prems" have c: "d * e = n \<and> 1 < d \<and> 1 < e"
      and w: "walk (n + g) (6 - g) (p # ps) cs = Some (n', g')"
      by (auto split: if_splits)
    from c have "composite n" unfolding composite_def by blast
    moreover note IH = "4.IH"(2) [OF False c w in_step_next [OF "4.prems"(2)]]
    ultimately show ?thesis using pos gap by fastforce
  qed
qed

lemma walk_append:
  "walk n g ps cs = Some (n', g') \<Longrightarrow> walk n g (ps @ qs) (cs @ ds) = walk n' g' qs ds"
proof (induction n g ps cs rule: walk.induct)
  case (3 n g p ps)
  then show ?case by (cases ds) (auto split: if_splits)
qed (auto split: if_splits)

text \<open>Evaluation keeps the lists untouched and rewrites the numbers only.\<close>

lemma walk_num_cong: "n = m \<Longrightarrow> g = h \<Longrightarrow> walk n g ps cs = walk m h ps cs"
  by simp

lemmas walk_eval = walk.simps arith_simps rel_simps diff_numeral_simps if_True if_False simp_thms

section \<open>The certificates\<close>

lemma prime_rows_55_tail: "drop 2 prime_rows_55 =
    [5, 7, 11, 13, 17, 19, 23, 29, 31, 37, 41, 43, 47, 53, 59, 61, 67, 71, 73, 79, 83, 89, 97,
     101, 103, 107, 109, 113, 127, 131, 137, 139, 149, 151, 157, 163, 167, 173, 179, 181, 191,
     193, 197, 199, 211, 223, 227, 229, 233, 239, 241, 251, 257, 263, 269, 271, 277, 281, 283,
     293, 307, 311, 313, 317, 331, 337, 347, 349, 353, 359, 367, 373, 379, 383, 389, 397, 401,
     409, 419, 421, 431, 433, 439, 443, 449, 457, 461, 463, 467, 479, 487, 491, 499, 503, 509,
     521, 523, 541, 547, 557, 563, 569, 571, 577, 587, 593, 599, 601, 607, 613, 617, 619, 631,
     641, 643, 647, 653, 659, 661, 673, 677, 683, 691, 701, 709, 719, 727, 733, 739, 743, 751,
     757, 761, 769, 773, 787, 797, 809, 811, 821, 823, 827, 829, 839, 853, 857, 859, 863, 877,
     881, 883, 887, 907, 911, 919, 929, 937, 941, 947, 953, 967, 971, 977, 983, 991, 997, 1009,
     1013, 1019, 1021, 1031, 1033, 1039, 1049, 1051, 1061, 1063, 1069, 1087, 1091, 1093, 1097,
     1103, 1109, 1117, 1123, 1129, 1151, 1153, 1163]"
  by (simp add: prime_rows_55_def)

lemma walk_55:
  "walk 5 2 (drop 2 prime_rows_55)
    [(5,5), (5,7), (7,7), (5,11), (5,13), (7,11), (5,17), (7,13), (5,19), (5,23), (7,17),
     (11,11), (5,25), (7,19), (11,13), (5,29), (5,31), (7,23), (13,13), (5,35), (5,37),
     (11,17), (7,29), (5,41), (11,19), (5,43), (7,31), (13,17), (5,47), (5,49), (13,19),
     (11,23), (7,37), (5,53), (5,55), (7,41), (17,17), (5,59), (13,23), (7,43), (5,61),
     (11,29), (17,19), (5,65), (7,47), (5,67), (11,31), (7,49), (5,71), (19,19), (5,73),
     (7,53), (13,29), (5,77), (17,23), (5,79), (13,31), (11,37), (7,59), (5,83), (5,85),
     (7,61), (19,23), (5,89), (11,41), (5,91), (7,67), (11,43), (5,95), (13,37), (5,97),
     (17,29), (7,71), (5,101), (7,73), (5,103), (11,47), (17,31), (23,23), (13,41), (5,107),
     (7,77), (5,109), (19,29), (7,79), (13,43), (5,113), (5,115), (7,83), (11,53), (19,31),
     (5,119), (5,121), (13,47), (7,89), (5,125), (17,37), (5,127), (7,91), (11,59), (5,131),
     (5,133), (23,29), (11,61), (7,97), (5,137), (13,53), (5,139), (17,41), (19,37), (7,101),
     (23,31), (5,143), (7,103), (5,145), (17,43), (11,67), (5,149), (7,107), (5,151), (7,109),
     (13,59), (5,155), (19,41), (11,71), (5,157), (7,113), (13,61), (17,47), (11,73), (5,161),
     (5,163), (19,43), (7,119), (5,167), (29,29), (5,169), (7,121), (23,37), (5,173), (11,79),
     (13,67), (5,175), (7,127), (19,47), (5,179), (29,31), (17,53), (5,181), (11,83), (7,131),
     (13,71), (5,185), (7,133), (5,187), (23,41), (13,73), (5,191), (7,137), (31,31), (5,193),
     (7,139), (11,89), (5,197), (23,43), (5,199), (7,143), (17,59), (19,53), (5,203), (5,205),
     (13,79), (17,61), (7,149), (5,209), (5,211), (7,151), (11,97), (29,37), (5,215), (13,83),
     (23,47), (5,217), (7,157), (5,221), (11,101), (5,223), (19,59), (7,161), (11,103),
     (5,227), (17,67), (7,163), (5,229), (31,37), (13,89), (19,61)] =
   Some (1165, 4)"
  unfolding prime_rows_55_tail by (simp only: walk_eval cong: walk_num_cong if_weak_cong)

lemma walk_65:
  "walk 1165 4 prime_rows_65
    [(5,233), (7,167), (5,235), (11,107), (7,169), (29,41), (5,239), (11,109), (5,241),
     (17,71), (7,173), (23,53), (5,245), (5,247), (17,73), (11,113), (29,43), (7,179), (5,251),
     (13,97), (5,253), (7,181), (31,41), (19,67), (5,257), (5,259), (7,187), (13,101), (5,263),
     (5,265), (11,121), (31,43), (7,191), (13,103), (17,79), (5,269), (19,71), (7,193),
     (5,271), (23,59), (29,47), (37,37), (5,275), (7,197), (5,277), (19,73), (13,107), (7,199),
     (11,127), (23,61), (5,281), (17,83), (5,283), (13,109), (7,203), (5,287), (11,131),
     (5,289), (31,47), (7,209), (5,293), (13,113), (5,295), (7,211), (5,299), (19,79), (5,301),
     (11,137), (17,89), (37,41), (7,217), (5,305), (11,139), (5,307), (29,53), (23,67),
     (7,221), (5,311), (7,223), (5,313), (11,143), (19,83), (5,317), (7,227), (37,43), (5,319),
     (7,229), (5,323), (5,325), (7,233), (23,71), (11,149), (31,53), (5,329), (17,97),
     (13,127), (5,331), (11,151), (7,239), (5,335), (23,73), (41,41), (5,337), (7,241),
     (19,89), (13,131), (5,341), (29,59), (5,343), (17,101), (11,157), (7,247), (5,347),
     (37,47), (5,349), (17,103), (7,251), (41,43), (5,353), (29,61), (7,253), (5,355),
     (13,137), (11,163), (5,359), (7,257), (5,361), (13,139), (7,259), (23,79), (17,107),
     (5,365), (31,59), (5,367), (11,167), (7,263), (19,97), (43,43), (17,109), (5,371),
     (11,169), (5,373), (7,269), (5,377), (31,61), (5,379), (7,271), (11,173), (23,83),
     (5,383), (19,101), (17,113), (5,385), (41,47), (13,149), (7,277), (29,67), (5,389),
     (5,391), (19,103), (37,53), (13,151), (7,281), (11,179), (5,395), (7,283), (5,397),
     (11,181), (5,401), (7,287), (5,403), (43,47), (7,289), (19,107), (5,407), (13,157),
     (5,409), (23,89), (7,293), (11,187), (29,71), (5,413), (19,109), (5,415), (31,67),
     (7,299), (5,419), (11,191), (5,421), (7,301), (29,73), (13,163), (11,193), (5,425),
     (5,427), (19,113), (7,307), (5,431), (17,127), (5,433), (11,197), (13,167), (41,53),
     (7,311), (37,59), (5,437), (11,199), (7,313), (5,439), (13,169), (31,71), (47,47),
     (5,443), (7,317), (5,445), (17,131), (23,97), (7,319), (5,449), (13,173), (5,451),
     (37,61), (7,323), (31,73), (5,455), (43,53), (5,457), (29,79)] =
   Some (2299, 4)"
  unfolding prime_rows_65_def by (simp only: walk_eval cong: walk_num_cong if_weak_cong)

lemma walk_75:
  "walk 2299 4 prime_rows_75
    [(11,209), (7,329), (5,461), (5,463), (7,331), (11,211), (23,101), (13,179), (17,137),
     (5,467), (5,469), (13,181), (7,337), (17,139), (5,473), (23,103), (5,475), (7,341),
     (5,479), (7,343), (5,481), (29,83), (19,127), (41,59), (5,485), (7,347), (11,221),
     (5,487), (7,349), (31,79), (11,223), (5,491), (23,107), (5,493), (7,353), (37,67),
     (13,191), (5,497), (19,131), (47,53), (5,499), (11,227), (41,61), (23,109), (13,193),
     (7,359), (5,503), (11,229), (5,505), (7,361), (17,149), (43,59), (5,509), (5,511),
     (13,197), (11,233), (17,151), (7,367), (31,83), (5,515), (29,89), (5,517), (13,199),
     (7,371), (23,113), (19,137), (5,521), (7,373), (5,523), (43,61), (37,71), (11,239),
     (5,527), (7,377), (19,139), (5,529), (11,241), (7,379), (5,533), (17,157), (5,535),
     (7,383), (5,539), (37,73), (5,541), (11,247), (7,389), (5,545), (5,547), (7,391),
     (13,211), (41,67), (5,551), (31,89), (11,251), (5,553), (17,163), (47,59), (7,397),
     (11,253), (5,557), (5,559), (7,401), (53,53), (29,97), (5,563), (7,403), (5,565),
     (11,257), (19,149), (17,167), (5,569), (7,407), (5,571), (7,409), (47,61), (19,151),
     (13,221), (5,575), (43,67), (5,577), (7,413), (11,263), (13,223), (5,581), (41,71),
     (5,583), (23,127), (37,79), (29,101), (7,419), (5,587), (17,173), (5,589), (7,421),
     (13,227), (11,269), (5,593), (5,595), (13,229), (11,271), (19,157), (29,103), (7,427),
     (41,73), (5,599), (5,601), (31,97), (23,131), (7,431), (5,605), (13,233), (7,433),
     (5,607), (17,179), (11,277), (43,71), (5,611), (7,437), (5,613), (37,83), (7,439),
     (17,181), (5,617), (11,281), (5,619), (19,163), (7,443), (29,107), (13,239), (11,283),
     (5,623), (5,625), (53,59), (31,101), (13,241), (43,73), (7,449), (5,629), (47,67),
     (23,137), (5,631), (7,451), (29,109), (19,167), (5,635), (11,289), (5,637), (31,103),
     (23,139), (7,457), (5,641), (13,247), (5,643), (11,293), (7,461), (53,61), (5,647),
     (41,79), (7,463), (5,649), (17,191), (13,251), (5,653), (7,467), (5,655), (29,113),
     (17,193), (7,469), (19,173), (11,299), (37,89), (5,659), (5,661), (7,473), (31,107),
     (5,665), (5,667), (47,71), (13,257), (17,197), (7,479), (5,671), (5,673), (7,481),
     (11,307), (31,109), (17,199), (5,677), (5,679), (43,79), (19,179), (41,83), (7,487),
     (5,683), (13,263), (11,311), (5,685), (23,149), (47,73), (7,491), (19,181), (11,313),
     (5,689), (7,493), (5,691), (23,151), (5,695), (7,497), (59,59), (5,697), (11,317),
     (7,499), (13,269), (31,113), (5,701), (11,319), (5,703), (7,503), (13,271)] =
   Some (3529, 4)"
  unfolding prime_rows_75_def by (simp only: walk_eval cong: walk_num_cong if_weak_cong)

lemma walk_85:
  "walk 3529 4 prime_rows_85
    [(5,707), (5,709), (53,67), (11,323), (7,509), (5,713), (43,83), (5,715), (7,511),
     (17,211), (37,97), (5,719), (59,61), (13,277), (5,721), (23,157), (7,517), (5,725),
     (19,191), (5,727), (11,331), (7,521), (41,89), (13,281), (5,731), (7,523), (5,733),
     (19,193), (13,283), (29,127), (5,737), (7,527), (5,739), (7,529), (11,337), (47,79),
     (5,743), (61,61), (5,745), (7,533), (37,101), (19,197), (5,749), (23,163), (11,341),
     (5,751), (13,289), (53,71), (7,539), (5,755), (19,199), (5,757), (7,541), (17,223),
     (29,131), (5,761), (13,293), (37,103), (5,763), (11,347), (43,89), (7,547), (5,767),
     (11,349), (23,167), (5,769), (7,551), (17,227), (5,773), (53,73), (7,553), (5,775),
     (11,353), (13,299), (17,229), (5,779), (7,557), (47,83), (5,781), (7,559), (5,785),
     (5,787), (31,127), (7,563), (11,359), (59,67), (5,791), (37,107), (17,233), (5,793),
     (11,361), (29,137), (41,97), (23,173), (7,569), (5,797), (13,307), (5,799), (7,571),
     (19,211), (5,803), (5,805), (29,139), (37,109), (11,367), (7,577), (13,311), (5,809),
     (5,811), (31,131), (17,239), (7,581), (13,313), (5,815), (7,583), (5,817), (61,67),
     (17,241), (11,373), (5,821), (7,587), (5,823), (23,179), (13,317), (7,589), (5,827),
     (41,101), (5,829), (11,377), (7,593), (23,181), (5,833), (11,379), (43,97), (5,835),
     (37,113), (47,89), (53,79), (59,71), (7,599), (5,839), (13,323), (5,841), (7,601),
     (11,383), (41,103), (5,845), (5,847), (19,223), (31,137), (7,607), (5,851), (5,853),
     (17,251), (7,611), (11,389), (5,857), (7,613), (5,859), (11,391), (13,331), (59,73),
     (31,139), (19,227), (5,863), (7,617), (29,149), (5,865), (61,71), (7,619), (43,101),
     (5,869), (19,229), (5,871), (7,623), (11,397), (17,257), (5,875), (29,151), (13,337),
     (5,877), (41,107), (23,191), (53,83), (7,629), (5,881), (11,401), (5,883), (7,631),
     (19,233), (43,103), (11,403), (5,887), (23,193), (5,889), (61,73), (7,637), (5,893),
     (41,109), (17,263), (5,895), (11,407), (7,641), (67,67), (5,899), (11,409), (7,643),
     (5,901), (13,347), (5,905), (7,647), (23,197), (5,907), (13,349), (19,239), (7,649),
     (29,157), (5,911), (47,97), (5,913), (7,653), (17,269), (23,199), (19,241), (5,917),
     (13,353), (5,919), (43,107), (17,271), (11,419), (7,659), (5,923), (31,149), (5,925),
     (7,661), (11,421), (41,113), (5,929), (5,931), (59,79), (13,359), (7,667), (5,935),
     (31,151), (5,937), (43,109), (13,361), (7,671), (37,127), (5,941), (17,277), (7,673),
     (5,943), (53,89), (29,163), (5,947), (7,677), (11,431), (5,949), (47,101), (7,679),
     (67,71), (11,433), (5,953), (19,251), (13,367), (5,955), (17,281), (7,683)] =
   Some (4787, 2)"
  unfolding prime_rows_85_def by (simp only: walk_eval cong: walk_num_cong if_weak_cong)

lemma walk_95:
  "walk 4787 2 prime_rows_95
    [(5,959), (5,961), (11,437), (17,283), (61,79), (7,689), (5,965), (11,439), (5,967),
     (7,691), (47,103), (29,167), (37,131), (13,373), (23,211), (5,971), (43,113), (5,973),
     (31,157), (11,443), (7,697), (19,257), (5,977), (67,73), (5,979), (59,83), (13,377),
     (7,701), (17,289), (5,983), (7,703), (5,985), (13,379), (11,449), (5,989), (7,707),
     (5,991), (11,451), (7,709), (5,995), (13,383), (17,293), (5,997), (7,713), (19,263),
     (5,1001), (5,1003), (29,173), (11,457), (47,107), (7,719), (5,1007), (71,71), (5,1009),
     (7,721), (31,163), (13,389), (61,83), (5,1013), (37,137), (11,461), (5,1015), (13,391),
     (7,727), (11,463), (5,1019), (5,1021), (19,269), (7,731), (47,109), (5,1025), (23,223),
     (7,733), (5,1027), (11,467), (53,97), (37,139), (19,271), (5,1031), (7,737), (13,397),
     (5,1033), (7,739), (31,167), (71,73), (5,1037), (29,179), (5,1039), (7,743), (11,473),
     (41,127), (13,401), (5,1043), (17,307), (23,227), (5,1045), (13,403), (7,749), (5,1049),
     (29,181), (59,89), (5,1051), (7,751), (19,277), (23,229), (11,479), (5,1055), (5,1057),
     (17,311), (11,481), (67,79), (7,757), (5,1061), (47,113), (5,1063), (13,409), (17,313),
     (7,761), (73,73), (5,1067), (19,281), (7,763), (5,1069), (53,101), (11,487), (23,233),
     (31,173), (5,1073), (7,767), (41,131), (5,1075), (19,283), (7,769), (17,317), (5,1079),
     (11,491), (5,1081), (7,773), (11,493), (5,1085), (61,89), (5,1087), (13,419), (7,779),
     (5,1091), (53,103), (43,127), (5,1093), (7,781), (13,421), (5,1097), (11,499), (17,323),
     (5,1099), (23,239), (7,787), (37,149), (5,1103), (5,1105), (11,503), (7,791), (29,191),
     (23,241), (5,1109), (31,179), (7,793), (5,1111), (67,83), (19,293), (5,1115), (7,797),
     (5,1117), (37,151), (7,799), (29,193), (11,509), (13,431), (5,1121), (71,79), (31,181),
     (5,1123), (41,137), (7,803), (17,331), (13,433), (43,131), (5,1127), (5,1129), (7,809),
     (5,1133), (53,107), (5,1135), (7,811), (13,437), (11,517), (5,1139), (41,139), (5,1141),
     (13,439), (29,197), (7,817), (59,97), (5,1145), (17,337), (11,521), (5,1147), (7,821),
     (11,523), (5,1151), (13,443), (7,823), (5,1153), (73,79), (29,199), (23,251), (53,109),
     (5,1157), (7,827), (5,1159), (11,527), (7,829), (37,157), (5,1163), (11,529), (5,1165),
     (7,833), (19,307), (13,449), (5,1169), (5,1171), (11,533), (7,839), (5,1175), (5,1177),
     (7,841), (43,137), (71,83), (17,347), (5,1181), (19,311), (23,257), (5,1183), (61,97),
     (31,191), (7,847), (17,349), (5,1187), (13,457), (5,1189), (19,313), (11,541), (7,851),
     (59,101), (67,89), (5,1193), (47,127), (7,853), (5,1195), (43,139), (31,193), (53,113),
     (13,461), (5,1199), (7,857), (17,353), (5,1201), (7,859), (11,547), (13,463), (19,317),
     (5,1205), (37,163), (5,1207), (7,863), (23,263), (5,1211), (73,83), (11,551), (5,1213),
     (13,467)] =
   Some (6077, 2)"
  unfolding prime_rows_95_def by (simp only: walk_eval cong: walk_num_cong if_weak_cong)

lemma walk_105:
  "walk 6077 2 prime_rows_105
    [(59,103), (7,869), (5,1217), (5,1219), (7,871), (17,359), (31,197), (41,149), (5,1223),
     (29,211), (5,1225), (11,557), (17,361), (7,877), (5,1229), (11,559), (5,1231), (47,131),
     (61,101), (7,881), (31,199), (5,1235), (37,167), (7,883), (5,1237), (23,269), (41,151),
     (11,563), (5,1241), (7,887), (5,1243), (7,889), (13,479), (23,271), (5,1247), (17,367),
     (79,79), (5,1249), (7,893), (13,481), (11,569), (5,1253), (5,1255), (11,571), (61,103),
     (19,331), (7,899), (5,1259), (5,1261), (7,901), (59,107), (71,89), (5,1265), (13,487),
     (5,1267), (17,373), (11,577), (7,907), (5,1271), (5,1273), (23,277), (7,911), (13,491),
     (5,1277), (7,913), (5,1279), (37,173), (19,337), (43,149), (13,493), (11,583), (5,1283),
     (7,917), (5,1285), (59,109), (7,919), (41,157), (47,137), (17,379), (5,1289), (5,1291),
     (11,587), (7,923), (23,281), (29,223), (5,1295), (11,589), (5,1297), (13,499), (43,151),
     (73,89), (67,97), (7,929), (5,1301), (23,283), (17,383), (5,1303), (7,931), (11,593),
     (61,107), (47,139), (5,1307), (13,503), (31,211), (5,1309), (79,83), (7,937), (5,1313),
     (5,1315), (29,227), (7,941), (11,599), (19,347), (5,1319), (7,943), (5,1321), (11,601),
     (17,389), (13,509), (37,179), (5,1325), (7,947), (19,349), (5,1327), (29,229), (7,949),
     (17,391), (61,109), (5,1331), (5,1333), (59,113), (7,953), (11,607), (41,163), (5,1337),
     (5,1339), (37,181), (19,353), (7,959), (5,1343), (11,611), (5,1345), (7,961), (53,127),
     (23,293), (11,613), (5,1349), (17,397), (43,157), (5,1351), (29,233), (67,101), (7,967),
     (13,521), (5,1355), (5,1357), (11,617), (7,971), (13,523), (5,1361), (11,619), (7,973),
     (5,1363), (17,401), (19,359), (5,1367), (7,977), (5,1369), (41,167), (13,527), (7,979),
     (19,361), (5,1373), (5,1375), (13,529), (7,983), (71,97), (83,83), (61,113), (5,1379),
     (67,103), (5,1381), (31,223), (11,629), (7,989), (5,1385), (13,533), (29,239), (5,1387),
     (7,991), (11,631), (53,131), (17,409), (5,1391), (5,1393), (19,367), (7,997), (5,1397),
     (29,241), (5,1399), (47,149), (7,1001), (43,163), (5,1403), (7,1003), (5,1405), (79,89),
     (13,541), (31,227), (5,1409), (7,1007), (11,641), (5,1411), (23,307), (7,1009), (37,191),
     (11,643), (5,1415), (73,97), (5,1417), (19,373), (7,1013), (41,173), (47,151), (31,229),
     (5,1421), (13,547), (5,1423), (11,647), (17,419), (7,1019), (5,1427), (11,649), (37,193),
     (5,1429), (7,1021), (23,311), (17,421), (13,551), (5,1433), (67,107), (71,101), (5,1435),
     (43,167), (11,653), (7,1027), (5,1439), (23,313), (19,379), (5,1441), (7,1031), (31,233),
     (5,1445), (7,1033), (5,1447), (13,557), (11,659), (5,1451), (7,1037), (53,137), (5,1453),
     (13,559), (11,661), (7,1039), (19,383), (29,251), (5,1457), (37,197), (23,317), (5,1459),
     (7,1043), (67,109), (71,103), (5,1463), (13,563), (5,1465), (17,431), (11,667), (41,179),
     (7,1049), (5,1469), (5,1471), (7,1051), (17,433), (37,199), (53,139), (73,101), (5,1475),
     (47,157), (11,671), (5,1477), (83,89), (19,389), (13,569), (7,1057), (11,673), (5,1481),
     (31,239), (5,1483), (41,181), (13,571), (7,1061), (17,437)] =
   Some (7435, 4)"
  unfolding prime_rows_105_def by (simp only: walk_eval cong: walk_num_cong if_weak_cong)

lemma walk_115:
  "walk 7435 4 prime_rows_115
    [(5,1487), (43,173), (7,1063), (5,1489), (11,677), (29,257), (17,439), (5,1493), (7,1067),
     (31,241), (5,1495), (7,1069), (59,127), (5,1499), (13,577), (5,1501), (7,1073), (11,683),
     (73,103), (5,1505), (17,443), (5,1507), (19,397), (7,1079), (5,1511), (5,1513), (7,1081),
     (67,113), (11,689), (5,1517), (5,1519), (71,107), (11,691), (7,1087), (23,331), (5,1523),
     (19,401), (5,1525), (29,263), (13,587), (17,449), (7,1091), (5,1529), (7,1093), (5,1531),
     (13,589), (47,163), (79,97), (11,697), (5,1535), (7,1097), (5,1537), (7,1099), (43,179),
     (5,1541), (13,593), (11,701), (5,1543), (7,1103), (59,131), (11,703), (5,1547), (71,109),
     (5,1549), (61,127), (23,337), (7,1109), (5,1553), (17,457), (19,409), (5,1555), (7,1111),
     (31,251), (43,181), (13,599), (5,1559), (11,709), (29,269), (5,1561), (37,211), (73,107),
     (13,601), (7,1117), (5,1565), (41,191), (5,1567), (17,461), (11,713), (7,1121), (47,167),
     (5,1571), (29,271), (7,1123), (5,1573), (17,463), (5,1577), (7,1127), (13,607), (5,1579),
     (53,149), (7,1129), (11,719), (41,193), (5,1583), (89,89), (5,1585), (7,1133), (17,467),
     (13,611), (5,1589), (5,1591), (73,109), (19,419), (31,257), (13,613), (7,1139), (5,1595),
     (79,101), (23,347), (5,1597), (7,1141), (61,131), (11,727), (19,421), (53,151), (5,1601),
     (5,1603), (13,617), (71,113), (23,349), (7,1147), (29,277), (5,1607), (11,731), (5,1609),
     (13,619), (83,97), (7,1151), (11,733), (5,1613), (7,1153), (5,1615), (41,197), (59,137),
     (5,1619), (7,1157), (5,1621), (11,737), (7,1159), (23,353), (5,1625), (11,739), (47,173),
     (5,1627), (79,103), (7,1163), (17,479), (29,281), (31,263), (5,1631), (41,199), (5,1633),
     (11,743), (13,629), (7,1169), (5,1637), (19,431), (5,1639), (7,1171), (59,139), (13,631),
     (29,283), (43,191), (5,1643), (5,1645), (19,433), (7,1177), (5,1649), (73,113), (37,223),
     (5,1651), (23,359), (11,751), (7,1181), (5,1655), (17,487), (7,1183), (5,1657), (43,193),
     (19,437), (5,1661), (7,1187), (5,1663), (53,157), (7,1189), (11,757), (13,641), (5,1667),
     (31,269), (19,439), (5,1669), (17,491), (7,1193), (61,137), (13,643), (5,1673), (11,761),
     (5,1675), (17,493), (83,101), (7,1199), (5,1679), (37,227), (31,271), (5,1681), (7,1201),
     (13,647), (47,179), (19,443), (5,1685), (5,1687), (11,767), (23,367), (7,1207), (79,107),
     (5,1691), (11,769), (5,1693), (43,197), (37,229), (7,1211), (61,139), (17,499), (5,1697),
     (13,653), (7,1213), (5,1699), (29,293), (11,773), (47,181), (67,127), (5,1703), (7,1217),
     (5,1705), (19,449), (7,1219), (5,1709), (83,103), (17,503), (5,1711), (43,199), (7,1223),
     (13,659), (11,779), (5,1715), (23,373), (5,1717), (31,277), (11,781), (13,661), (7,1229),
     (5,1721), (79,109), (5,1723), (7,1231), (37,233), (89,97), (5,1727), (53,163), (5,1729),
     (41,211), (17,509), (11,787), (7,1237), (5,1733), (13,667), (5,1735), (19,457), (7,1241),
     (5,1739), (7,1243), (5,1741), (31,281), (23,379), (11,793), (5,1745), (7,1247), (5,1747),
     (7,1249), (13,673)] =
   Some (8755, 4)"
  unfolding prime_rows_115_def by (simp only: walk_eval cong: walk_num_cong if_weak_cong)

lemma walk_125:
  "walk 8755 4 prime_rows_125
    [(5,1751), (19,461), (5,1753), (11,797), (7,1253), (31,283), (67,131), (5,1757), (11,799),
     (59,149), (5,1759), (19,463), (13,677), (23,383), (7,1259), (5,1763), (5,1765), (7,1261),
     (11,803), (37,239), (5,1769), (53,167), (5,1771), (17,521), (7,1267), (19,467), (5,1775),
     (13,683), (83,107), (5,1777), (17,523), (7,1271), (11,809), (29,307), (5,1781), (59,151),
     (7,1273), (5,1783), (37,241), (11,811), (79,113), (5,1787), (7,1277), (5,1789), (23,389),
     (7,1279), (13,689), (17,527), (5,1793), (5,1795), (47,191), (7,1283), (13,691), (11,817),
     (89,101), (17,529), (5,1799), (5,1801), (71,127), (29,311), (7,1289), (5,1805), (11,821),
     (5,1807), (7,1291), (83,109), (11,823), (5,1811), (13,697), (5,1813), (47,193), (43,211),
     (29,313), (7,1297), (31,293), (5,1817), (61,149), (5,1819), (11,827), (19,479), (7,1301),
     (13,701), (5,1823), (11,829), (7,1303), (5,1825), (23,397), (13,703), (41,223), (5,1829),
     (7,1307), (5,1831), (7,1309), (89,103), (53,173), (5,1835), (67,137), (5,1837), (7,1313),
     (29,317), (17,541), (5,1841), (61,151), (5,1843), (13,709), (23,401), (11,839), (7,1319),
     (5,1847), (5,1849), (7,1321), (11,841), (19,487), (47,197), (59,157), (5,1853), (13,713),
     (73,127), (5,1855), (37,251), (7,1327), (5,1859), (17,547), (71,131), (5,1861), (41,227),
     (67,139), (7,1331), (5,1865), (19,491), (7,1333), (5,1867), (13,719), (47,199), (5,1871),
     (7,1337), (11,851), (5,1873), (17,551), (7,1339), (83,113), (11,853), (5,1877), (41,229),
     (5,1879), (7,1343), (23,409), (97,97), (5,1883), (5,1885), (11,857), (7,1349), (5,1889),
     (11,859), (13,727), (5,1891), (7,1351), (17,557), (5,1895), (19,499), (5,1897), (53,179),
     (11,863), (7,1357), (13,731), (5,1901), (37,257), (5,1903), (31,307), (89,107), (7,1361),
     (13,733), (5,1907), (7,1363), (5,1909), (41,233), (19,503), (11,869), (73,131), (5,1913),
     (7,1367), (17,563), (5,1915), (61,157), (11,871), (7,1369), (43,223), (53,181), (5,1919),
     (29,331), (5,1921), (13,739), (7,1373), (59,163), (5,1925), (5,1927), (23,419), (31,311),
     (11,877), (7,1379), (5,1931), (13,743), (5,1933), (7,1381), (19,509), (17,569), (23,421),
     (5,1937), (11,881), (5,1939), (89,109), (31,313), (17,571), (7,1387), (11,883), (5,1943),
     (5,1945), (71,137), (37,263), (7,1391), (5,1949), (7,1393), (5,1951), (11,887), (43,227),
     (13,751), (29,337), (5,1955), (7,1397), (5,1957), (7,1399), (97,101), (41,239), (5,1961),
     (17,577), (5,1963), (7,1403), (11,893), (31,317), (5,1967), (13,757), (5,1969), (43,229),
     (59,167), (7,1409), (5,1973), (71,139), (5,1975), (7,1411), (41,241), (11,899), (13,761),
     (5,1979), (19,521), (5,1981), (11,901), (23,431), (47,211), (7,1417), (5,1985), (5,1987),
     (19,523), (61,163), (7,1421), (37,269), (5,1991), (23,433), (7,1423), (5,1993), (13,767),
     (11,907), (17,587), (67,149), (5,1997), (7,1427), (97,103), (5,1999), (13,769), (73,137),
     (7,1429), (17,589), (5,2003), (43,233), (11,911), (5,2005), (37,271), (7,1433), (79,127),
     (11,913), (5,2009), (13,773), (19,529), (5,2011), (89,113), (29,347), (7,1439), (5,2015),
     (17,593), (5,2017), (7,1441), (23,439)] =
   Some (10103, 2)"
  unfolding prime_rows_125_def by (simp only: walk_eval cong: walk_num_cong if_weak_cong)

lemma walk_135:
  "walk 10103 2 prime_rows_135
    [(5,2021), (11,919), (5,2023), (67,151), (29,349), (53,191), (13,779), (7,1447), (5,2027),
     (5,2029), (73,139), (11,923), (7,1451), (5,2033), (7,1453), (5,2035), (17,599), (61,167),
     (23,443), (5,2039), (7,1457), (101,101), (5,2041), (59,173), (7,1459), (17,601), (11,929),
     (5,2045), (53,193), (13,787), (5,2047), (29,353), (7,1463), (37,277), (5,2051), (31,331),
     (5,2053), (43,239), (19,541), (7,1469), (5,2057), (41,251), (5,2059), (7,1471), (11,937),
     (13,793), (5,2063), (17,607), (5,2065), (23,449), (7,1477), (5,2069), (79,131), (11,941),
     (5,2071), (13,797), (43,241), (7,1481), (11,943), (5,2075), (97,107), (7,1483), (5,2077),
     (13,799), (19,547), (37,281), (101,103), (5,2081), (7,1487), (29,359), (5,2083), (11,947),
     (17,613), (7,1489), (5,2087), (11,949), (53,197), (5,2089), (31,337), (7,1493), (5,2093),
     (19,551), (37,283), (5,2095), (47,223), (11,953), (17,617), (7,1499), (5,2099), (5,2101),
     (7,1501), (23,457), (13,809), (67,157), (17,619), (5,2105), (5,2107), (41,257), (83,127),
     (13,811), (53,199), (7,1507), (61,173), (5,2111), (59,179), (5,2113), (11,961), (97,109),
     (7,1511), (71,149), (19,557), (5,2117), (7,1513), (5,2119), (23,461), (103,103), (5,2123),
     (7,1517), (13,817), (5,2125), (7,1519), (11,967), (29,367), (5,2129), (23,463), (5,2131),
     (7,1523), (47,227), (13,821), (5,2135), (59,181), (11,971), (5,2137), (17,629), (19,563),
     (13,823), (7,1529), (5,2141), (5,2143), (7,1531), (71,151), (17,631), (5,2147), (23,467),
     (5,2149), (11,977), (13,827), (31,347), (7,1537), (47,229), (5,2153), (11,979), (5,2155),
     (13,829), (41,263), (7,1541), (43,251), (5,2159), (7,1543), (5,2161), (101,107), (19,569),
     (11,983), (29,373), (31,349), (79,137), (5,2165), (7,1547), (5,2167), (37,293), (7,1549),
     (19,571), (5,2171), (5,2173), (7,1553), (83,131), (73,149), (11,989), (5,2177), (5,2179),
     (17,641), (11,991), (13,839), (7,1559), (5,2183), (61,179), (67,163), (5,2185), (7,1561),
     (17,643), (13,841), (31,353), (5,2189), (47,233), (5,2191), (97,113), (19,577), (11,997),
     (7,1567), (5,2195), (79,139), (5,2197), (29,379), (7,1571), (17,647), (5,2201), (101,109),
     (7,1573), (5,2203), (23,479), (103,107), (73,151), (41,269), (11,1003), (5,2207),
     (7,1577), (61,181), (5,2209), (43,257), (7,1579), (13,851), (5,2213), (5,2215), (11,1007),
     (7,1583), (13,853), (5,2219), (11,1009), (17,653), (5,2221), (29,383), (41,271), (7,1589),
     (5,2225), (31,359), (5,2227), (7,1591), (13,857), (11,1013), (71,157), (19,587), (5,2231),
     (5,2233), (13,859), (7,1597), (53,211), (5,2237), (67,167), (19,589), (5,2239), (23,487),
     (17,659), (7,1601), (11,1019), (5,2243), (13,863), (7,1603), (5,2245), (103,109),
     (11,1021), (47,239), (17,661), (5,2249), (7,1607), (5,2251), (7,1609), (19,593), (59,191),
     (5,2255), (29,389), (5,2257), (7,1613), (23,491), (11,1027), (89,127), (5,2261), (43,263),
     (5,2263), (13,871), (47,241)] =
   Some (11333, 2)"
  unfolding prime_rows_135_def by (simp only: walk_eval cong: walk_num_cong if_weak_cong)

lemma walk_145:
  "walk 11333 2 prime_rows_145
    [(7,1619), (5,2267), (17,667), (11,1031), (5,2269), (7,1621), (41,277), (37,307),
     (11,1033), (5,2273), (83,137), (5,2275), (31,367), (19,599), (59,193), (7,1627), (5,2279),
     (13,877), (5,2281), (11,1037), (101,113), (7,1631), (19,601), (5,2285), (11,1039),
     (7,1633), (5,2287), (17,673), (107,107), (13,881), (5,2291), (7,1637), (73,157), (5,2293),
     (7,1639), (23,499), (13,883), (5,2297), (5,2299), (7,1643), (37,311), (17,677), (29,397),
     (5,2303), (41,281), (5,2305), (13,887), (19,607), (83,139), (11,1049), (7,1649), (5,2309),
     (5,2311), (7,1651), (11,1051), (31,373), (43,269), (23,503), (71,163), (5,2315), (37,313),
     (5,2317), (67,173), (7,1657), (41,283), (5,2321), (13,893), (17,683), (5,2323), (59,197),
     (7,1661), (29,401), (5,2327), (103,113), (7,1663), (5,2329), (19,613), (61,191), (43,271),
     (89,131), (107,109), (5,2333), (7,1667), (11,1061), (5,2335), (7,1669), (13,899),
     (11,1063), (5,2339), (5,2341), (23,509), (7,1673), (13,901), (19,617), (5,2345), (37,317),
     (5,2347), (11,1067), (59,199), (17,691), (31,379), (7,1679), (5,2351), (11,1069),
     (19,619), (5,2353), (7,1681), (79,149), (61,193), (5,2357), (13,907), (5,2359), (47,251),
     (11,1073), (7,1687), (5,2363), (53,223), (5,2365), (7,1691), (13,911), (5,2369), (17,697),
     (7,1693), (5,2371), (71,167), (29,409), (11,1079), (31,383), (5,2375), (7,1697),
     (109,109), (5,2377), (11,1081), (7,1699), (73,163), (5,2381), (43,277), (5,2383),
     (17,701), (7,1703), (79,151), (5,2387), (5,2389), (13,919), (17,703), (11,1087), (7,1709),
     (5,2393), (5,2395), (7,1711), (23,521), (19,631), (67,179), (5,2399), (13,923), (11,1091),
     (5,2401), (41,293), (61,197), (7,1717), (11,1093), (5,2405), (23,523), (53,227), (5,2407),
     (7,1721), (17,709), (5,2411), (31,389), (7,1723), (5,2413), (11,1097), (13,929), (47,257),
     (43,281), (5,2417), (7,1727), (107,113), (5,2419), (7,1729), (5,2423), (17,713), (5,2425),
     (67,181), (7,1733), (11,1103), (53,229), (61,199), (5,2429), (29,419), (5,2431), (23,529),
     (43,283), (7,1739), (5,2435), (19,641), (13,937), (5,2437), (7,1741), (73,167), (89,137),
     (11,1109), (5,2441), (29,421), (5,2443), (19,643), (11,1111), (17,719), (7,1747),
     (13,941), (5,2447), (5,2449), (37,331), (7,1751), (13,943), (5,2453), (7,1753), (5,2455),
     (71,173), (11,1117), (19,647), (5,2459), (7,1757), (5,2461), (31,397), (13,947), (7,1759),
     (109,113), (97,127), (5,2465), (11,1121), (5,2467), (13,949), (7,1763), (53,233),
     (11,1123), (5,2471), (17,727), (47,263), (5,2473), (83,149), (89,139), (7,1769), (5,2477),
     (13,953), (5,2479), (7,1771), (79,157), (19,653), (5,2483), (11,1129), (5,2485), (17,731),
     (31,401), (7,1777), (23,541), (5,2489), (59,211), (5,2491), (17,733), (11,1133), (7,1781),
     (37,337), (5,2495), (7,1783), (5,2497), (13,961), (29,431), (5,2501), (7,1787), (5,2503),
     (19,659), (7,1789), (11,1139), (83,151), (5,2507), (5,2509), (7,1793)] =
   Some (12557, 2)"
  unfolding prime_rows_145_def by (simp only: walk_eval cong: walk_num_cong if_weak_cong)

lemma walk_155:
  "walk 12557 2 prime_rows_155
    [(29,433), (19,661), (17,739), (5,2513), (13,967), (5,2515), (23,547), (41,307), (7,1799),
     (5,2519), (43,293), (5,2521), (7,1801), (11,1147), (13,971), (5,2525), (73,173), (17,743),
     (5,2527), (47,269), (7,1807), (5,2531), (11,1151), (5,2533), (53,239), (19,667), (7,1811),
     (31,409), (11,1153), (5,2537), (7,1813), (5,2539), (13,977), (97,131), (71,179), (5,2543),
     (7,1817), (5,2545), (11,1157), (29,439), (7,1819), (47,271), (5,2549), (11,1159),
     (41,311), (5,2551), (7,1823), (17,751), (113,113), (53,241), (5,2555), (13,983), (5,2557),
     (19,673), (11,1163), (67,191), (7,1829), (5,2561), (23,557), (5,2563), (7,1831),
     (101,127), (41,313), (5,2567), (37,347), (5,2569), (29,443), (71,181), (13,989), (7,1837),
     (19,677), (5,2573), (17,757), (61,211), (5,2575), (79,163), (11,1171), (13,991), (7,1841),
     (5,2579), (7,1843), (5,2581), (37,349), (5,2585), (7,1847), (67,193), (5,2587), (17,761),
     (7,1849), (11,1177), (23,563), (5,2591), (13,997), (5,2593), (7,1853), (19,683), (5,2597),
     (31,419), (11,1181), (5,2599), (41,317), (7,1859), (5,2603), (47,277), (29,449), (5,2605),
     (7,1861), (83,157), (13,1003), (5,2609), (31,421), (5,2611), (11,1187), (37,353),
     (73,179), (7,1867), (17,769), (5,2615), (11,1189), (103,127), (5,2617), (23,569),
     (13,1007), (7,1871), (5,2621), (7,1873), (5,2623), (13,1009), (11,1193), (19,691),
     (23,571), (5,2627), (7,1877), (17,773), (5,2629), (7,1879), (59,223), (5,2633), (13,1013),
     (5,2635), (7,1883), (11,1199), (79,167), (5,2639), (67,197), (43,307), (5,2641), (47,281),
     (11,1201), (73,181), (7,1889), (5,2645), (101,131), (5,2647), (7,1891), (17,779),
     (13,1019), (29,457), (5,2651), (89,149), (5,2653), (23,577), (13,1021), (11,1207),
     (7,1897), (37,359), (5,2657), (97,137), (5,2659), (47,283), (53,251), (7,1901), (5,2663),
     (19,701), (7,1903), (5,2665), (67,199), (11,1213), (5,2669), (7,1907), (13,1027),
     (5,2671), (19,703), (31,431), (7,1909), (29,461), (43,311), (5,2675), (17,787), (5,2677),
     (11,1217), (7,1913), (59,227), (13,1031), (5,2681), (11,1219), (5,2683), (31,433),
     (29,463), (13,1033), (7,1919), (5,2687), (89,151), (5,2689), (7,1921), (11,1223),
     (43,313), (5,2693), (19,709), (5,2695), (13,1037), (97,139), (7,1927), (103,131),
     (5,2699), (23,587), (5,2701), (13,1039), (59,229), (7,1931), (11,1229), (5,2705),
     (83,163), (7,1933), (5,2707), (11,1231), (29,467), (19,713), (17,797), (5,2711), (7,1937),
     (71,191), (5,2713), (41,331), (7,1939), (37,367), (17,799), (5,2717), (107,127), (5,2719),
     (7,1943), (61,223), (11,1237), (31,439), (5,2723), (53,257), (5,2725), (43,317),
     (13,1049), (23,593), (7,1949), (5,2729), (11,1241), (5,2731), (7,1951), (19,719),
     (13,1051), (79,173), (11,1243), (5,2735), (5,2737), (7,1957), (71,193), (5,2741),
     (5,2743), (11,1247), (7,1961), (31,443), (5,2747), (11,1249), (7,1963), (5,2749),
     (59,233), (17,809), (5,2753), (7,1967), (47,293), (5,2755), (23,599)] =
   Some (13783, 4)"
  unfolding prime_rows_155_def by (simp only: walk_eval cong: walk_num_cong if_weak_cong)

lemma walk_165:
  "walk 13783 4 prime_rows_165
    [(7,1969), (17,811), (13,1061), (5,2759), (37,373), (5,2761), (7,1973), (19,727), (41,337),
     (13,1063), (23,601), (5,2765), (5,2767), (101,137), (109,127), (61,227), (11,1259),
     (7,1979), (5,2771), (83,167), (5,2773), (7,1981), (11,1261), (5,2777), (17,817), (29,479),
     (5,2779), (13,1069), (7,1987), (5,2783), (31,449), (5,2785), (19,733), (7,1991), (53,263),
     (73,191), (5,2789), (13,1073), (7,1993), (5,2791), (17,821), (23,607), (61,229), (89,157),
     (5,2795), (7,1997), (11,1271), (5,2797), (71,197), (17,823), (7,1999), (11,1273),
     (5,2801), (5,2803), (107,131), (7,2003), (37,379), (13,1079), (5,2807), (101,139),
     (19,739), (5,2809), (11,1277), (13,1081), (17,827), (7,2009), (5,2813), (11,1279),
     (5,2815), (7,2011), (73,193), (17,829), (5,2819), (23,613), (59,239), (5,2821), (103,137),
     (11,1283), (19,743), (7,2017), (29,487), (5,2825), (71,199), (13,1087), (5,2827),
     (67,211), (79,179), (7,2021), (5,2831), (7,2023), (5,2833), (31,457), (37,383), (11,1289),
     (13,1091), (5,2837), (7,2027), (23,617), (5,2839), (11,1291), (7,2029), (13,1093),
     (61,233), (5,2843), (59,241), (5,2845), (41,347), (7,2033), (43,331), (23,619), (29,491),
     (5,2849), (5,2851), (53,269), (13,1097), (17,839), (11,1297), (19,751), (7,2039),
     (5,2855), (109,131), (5,2857), (7,2041), (31,461), (17,841), (79,181), (5,2861), (41,349),
     (11,1301), (5,2863), (103,139), (7,2047), (11,1303), (5,2867), (13,1103), (5,2869),
     (113,127), (31,463), (7,2051), (83,173), (53,271), (5,2873), (7,2053), (5,2875),
     (11,1307), (73,197), (19,757), (37,389), (5,2879), (7,2057), (5,2881), (7,2059),
     (13,1109), (5,2885), (47,307), (5,2887), (7,2063), (11,1313), (97,149), (5,2891),
     (19,761), (5,2893), (17,851), (29,499), (41,353), (31,467), (7,2069), (5,2897), (43,337),
     (5,2899), (7,2071), (17,853), (89,163), (11,1319), (23,631), (5,2903), (13,1117),
     (5,2905), (73,199), (11,1321), (7,2077), (5,2909), (5,2911), (7,2081), (17,857),
     (13,1121), (5,2915), (61,239), (7,2083), (5,2917), (29,503), (11,1327), (13,1123),
     (17,859), (5,2921), (7,2087), (19,769), (5,2923), (47,311), (7,2089), (5,2927), (11,1331),
     (5,2929), (97,151), (7,2093), (107,137), (11,1333), (5,2933), (17,863), (5,2935),
     (13,1129), (53,277), (19,773), (37,397), (7,2099), (5,2939), (61,241), (5,2941), (7,2101),
     (47,313), (41,359), (5,2945), (11,1339), (5,2947), (23,641), (7,2107), (5,2951), (29,509),
     (5,2953), (11,1343), (7,2111), (5,2957), (23,643), (7,2113), (5,2959), (19,779),
     (113,131), (13,1139), (59,251), (5,2963), (7,2117), (5,2965), (7,2119), (37,401),
     (11,1349), (5,2969), (31,479), (5,2971), (83,179), (7,2123), (89,167), (107,139),
     (5,2975), (23,647), (5,2977), (53,281), (47,317), (7,2129), (5,2981), (17,877), (13,1147),
     (5,2983), (7,2131), (43,347), (11,1357), (109,137), (5,2987), (67,223), (5,2989),
     (19,787), (7,2137), (13,1151), (5,2993), (11,1361), (5,2995), (17,881), (71,211),
     (7,2141), (13,1153), (11,1363), (5,2999), (53,283), (7,2143), (5,3001), (43,349),
     (17,883), (23,653), (83,181), (5,3005), (7,2147), (5,3007), (11,1367), (13,1157),
     (7,2149), (41,367), (101,149), (5,3011), (11,1369), (5,3013), (13,1159), (7,2153)] =
   Some (15077, 2)"
  unfolding prime_rows_165_def by (simp only: walk_eval cong: walk_num_cong if_weak_cong)

lemma walk_175:
  "walk 15077 2 prime_rows_175
    [(17,887), (5,3017), (79,191), (5,3019), (31,487), (11,1373), (29,521), (7,2159), (5,3023),
     (13,1163), (5,3025), (7,2161), (37,409), (19,797), (5,3029), (109,139), (5,3031),
     (23,659), (59,257), (29,523), (7,2167), (5,3035), (43,353), (17,893), (5,3037), (11,1381),
     (7,2171), (23,661), (5,3041), (67,227), (7,2173), (5,3043), (31,491), (13,1171), (97,157),
     (5,3047), (7,2177), (5,3049), (79,193), (101,151), (7,2179), (11,1387), (5,3053),
     (5,3055), (7,2183), (17,899), (41,373), (5,3059), (11,1391), (5,3061), (61,251), (17,901),
     (7,2189), (5,3065), (5,3067), (7,2191), (23,667), (67,229), (103,149), (13,1181),
     (5,3071), (5,3073), (11,1397), (19,809), (7,2197), (5,3077), (11,1399), (5,3079),
     (89,173), (73,211), (7,2201), (19,811), (5,3083), (17,907), (7,2203), (5,3085), (13,1187),
     (11,1403), (43,359), (5,3089), (7,2207), (5,3091), (13,1189), (7,2209), (31,499),
     (5,3095), (23,673), (113,137), (5,3097), (17,911), (7,2213), (11,1409), (37,419),
     (5,3101), (13,1193), (5,3103), (59,263), (11,1411), (19,817), (53,293), (7,2219),
     (5,3107), (41,379), (5,3109), (7,2221), (103,151), (47,331), (79,197), (5,3113), (23,677),
     (5,3115), (37,421), (11,1417), (7,2227), (31,503), (5,3119), (19,821), (5,3121), (67,233),
     (13,1201), (7,2231), (17,919), (5,3125), (7,2233), (5,3127), (19,823), (11,1423),
     (5,3131), (7,2237), (5,3133), (7,2239), (61,257), (5,3137), (29,541), (13,1207), (5,3139),
     (11,1427), (7,2243), (41,383), (113,139), (23,683), (19,827), (5,3143), (11,1429),
     (79,199), (5,3145), (7,2249), (5,3149), (19,829), (5,3151), (7,2251), (11,1433),
     (13,1213), (5,3155), (31,509), (43,367), (5,3157), (17,929), (7,2257), (5,3161), (97,163),
     (5,3163), (13,1217), (7,2261), (11,1439), (71,223), (5,3167), (47,337), (7,2263),
     (5,3169), (13,1219), (11,1441), (83,191), (101,157), (29,547), (5,3173), (7,2267),
     (59,269), (5,3175), (7,2269), (23,691), (5,3179), (13,1223), (5,3181), (7,2273),
     (11,1447), (5,3185), (17,937), (89,179), (5,3187), (19,839), (107,149), (37,431),
     (41,389), (7,2279), (5,3191), (11,1451), (5,3193), (7,2281), (13,1229), (19,841),
     (11,1453), (5,3197), (59,271), (5,3199), (17,941), (13,1231), (7,2287), (67,239),
     (5,3203), (83,193), (37,433), (5,3205), (11,1457), (17,943), (7,2291), (43,373), (61,263),
     (5,3209), (11,1459), (7,2293), (5,3211), (5,3215), (7,2297), (13,1237), (5,3217),
     (7,2299), (17,947), (5,3221), (89,181), (5,3223), (71,227), (7,2303), (23,701), (127,127),
     (13,1241), (5,3227), (5,3229), (67,241), (31,521), (29,557), (107,151), (11,1469),
     (7,2309), (5,3233), (19,851), (103,157), (5,3235), (7,2311), (11,1471), (5,3239),
     (97,167), (17,953), (5,3241), (19,853), (13,1247), (31,523), (7,2317), (5,3245), (5,3247),
     (13,1249), (109,149), (37,439), (7,2321), (5,3251), (71,229), (7,2323), (5,3253)] =
   Some (16271, 2)"
  unfolding prime_rows_175_def by (simp only: walk_eval cong: walk_num_cong if_weak_cong)

lemma walk_185:
  "walk 16271 2 prime_rows_185
    [(53,307), (41,397), (73,223), (19,857), (5,3257), (7,2327), (11,1481), (5,3259), (43,379),
     (7,2329), (23,709), (47,347), (11,1483), (5,3263), (19,859), (5,3265), (29,563), (7,2333),
     (17,961), (59,277), (5,3269), (83,197), (5,3271), (11,1487), (13,1259), (7,2339),
     (5,3275), (11,1489), (5,3277), (7,2341), (37,443), (13,1261), (19,863), (23,713),
     (47,349), (5,3281), (61,269), (5,3283), (11,1493), (7,2347), (5,3287), (17,967), (41,401),
     (5,3289), (7,2351), (109,151), (101,163), (5,3293), (43,383), (7,2353), (5,3295),
     (53,311), (11,1499), (5,3299), (7,2357), (29,569), (5,3301), (17,971), (11,1501),
     (7,2359), (83,199), (13,1271), (5,3305), (61,271), (5,3307), (23,719), (7,2363), (71,233),
     (13,1273), (5,3311), (29,571), (5,3313), (73,227), (11,1507), (59,281), (7,2369),
     (5,3317), (53,313), (47,353), (5,3319), (7,2371), (13,1277), (17,977), (37,449), (5,3323),
     (11,1511), (5,3325), (13,1279), (127,131), (7,2377), (11,1513), (5,3329), (5,3331),
     (19,877), (7,2381), (79,211), (5,3335), (13,1283), (7,2383), (5,3337), (11,1517),
     (59,283), (5,3341), (7,2387), (17,983), (5,3343), (73,229), (23,727), (7,2389), (43,389),
     (29,577), (5,3347), (19,881), (5,3349), (7,2393), (11,1523), (13,1289), (5,3353),
     (41,409), (31,541), (5,3355), (19,883), (97,173), (13,1291), (103,163), (7,2399),
     (5,3359), (107,157), (53,317), (5,3361), (7,2401), (17,989), (67,251), (11,1529),
     (5,3365), (5,3367), (113,149), (11,1531), (17,991), (7,2407), (19,887), (5,3371),
     (23,733), (13,1297), (5,3373), (101,167), (47,359), (7,2411), (5,3377), (7,2413),
     (5,3379), (61,277), (11,1537), (37,457), (13,1301), (5,3383), (7,2417), (5,3385),
     (7,2419), (13,1303), (5,3389), (17,997), (11,1541), (5,3391), (31,547), (7,2423),
     (19,893), (71,239), (11,1543), (5,3395), (5,3397), (13,1307), (23,739), (89,191),
     (7,2429), (5,3401), (73,233), (5,3403), (7,2431), (29,587), (5,3407), (11,1549), (5,3409),
     (17,1003), (37,461), (7,2437), (113,151), (5,3413), (13,1313), (43,397), (5,3415),
     (19,899), (11,1553), (7,2441), (23,743), (5,3419), (7,2443), (5,3421), (71,241),
     (109,157), (17,1007), (5,3425), (7,2447), (37,463), (5,3427), (61,281), (7,2449),
     (13,1319), (11,1559), (17,1009), (5,3431), (131,131), (5,3433), (7,2453), (13,1321),
     (89,193), (41,419), (5,3437), (5,3439), (29,593), (103,167), (7,2459), (5,3443), (67,257),
     (17,1013), (5,3445), (7,2461), (19,907), (11,1567), (43,401), (5,3449), (47,367),
     (13,1327), (5,3451), (41,421), (61,283), (31,557), (7,2467), (23,751), (5,3455), (37,467),
     (11,1571), (5,3457), (59,293), (7,2471), (11,1573), (5,3461), (19,911), (7,2473),
     (5,3463), (17,1019), (13,1333), (5,3467), (7,2477), (5,3469), (11,1577), (7,2479),
     (17,1021), (97,179), (5,3473), (11,1579), (29,599), (5,3475), (7,2483), (5,3479),
     (127,137), (5,3481), (13,1339), (23,757), (11,1583), (7,2489), (5,3485), (29,601),
     (5,3487), (7,2491), (107,163), (73,239), (31,563), (5,3491), (13,1343), (19,919),
     (5,3493), (101,173), (7,2497), (5,3497), (5,3499), (11,1591), (23,761), (7,2501),
     (83,211), (5,3503), (7,2503), (5,3505), (17,1031), (47,373), (89,197), (13,1349),
     (53,331), (5,3509), (7,2507), (5,3511), (97,181), (17,1033), (7,2509), (11,1597)] =
   Some (17575, 4)"
  unfolding prime_rows_185_def by (simp only: walk_eval cong: walk_num_cong if_weak_cong)

lemma walk_195:
  "walk 17575 4 prime_rows_195
    [(5,3515), (5,3517), (43,409), (7,2513), (73,241), (29,607), (5,3521), (11,1601), (5,3523),
     (79,223), (67,263), (17,1037), (7,2519), (5,3527), (31,569), (13,1357), (5,3529),
     (7,2521), (19,929), (127,139), (17,1039), (5,3533), (41,431), (5,3535), (11,1607),
     (23,769), (7,2527), (13,1361), (5,3539), (11,1609), (31,571), (5,3541), (89,199),
     (7,2531), (13,1363), (37,479), (5,3545), (7,2533), (5,3547), (113,157), (11,1613),
     (41,433), (5,3551), (7,2537), (5,3553), (109,163), (13,1367), (7,2539), (29,613),
     (23,773), (5,3557), (5,3559), (13,1369), (7,2543), (19,937), (11,1619), (47,379),
     (5,3563), (103,173), (71,251), (5,3565), (11,1621), (17,1049), (7,2549), (5,3569),
     (13,1373), (5,3571), (7,2551), (53,337), (17,1051), (107,167), (61,293), (5,3575),
     (19,941), (5,3577), (31,577), (29,617), (11,1627), (7,2557), (5,3581), (5,3583), (19,943),
     (7,2561), (79,227), (5,3587), (7,2563), (5,3589), (131,137), (29,619), (13,1381),
     (11,1633), (5,3593), (7,2567), (5,3595), (7,2569), (19,947), (5,3599), (41,439), (47,383),
     (5,3601), (11,1637), (7,2573), (43,419), (37,487), (67,269), (5,3605), (11,1639),
     (13,1387), (5,3607), (17,1061), (7,2579), (5,3611), (5,3613), (7,2581), (17,1063),
     (11,1643), (101,179), (13,1391), (5,3617), (79,229), (5,3619), (23,787), (43,421),
     (19,953), (7,2587), (59,307), (5,3623), (5,3625), (7,2591), (11,1649), (5,3629), (7,2593),
     (5,3631), (67,271), (11,1651), (41,443), (37,491), (17,1069), (5,3635), (7,2597),
     (5,3637), (13,1399), (7,2599), (31,587), (109,167), (5,3641), (131,139), (5,3643),
     (7,2603), (11,1657), (5,3647), (13,1403), (17,1073), (5,3649), (71,257), (19,961),
     (7,2609), (5,3653), (11,1661), (5,3655), (7,2611), (101,181), (47,389), (11,1663),
     (5,3659), (29,631), (5,3661), (13,1409), (7,2617), (73,251), (5,3665), (23,797), (5,3667),
     (11,1667), (13,1411), (7,2621), (59,311), (5,3671), (11,1669), (7,2623), (5,3673),
     (19,967), (17,1081), (31,593), (5,3677), (7,2627), (53,347), (5,3679), (7,2629), (79,233),
     (41,449), (5,3683), (113,163), (13,1417), (5,3685), (7,2633), (103,179), (5,3689),
     (19,971), (5,3691), (37,499), (59,313), (11,1679), (7,2639), (5,3695), (17,1087),
     (5,3697), (7,2641), (11,1681), (53,349), (13,1423), (5,3701), (83,223), (107,173),
     (5,3703), (97,191), (7,2647), (43,431), (5,3707), (5,3709), (17,1091), (13,1427),
     (7,2651), (67,277), (19,977), (5,3713), (31,599), (7,2653), (5,3715), (13,1429),
     (17,1093), (29,641), (5,3719), (7,2657), (11,1691), (5,3721), (23,809), (37,503),
     (7,2659), (43,433), (11,1693), (5,3725), (13,1433), (31,601), (5,3727), (7,2663),
     (103,181), (29,643), (17,1097), (23,811), (5,3731), (47,397), (5,3733), (11,1697),
     (71,263), (19,983), (7,2669), (5,3737), (11,1699), (5,3739), (7,2671), (59,317),
     (13,1439), (53,353), (5,3743), (97,193), (5,3745), (61,307), (11,1703), (41,457),
     (7,2677), (5,3749), (17,1103), (5,3751), (73,257), (29,647), (7,2681), (137,137),
     (5,3755), (89,211), (7,2683), (5,3757), (19,989), (11,1709), (5,3761), (7,2687),
     (13,1447), (5,3763), (31,607), (11,1711), (7,2689), (67,281), (19,991), (37,509),
     (5,3767), (83,227), (5,3769), (47,401), (7,2693), (17,1109), (109,173), (13,1451),
     (5,3773), (113,167), (5,3775), (43,439), (79,239), (23,821), (11,1717), (13,1453),
     (7,2699), (5,3779)] =
   Some (18901, 4)"
  unfolding prime_rows_195_def by (simp only: walk_eval cong: walk_num_cong if_weak_cong)

lemma walk_205:
  "walk 18901 4 prime_rows_205
    [(41,461), (5,3781), (7,2701), (127,149), (5,3785), (23,823), (11,1721), (5,3787),
     (29,653), (13,1457), (19,997), (7,2707), (11,1723), (5,3791), (67,283), (5,3793),
     (13,1459), (61,311), (7,2711), (41,463), (5,3797), (17,1117), (7,2713), (5,3799),
     (11,1727), (31,613), (83,229), (5,3803), (7,2717), (23,827), (5,3805), (53,359), (7,2719),
     (79,241), (137,139), (5,3809), (43,443), (5,3811), (17,1121), (7,2723), (11,1733),
     (23,829), (5,3815), (5,3817), (17,1123), (61,313), (13,1469), (71,269), (7,2729),
     (5,3821), (97,197), (29,659), (5,3823), (7,2731), (13,1471), (31,617), (11,1739),
     (19,1007), (5,3827), (5,3829), (41,467), (11,1741), (107,179), (7,2737), (5,3833),
     (29,661), (19,1009), (5,3835), (127,151), (7,2741), (31,619), (17,1129), (5,3839),
     (73,263), (7,2743), (5,3841), (11,1747), (47,409), (5,3845), (7,2747), (5,3847), (71,271),
     (7,2749), (19,1013), (13,1481), (5,3851), (11,1751), (5,3853), (7,2753), (37,521),
     (13,1483), (11,1753), (5,3857), (101,191), (5,3859), (23,839), (97,199), (43,449),
     (7,2759), (5,3863), (139,139), (5,3865), (7,2761), (13,1487), (61,317), (83,233),
     (23,841), (5,3869), (11,1759), (37,523), (5,3871), (13,1489), (19,1019), (17,1139),
     (107,181), (7,2767), (5,3875), (5,3877), (11,1763), (7,2771), (19,1021), (5,3881),
     (13,1493), (7,2773), (5,3883), (5,3887), (7,2777), (5,3889), (53,367), (7,2779),
     (11,1769), (5,3893), (5,3895), (7,2783), (13,1499), (101,193), (5,3899), (17,1147),
     (5,3901), (109,179), (13,1501), (29,673), (131,149), (7,2789), (5,3905), (59,331),
     (5,3907), (7,2791), (11,1777), (113,173), (5,3911), (31,631), (5,3913), (17,1151),
     (23,851), (7,2797), (5,3917), (19,1031), (11,1781), (5,3919), (17,1153), (7,2801),
     (11,1783), (5,3923), (23,853), (7,2803), (5,3925), (19,1033), (67,293), (29,677),
     (73,269), (41,479), (13,1511), (5,3929), (7,2807), (43,457), (5,3931), (11,1787),
     (7,2809), (71,277), (13,1513), (103,191), (5,3935), (11,1789), (5,3937), (7,2813),
     (47,419), (17,1159), (5,3941), (23,857), (5,3943), (13,1517), (11,1793), (109,181),
     (7,2819), (5,3947), (19,1039), (5,3949), (7,2821), (23,859), (5,3953), (53,373),
     (17,1163), (5,3955), (131,151), (73,271), (47,421), (7,2827), (5,3959), (13,1523),
     (5,3961), (29,683), (11,1801), (7,2831), (43,461), (5,3965), (79,251), (7,2833), (5,3967),
     (83,239), (89,223), (23,863), (5,3971), (7,2837), (5,3973), (31,641), (7,2839), (11,1807),
     (103,193), (59,337), (5,3977), (5,3979), (101,197), (7,2843), (13,1531), (17,1171),
     (43,463), (5,3983), (11,1811), (5,3985), (19,1049), (31,643), (127,157), (7,2849),
     (5,3989), (71,281), (5,3991), (7,2851), (41,487), (19,1051), (5,3995), (13,1537),
     (5,3997), (11,1817), (7,2857), (83,241), (5,4001), (11,1819), (5,4003), (37,541),
     (7,2861), (13,1541), (5,4007), (29,691), (7,2863), (5,4009), (11,1823), (31,647),
     (13,1543), (5,4013), (7,2867), (5,4015), (17,1181), (43,467), (7,2869), (53,379),
     (71,283), (5,4019), (101,199), (5,4021), (7,2873), (11,1829), (5,4025), (41,491),
     (5,4027), (13,1549), (11,1831)] =
   Some (20153, 2)"
  unfolding prime_rows_205_def by (simp only: walk_eval cong: walk_num_cong if_weak_cong)

lemma walk_215:
  "walk 20153 2 prime_rows_215
    [(7,2879), (5,4031), (19,1061), (5,4033), (7,2881), (23,877), (17,1187), (5,4037),
     (13,1553), (61,331), (5,4039), (19,1063), (89,227), (11,1837), (7,2887), (17,1189),
     (5,4043), (73,277), (5,4045), (113,179), (7,2891), (37,547), (31,653), (5,4049), (7,2893),
     (5,4051), (47,431), (23,881), (13,1559), (11,1843), (5,4055), (7,2897), (17,1193),
     (5,4057), (103,197), (7,2899), (53,383), (79,257), (5,4061), (23,883), (19,1069),
     (5,4063), (11,1847), (7,2903), (29,701), (5,4067), (11,1849), (5,4069), (47,433),
     (7,2909), (5,4073), (13,1567), (5,4075), (7,2911), (89,229), (11,1853), (19,1073),
     (5,4079), (23,887), (5,4081), (137,149), (17,1201), (7,2917), (13,1571), (5,4085),
     (31,659), (5,4087), (107,191), (7,2921), (11,1859), (113,181), (5,4091), (41,499),
     (7,2923), (5,4093), (97,211), (11,1861), (59,347), (5,4097), (7,2927), (31,661), (5,4099),
     (103,199), (13,1577), (7,2929), (73,281), (5,4103), (17,1207), (5,4105), (13,1579),
     (7,2933), (11,1867), (19,1081), (5,4109), (5,4111), (61,337), (29,709), (131,157),
     (67,307), (7,2939), (5,4115), (13,1583), (11,1871), (5,4117), (7,2941), (59,349),
     (43,479), (11,1873), (5,4121), (37,557), (5,4123), (53,389), (17,1213), (41,503),
     (7,2947), (47,439), (5,4127), (5,4129), (11,1877), (107,193), (19,1087), (7,2951),
     (73,283), (5,4133), (11,1879), (7,2953), (5,4135), (23,899), (13,1591), (137,151),
     (17,1217), (5,4139), (7,2957), (127,163), (5,4141), (139,149), (7,2959), (17,1219),
     (5,4145), (19,1091), (5,4147), (89,233), (7,2963), (5,4151), (13,1597), (5,4153),
     (19,1093), (79,263), (11,1889), (7,2969), (5,4157), (17,1223), (5,4159), (7,2971),
     (11,1891), (71,293), (13,1601), (5,4163), (109,191), (47,443), (5,4165), (59,353),
     (37,563), (83,251), (67,311), (7,2977), (19,1097), (5,4169), (29,719), (5,4171), (23,907),
     (31,673), (7,2981), (41,509), (5,4175), (7,2983), (5,4177), (13,1607), (17,1229),
     (5,4181), (7,2987), (11,1901), (5,4183), (13,1609), (7,2989), (17,1231), (11,1903),
     (5,4187), (43,487), (5,4189), (7,2993), (23,911), (19,1103), (5,4193), (13,1613),
     (67,313), (5,4195), (11,1907), (31,677), (139,151), (7,2999), (5,4199), (11,1909),
     (5,4201), (7,3001), (5,4205), (17,1237), (5,4207), (109,193), (53,397), (11,1913),
     (13,1619), (7,3007), (37,569), (5,4211), (5,4213), (19,1109), (13,1621), (7,3011),
     (107,197), (29,727), (5,4217), (7,3013), (5,4219), (17,1241), (47,449), (11,1919),
     (43,491), (5,4223), (7,3017), (5,4225), (37,571), (11,1921), (7,3019), (23,919), (5,4229),
     (13,1627), (5,4231), (7,3023), (61,347), (31,683), (5,4235), (59,359), (5,4237),
     (11,1927), (17,1247), (7,3029), (5,4241), (127,167), (5,4243), (7,3031), (19,1117),
     (13,1633), (17,1249), (5,4247), (67,317), (11,1931), (5,4249), (79,269), (53,401),
     (29,733), (7,3037), (11,1933), (5,4253), (89,239), (5,4255), (13,1637), (7,3041),
     (61,349), (107,199), (5,4259), (19,1121), (7,3043), (5,4261), (11,1937), (101,211),
     (5,4265), (7,3047), (83,257), (5,4267), (19,1123), (7,3049), (37,577), (131,163),
     (5,4271), (13,1643), (41,521), (5,4273), (23,929), (7,3053), (11,1943), (5,4277),
     (73,293), (5,4279), (17,1259), (79,271), (7,3059), (5,4283), (31,691), (5,4285), (7,3061),
     (29,739), (13,1649), (11,1949), (41,523), (5,4289), (89,241), (19,1129), (5,4291),
     (43,499), (11,1951), (13,1651), (7,3067), (109,197), (5,4295), (47,457), (5,4297)] =
   Some (21493, 4)"
  unfolding prime_rows_215_def by (simp only: walk_eval cong: walk_num_cong if_weak_cong)

lemma walk_225:
  "walk 21493 4 prime_rows_225
    [(7,3071), (5,4301), (137,157), (7,3073), (5,4303), (11,1957), (61,353), (5,4307),
     (7,3077), (13,1657), (5,4309), (29,743), (23,937), (7,3079), (5,4313), (11,1961),
     (5,4315), (7,3083), (113,191), (11,1963), (5,4319), (5,4321), (17,1271), (13,1663),
     (7,3089), (5,4325), (43,503), (97,223), (5,4327), (7,3091), (17,1273), (23,941), (59,367),
     (5,4331), (11,1969), (5,4333), (47,461), (13,1667), (53,409), (7,3097), (5,4337),
     (23,943), (109,199), (5,4339), (13,1669), (11,1973), (7,3101), (17,1277), (5,4343),
     (37,587), (7,3103), (5,4345), (31,701), (103,211), (17,1279), (5,4349), (7,3107),
     (5,4351), (47,463), (7,3109), (11,1979), (5,4355), (29,751), (23,947), (5,4357), (7,3113),
     (19,1147), (71,307), (5,4361), (113,193), (17,1283), (5,4363), (139,157), (13,1679),
     (83,263), (7,3119), (5,4367), (5,4369), (7,3121), (13,1681), (11,1987), (5,4373),
     (19,1151), (5,4375), (131,167), (79,277), (43,509), (7,3127), (5,4379), (61,359),
     (11,1991), (5,4381), (19,1153), (17,1289), (7,3131), (23,953), (11,1993), (5,4385),
     (7,3133), (5,4387), (37,593), (17,1291), (47,467), (29,757), (5,4391), (7,3137), (5,4393),
     (11,1997), (127,173), (7,3139), (31,709), (13,1691), (5,4397), (11,1999), (5,4399),
     (7,3143), (59,373), (13,1693), (5,4403), (97,227), (19,1159), (5,4405), (11,2003),
     (7,3149), (5,4409), (17,1297), (5,4411), (7,3151), (13,1697), (29,761), (5,4415),
     (71,311), (5,4417), (13,1699), (19,1163), (7,3157), (23,961), (5,4421), (5,4423),
     (17,1301), (11,2011), (7,3161), (5,4427), (13,1703), (7,3163), (5,4429), (17,1303),
     (37,599), (5,4433), (7,3167), (5,4435), (67,331), (41,541), (7,3169), (11,2017), (5,4439),
     (79,281), (149,149), (5,4441), (53,419), (7,3173), (97,229), (13,1709), (17,1307),
     (71,313), (5,4445), (11,2021), (5,4447), (37,601), (23,967), (13,1711), (19,1171),
     (7,3179), (5,4451), (113,197), (5,4453), (7,3181), (5,4457), (31,719), (5,4459),
     (11,2027), (29,769), (7,3187), (53,421), (5,4463), (11,2029), (13,1717), (5,4465),
     (83,269), (137,163), (23,971), (7,3191), (89,251), (5,4469), (7,3193), (5,4471), (79,283),
     (59,379), (11,2033), (13,1721), (5,4475), (7,3197), (5,4477), (61,367), (7,3199),
     (13,1723), (43,521), (5,4481), (73,307), (5,4483), (29,773), (7,3203), (17,1319),
     (41,547), (11,2039), (5,4487), (19,1181), (5,4489), (11,2041), (17,1321), (37,607),
     (7,3209), (5,4493), (23,977), (5,4495), (7,3211), (113,199), (43,523), (83,271), (5,4499),
     (149,151), (5,4501), (71,317), (47,479), (11,2047), (7,3217), (101,223), (5,4505),
     (13,1733), (5,4507), (31,727), (7,3221), (19,1187), (5,4511), (17,1327), (7,3223),
     (5,4513), (107,211), (67,337), (11,2053), (5,4517), (7,3227), (19,1189), (5,4519),
     (59,383), (97,233), (7,3229), (13,1739), (23,983), (5,4523), (5,4525), (11,2057),
     (7,3233), (13,1741), (5,4529), (11,2059), (5,4531), (139,163), (17,1333), (131,173),
     (19,1193), (7,3239), (5,4535), (37,613), (5,4537), (7,3241), (11,2063), (73,311),
     (5,4541), (13,1747), (5,4543), (31,733)] =
   Some (22729, 4)"
  unfolding prime_rows_225_def by (simp only: walk_eval cong: walk_num_cong if_weak_cong)

lemma walk_235:
  "walk 22729 4 prime_rows_235
    [(7,3247), (127,179), (5,4547), (5,4549), (23,989), (61,373), (7,3251), (11,2069),
     (13,1751), (5,4553), (7,3253), (5,4555), (11,2071), (13,1753), (23,991), (5,4559),
     (7,3257), (151,151), (5,4561), (7,3259), (19,1201), (29,787), (5,4565), (37,617),
     (17,1343), (5,4567), (41,557), (7,3263), (53,431), (11,2077), (73,313), (5,4571),
     (5,4573), (13,1759), (89,257), (137,167), (7,3269), (5,4577), (47,487), (11,2081),
     (5,4579), (7,3271), (37,619), (31,739), (11,2083), (5,4583), (13,1763), (5,4585),
     (101,227), (23,997), (17,1349), (7,3277), (5,4589), (53,433), (59,389), (5,4591),
     (11,2087), (7,3281), (103,223), (5,4595), (11,2089), (7,3283), (5,4597), (127,181),
     (83,277), (13,1769), (109,211), (5,4601), (7,3287), (5,4603), (7,3289), (31,743),
     (5,4607), (5,4609), (19,1213), (7,3293), (5,4613), (17,1357), (5,4615), (47,491),
     (41,563), (11,2099), (7,3299), (5,4619), (13,1777), (5,4621), (7,3301), (11,2101),
     (29,797), (61,379), (19,1217), (5,4625), (101,229), (5,4627), (17,1361), (73,317),
     (79,293), (7,3307), (13,1781), (5,4631), (19,1219), (5,4633), (17,1363), (7,3311),
     (13,1783), (97,239), (5,4637), (7,3313), (5,4639), (23,1009), (139,167), (5,4643),
     (7,3317), (11,2111), (5,4645), (13,1787), (7,3319), (19,1223), (17,1367), (11,2113),
     (5,4649), (67,347), (5,4651), (13,1789), (7,3323), (43,541), (53,439), (17,1369),
     (5,4655), (31,751), (5,4657), (11,2117), (23,1013), (7,3329), (5,4661), (11,2119),
     (5,4663), (7,3331), (83,281), (41,569), (5,4667), (17,1373), (5,4669), (37,631),
     (19,1229), (11,2123), (7,3337), (61,383), (5,4673), (5,4675), (97,241), (103,227),
     (67,349), (7,3341), (19,1231), (149,157), (5,4679), (7,3343), (5,4681), (89,263),
     (41,571), (13,1801), (11,2129), (59,397), (5,4685), (7,3347), (5,4687), (23,1019),
     (11,2131), (7,3349), (131,179), (47,499), (5,4691), (29,809), (5,4693), (31,757),
     (7,3353), (17,1381), (53,443), (23,1021), (5,4697), (83,283), (13,1807), (5,4699),
     (71,331), (19,1237), (11,2137), (7,3359), (5,4703), (29,811), (43,547), (5,4705),
     (7,3361), (101,233), (13,1811), (5,4709), (11,2141), (5,4711), (7,3367), (11,2143),
     (5,4715), (17,1387), (5,4717), (103,229), (31,761), (7,3371), (5,4721), (7,3373),
     (5,4723), (11,2147), (13,1817), (5,4727), (7,3377), (47,503), (5,4729), (13,1819),
     (67,353), (7,3379), (41,577), (59,401), (5,4733), (5,4735), (7,3383), (11,2153),
     (19,1247), (5,4739), (13,1823), (137,173), (5,4741), (151,157), (131,181), (23,1031),
     (37,641), (7,3389), (5,4745), (61,389), (19,1249), (5,4747), (7,3391), (11,2159),
     (5,4751), (23,1033), (5,4753), (11,2161), (13,1829), (7,3397), (17,1399), (5,4757),
     (37,643), (5,4759), (53,449), (13,1831), (7,3401), (29,821), (5,4763), (7,3403), (5,4765),
     (11,2167), (31,769), (113,211), (5,4769), (7,3407), (17,1403), (5,4771), (107,223),
     (7,3409), (29,823), (5,4775), (11,2171), (5,4777), (7,3413), (23,1039), (11,2173),
     (5,4781), (5,4783), (19,1259), (47,509), (71,337), (7,3419), (5,4787), (37,647), (89,269),
     (5,4789), (7,3421), (43,557), (17,1409), (13,1843), (31,773), (5,4793), (11,2179),
     (5,4795), (29,827), (17,1411), (7,3427), (5,4799), (103,233), (5,4801)] =
   Some (24011, 2)"
  unfolding prime_rows_235_def by (simp only: walk_eval cong: walk_num_cong if_weak_cong)

lemma walk_245:
  "walk 24011 2 prime_rows_245
    [(13,1847), (11,2183), (7,3431), (5,4805), (7,3433), (5,4807), (13,1849), (29,829),
     (139,173), (67,359), (5,4811), (7,3437), (5,4813), (41,587), (7,3439), (11,2189),
     (5,4817), (13,1853), (5,4819), (7,3443), (5,4823), (89,271), (5,4825), (23,1049),
     (59,409), (101,239), (7,3449), (5,4829), (19,1271), (5,4831), (7,3451), (37,653),
     (73,331), (11,2197), (23,1051), (5,4835), (5,4837), (19,1273), (17,1423), (13,1861),
     (7,3457), (5,4841), (43,563), (11,2201), (5,4843), (61,397), (53,457), (7,3461),
     (11,2203), (5,4847), (7,3463), (5,4849), (79,307), (127,191), (17,1427), (19,1277),
     (5,4853), (7,3467), (13,1867), (5,4855), (11,2207), (7,3469), (149,163), (107,227),
     (17,1429), (5,4859), (11,2209), (19,1279), (5,4861), (109,223), (7,3473), (41,593),
     (83,293), (13,1871), (5,4865), (29,839), (5,4867), (101,241), (11,2213), (97,251),
     (13,1873), (7,3479), (5,4871), (17,1433), (5,4873), (7,3481), (19,1283), (37,659),
     (5,4877), (29,841), (5,4879), (31,787), (13,1877), (23,1061), (7,3487), (5,4883),
     (5,4885), (13,1879), (11,2221), (53,461), (7,3491), (5,4889), (23,1063), (7,3493),
     (5,4891), (37,661), (61,401), (17,1439), (43,569), (5,4895), (7,3497), (5,4897), (47,521),
     (19,1289), (7,3499), (11,2227), (107,229), (5,4901), (127,193), (5,4903), (7,3503),
     (137,179), (19,1291), (5,4907), (53,463), (11,2231), (5,4909), (43,571), (13,1889),
     (41,599), (7,3509), (5,4913), (79,311), (5,4915), (7,3511), (47,523), (13,1891),
     (23,1069), (67,367), (5,4919), (17,1447), (73,337), (5,4921), (11,2237), (151,163),
     (103,239), (7,3517), (5,4925), (11,2239), (5,4927), (71,347), (41,601), (19,1297),
     (7,3521), (157,157), (89,277), (5,4931), (7,3523), (5,4933), (17,1451), (11,2243),
     (23,1073), (5,4937), (7,3527), (5,4939), (17,1453), (7,3529), (31,797), (13,1901),
     (5,4943), (19,1301), (59,419), (5,4945), (79,313), (7,3533), (29,853), (11,2249),
     (109,227), (5,4949), (53,467), (5,4951), (19,1303), (11,2251), (17,1457), (7,3539),
     (5,4955), (71,349), (5,4957), (7,3541), (13,1907), (137,181), (17,1459), (5,4961),
     (43,577), (5,4963), (13,1909), (103,241), (11,2257), (7,3547), (19,1307), (5,4967),
     (59,421), (5,4969), (29,857), (7,3551), (23,1081), (5,4973), (13,1913), (7,3553),
     (5,4975), (139,179), (149,167), (41,607), (11,2263), (5,4979), (7,3557), (37,673),
     (5,4981), (29,859), (7,3559), (5,4985), (97,257), (107,233), (5,4987), (11,2267),
     (7,3563), (13,1919), (61,409), (5,4991), (11,2269), (109,229), (5,4993), (13,1921),
     (7,3569), (5,4997), (67,373), (5,4999), (7,3571), (23,1087), (11,2273), (17,1471),
     (89,281), (5,5003), (127,197), (131,191), (5,5005), (29,863), (7,3577), (79,317),
     (5,5009), (37,677), (13,1927), (5,5011), (19,1319), (71,353), (7,3581), (11,2279),
     (5,5015), (31,809), (7,3583), (5,5017), (11,2281), (23,1091), (19,1321), (13,1931),
     (5,5021), (7,3587), (5,5023), (7,3589), (13,1933), (41,613), (5,5027), (23,1093),
     (31,811), (5,5029), (7,3593), (11,2287), (139,181), (5,5033), (5,5035), (17,1481),
     (13,1937), (89,283), (7,3599), (5,5039), (113,223), (11,2291), (5,5041), (7,3601),
     (17,1483), (19,1327), (151,167), (11,2293), (5,5045), (23,1097), (5,5047), (43,587),
     (7,3607), (5,5051), (13,1943), (5,5053), (11,2297), (37,683), (127,199), (7,3611),
     (17,1487), (131,193), (5,5057), (11,2299), (7,3613), (5,5059), (41,617), (17,1489),
     (5,5063), (7,3617), (5,5065), (19,1333), (73,347), (7,3619), (13,1949), (5,5069),
     (101,251), (5,5071), (7,3623), (13,1951), (23,1103), (5,5075), (41,619), (17,1493),
     (5,5077), (53,479)] =
   Some (25393, 4)"
  unfolding prime_rows_245_def by (simp only: walk_eval cong: walk_num_cong if_weak_cong)

lemma walk_255:
  "walk 25393 4 prime_rows_255
    [(67,379), (109,233), (11,2309), (7,3629), (5,5081), (5,5083), (7,3631), (11,2311),
     (47,541), (59,431), (29,877), (5,5087), (13,1957), (5,5089), (31,821), (7,3637), (5,5093),
     (5,5095), (73,349), (83,307), (17,1499), (7,3641), (71,359), (13,1961), (5,5099),
     (43,593), (7,3643), (5,5101), (23,1109), (97,263), (31,823), (17,1501), (13,1963),
     (5,5105), (7,3647), (11,2321), (5,5107), (7,3649), (59,433), (29,881), (11,2323),
     (5,5111), (61,419), (5,5113), (37,691), (7,3653), (107,239), (5,5117), (157,163),
     (5,5119), (11,2327), (29,883), (7,3659), (5,5123), (11,2329), (5,5125), (7,3661),
     (19,1349), (31,827), (5,5129), (13,1973), (113,227), (5,5131), (67,383), (11,2333),
     (7,3667), (5,5135), (61,421), (5,5137), (17,1511), (23,1117), (7,3671), (31,829),
     (5,5141), (47,547), (7,3673), (5,5143), (17,1513), (29,887), (13,1979), (11,2339),
     (5,5147), (7,3677), (5,5149), (11,2341), (7,3679), (43,599), (5,5153), (73,353), (5,5155),
     (149,173), (7,3683), (19,1357), (107,241), (17,1517), (5,5159), (5,5161), (131,197),
     (53,487), (83,311), (11,2347), (7,3689), (5,5165), (23,1123), (13,1987), (5,5167),
     (7,3691), (43,601), (103,251), (5,5171), (19,1361), (11,2351), (5,5173), (41,631),
     (113,229), (7,3697), (11,2353), (5,5177), (17,1523), (5,5179), (19,1363), (59,439),
     (7,3701), (13,1993), (5,5183), (7,3703), (5,5185), (11,2357), (37,701), (5,5189),
     (7,3707), (5,5191), (101,257), (13,1997), (7,3709), (23,1129), (19,1367), (5,5195),
     (83,313), (5,5197), (13,1999), (7,3713), (11,2363), (5,5201), (31,839), (19,1369),
     (5,5203), (53,491), (17,1531), (7,3719), (5,5207), (13,2003), (5,5209), (7,3721),
     (109,239), (71,367), (11,2369), (67,389), (5,5213), (131,199), (29,899), (5,5215),
     (89,293), (11,2371), (19,1373), (7,3727), (97,269), (5,5219), (43,607), (5,5221),
     (7,3731), (151,173), (5,5225), (17,1537), (7,3733), (5,5227), (59,443), (13,2011),
     (11,2377), (79,331), (5,5231), (7,3737), (5,5233), (137,191), (7,3739), (47,557),
     (5,5237), (11,2381), (5,5239), (17,1541), (7,3743), (73,359), (11,2383), (5,5243),
     (157,167), (13,2017), (5,5245), (17,1543), (37,709), (19,1381), (7,3749), (5,5249),
     (5,5251), (7,3751), (109,241), (13,2021), (5,5255), (11,2389), (41,641), (5,5257),
     (97,271), (61,431), (7,3757), (29,907), (5,5261), (83,317), (5,5263), (11,2393), (7,3761),
     (113,233), (17,1549), (5,5267), (7,3763), (5,5269), (13,2027), (19,1387), (43,613),
     (41,643), (5,5273), (7,3767), (5,5275), (13,2029), (23,1147), (7,3769), (11,2399),
     (5,5279), (17,1553), (5,5281), (7,3773), (61,433), (29,911), (5,5285), (13,2033),
     (5,5287), (137,193), (31,853), (53,499), (7,3779), (5,5291), (47,563), (5,5293), (7,3781),
     (103,257), (23,1151), (11,2407), (71,373), (5,5297), (59,449), (5,5299), (17,1559),
     (13,2039), (7,3787), (5,5303), (23,1153), (11,2411), (5,5305), (41,647), (43,617),
     (13,2041), (7,3791), (11,2413), (5,5309), (139,191), (7,3793), (5,5311), (101,263),
     (31,857), (163,163), (5,5315), (7,3797), (19,1399), (5,5317), (11,2417), (7,3799),
     (67,397), (37,719), (5,5321), (11,2419), (13,2047), (5,5323), (43,619), (7,3803),
     (79,337), (31,859), (5,5327), (17,1567), (5,5329), (29,919), (11,2423), (19,1403),
     (53,503), (7,3809), (5,5333), (149,179), (5,5335), (7,3811), (13,2053), (5,5339),
     (5,5341), (17,1571)] =
   Some (26713, 4)"
  unfolding prime_rows_255_def by (simp only: walk_eval cong: walk_num_cong if_weak_cong)

lemma walk_265:
  "walk 26713 4 prime_rows_265
    [(7,3817), (5,5345), (5,5347), (11,2431), (47,569), (7,3821), (23,1163), (31,863),
     (5,5351), (7,3823), (5,5353), (13,2059), (19,1409), (41,653), (61,439), (5,5357),
     (7,3827), (73,367), (5,5359), (127,211), (7,3829), (11,2437), (17,1577), (5,5363),
     (13,2063), (5,5365), (139,193), (7,3833), (47,571), (17,1579), (5,5369), (11,2441),
     (5,5371), (107,251), (67,401), (97,277), (7,3839), (5,5375), (5,5377), (7,3841),
     (13,2069), (37,727), (5,5381), (71,379), (17,1583), (5,5383), (11,2447), (13,2071),
     (7,3847), (23,1171), (5,5387), (11,2449), (29,929), (5,5389), (7,3851), (59,457),
     (5,5393), (149,181), (7,3853), (5,5395), (53,509), (11,2453), (137,197), (5,5399),
     (7,3857), (13,2077), (5,5401), (113,239), (7,3859), (41,659), (61,443), (5,5405),
     (151,179), (5,5407), (19,1423), (7,3863), (17,1591), (11,2459), (13,2081), (5,5411),
     (5,5413), (11,2461), (13,2083), (7,3869), (5,5417), (103,263), (5,5419), (7,3871),
     (41,661), (19,1427), (5,5423), (47,577), (37,733), (5,5425), (13,2087), (43,631),
     (11,2467), (7,3877), (5,5429), (17,1597), (19,1429), (5,5431), (13,2089), (157,173),
     (23,1181), (7,3881), (101,269), (29,937), (5,5435), (7,3883), (5,5437), (31,877),
     (71,383), (59,461), (11,2473), (5,5441), (7,3887), (5,5443), (17,1601), (163,167),
     (7,3889), (19,1433), (73,373), (113,241), (5,5447), (5,5449), (11,2477), (7,3893),
     (97,281), (137,199), (5,5453), (11,2479), (5,5455), (13,2099), (29,941), (7,3899),
     (5,5459), (23,1187), (5,5461), (7,3901), (31,881), (11,2483), (59,463), (17,1607),
     (89,307), (5,5465), (151,181), (5,5467), (19,1439), (37,739), (23,1189), (7,3907),
     (17,1609), (5,5471), (109,251), (5,5473), (101,271), (31,883), (7,3911), (11,2489),
     (139,197), (5,5477), (61,449), (7,3913), (5,5479), (11,2491), (67,409), (79,347),
     (5,5483), (7,3917), (17,1613), (5,5485), (7,3919), (23,1193), (13,2111), (5,5489),
     (97,283), (5,5491), (7,3923), (29,947), (11,2497), (13,2113), (83,331), (5,5495),
     (5,5497), (37,743), (19,1447), (31,887), (107,257), (7,3929), (5,5501), (11,2501),
     (5,5503), (7,3931), (13,2117), (17,1619), (11,2503), (5,5507), (5,5509), (13,2119),
     (59,467), (17,1621), (7,3937), (43,641), (5,5513), (19,1451), (79,349), (5,5515),
     (11,2507), (7,3941), (47,587), (41,673), (5,5519), (11,2509), (7,3943), (5,5521),
     (19,1453), (53,521), (71,389), (23,1201), (5,5525), (7,3947), (5,5527), (29,953),
     (131,211), (7,3949), (43,643), (5,5531), (17,1627), (139,199), (5,5533), (73,379),
     (7,3953), (13,2129), (89,311), (19,1457), (5,5537), (5,5539), (13,2131), (103,269),
     (11,2519), (7,3959), (5,5543), (53,523), (19,1459), (5,5545), (7,3961), (11,2521),
     (5,5549), (5,5551), (41,677), (17,1633), (7,3967), (5,5555), (13,2137), (5,5557),
     (37,751), (7,3971), (5,5561), (7,3973), (5,5563), (43,647), (17,1637), (13,2141),
     (5,5567), (7,3977), (11,2531), (5,5569), (7,3979), (89,313), (13,2143), (11,2533),
     (5,5573), (29,961), (47,593), (5,5575), (61,457), (7,3983), (79,353), (167,167), (5,5579),
     (23,1213), (5,5581), (11,2537), (13,2147), (103,271), (7,3989), (5,5585), (11,2539),
     (17,1643), (5,5587), (7,3991), (19,1471), (5,5591), (73,383), (5,5593), (83,337),
     (11,2543), (101,277), (7,3997), (5,5597), (13,2153), (23,1217), (5,5599), (41,683),
     (7,4001), (37,757), (109,257), (5,5603), (7,4003), (5,5605), (17,1649), (23,1219),
     (11,2549), (29,967), (5,5609), (7,4007)] =
   Some (28055, 2)"
  unfolding prime_rows_265_def by (simp only: walk_eval cong: walk_num_cong if_weak_cong)

lemma walk_275:
  "walk 28055 2 prime_rows_275
    [(5,5611), (11,2551), (7,4009), (13,2159), (67,419), (5,5615), (43,653), (5,5617),
     (7,4013), (13,2161), (157,179), (5,5621), (5,5623), (31,907), (61,461), (11,2557),
     (23,1223), (7,4019), (5,5627), (19,1481), (107,263), (5,5629), (7,4021), (47,599),
     (37,761), (29,971), (5,5633), (17,1657), (11,2561), (5,5635), (19,1483), (71,397),
     (7,4027), (11,2563), (5,5639), (163,173), (5,5641), (67,421), (89,317), (7,4031),
     (13,2171), (5,5645), (7,4033), (5,5647), (11,2567), (31,911), (61,463), (47,601),
     (13,2173), (19,1487), (5,5651), (7,4037), (59,479), (5,5653), (23,1229), (17,1663),
     (7,4039), (5,5657), (19,1489), (5,5659), (7,4043), (11,2573), (23,1231), (5,5663),
     (127,223), (5,5665), (13,2179), (41,691), (29,977), (43,659), (17,1667), (7,4049),
     (5,5669), (5,5671), (7,4051), (79,359), (113,251), (19,1493), (11,2579), (17,1669),
     (5,5675), (13,2183), (101,281), (5,5677), (11,2581), (73,389), (7,4057), (5,5681),
     (5,5683), (157,181), (97,293), (43,661), (7,4061), (5,5687), (7,4063), (5,5689),
     (23,1237), (37,769), (11,2587), (149,191), (5,5693), (7,4067), (71,401), (5,5695),
     (19,1499), (7,4069), (61,467), (31,919), (5,5699), (11,2591), (5,5701), (29,983),
     (7,4073), (19,1501), (11,2593), (5,5705), (47,607), (103,277), (5,5707), (17,1679),
     (7,4079), (5,5711), (13,2197), (5,5713), (7,4081), (17,1681), (101,283), (5,5717),
     (11,2599), (5,5719), (37,773), (7,4087), (13,2201), (5,5723), (5,5725), (11,2603),
     (7,4091), (13,2203), (5,5729), (7,4093), (5,5731), (109,263), (53,541), (5,5735),
     (7,4097), (23,1247), (5,5737), (13,2207), (7,4099), (11,2609), (5,5741), (19,1511),
     (5,5743), (13,2209), (7,4103), (23,1249), (59,487), (5,5747), (29,991), (41,701),
     (5,5749), (17,1691), (149,193), (7,4109), (5,5753), (13,2213), (5,5755), (7,4111),
     (17,1693), (107,269), (11,2617), (5,5759), (31,929), (83,347), (5,5761), (47,613),
     (7,4117), (19,1517), (5,5765), (127,227), (11,2621), (5,5767), (151,191), (7,4121),
     (17,1697), (11,2623), (5,5771), (7,4123), (5,5773), (13,2221), (67,431), (17,1699),
     (5,5777), (7,4127), (167,173), (5,5779), (11,2627), (7,4129), (137,211), (29,997),
     (5,5783), (11,2629), (5,5785), (7,4133), (19,1523), (43,673), (103,281), (5,5789),
     (13,2227), (5,5791), (23,1259), (11,2633), (83,349), (59,491), (7,4139), (5,5795),
     (73,397), (5,5797), (7,4141), (53,547), (79,367), (107,271), (47,617), (13,2231),
     (5,5801), (67,433), (5,5803), (7,4147), (5,5807), (71,409), (113,257), (5,5809), (31,937),
     (11,2641), (17,1709), (7,4151), (5,5813), (41,709), (7,4153), (5,5815), (13,2237),
     (127,229), (17,1711), (19,1531), (47,619), (5,5819), (7,4157), (5,5821), (13,2239),
     (43,677), (7,4159), (11,2647), (37,787), (5,5825), (5,5827), (7,4163), (151,193),
     (103,283), (5,5831), (13,2243), (11,2651), (5,5833), (31,941), (163,179), (7,4169),
     (5,5837), (17,1717), (5,5839), (7,4171), (19,1537), (131,223), (5,5843), (61,479),
     (5,5845), (11,2657), (23,1271), (13,2249), (7,4177), (5,5849), (11,2659), (5,5851),
     (17,1721), (29,1009), (13,2251), (7,4181), (73,401), (5,5855), (19,1541), (7,4183),
     (5,5857), (17,1723), (11,2663), (83,353), (5,5861), (7,4187), (5,5863), (19,1543),
     (109,269), (7,4189), (139,211), (5,5867), (13,2257), (5,5869), (7,4193), (149,197),
     (31,947), (11,2669)] =
   Some (29365, 4)"
  unfolding prime_rows_275_def by (simp only: walk_eval cong: walk_num_cong if_weak_cong)

lemma walk_285:
  "walk 29365 4 prime_rows_285
    [(5,5873), (43,683), (23,1277), (5,5875), (29,1013), (11,2671), (7,4199), (5,5879),
     (5,5881), (7,4201), (67,439), (23,1279), (13,2263), (5,5885), (19,1549), (5,5887),
     (59,499), (11,2677), (7,4207), (5,5891), (89,331), (17,1733), (5,5893), (79,373),
     (13,2267), (7,4211), (41,719), (5,5897), (37,797), (7,4213), (5,5899), (13,2269),
     (163,181), (19,1553), (23,1283), (11,2683), (5,5903), (7,4217), (53,557), (5,5905),
     (7,4219), (109,271), (31,953), (5,5909), (13,2273), (29,1019), (5,5911), (11,2687),
     (7,4223), (17,1739), (5,5915), (11,2689), (5,5917), (127,233), (101,293), (17,1741),
     (7,4229), (5,5921), (29,1021), (5,5923), (7,4231), (19,1559), (11,2693), (13,2279),
     (5,5927), (107,277), (5,5929), (23,1289), (149,199), (13,2281), (47,631), (7,4237),
     (5,5933), (5,5935), (59,503), (67,443), (7,4241), (11,2699), (23,1291), (5,5939),
     (17,1747), (7,4243), (5,5941), (61,487), (11,2701), (43,691), (113,263), (5,5945),
     (7,4247), (13,2287), (5,5947), (131,227), (7,4249), (151,197), (71,419), (5,5951),
     (5,5953), (17,1751), (7,4253), (19,1567), (11,2707), (97,307), (13,2291), (5,5957),
     (31,961), (5,5959), (83,359), (17,1753), (41,727), (13,2293), (7,4259), (5,5963),
     (11,2711), (5,5965), (7,4261), (23,1297), (53,563), (11,2713), (5,5969), (19,1571),
     (5,5971), (73,409), (13,2297), (7,4267), (5,5975), (5,5977), (11,2717), (71,421),
     (167,179), (7,4271), (29,1031), (17,1759), (5,5981), (11,2719), (7,4273), (5,5983),
     (23,1301), (173,173), (37,809), (5,5987), (7,4277), (79,379), (5,5989), (61,491),
     (7,4279), (29,1033), (19,1577), (5,5993), (23,1303), (17,1763), (5,5995), (31,967),
     (7,4283), (157,191), (89,337), (5,5999), (131,229), (19,1579), (5,6001), (37,811),
     (13,2309), (11,2729), (7,4289), (5,6005), (59,509), (5,6007), (7,4291), (11,2731),
     (13,2311), (151,199), (41,733), (5,6011), (23,1307), (5,6013), (107,281), (17,1769),
     (19,1583), (7,4297), (67,449), (5,6017), (5,6019), (31,971), (7,4301), (5,6023), (7,4303),
     (5,6025), (47,641), (29,1039), (43,701), (5,6029), (7,4307), (11,2741), (5,6031),
     (53,569), (7,4309), (97,311), (11,2743), (5,6035), (103,293), (5,6037), (7,4313),
     (109,277), (13,2323), (5,6041), (17,1777), (5,6043), (11,2747), (47,643), (167,181),
     (19,1591), (7,4319), (5,6047), (11,2749), (5,6049), (7,4321), (13,2327), (79,383),
     (53,571), (5,6053), (5,6055), (13,2329), (107,283), (11,2753), (31,977), (7,4327),
     (5,6059), (41,739), (157,193), (5,6061), (17,1783), (7,4331), (5,6065), (13,2333),
     (7,4333), (5,6067), (23,1319), (19,1597), (11,2759), (127,239), (5,6071), (7,4337),
     (97,313), (5,6073), (11,2761), (7,4339), (37,821), (17,1787), (23,1321), (5,6077),
     (5,6079), (113,269), (7,4343), (13,2339), (47,647), (17,1789), (5,6083), (19,1601),
     (29,1049), (5,6085), (13,2341), (11,2767), (61,499), (7,4349), (5,6089), (37,823),
     (5,6091), (7,4351), (83,367), (41,743), (31,983), (5,6095), (29,1051), (11,2771),
     (5,6097), (43,709), (7,4357), (11,2773), (5,6101), (13,2347), (5,6103), (23,1327),
     (131,233), (7,4361), (19,1607), (5,6107), (7,4363), (5,6109), (11,2777), (137,223),
     (13,2351), (5,6113), (7,4367), (19,1609), (5,6115), (53,577), (7,4369), (73,419),
     (13,2353), (5,6119), (37,827), (71,431), (5,6121), (127,241), (7,4373), (11,2783),
     (17,1801), (67,457), (113,271), (5,6125), (109,281), (5,6127), (13,2357), (19,1613),
     (7,4379), (5,6131), (23,1333), (5,6133), (7,4381), (37,829), (11,2789), (61,503),
     (5,6137), (47,653), (5,6139), (11,2791), (7,4387), (5,6143), (13,2363), (31,991),
     (5,6145), (79,389), (73,421), (7,4391), (59,521), (71,433), (5,6149), (97,317), (7,4393),
     (5,6151), (19,1619), (11,2797), (29,1061), (5,6155), (7,4397), (5,6157), (17,1811),
     (41,751), (7,4399), (13,2369), (19,1621)] =
   Some (30805, 4)"
  unfolding prime_rows_285_def by (simp only: walk_eval cong: walk_num_cong if_weak_cong)

lemma walk_295:
  "walk 30805 4 prime_rows_295
    [(5,6161), (11,2801), (5,6163), (7,4403), (13,2371), (29,1063), (11,2803), (5,6167),
     (5,6169), (109,283), (59,523), (7,4409), (5,6173), (5,6175), (7,4411), (89,347), (67,461),
     (17,1817), (5,6179), (11,2809), (13,2377), (5,6181), (31,997), (19,1627), (43,719),
     (7,4417), (17,1819), (5,6185), (157,197), (5,6187), (11,2813), (7,4421), (13,2381),
     (5,6191), (83,373), (7,4423), (5,6193), (173,179), (47,659), (13,2383), (5,6197),
     (7,4427), (17,1823), (5,6199), (139,223), (29,1069), (7,4429), (101,307), (11,2819),
     (5,6203), (67,463), (5,6205), (19,1633), (7,4433), (41,757), (37,839), (5,6209), (61,509),
     (5,6211), (13,2389), (89,349), (47,661), (7,4439), (5,6215), (5,6217), (7,4441),
     (17,1829), (11,2827), (137,227), (19,1637), (5,6221), (13,2393), (53,587), (5,6223),
     (29,1073), (17,1831), (7,4447), (163,191), (5,6227), (11,2831), (5,6229), (7,4451),
     (11,2833), (5,6233), (71,439), (7,4453), (5,6235), (13,2399), (5,6239), (7,4457),
     (41,761), (5,6241), (11,2837), (23,1357), (7,4459), (19,1643), (5,6245), (11,2839),
     (5,6247), (7,4463), (157,199), (5,6251), (43,727), (5,6253), (11,2843), (31,1009),
     (7,4469), (5,6257), (67,467), (13,2407), (5,6259), (7,4471), (113,277), (23,1361),
     (131,239), (173,181), (5,6263), (5,6265), (17,1843), (7,4477), (13,2411), (5,6269),
     (23,1363), (107,293), (5,6271), (11,2851), (79,397), (7,4481), (13,2413), (137,229),
     (5,6275), (7,4483), (5,6277), (17,1847), (31,1013), (5,6281), (7,4487), (101,311),
     (5,6283), (89,353), (13,2417), (7,4489), (11,2857), (53,593), (17,1849), (5,6287),
     (149,211), (23,1367), (5,6289), (13,2419), (7,4493), (71,443), (83,379), (163,193),
     (73,431), (5,6293), (11,2861), (5,6295), (19,1657), (23,1369), (7,4499), (5,6299),
     (13,2423), (17,1853), (5,6301), (7,4501), (43,733), (29,1087), (5,6305), (41,769),
     (5,6307), (11,2867), (7,4507), (139,227), (5,6311), (11,2869), (37,853), (5,6313),
     (131,241), (7,4511), (23,1373), (5,6317), (31,1019), (7,4513), (5,6319), (19,1663),
     (11,2873), (73,433), (101,313), (5,6323), (7,4517), (103,307), (5,6325), (47,673),
     (7,4519), (17,1861), (29,1091), (5,6329), (31,1021), (5,6331), (7,4523), (11,2879),
     (19,1667), (5,6335), (79,401), (13,2437), (5,6337), (11,2881), (41,773), (29,1093),
     (7,4529), (5,6341), (37,857), (19,1669), (5,6343), (7,4531), (13,2441), (5,6347),
     (17,1867), (5,6349), (53,599), (113,281), (11,2887), (7,4537), (23,1381), (5,6353),
     (5,6355), (43,739), (61,521), (37,859), (7,4541), (83,383), (5,6359), (7,4543), (5,6361),
     (17,1871), (13,2447), (29,1097), (47,677), (11,2893), (5,6365), (7,4547), (139,229),
     (5,6367), (13,2449), (17,1873), (7,4549), (53,601), (5,6371), (151,211), (5,6373),
     (11,2897), (7,4553), (127,251), (71,449), (5,6377), (11,2899), (5,6379), (167,191),
     (19,1679), (61,523), (17,1877), (7,4559), (5,6383), (59,541), (137,233), (5,6385),
     (7,4561), (37,863), (11,2903), (109,293), (19,1681), (17,1879), (5,6389), (43,743),
     (89,359), (5,6391), (31,1031), (13,2459), (7,4567), (5,6395), (113,283), (5,6397),
     (29,1103), (13,2461), (7,4571), (11,2909), (5,6401), (7,4573), (5,6403), (101,317),
     (11,2911), (31,1033), (103,311), (5,6407), (7,4577), (179,179), (5,6409), (73,439),
     (7,4579), (5,6413), (13,2467), (5,6415), (7,4583), (11,2917), (67,479), (5,6419),
     (47,683), (5,6421), (97,331), (163,197), (17,1889), (7,4589), (5,6425), (19,1691),
     (11,2921), (5,6427), (7,4591), (17,1891), (13,2473), (11,2923), (5,6431)] =
   Some (32161, 4)"
  unfolding prime_rows_295_def by (simp only: walk_eval cong: walk_num_cong if_weak_cong)

lemma walk_305:
  "walk 32161 4 prime_rows_305
    [(29,1109), (5,6433), (19,1693), (53,607), (23,1399), (7,4597), (5,6437), (5,6439),
     (11,2927), (13,2477), (7,4601), (31,1039), (5,6443), (11,2929), (7,4603), (5,6445),
     (13,2479), (167,193), (103,313), (19,1697), (5,6449), (7,4607), (5,6451), (7,4609),
     (41,787), (23,1403), (59,547), (5,6455), (13,2483), (19,1699), (5,6457), (83,389),
     (7,4613), (43,751), (5,6461), (79,409), (5,6463), (17,1901), (11,2939), (7,4619),
     (5,6467), (73,443), (5,6469), (7,4621), (11,2941), (13,2489), (5,6473), (5,6475),
     (13,2491), (139,233), (7,4627), (29,1117), (5,6479), (179,181), (5,6481), (23,1409),
     (7,4631), (17,1907), (5,6485), (7,4633), (5,6487), (163,199), (71,457), (37,877),
     (17,1909), (5,6491), (7,4637), (11,2951), (5,6493), (19,1709), (7,4639), (47,691),
     (11,2953), (5,6497), (53,613), (5,6499), (7,4643), (19,1711), (13,2501), (5,6503),
     (31,1049), (17,1913), (5,6505), (11,2957), (13,2503), (7,4649), (5,6509), (11,2959),
     (43,757), (5,6511), (7,4651), (29,1123), (5,6515), (31,1051), (5,6517), (13,2507),
     (11,2963), (37,881), (7,4657), (5,6521), (5,6523), (13,2509), (17,1919), (7,4661),
     (67,487), (5,6527), (127,257), (7,4663), (5,6529), (103,317), (17,1921), (11,2969),
     (89,367), (5,6533), (7,4667), (37,883), (5,6535), (41,797), (11,2971), (7,4669), (97,337),
     (5,6539), (19,1721), (53,617), (5,6541), (7,4673), (43,761), (5,6545), (23,1423),
     (71,461), (5,6547), (19,1723), (29,1129), (137,239), (11,2977), (7,4679), (5,6551),
     (17,1927), (181,181), (5,6553), (7,4681), (13,2521), (73,449), (5,6557), (11,2981),
     (5,6559), (53,619), (7,4687), (11,2983), (5,6563), (37,887), (23,1427), (5,6565),
     (17,1931), (7,4691), (5,6569), (107,307), (7,4693), (5,6571), (11,2987), (17,1933),
     (59,557), (23,1429), (71,463), (5,6575), (7,4697), (131,251), (5,6577), (31,1061),
     (7,4699), (67,491), (167,197), (13,2531), (5,6581), (5,6583), (7,4703), (11,2993),
     (19,1733), (13,2533), (5,6587), (5,6589), (47,701), (83,397), (31,1063), (23,1433),
     (7,4709), (5,6593), (5,6595), (7,4711), (13,2537), (11,2999), (5,6599), (61,541),
     (5,6601), (13,2539), (11,3001), (137,241), (7,4717), (5,6605), (17,1943), (5,6607),
     (19,1739), (173,191), (7,4721), (5,6611), (13,2543), (7,4723), (5,6613), (43,769),
     (11,3007), (19,1741), (5,6617), (7,4727), (5,6619), (23,1439), (79,419), (7,4729),
     (113,293), (5,6623), (11,3011), (5,6625), (157,211), (7,4733), (17,1949), (13,2549),
     (31,1069), (11,3013), (5,6629), (5,6631), (71,467), (13,2551), (17,1951), (41,809),
     (7,4739), (5,6635), (5,6637), (7,4741), (19,1747), (89,373), (5,6641), (11,3019),
     (5,6643), (59,563), (139,239), (149,223), (7,4747), (167,199), (5,6647), (43,773),
     (13,2557), (5,6649), (41,811), (11,3023), (7,4751), (79,421), (29,1147), (5,6653),
     (17,1957), (7,4753), (5,6655), (107,311), (23,1447), (83,401), (13,2561), (5,6659),
     (7,4757), (5,6661), (19,1753), (7,4759), (11,3029), (47,709), (5,6665), (5,6667),
     (17,1961), (7,4763), (5,6671), (73,457), (5,6673), (61,547), (13,2567), (23,1451),
     (29,1151), (7,4769), (5,6677), (173,193), (5,6679), (7,4771), (127,263), (11,3037),
     (5,6683), (23,1453), (19,1759), (5,6685)] =
   Some (33431, 2)"
  unfolding prime_rows_305_def by (simp only: walk_eval cong: walk_num_cong if_weak_cong)

lemma walk_315:
  "walk 33431 2 prime_rows_315
    [(101,331), (67,499), (29,1153), (7,4777), (53,631), (5,6689), (13,2573), (11,3041),
     (5,6691), (109,307), (7,4781), (11,3043), (5,6695), (7,4783), (5,6697), (107,313),
     (19,1763), (139,241), (5,6701), (7,4787), (23,1457), (5,6703), (11,3047), (7,4789),
     (13,2579), (5,6707), (11,3049), (17,1973), (5,6709), (7,4793), (13,2581), (23,1459),
     (37,907), (5,6713), (59,569), (5,6715), (11,3053), (7,4799), (5,6719), (5,6721), (7,4801),
     (19,1769), (5,6725), (13,2587), (5,6727), (17,1979), (7,4807), (73,461), (5,6731),
     (97,347), (41,821), (5,6733), (131,257), (11,3061), (151,223), (7,4811), (13,2591),
     (5,6737), (59,571), (7,4813), (5,6739), (31,1087), (67,503), (37,911), (13,2593),
     (5,6743), (7,4817), (5,6745), (29,1163), (89,379), (7,4819), (11,3067), (41,823),
     (5,6749), (5,6751), (7,4823), (19,1777), (5,6755), (17,1987), (11,3071), (5,6757),
     (13,2599), (47,719), (73,463), (7,4829), (5,6761), (5,6763), (7,4831), (31,1091),
     (149,227), (23,1471), (5,6767), (13,2603), (43,787), (5,6769), (11,3077), (97,349),
     (7,4837), (5,6773), (11,3079), (5,6775), (19,1783), (17,1993), (31,1093), (7,4841),
     (5,6779), (109,311), (7,4843), (5,6781), (41,827), (11,3083), (13,2609), (107,317),
     (5,6785), (7,4847), (5,6787), (7,4849), (83,409), (17,1997), (19,1787), (5,6791),
     (29,1171), (5,6793), (7,4853), (53,641), (61,557), (11,3089), (17,1999), (5,6797),
     (41,829), (19,1789), (5,6799), (11,3091), (37,919), (31,1097), (71,479), (7,4859),
     (5,6803), (13,2617), (5,6805), (7,4861), (101,337), (59,577), (5,6809), (79,431),
     (17,2003), (5,6811), (23,1481), (11,3097), (7,4867), (13,2621), (5,6815), (53,643),
     (173,197), (5,6817), (89,383), (73,467), (103,331), (7,4871), (13,2623), (67,509),
     (5,6821), (23,1483), (7,4873), (5,6823), (109,313), (149,229), (11,3103), (5,6827),
     (7,4877), (5,6829), (13,2627), (7,4879), (127,269), (5,6833), (47,727), (5,6835),
     (11,3107), (7,4883), (17,2011), (179,191), (31,1103), (5,6839), (11,3109), (23,1487),
     (5,6841), (79,433), (19,1801), (7,4889), (5,6845), (13,2633), (5,6847), (7,4891),
     (97,353), (11,3113), (23,1489), (29,1181), (5,6851), (5,6853), (43,797), (151,227),
     (7,4897), (5,6857), (17,2017), (53,647), (5,6859), (7,4901), (11,3119), (5,6863),
     (7,4903), (5,6865), (11,3121), (13,2641), (23,1493), (61,563), (5,6869), (7,4907),
     (5,6871), (17,2021), (7,4909), (37,929), (5,6875), (31,1109), (5,6877), (137,251),
     (7,4913), (163,211), (11,3127), (41,839), (5,6881), (19,1811), (13,2647), (5,6883),
     (127,271), (29,1187), (173,199), (7,4919), (5,6887), (11,3131), (5,6889), (7,4921),
     (47,733), (131,263), (17,2027), (11,3133), (5,6893), (5,6895), (23,1499), (29,1189),
     (7,4927), (17,2029), (5,6899), (5,6901), (11,3137), (7,4931), (19,1817), (5,6905),
     (11,3139), (7,4933), (5,6907), (13,2657), (179,193), (109,317), (5,6911), (7,4937),
     (17,2033), (5,6913), (13,2659), (181,191), (7,4939), (71,487), (151,229), (5,6917),
     (5,6919), (29,1193), (7,4943), (53,653), (5,6923), (13,2663), (89,389), (5,6925),
     (31,1117), (59,587), (19,1823), (11,3149), (7,4949), (5,6929), (5,6931), (7,4951),
     (11,3151), (17,2039), (37,937), (5,6935), (79,439), (5,6937), (113,307), (13,2669),
     (7,4957), (5,6941), (61,569), (103,337), (5,6943), (149,233), (13,2671), (7,4961),
     (47,739), (5,6947)] =
   Some (34741, 4)"
  unfolding prime_rows_315_def by (simp only: walk_eval cong: walk_num_cong if_weak_cong)

lemma walk_325:
  "walk 34741 4 prime_rows_325
    [(7,4963), (5,6949), (19,1829), (23,1511), (5,6953), (7,4967), (11,3161), (5,6955),
     (83,419), (7,4969), (43,809), (19,1831), (11,3163), (5,6959), (17,2047), (13,2677),
     (5,6961), (7,4973), (31,1123), (37,941), (97,359), (5,6965), (29,1201), (61,571),
     (5,6967), (11,3167), (7,4979), (5,6971), (11,3169), (71,491), (5,6973), (7,4981),
     (43,811), (13,2683), (5,6977), (139,251), (23,1517), (5,6979), (17,2053), (11,3173),
     (67,521), (7,4987), (5,6983), (47,743), (5,6985), (53,659), (13,2687), (181,193),
     (7,4991), (83,421), (5,6989), (7,4993), (5,6991), (13,2689), (73,479), (11,3179),
     (41,853), (5,6995), (7,4997), (5,6997), (59,593), (11,3181), (7,4999), (79,443),
     (31,1129), (17,2059), (5,7001), (13,2693), (157,223), (5,7003), (19,1843), (7,5003),
     (23,1523), (53,661), (5,7007), (37,947), (67,523), (5,7009), (101,347), (11,3187),
     (7,5009), (5,7013), (17,2063), (5,7015), (7,5011), (13,2699), (19,1847), (5,7019),
     (11,3191), (5,7021), (13,2701), (7,5017), (11,3193), (5,7025), (19,1849), (5,7027),
     (41,857), (113,311), (7,5021), (5,7031), (7,5023), (5,7033), (11,3197), (17,2069),
     (29,1213), (127,277), (151,233), (5,7037), (7,5027), (13,2707), (5,7039), (61,577),
     (7,5029), (17,2071), (137,257), (23,1531), (5,7043), (41,859), (5,7045), (7,5033),
     (11,3203), (167,211), (131,269), (13,2711), (5,7049), (101,349), (5,7051), (37,953),
     (179,197), (13,2713), (7,5039), (5,7055), (5,7057), (7,5041), (29,1217), (47,751),
     (11,3209), (43,821), (5,7061), (17,2077), (5,7063), (11,3211), (7,5047), (89,397),
     (5,7067), (59,599), (5,7069), (13,2719), (23,1537), (7,5051), (19,1861), (5,7073),
     (113,313), (7,5053), (5,7075), (17,2081), (41,863), (11,3217), (43,823), (5,7079),
     (7,5057), (5,7081), (17,2083), (7,5059), (107,331), (5,7085), (71,499), (11,3221),
     (5,7087), (7,5063), (23,1541), (11,3223), (5,7091), (59,601), (5,7093), (29,1223),
     (79,449), (19,1867), (13,2729), (17,2087), (7,5069), (5,7097), (23,1543), (5,7099),
     (7,5071), (131,271), (13,2731), (17,2089), (5,7103), (11,3229), (5,7105), (7,5077),
     (5,7109), (19,1871), (73,487), (5,7111), (31,1147), (43,827), (11,3233), (7,5081),
     (5,7115), (47,757), (7,5083), (5,7117), (19,1873), (97,367), (5,7121), (7,5087),
     (149,239), (5,7123), (179,199), (7,5089), (23,1549), (11,3239), (13,2741), (5,7127),
     (157,227), (29,1229), (5,7129), (43,829), (7,5093), (101,353), (181,197), (13,2743),
     (19,1877), (5,7133), (53,673), (5,7135), (31,1151), (17,2099), (127,281), (89,401),
     (7,5099), (5,7139), (29,1231), (19,1879), (5,7141), (7,5101), (13,2747), (71,503),
     (11,3247), (23,1553), (139,257), (5,7145), (5,7147), (13,2749), (103,347), (31,1153),
     (7,5107), (5,7151), (11,3251), (5,7153), (47,761), (83,431), (7,5111), (37,967),
     (11,3253), (5,7157), (13,2753), (7,5113), (5,7159), (61,587), (59,607), (5,7163),
     (7,5117), (113,317), (5,7165), (11,3257), (7,5119), (73,491), (5,7169), (11,3259),
     (5,7171), (23,1559), (7,5123), (13,2759), (29,1237), (5,7175), (53,677), (5,7177),
     (17,2111), (19,1889), (11,3263), (7,5129), (5,7181), (149,241), (5,7183), (7,5131),
     (17,2113), (37,971), (19,1891), (5,7187), (83,433), (127,283), (5,7189), (103,349),
     (157,229), (41,877), (7,5137), (5,7193), (13,2767), (5,7195), (11,3271), (7,5141),
     (17,2117), (5,7199), (7,5143), (5,7201), (181,199), (13,2771), (5,7205), (7,5147),
     (137,263), (5,7207), (23,1567), (7,5149), (11,3277), (13,2773), (31,1163), (5,7211),
     (107,337), (5,7213), (7,5153), (43,839), (109,331), (5,7217), (151,239), (11,3281),
     (5,7219), (13,2777), (79,457), (7,5159), (5,7223), (19,1901), (41,881), (5,7225),
     (7,5161), (23,1571), (71,509), (47,769), (5,7229), (37,977), (5,7231), (11,3287)] =
   Some (36163, 4)"
  unfolding prime_rows_325_def by (simp only: walk_eval cong: walk_num_cong if_weak_cong)

lemma walk_335:
  "walk 36163 4 prime_rows_335
    [(29,1247), (59,613), (7,5167), (61,593), (5,7235), (11,3289), (97,373), (5,7237),
     (17,2129), (7,5171), (53,683), (41,883), (5,7241), (7,5173), (5,7243), (29,1249),
     (11,3293), (17,2131), (19,1907), (5,7247), (7,5177), (5,7249), (67,541), (7,5179),
     (13,2789), (101,359), (5,7253), (19,1909), (5,7255), (7,5183), (13,2791), (131,277),
     (11,3299), (5,7259), (31,1171), (5,7261), (11,3301), (23,1579), (7,5189), (5,7265),
     (17,2137), (47,773), (5,7267), (7,5191), (19,1913), (163,223), (5,7271), (103,353),
     (13,2797), (5,7273), (41,887), (37,983), (11,3307), (7,5197), (5,7277), (151,241),
     (5,7279), (17,2141), (89,409), (59,617), (7,5201), (23,1583), (13,2801), (5,7283),
     (79,461), (7,5203), (5,7285), (73,499), (17,2143), (83,439), (13,2803), (11,3313),
     (5,7289), (7,5207), (5,7291), (19,1919), (7,5209), (5,7295), (191,191), (5,7297),
     (11,3317), (7,5213), (17,2147), (173,211), (5,7301), (11,3319), (29,1259), (5,7303),
     (13,2809), (59,619), (7,5219), (5,7307), (61,599), (5,7309), (7,5221), (11,3323),
     (139,263), (5,7313), (13,2813), (5,7315), (79,463), (157,233), (7,5227), (23,1591),
     (5,7319), (17,2153), (5,7321), (31,1181), (19,1927), (7,5231), (11,3329), (53,691),
     (5,7325), (7,5233), (5,7327), (11,3331), (13,2819), (67,547), (5,7331), (7,5237),
     (61,601), (5,7333), (37,991), (7,5239), (43,853), (5,7337), (19,1931), (5,7339), (7,5243),
     (17,2159), (11,3337), (5,7343), (73,503), (5,7345), (19,1933), (23,1597), (109,337),
     (17,2161), (7,5249), (5,7349), (11,3341), (5,7351), (7,5251), (97,379), (83,443),
     (11,3343), (5,7355), (5,7357), (31,1187), (7,5257), (13,2831), (5,7361), (131,281),
     (5,7363), (11,3347), (23,1601), (7,5261), (13,2833), (5,7367), (11,3349), (7,5263),
     (5,7369), (43,857), (137,269), (29,1271), (191,193), (5,7373), (7,5267), (5,7375),
     (13,2837), (7,5269), (37,997), (79,467), (5,7379), (5,7381), (13,2839), (7,5273),
     (19,1943), (5,7385), (5,7387), (43,859), (17,2173), (11,3359), (7,5279), (5,7391),
     (13,2843), (23,1607), (5,7393), (7,5281), (11,3361), (103,359), (31,1193), (5,7397),
     (47,787), (71,521), (5,7399), (163,227), (23,1609), (7,5287), (5,7403), (5,7405),
     (61,607), (19,1949), (29,1277), (7,5291), (17,2179), (5,7409), (7,5293), (5,7411),
     (13,2851), (101,367), (19,1951), (131,283), (5,7415), (7,5297), (11,3371), (5,7417),
     (29,1279), (7,5299), (23,1613), (11,3373), (5,7421), (43,863), (17,2183), (5,7423),
     (7,5303), (137,271), (107,347), (71,523), (5,7427), (13,2857), (5,7429), (11,3377),
     (97,383), (53,701), (73,509), (7,5309), (5,7433), (11,3379), (5,7435), (7,5311),
     (19,1957), (41,907), (13,2861), (5,7439), (5,7441), (29,1283), (127,293), (11,3383),
     (7,5317), (5,7445), (59,631), (31,1201), (5,7447), (23,1619), (167,223), (7,5321),
     (193,193), (5,7451), (19,1961), (7,5323), (5,7453), (83,449), (13,2867), (11,3389),
     (23,1621), (5,7457), (7,5327), (89,419), (5,7459), (13,2869), (11,3391), (7,5329),
     (5,7463), (67,557), (5,7465), (163,229), (7,5333), (37,1009), (107,349), (5,7469),
     (13,2873), (41,911), (5,7471), (11,3397), (7,5339), (5,7475), (29,1289), (5,7477),
     (7,5341), (139,269), (61,613), (149,251), (113,331), (5,7481), (11,3401), (5,7483),
     (17,2201), (23,1627), (13,2879), (7,5347), (11,3403), (5,7487), (29,1291), (5,7489),
     (17,2203), (13,2881), (7,5351), (47,797), (5,7493), (89,421), (7,5353), (5,7495),
     (11,3407), (37,1013), (19,1973), (5,7499), (7,5357), (5,7501)] =
   Some (37511, 2)"
  unfolding prime_rows_335_def by (simp only: walk_eval cong: walk_num_cong if_weak_cong)

lemma walk_345:
  "walk 37511 2 prime_rows_345
    [(7,5359), (17,2207), (157,239), (5,7505), (13,2887), (5,7507), (7,5363), (11,3413),
     (17,2209), (5,7511), (23,1633), (5,7513), (53,709), (7,5369), (5,7517), (5,7519),
     (7,5371), (19,1979), (31,1213), (11,3419), (29,1297), (5,7523), (17,2213), (5,7525),
     (191,197), (11,3421), (61,617), (7,5377), (5,7529), (23,1637), (5,7531), (13,2897),
     (7,5381), (139,271), (101,373), (5,7535), (41,919), (7,5383), (5,7537), (13,2899),
     (11,3427), (37,1019), (5,7541), (7,5387), (43,877), (5,7543), (67,563), (7,5389),
     (31,1217), (29,1301), (97,389), (5,7547), (13,2903), (11,3431), (5,7549), (7,5393),
     (19,1987), (17,2221), (61,619), (11,3433), (5,7553), (179,211), (107,353), (5,7555),
     (37,1021), (29,1303), (23,1643), (7,5399), (5,7559), (103,367), (5,7561), (7,5401),
     (13,2909), (59,641), (109,347), (5,7565), (11,3439), (5,7567), (157,241), (79,479),
     (13,2911), (7,5407), (5,7571), (17,2227), (5,7573), (19,1993), (11,3443), (7,5411),
     (43,881), (5,7577), (7,5413), (5,7579), (151,251), (29,1307), (167,227), (31,1223),
     (5,7583), (7,5417), (13,2917), (5,7585), (17,2231), (83,457), (7,5419), (59,643),
     (11,3449), (19,1997), (5,7589), (137,277), (5,7591), (7,5423), (43,883), (13,2921),
     (5,7595), (163,233), (19,1999), (5,7597), (13,2923), (7,5429), (5,7601), (191,199),
     (5,7603), (7,5431), (193,197), (47,809), (11,3457), (17,2237), (73,521), (5,7607),
     (109,349), (5,7609), (13,2927), (19,2003), (7,5437), (17,2239), (5,7613), (11,3461),
     (5,7615), (13,2929), (113,337), (7,5441), (41,929), (11,3463), (5,7619), (31,1229),
     (7,5443), (5,7621), (53,719), (23,1657), (47,811), (67,569), (5,7625), (7,5447),
     (17,2243), (5,7627), (11,3467), (43,887), (7,5449), (37,1031), (5,7631), (11,3469),
     (31,1231), (5,7633), (7,5453), (59,647), (73,523), (5,7637), (181,211), (5,7639),
     (11,3473), (13,2939), (19,2011), (7,5459), (5,7643), (37,1033), (5,7645), (7,5461),
     (13,2941), (167,229), (5,7649), (23,1663), (29,1319), (5,7651), (67,571), (83,461),
     (17,2251), (7,5467), (5,7655), (101,379), (5,7657), (11,3481), (149,257), (7,5471),
     (5,7661), (29,1321), (7,5473), (5,7663), (19,2017), (5,7667), (7,5477), (23,1667),
     (5,7669), (31,1237), (7,5479), (11,3487), (89,431), (13,2951), (5,7673), (17,2257),
     (5,7675), (7,5483), (131,293), (23,1669), (13,2953), (5,7679), (19,2021), (11,3491),
     (5,7681), (193,199), (71,541), (107,359), (41,937), (103,373), (7,5489), (5,7685),
     (83,463), (5,7687), (7,5491), (13,2957), (37,1039), (5,7691), (5,7693), (11,3497),
     (17,2263), (79,487), (109,353), (7,5497), (29,1327), (5,7697), (11,3499), (61,631),
     (5,7699), (137,281), (139,277), (7,5501), (97,397), (19,2027), (5,7703), (13,2963),
     (7,5503), (5,7705), (59,653), (53,727), (11,3503), (89,433), (17,2267), (5,7709),
     (7,5507), (19,2029), (5,7711), (7,5509), (17,2269), (5,7715), (173,223), (41,941),
     (5,7717), (47,821), (7,5513), (13,2969), (11,3509), (5,7721), (5,7723), (23,1679),
     (11,3511), (13,2971), (19,2033), (7,5519), (5,7727), (17,2273), (5,7729), (7,5521),
     (29,1333), (67,577), (23,1681), (5,7733), (5,7735), (47,823), (101,383), (11,3517),
     (7,5527), (5,7739), (13,2977), (5,7741), (7,5531), (31,1249), (5,7745), (7,5533),
     (5,7747), (19,2039), (17,2279), (11,3523), (5,7751), (7,5537), (83,467), (5,7753),
     (137,283), (7,5539), (17,2281), (13,2983), (5,7757), (79,491), (5,7759), (11,3527),
     (7,5543), (151,257), (197,197), (37,1049), (5,7763), (11,3529), (5,7765), (41,947),
     (13,2987), (71,547), (7,5549), (5,7769), (53,733), (5,7771), (7,5551), (11,3533),
     (47,827), (5,7775), (17,2287), (59,659), (5,7777), (37,1051), (19,2047), (97,401),
     (7,5557), (5,7781), (13,2993), (167,233), (5,7783)] =
   Some (38923, 4)"
  unfolding prime_rows_345_def by (simp only: walk_eval cong: walk_num_cong if_weak_cong)

lemma walk_355:
  "walk 38923 4 prime_rows_355
    [(7,5561), (11,3539), (5,7787), (23,1693), (7,5563), (5,7789), (17,2291), (11,3541),
     (163,239), (47,829), (5,7793), (7,5567), (5,7795), (17,2293), (7,5569), (13,2999),
     (127,307), (5,7799), (59,661), (43,907), (5,7801), (19,2053), (7,5573), (13,3001),
     (11,3547), (5,7805), (31,1259), (23,1697), (5,7807), (103,379), (17,2297), (7,5579),
     (5,7811), (139,281), (11,3551), (5,7813), (7,5581), (89,439), (41,953), (23,1699),
     (11,3553), (5,7817), (13,3007), (5,7819), (61,641), (7,5587), (5,7823), (19,2059),
     (5,7825), (11,3557), (109,359), (7,5591), (13,3011), (5,7829), (11,3559), (7,5593),
     (5,7831), (53,739), (13,3013), (43,911), (5,7835), (7,5597), (5,7837), (149,263),
     (7,5599), (19,2063), (197,199), (5,7841), (113,347), (5,7843), (7,5603), (61,643),
     (5,7847), (5,7849), (13,3019), (17,2309), (37,1061), (11,3569), (7,5609), (5,7853),
     (107,367), (173,227), (5,7855), (7,5611), (11,3571), (163,241), (17,2311), (101,389),
     (5,7859), (13,3023), (5,7861), (23,1709), (19,2069), (7,5617), (5,7865), (67,587),
     (37,1063), (5,7867), (139,283), (7,5621), (19,2071), (23,1711), (5,7871), (7,5623),
     (5,7873), (13,3029), (53,743), (5,7877), (7,5627), (11,3581), (5,7879), (31,1271),
     (7,5629), (157,251), (11,3583), (5,7883), (79,499), (5,7885), (89,443), (7,5633),
     (47,839), (113,349), (5,7889), (103,383), (5,7891), (11,3587), (19,2077), (61,647),
     (29,1361), (7,5639), (5,7895), (11,3589), (13,3037), (5,7897), (7,5641), (17,2323),
     (73,541), (127,311), (5,7901), (5,7903), (43,919), (11,3593), (29,1363), (7,5647),
     (13,3041), (5,7907), (19,2081), (5,7909), (71,557), (37,1069), (7,5651), (13,3043),
     (5,7913), (7,5653), (5,7915), (19,2083), (23,1721), (31,1277), (11,3599), (17,2329),
     (5,7919), (7,5657), (199,199), (5,7921), (11,3601), (7,5659), (173,229), (5,7925),
     (23,1723), (5,7927), (13,3049), (7,5663), (29,1367), (41,967), (31,1279), (19,2087),
     (5,7931), (17,2333), (5,7933), (97,409), (11,3607), (7,5669), (5,7937), (13,3053),
     (19,2089), (5,7939), (7,5671), (29,1369), (59,673), (151,263), (5,7943), (11,3611),
     (5,7945), (67,593), (79,503), (7,5677), (11,3613), (5,7949), (127,313), (5,7951),
     (83,479), (17,2339), (7,5681), (31,1283), (5,7955), (7,5683), (5,7957), (11,3617),
     (13,3061), (17,2341), (53,751), (5,7961), (7,5687), (41,971), (5,7963), (29,1373),
     (7,5689), (61,653), (5,7967), (5,7969), (7,5693), (11,3623), (23,1733), (5,7973),
     (13,3067), (5,7975), (19,2099), (113,353), (7,5699), (5,7979), (17,2347), (5,7981),
     (7,5701), (107,373), (167,239), (179,223), (11,3629), (13,3071), (5,7985), (73,547),
     (5,7987), (11,3631), (59,677), (43,929), (7,5707), (5,7991), (31,1289), (89,449),
     (5,7993), (17,2351), (71,563), (7,5711), (5,7997), (7,5713), (5,7999), (23,1739),
     (13,3077), (109,367), (11,3637), (5,8003), (7,5717), (31,1291), (5,8005), (13,3079),
     (7,5719), (23,1741), (5,8009), (29,1381), (11,3641), (5,8011), (41,977), (7,5723),
     (103,389), (17,2357), (11,3643), (5,8015), (13,3083), (149,269), (5,8017), (47,853),
     (101,397), (7,5729), (5,8021), (19,2111), (5,8023), (7,5731), (53,757), (67,599),
     (5,8027), (11,3649), (137,293), (5,8029), (19,2113), (13,3089), (7,5737), (5,8033),
     (17,2363), (5,8035), (23,1747), (11,3653), (7,5741), (5,8039), (61,659), (7,5743),
     (5,8041), (31,1297), (79,509), (131,307), (37,1087), (19,2117), (5,8045), (7,5747),
     (5,8047), (7,5749), (167,241), (11,3659), (5,8051), (127,317), (13,3097), (5,8053),
     (67,601), (7,5753), (17,2369), (47,857)] =
   Some (40285, 4)"
  unfolding prime_rows_355_def by (simp only: walk_eval cong: walk_num_cong if_weak_cong)

lemma walk_365:
  "walk 40285 4 prime_rows_365
    [(5,8057), (43,937), (5,8059), (59,683), (191,211), (41,983), (17,2371), (173,233),
     (7,5759), (5,8063), (23,1753), (61,661), (5,8065), (7,5761), (31,1301), (53,761),
     (11,3667), (13,3103), (5,8069), (157,257), (5,8071), (181,223), (37,1091), (7,5767),
     (47,859), (5,8075), (149,271), (11,3671), (5,8077), (13,3107), (31,1303), (7,5771),
     (71,569), (11,3673), (5,8081), (17,2377), (7,5773), (5,8083), (13,3109), (83,487),
     (5,8087), (7,5777), (37,1093), (5,8089), (11,3677), (19,2129), (7,5779), (23,1759),
     (43,941), (5,8093), (11,3679), (5,8095), (17,2381), (7,5783), (19,2131), (5,8099),
     (101,401), (5,8101), (17,2383), (11,3683), (31,1307), (7,5789), (5,8105), (5,8107),
     (7,5791), (71,571), (13,3119), (23,1763), (107,379), (5,8111), (47,863), (5,8113),
     (113,359), (29,1399), (13,3121), (7,5797), (5,8117), (37,1097), (5,8119), (11,3691),
     (19,2137), (7,5801), (17,2389), (5,8123), (151,269), (7,5803), (5,8125), (41,991),
     (179,227), (97,419), (5,8129), (7,5807), (13,3127), (5,8131), (109,373), (73,557),
     (7,5809), (11,3697), (67,607), (89,457), (5,8135), (19,2141), (17,2393), (5,8137),
     (23,1769), (7,5813), (13,3131), (5,8141), (11,3701), (5,8143), (19,2143), (43,947),
     (193,211), (139,293), (13,3133), (7,5819), (5,8147), (131,311), (5,8149), (7,5821),
     (83,491), (53,769), (5,8153), (59,691), (5,8155), (11,3707), (13,3137), (17,2399),
     (7,5827), (19,2147), (5,8159), (11,3709), (5,8161), (13,3139), (37,1103), (7,5831),
     (5,8165), (7,5833), (5,8167), (97,421), (11,3713), (5,8171), (7,5837), (29,1409),
     (5,8173), (23,1777), (7,5839), (41,997), (5,8177), (31,1319), (103,397), (5,8179),
     (7,5843), (19,2153), (11,3719), (163,251), (5,8183), (17,2407), (151,271), (5,8185),
     (11,3721), (13,3149), (7,5849), (5,8189), (31,1321), (5,8191), (7,5851), (13,3151),
     (71,577), (53,773), (5,8195), (43,953), (107,383), (5,8197), (17,2411), (179,229),
     (11,3727), (7,5857), (131,313), (5,8201), (23,1783), (5,8203), (17,2413), (7,5861),
     (89,461), (37,1109), (5,8207), (7,5863), (5,8209), (61,673), (19,2161), (11,3733),
     (5,8213), (7,5867), (67,613), (5,8215), (7,5869), (181,227), (17,2417), (13,3161),
     (5,8219), (73,563), (23,1787), (5,8221), (11,3737), (7,5873), (13,3163), (17,2419),
     (5,8225), (11,3739), (5,8227), (31,1327), (23,1789), (7,5879), (5,8231), (79,521),
     (5,8233), (7,5881), (13,3167), (11,3743), (5,8237), (17,2423), (5,8239), (13,3169),
     (89,463), (7,5887), (5,8243), (47,877), (5,8245), (7,5891), (11,3749), (5,8249),
     (13,3173), (7,5893), (5,8251), (11,3751), (29,1423), (149,277), (5,8255), (7,5897),
     (5,8257), (19,2173), (157,263), (7,5899), (61,677), (103,401), (5,8261), (101,409),
     (109,379), (5,8263), (79,523), (7,5903), (31,1333), (11,3757), (37,1117), (5,8267),
     (67,617), (5,8269), (173,239), (13,3181), (59,701), (7,5909), (5,8273), (41,1009),
     (11,3761), (5,8275), (7,5911), (29,1427), (11,3763), (5,8279), (19,2179), (5,8281),
     (47,881), (83,499), (7,5917), (23,1801), (5,8285), (17,2437), (13,3187), (5,8287),
     (11,3767), (29,1429), (7,5921), (181,229), (5,8291), (11,3769), (7,5923), (5,8293),
     (113,367), (67,619), (19,2183), (13,3191), (5,8297), (7,5927), (5,8299), (17,2441),
     (47,883), (7,5929), (13,3193), (5,8303), (5,8305), (131,317), (7,5933), (41,1013),
     (73,569), (5,8309), (37,1123), (5,8311), (29,1433), (13,3197), (89,467), (197,211),
     (11,3779), (7,5939), (5,8315), (43,967), (5,8317), (7,5941), (11,3781), (17,2447),
     (5,8321), (5,8323), (107,389), (7,5947), (17,2449), (5,8327), (13,3203), (5,8329),
     (23,1811), (7,5951), (61,683), (5,8333)] =
   Some (41671, 4)"
  unfolding prime_rows_365_def by (simp only: walk_eval cong: walk_num_cong if_weak_cong)

lemma walk_375:
  "walk 41671 4 prime_rows_375
    [(7,5953), (5,8335), (71,587), (73,571), (47,887), (173,241), (5,8339), (7,5957),
     (11,3791), (5,8341), (179,233), (53,787), (7,5959), (13,3209), (11,3793), (5,8345),
     (29,1439), (5,8347), (7,5963), (13,3211), (109,383), (83,503), (43,971), (5,8351),
     (5,8353), (11,3797), (37,1129), (41,1019), (7,5969), (5,8357), (11,3799), (23,1817),
     (5,8359), (7,5971), (17,2459), (97,431), (5,8363), (19,2201), (13,3217), (5,8365),
     (151,277), (59,709), (11,3803), (17,2461), (7,5977), (5,8369), (5,8371), (19,2203),
     (41,1021), (7,5981), (149,281), (13,3221), (5,8375), (7,5983), (5,8377), (163,257),
     (11,3809), (5,8381), (7,5987), (5,8383), (167,251), (11,3811), (7,5989), (23,1823),
     (19,2207), (5,8387), (17,2467), (5,8389), (7,5993), (29,1447), (5,8393), (19,2209),
     (5,8395), (13,3229), (11,3817), (199,211), (7,5999), (5,8399), (97,433), (5,8401),
     (7,6001), (43,977), (5,8405), (13,3233), (11,3821), (5,8407), (127,331), (17,2473),
     (19,2213), (7,6007), (11,3823), (5,8411), (137,307), (5,8413), (23,1829), (7,6011),
     (29,1451), (5,8417), (7,6013), (5,8419), (11,3827), (71,593), (13,3239), (17,2477),
     (23,1831), (5,8423), (7,6017), (73,577), (5,8425), (103,409), (7,6019), (29,1453),
     (17,2479), (5,8429), (113,373), (61,691), (5,8431), (7,6023), (11,3833), (149,283),
     (181,233), (5,8435), (5,8437), (31,1361), (19,2221), (7,6029), (5,8441), (13,3247),
     (5,8443), (7,6031), (11,3839), (157,269), (5,8447), (53,797), (5,8449), (83,509),
     (11,3841), (29,1457), (7,6037), (13,3251), (5,8453), (43,983), (41,1031), (5,8455),
     (67,631), (7,6041), (13,3253), (5,8459), (7,6043), (5,8461), (29,1459), (17,2489),
     (11,3847), (101,419), (5,8465), (7,6047), (5,8467), (13,3257), (7,6049), (17,2491),
     (41,1033), (5,8471), (11,3851), (5,8473), (13,3259), (7,6053), (31,1367), (11,3853),
     (5,8477), (19,2231), (5,8479), (109,389), (7,6059), (5,8483), (13,3263), (59,719),
     (5,8485), (7,6061), (151,281), (31,1369), (5,8489), (11,3859), (5,8491), (7,6067),
     (5,8495), (107,397), (23,1847), (5,8497), (11,3863), (7,6071), (19,2237), (5,8501),
     (7,6073), (5,8503), (17,2501), (101,421), (13,3271), (23,1849), (71,599), (5,8507),
     (7,6077), (19,2239), (5,8509), (157,271), (17,2503), (7,6079), (11,3869), (31,1373),
     (5,8513), (5,8515), (7,6083), (97,439), (37,1151), (191,223), (5,8519), (41,1039),
     (13,3277), (5,8521), (137,311), (43,991), (19,2243), (17,2507), (7,6089), (5,8525),
     (47,907), (89,479), (5,8527), (7,6091), (11,3877), (13,3281), (5,8531), (29,1471),
     (37,1153), (5,8533), (71,601), (139,307), (7,6097), (5,8537), (11,3881), (5,8539),
     (7,6101), (11,3883), (5,8543), (7,6103), (5,8545), (13,3287), (151,283), (79,541),
     (5,8549), (7,6107), (5,8551), (11,3887), (61,701), (7,6109), (19,2251), (5,8555),
     (11,3889), (179,239), (5,8557), (7,6113), (127,337), (23,1861), (5,8561), (13,3293),
     (31,1381), (5,8563), (47,911), (11,3893), (113,379), (7,6119), (5,8567), (5,8569),
     (7,6121), (73,587), (17,2521), (5,8573), (163,263), (43,997), (5,8575), (53,809),
     (137,313), (19,2257), (13,3299), (7,6127), (59,727), (5,8579), (5,8581), (107,401),
     (11,3901), (13,3301), (7,6131), (167,257), (5,8585), (7,6133), (5,8587), (23,1867),
     (67,641), (29,1481)] =
   Some (42955, 4)"
  unfolding prime_rows_375_def by (simp only: walk_eval cong: walk_num_cong if_weak_cong)

lemma walk_385:
  "walk 42955 4 prime_rows_385
    [(5,8591), (7,6137), (5,8593), (97,443), (7,6139), (11,3907), (53,811), (5,8597),
     (13,3307), (5,8599), (19,2263), (7,6143), (29,1483), (41,1049), (5,8603), (11,3911),
     (5,8605), (17,2531), (37,1163), (23,1871), (193,223), (7,6149), (5,8609), (5,8611),
     (7,6151), (17,2533), (13,3313), (19,2267), (5,8615), (23,1873), (67,643), (5,8617),
     (11,3917), (41,1051), (71,607), (7,6157), (5,8621), (11,3919), (19,2269), (5,8623),
     (13,3317), (29,1487), (7,6161), (17,2537), (5,8627), (179,241), (7,6163), (5,8629),
     (13,3319), (11,3923), (103,419), (17,2539), (5,8633), (7,6167), (23,1877), (5,8635),
     (29,1489), (7,6169), (19,2273), (47,919), (5,8639), (13,3323), (5,8641), (7,6173),
     (79,547), (23,1879), (11,3929), (5,8645), (139,311), (17,2543), (5,8647), (11,3931),
     (83,521), (59,733), (61,709), (7,6179), (5,8651), (181,239), (5,8653), (7,6181),
     (109,397), (13,3329), (113,383), (5,8657), (73,593), (5,8659), (29,1493), (19,2279),
     (13,3331), (11,3937), (7,6187), (5,8663), (5,8665), (37,1171), (17,2549), (7,6191),
     (19,2281), (89,487), (5,8669), (67,647), (7,6193), (5,8671), (191,227), (131,331),
     (103,421), (17,2551), (31,1399), (11,3943), (5,8675), (7,6197), (13,3337), (5,8677),
     (43,1009), (7,6199), (5,8681), (83,523), (5,8683), (11,3947), (7,6203), (173,251),
     (137,317), (13,3341), (5,8687), (11,3949), (5,8689), (23,1889), (19,2287), (13,3343),
     (7,6209), (5,8693), (17,2557), (29,1499), (5,8695), (7,6211), (11,3953), (157,277),
     (23,1891), (5,8699), (41,1061), (5,8701), (139,313), (13,3347), (53,821), (7,6217),
     (71,613), (5,8705), (19,2291), (101,431), (5,8707), (13,3349), (7,6221), (11,3959),
     (97,449), (5,8711), (43,1013), (7,6223), (5,8713), (19,2293), (11,3961), (41,1063),
     (5,8717), (7,6227), (5,8719), (59,739), (7,6229), (5,8723), (53,823), (181,241), (5,8725),
     (7,6233), (11,3967), (17,2567), (19,2297), (5,8729), (5,8731), (149,293), (47,929),
     (13,3359), (7,6239), (5,8735), (31,1409), (11,3971), (5,8737), (7,6241), (13,3361),
     (37,1181), (89,491), (11,3973), (5,8741), (109,401), (5,8743), (23,1901), (73,599),
     (7,6247), (101,433), (5,8747), (191,229), (17,2573), (5,8749), (11,3977), (67,653),
     (7,6251), (107,409), (5,8753), (11,3979), (7,6253), (5,8755), (5,8759), (7,6257),
     (5,8761), (71,617), (193,227), (7,6259), (43,1019), (29,1511), (13,3371), (5,8765),
     (41,1069), (53,827), (5,8767), (59,743), (7,6263), (17,2579), (163,269), (13,3373),
     (5,8771), (61,719), (23,1907), (5,8773), (19,2309), (73,601), (17,2581), (11,3989),
     (7,6269), (5,8777), (5,8779), (7,6271), (11,3991), (43,1021), (23,1909), (19,2311),
     (5,8783), (37,1187), (167,263), (5,8785), (13,3379), (197,223), (53,829), (7,6277),
     (5,8789), (71,619), (5,8791), (113,389), (7,6281), (5,8795), (13,3383), (7,6283),
     (5,8797), (29,1517), (23,1913), (79,557), (5,8801), (7,6287), (11,4001), (5,8803),
     (7,6289), (11,4003), (5,8807), (47,937), (5,8809), (17,2591), (7,6293), (13,3389),
     (139,317), (5,8813), (127,347), (5,8815), (11,4007), (17,2593), (13,3391), (7,6299),
     (5,8819), (11,4009), (5,8821), (7,6301), (31,1423), (157,281), (5,8825), (5,8827),
     (19,2323), (37,1193), (11,4013), (131,337), (7,6307), (67,659), (5,8831), (13,3397),
     (5,8833), (29,1523), (163,271), (7,6311), (17,2599), (5,8837), (7,6313), (5,8839),
     (193,229), (11,4019), (13,3401), (5,8843), (7,6317), (5,8845), (47,941), (11,4021),
     (7,6319), (31,1427), (13,3403), (151,293), (5,8849), (17,2603), (5,8851), (7,6323),
     (5,8855), (5,8857), (67,661), (13,3407), (11,4027), (31,1429), (7,6329), (5,8861),
     (59,751), (73,607), (5,8863), (7,6331), (23,1927), (127,349), (19,2333), (97,457),
     (43,1031), (5,8867), (101,439), (11,4031), (5,8869), (61,727), (17,2609), (7,6337),
     (11,4033), (5,8873), (13,3413), (5,8875), (199,223), (7,6341), (103,431), (5,8879),
     (29,1531), (7,6343), (5,8881), (11,4037), (89,499), (23,1931), (43,1033), (31,1433),
     (5,8885), (7,6347), (157,283), (5,8887), (37,1201), (19,2339), (7,6349), (13,3419)] =
   Some (44453, 2)"
  unfolding prime_rows_385_def by (simp only: walk_eval cong: walk_num_cong if_weak_cong)

lemma walk_395:
  "walk 44453 2 prime_rows_395
    [(5,8891), (23,1933), (173,257), (5,8893), (53,839), (7,6353), (11,4043), (79,563),
     (19,2341), (5,8897), (17,2617), (5,8899), (191,233), (47,947), (7,6359), (5,8903),
     (211,211), (5,8905), (7,6361), (11,4049), (5,8909), (13,3427), (5,8911), (17,2621),
     (11,4051), (41,1087), (7,6367), (29,1537), (5,8915), (109,409), (5,8917), (17,2623),
     (19,2347), (7,6371), (103,433), (13,3431), (5,8921), (31,1439), (7,6373), (5,8923),
     (11,4057), (13,3433), (5,8927), (7,6377), (5,8929), (7,6379), (17,2627), (59,757),
     (5,8933), (19,2351), (11,4061), (5,8935), (43,1039), (7,6383), (23,1943), (11,4063),
     (5,8939), (5,8941), (13,3439), (61,733), (97,461), (197,227), (7,6389), (5,8945),
     (41,1091), (5,8947), (7,6391), (101,443), (29,1543), (73,613), (5,8951), (11,4069),
     (17,2633), (5,8953), (89,503), (7,6397), (19,2357), (5,8957), (47,953), (5,8959),
     (71,631), (11,4073), (7,6401), (41,1093), (5,8963), (7,6403), (5,8965), (23,1949),
     (127,353), (107,419), (13,3449), (5,8969), (7,6407), (5,8971), (31,1447), (113,397),
     (7,6409), (11,4079), (23,1951), (5,8975), (37,1213), (5,8977), (7,6413), (17,2641),
     (59,761), (83,541), (5,8981), (97,463), (5,8983), (29,1549), (167,269), (179,251),
     (7,6419), (5,8987), (13,3457), (5,8989), (7,6421), (79,569), (11,4087), (5,8993),
     (193,233), (5,8995), (41,1097), (31,1451), (7,6427), (13,3461), (5,8999), (17,2647),
     (11,4091), (5,9001), (19,2369), (7,6431), (13,3463), (11,4093), (5,9005), (37,1217),
     (7,6433), (5,9007), (29,1553), (73,617), (31,1453), (107,421), (19,2371), (5,9011),
     (7,6437), (5,9013), (11,4097), (13,3467), (7,6439), (61,739), (5,9017), (11,4099),
     (67,673), (5,9019), (13,3469), (7,6443), (23,1961), (43,1049), (79,571), (197,229),
     (5,9023), (5,9025), (11,4103), (7,6449), (5,9029), (13,3473), (163,277), (5,9031),
     (7,6451), (19,2377), (31,1457), (17,2657), (199,227), (5,9035), (5,9037), (73,619),
     (43,1051), (7,6457), (17,2659), (5,9041), (53,853), (29,1559), (5,9043), (103,439),
     (11,4111), (41,1103), (7,6461), (31,1459), (5,9047), (19,2381), (7,6463), (5,9049),
     (37,1223), (13,3481), (167,271), (5,9053), (7,6467), (17,2663), (5,9055), (19,2383),
     (7,6469), (11,4117), (5,9059), (97,467), (89,509), (5,9061), (7,6473), (113,401),
     (61,743), (5,9065), (11,4121), (5,9067), (137,331), (101,449), (7,6479), (5,9071),
     (67,677), (5,9073), (7,6481), (59,769), (17,2669), (23,1973), (13,3491), (5,9077),
     (19,2389), (5,9079), (11,4127), (83,547), (17,2671), (7,6487), (5,9083), (11,4129),
     (53,857), (5,9085), (181,251), (7,6491), (29,1567), (5,9089), (47,967), (7,6493),
     (5,9091), (131,347), (13,3497), (11,4133), (19,2393), (41,1109), (37,1229), (5,9095),
     (7,6497), (5,9097), (13,3499), (7,6499), (173,263), (5,9101), (17,2677), (71,641),
     (5,9103), (23,1979), (7,6503), (53,859), (11,4139), (5,9107), (13,3503), (5,9109),
     (37,1231), (11,4141), (29,1571), (7,6509), (5,9113), (199,229), (5,9115), (7,6511),
     (19,2399), (79,577), (127,359), (5,9119), (31,1471), (5,9121), (59,773), (17,2683),
     (11,4147), (7,6517), (43,1061), (5,9125), (103,443), (5,9127), (47,971), (13,3511),
     (7,6521), (191,239), (71,643), (5,9131), (7,6523), (5,9133), (109,419), (17,2687),
     (11,4153), (5,9137), (7,6527), (5,9139), (23,1987), (7,6529), (43,1063), (17,2689),
     (5,9143), (131,349), (13,3517), (5,9145), (11,4157), (7,6533), (19,2407), (53,863),
     (149,307), (5,9149), (11,4159), (5,9151), (67,683), (37,1237), (7,6539), (5,9155),
     (17,2693), (5,9157), (7,6541), (29,1579), (11,4163), (41,1117), (13,3523), (163,281),
     (5,9161), (19,2411), (61,751), (5,9163), (7,6547), (5,9167), (23,1993), (5,9169),
     (19,2413), (13,3527)] =
   Some (45857, 2)"
  unfolding prime_rows_395_def by (simp only: walk_eval cong: walk_num_cong if_weak_cong)

lemma walk_405:
  "walk 45857 2 prime_rows_405
    [(7,6551), (11,4169), (5,9173), (7,6553), (5,9175), (13,3529), (11,4171), (17,2699),
     (109,421), (5,9179), (7,6557), (197,233), (5,9181), (29,1583), (31,1481), (7,6559),
     (17,2701), (47,977), (19,2417), (5,9185), (13,3533), (23,1997), (5,9187), (71,647),
     (7,6563), (11,4177), (5,9191), (19,2419), (5,9193), (43,1069), (31,1483), (23,1999),
     (7,6569), (5,9197), (11,4181), (5,9199), (7,6571), (157,293), (179,257), (13,3539),
     (139,331), (11,4183), (5,9203), (17,2707), (5,9205), (191,241), (13,3541), (19,2423),
     (7,6577), (41,1123), (5,9209), (5,9211), (11,4187), (73,631), (7,6581), (23,2003),
     (5,9215), (11,4189), (7,6583), (5,9217), (17,2711), (31,1487), (5,9221), (7,6587),
     (13,3547), (5,9223), (107,431), (17,2713), (7,6589), (193,239), (163,283), (5,9227),
     (29,1591), (5,9229), (7,6593), (101,457), (31,1489), (13,3551), (5,9233), (137,337),
     (5,9235), (61,757), (11,4199), (7,6599), (5,9239), (47,983), (5,9241), (7,6601),
     (11,4201), (37,1249), (113,409), (17,2719), (5,9245), (83,557), (5,9247), (13,3557),
     (131,353), (103,449), (7,6607), (23,2011), (5,9251), (167,277), (5,9253), (13,3559),
     (7,6611), (31,1493), (5,9257), (41,1129), (7,6613), (5,9259), (67,691), (19,2437),
     (29,1597), (5,9263), (7,6617), (11,4211), (5,9265), (107,433), (7,6619), (149,311),
     (11,4213), (5,9269), (5,9271), (151,307), (7,6623), (71,653), (199,233), (89,521),
     (79,587), (5,9275), (19,2441), (5,9277), (11,4217), (23,2017), (17,2729), (13,3569),
     (7,6629), (5,9281), (11,4219), (5,9283), (7,6631), (61,761), (13,3571), (17,2731),
     (29,1601), (59,787), (5,9287), (5,9289), (11,4223), (7,6637), (97,479), (5,9293),
     (31,1499), (5,9295), (53,877), (23,2021), (7,6641), (19,2447), (5,9299), (7,6643),
     (5,9301), (193,241), (181,257), (11,4229), (5,9305), (7,6647), (19,2449), (5,9307),
     (173,269), (11,4231), (7,6649), (89,523), (13,3581), (5,9311), (101,461), (5,9313),
     (7,6653), (47,991), (13,3583), (37,1259), (5,9317), (5,9319), (17,2741), (29,1607),
     (11,4237), (127,367), (7,6659), (5,9323), (23,2027), (5,9325), (7,6661), (13,3587),
     (149,313), (5,9329), (11,4241), (5,9331), (13,3589), (29,1609), (23,2029), (7,6667),
     (11,4243), (5,9335), (5,9337), (53,881), (7,6671), (17,2747), (5,9341), (13,3593),
     (7,6673), (5,9343), (11,4247), (19,2459), (83,563), (17,2749), (5,9347), (7,6677),
     (43,1087), (5,9349), (7,6679), (19,2461), (101,463), (5,9353), (5,9355), (29,1613),
     (7,6683), (11,4253), (13,3599), (71,659), (73,641), (5,9359), (53,883), (17,2753),
     (5,9361), (13,3601), (7,6689), (5,9365), (5,9367), (7,6691), (31,1511), (139,337),
     (79,593), (11,4259), (5,9371), (47,997), (5,9373), (11,4261), (19,2467), (7,6697),
     (173,271), (5,9377), (13,3607), (5,9379), (23,2039), (17,2759), (7,6701), (61,769),
     (43,1091), (5,9383), (7,6703), (5,9385), (167,281), (71,661), (11,4267), (73,643),
     (13,3611), (5,9389), (7,6707), (29,1619), (5,9391), (151,311), (7,6709), (67,701),
     (13,3613), (107,439), (5,9395), (109,431), (11,4271), (5,9397), (19,2473), (7,6713),
     (43,1093), (11,4273), (5,9401), (29,1621), (53,887), (5,9403), (13,3617), (59,797),
     (31,1517), (131,359), (7,6719), (5,9407), (17,2767), (5,9409), (7,6721), (211,223),
     (19,2477), (5,9413), (11,4279), (103,457), (5,9415), (179,263), (23,2047), (197,239),
     (7,6727), (5,9419), (13,3623), (19,2479), (5,9421), (17,2771), (11,4283), (7,6731),
     (5,9425), (7,6733), (5,9427), (17,2773), (61,773), (5,9431), (7,6737), (5,9433),
     (101,467), (43,1097), (7,6739), (13,3629), (11,4289), (29,1627), (5,9437), (41,1151),
     (5,9439), (109,433), (7,6743), (13,3631), (17,2777), (31,1523), (5,9443), (23,2053),
     (5,9445), (83,569), (73,647), (149,317), (97,487), (7,6749), (5,9449), (37,1277),
     (5,9451), (7,6751), (167,283), (151,313), (11,4297), (41,1153), (5,9455), (13,3637),
     (5,9457), (19,2489), (7,6757), (5,9461), (11,4301), (5,9463)] =
   Some (47321, 2)"
  unfolding prime_rows_405_def by (simp only: walk_eval cong: walk_num_cong if_weak_cong)

lemma walk_415:
  "walk 47321 2 prime_rows_415
    [(79,599), (37,1279), (7,6761), (19,2491), (11,4303), (5,9467), (7,6763), (5,9469),
     (113,419), (23,2059), (13,3643), (5,9473), (7,6767), (127,373), (5,9475), (11,4307),
     (7,6769), (83,571), (5,9479), (11,4309), (107,443), (5,9481), (7,6773), (17,2789),
     (47,1009), (5,9485), (43,1103), (5,9487), (13,3649), (11,4313), (17,2791), (23,2063),
     (7,6779), (5,9491), (31,1531), (5,9493), (7,6781), (37,1283), (29,1637), (197,241),
     (79,601), (103,461), (5,9497), (13,3653), (5,9499), (67,709), (7,6787), (5,9503),
     (19,2501), (5,9505), (11,4321), (7,6791), (137,347), (5,9509), (17,2797), (7,6793),
     (5,9511), (19,2503), (199,239), (13,3659), (113,421), (5,9515), (7,6797), (5,9517),
     (23,2069), (7,6799), (11,4327), (181,263), (5,9521), (47,1013), (5,9523), (17,2801),
     (7,6803), (97,491), (19,2507), (5,9527), (11,4331), (5,9529), (29,1643), (17,2803),
     (7,6809), (5,9533), (73,653), (13,3667), (5,9535), (7,6811), (41,1163), (43,1109),
     (103,463), (37,1289), (5,9539), (5,9541), (11,4337), (7,6817), (13,3671), (5,9545),
     (11,4339), (59,809), (5,9547), (7,6821), (13,3673), (17,2809), (5,9551), (163,293),
     (7,6823), (5,9553), (37,1291), (23,2077), (11,4343), (71,673), (5,9557), (7,6827),
     (5,9559), (13,3677), (7,6829), (137,349), (5,9563), (17,2813), (5,9565), (13,3679),
     (7,6833), (31,1543), (11,4349), (5,9569), (59,811), (109,439), (5,9571), (11,4351),
     (23,2081), (151,317), (7,6839), (5,9575), (13,3683), (5,9577), (7,6841), (83,577),
     (47,1019), (211,227), (19,2521), (5,9581), (23,2083), (5,9583), (173,277), (17,2819),
     (11,4357), (7,6847), (5,9587), (191,251), (5,9589), (79,607), (7,6851), (199,241),
     (5,9593), (7,6853), (5,9595), (13,3691), (47,1021), (37,1297), (11,4363), (5,9599),
     (7,6857), (23,2087), (5,9601), (61,787), (41,1171), (7,6859), (31,1549), (5,9605),
     (43,1117), (5,9607), (11,4367), (7,6863), (107,449), (23,2089), (29,1657), (5,9611),
     (11,4369), (13,3697), (5,9613), (71,677), (53,907), (131,367), (7,6869), (5,9617),
     (19,2531), (5,9619), (7,6871), (103,467), (11,4373), (73,659), (13,3701), (5,9623),
     (5,9625), (17,2831), (127,379), (37,1301), (7,6877), (31,1553), (5,9629), (89,541),
     (179,269), (5,9631), (17,2833), (7,6881), (11,4379), (67,719), (5,9635), (7,6883),
     (5,9637), (11,4381), (157,307), (19,2537), (5,9641), (7,6887), (37,1303), (5,9643),
     (13,3709), (7,6889), (29,1663), (17,2837), (139,347), (5,9647), (19,2539), (5,9649),
     (7,6893), (73,661), (11,4387), (17,2839), (5,9653), (13,3713), (5,9655), (23,2099),
     (53,911), (109,443), (43,1123), (7,6899), (5,9659), (11,4391), (5,9661), (7,6901),
     (19,2543), (211,229), (11,4393), (5,9665), (31,1559), (17,2843), (5,9667), (29,1667),
     (13,3719), (7,6907), (5,9671), (37,1307), (137,353), (5,9673), (11,4397), (13,3721),
     (7,6911), (101,479), (5,9677), (11,4399), (7,6913), (5,9679), (29,1669), (97,499),
     (5,9683), (7,6917), (41,1181), (5,9685), (79,613), (19,2549), (7,6919), (59,821),
     (193,251), (5,9689), (13,3727), (5,9691), (47,1031), (7,6923), (17,2851), (19,2551),
     (5,9695), (5,9697), (71,683), (11,4409), (7,6929), (5,9701), (179,271), (139,349),
     (5,9703), (7,6931), (11,4411), (13,3733), (5,9707), (5,9709), (43,1129), (47,1033),
     (23,2111), (59,823), (7,6937), (5,9713), (17,2857), (5,9715), (31,1567), (13,3737),
     (19,2557), (7,6941), (5,9719), (23,2113), (7,6943), (5,9721), (13,3739), (173,281),
     (61,797), (5,9725), (7,6947), (11,4421), (5,9727), (17,2861), (127,383), (7,6949),
     (11,4423), (5,9731), (13,3743), (5,9733), (41,1187), (7,6953), (89,547), (5,9737),
     (181,269), (23,2117), (5,9739), (11,4427), (31,1571), (113,431), (53,919), (67,727),
     (7,6959), (5,9743), (11,4429), (83,587), (5,9745), (7,6961)] =
   Some (48737, 2)"
  unfolding prime_rows_415_def by (simp only: walk_eval cong: walk_num_cong if_weak_cong)

lemma walk_425:
  "walk 48737 2 prime_rows_425
    [(13,3749), (17,2867), (79,617), (5,9749), (29,1681), (5,9751), (11,4433), (7,6967),
     (17,2869), (5,9755), (5,9757), (97,503), (59,827), (7,6971), (37,1319), (5,9761),
     (7,6973), (5,9763), (157,311), (11,4439), (47,1039), (5,9767), (7,6977), (13,3757),
     (5,9769), (11,4441), (7,6979), (131,373), (5,9773), (5,9775), (37,1321), (7,6983),
     (19,2573), (13,3761), (5,9779), (107,457), (79,619), (5,9781), (59,829), (41,1193),
     (11,4447), (13,3763), (7,6989), (5,9785), (113,433), (167,293), (5,9787), (7,6991),
     (109,449), (17,2879), (31,1579), (5,9791), (173,283), (11,4451), (5,9793), (23,2129),
     (13,3767), (17,2881), (7,6997), (11,4453), (5,9797), (5,9799), (13,3769), (19,2579),
     (7,7001), (23,2131), (5,9803), (7,7003), (5,9805), (11,4457), (19,2581), (5,9809),
     (7,7007), (181,271), (5,9811), (71,691), (7,7009), (139,353), (31,1583), (5,9815),
     (17,2887), (5,9817), (191,257), (7,7013), (11,4463), (29,1693), (37,1327), (5,9821),
     (67,733), (5,9823), (13,3779), (73,673), (7,7019), (5,9827), (157,313), (5,9829),
     (7,7021), (23,2137), (13,3781), (11,4469), (211,233), (5,9833), (5,9835), (11,4471),
     (137,359), (101,487), (7,7027), (5,9839), (5,9841), (29,1697), (7,7031), (83,593),
     (5,9845), (19,2591), (7,7033), (5,9847), (53,929), (41,1201), (23,2141), (11,4477),
     (17,2897), (5,9851), (7,7037), (5,9853), (19,2593), (29,1699), (7,7039), (13,3791),
     (5,9857), (23,2143), (11,4481), (5,9859), (7,7043), (47,1049), (13,3793), (11,4483),
     (5,9863), (149,331), (31,1591), (5,9865), (107,461), (103,479), (7,7049), (5,9869),
     (61,809), (17,2903), (5,9871), (7,7051), (13,3797), (97,509), (5,9875), (11,4489),
     (19,2599), (5,9877), (13,3799), (47,1051), (7,7057), (127,389), (5,9881), (5,9883),
     (73,677), (11,4493), (7,7061), (5,9887), (13,3803), (7,7063), (5,9889), (197,251),
     (17,2909), (19,2603), (5,9893), (7,7067), (61,811), (5,9895), (7,7069), (17,2911),
     (11,4499), (43,1151), (5,9899), (59,839), (5,9901), (31,1597), (7,7073), (67,739),
     (13,3809), (23,2153), (5,9905), (5,9907), (107,463), (13,3811), (7,7079), (5,9911),
     (29,1709), (5,9913), (7,7081), (19,2609), (89,557), (11,4507), (43,1153), (179,277),
     (5,9917), (17,2917), (101,491), (5,9919), (193,257), (113,439), (7,7087), (5,9923),
     (29,1711), (11,4511), (5,9925), (31,1601), (7,7091), (11,4513), (5,9929), (131,379),
     (7,7093), (5,9931), (17,2921), (53,937), (13,3821), (5,9935), (7,7097), (5,9937),
     (11,4517), (17,2923), (7,7099), (13,3823), (23,2161), (5,9941), (11,4519), (5,9943),
     (83,599), (7,7103), (19,2617), (223,223), (41,1213), (5,9947), (5,9949), (13,3827),
     (11,4523), (17,2927), (7,7109), (5,9953), (157,317), (71,701), (5,9955), (7,7111),
     (67,743), (17,2929), (5,9959), (19,2621), (5,9961), (109,457), (31,1607), (7,7117),
     (5,9965), (13,3833), (5,9967), (19,2623), (11,4531), (7,7121), (79,631), (5,9971),
     (73,683), (7,7123), (5,9973), (47,1061), (53,941), (31,1609), (83,601), (5,9977),
     (7,7127), (5,9979), (41,1217), (139,359), (7,7129), (11,4537), (29,1721), (19,2627),
     (5,9983), (5,9985), (7,7133), (13,3841), (5,9989), (199,251), (11,4541), (5,9991),
     (47,1063), (17,2939), (29,1723), (107,467), (7,7139), (5,9995), (23,2173), (151,331),
     (5,9997), (7,7141), (17,2941), (31,1613), (5,10001), (43,1163), (13,3847), (5,10003),
     (11,4547), (19,2633), (7,7147), (5,10007), (11,4549), (163,307), (5,10009), (7,7151),
     (113,443), (13,3851), (5,10013)] =
   Some (50071, 4)"
  unfolding prime_rows_425_def by (simp only: walk_eval cong: walk_num_cong if_weak_cong)

lemma walk_435:
  "walk 50071 4 prime_rows_435
    [(7,7153), (5,10015), (61,821), (11,4553), (13,3853), (5,10019), (7,7157), (5,10021),
     (89,563), (7,7159), (23,2179), (5,10025), (5,10027), (181,277), (7,7163), (41,1223),
     (11,4559), (5,10031), (103,487), (5,10033), (13,3859), (11,4561), (131,383), (19,2641),
     (7,7169), (5,10037), (31,1619), (53,947), (5,10039), (7,7171), (17,2953), (61,823),
     (23,2183), (149,337), (5,10043), (13,3863), (5,10045), (191,263), (11,4567), (7,7177),
     (47,1069), (5,10049), (109,461), (31,1621), (5,10051), (29,1733), (7,7181), (17,2957),
     (5,10055), (137,367), (7,7183), (5,10057), (19,2647), (13,3869), (179,281), (11,4573),
     (5,10061), (7,7187), (5,10063), (67,751), (7,7189), (59,853), (5,10067), (71,709),
     (5,10069), (11,4577), (7,7193), (43,1171), (37,1361), (5,10073), (11,4579), (17,2963),
     (5,10075), (83,607), (41,1229), (7,7199), (5,10079), (101,499), (13,3877), (5,10081),
     (7,7201), (11,4583), (127,397), (5,10085), (211,239), (29,1739), (5,10087), (31,1627),
     (73,691), (61,827), (7,7207), (13,3881), (5,10091), (5,10093), (109,463), (41,1231),
     (17,2969), (7,7211), (11,4589), (19,2657), (5,10097), (29,1741), (7,7213), (5,10099),
     (11,4591), (17,2971), (53,953), (5,10103), (7,7217), (19,2659), (5,10105), (13,3887),
     (7,7219), (97,521), (5,10109), (5,10111), (13,3889), (7,7223), (59,857), (11,4597),
     (61,829), (103,491), (5,10115), (37,1367), (5,10117), (19,2663), (7,7229), (5,10121),
     (13,3893), (11,4601), (5,10123), (7,7231), (223,227), (23,2201), (197,257), (11,4603),
     (5,10127), (79,641), (89,569), (5,10129), (37,1369), (179,283), (7,7237), (29,1747),
     (5,10133), (23,2203), (5,10135), (11,4607), (59,859), (7,7241), (173,293), (163,311),
     (5,10139), (11,4609), (7,7243), (5,10141), (17,2983), (13,3901), (41,1237), (67,757),
     (5,10145), (7,7247), (97,523), (5,10147), (113,449), (7,7249), (31,1637), (19,2671),
     (5,10151), (193,263), (23,2207), (5,10153), (7,7253), (17,2987), (43,1181), (5,10157),
     (13,3907), (5,10159), (79,643), (37,1373), (101,503), (23,2209), (11,4619), (7,7259),
     (5,10163), (89,571), (5,10165), (7,7261), (11,4621), (29,1753), (13,3911), (5,10169),
     (211,241), (5,10171), (181,281), (19,2677), (7,7267), (5,10175), (83,613), (17,2993),
     (5,10177), (151,337), (7,7271), (23,2213), (109,467), (5,10181), (7,7273), (5,10183),
     (59,863), (13,3917), (127,401), (31,1643), (5,10187), (7,7277), (11,4631), (5,10189),
     (13,3919), (7,7279), (131,389), (11,4633), (5,10193), (5,10195), (19,2683), (7,7283),
     (17,2999), (67,761), (5,10199), (13,3923), (5,10201), (11,4637), (29,1759), (139,367),
     (17,3001), (163,313), (7,7289), (5,10205), (11,4639), (5,10207), (7,7291), (43,1187),
     (71,719), (19,2687), (5,10211), (5,10213), (223,229), (11,4643), (13,3929), (7,7297),
     (23,2221), (5,10217), (47,1087), (19,2689), (5,10219), (37,1381), (137,373), (13,3931),
     (7,7301), (79,647), (5,10223), (17,3007), (7,7303), (5,10225), (29,1763), (11,4649),
     (199,257), (5,10229), (7,7307), (5,10231), (11,4651), (7,7309), (19,2693), (73,701),
     (5,10235), (61,839), (13,3937), (5,10237), (17,3011), (7,7313), (5,10241), (41,1249),
     (83,617), (5,10243), (17,3013), (181,283), (11,4657), (7,7319), (5,10247), (5,10249),
     (7,7321), (53,967), (107,479), (13,3943), (5,10253), (167,307), (11,4661), (5,10255),
     (47,1091), (19,2699), (7,7327), (11,4663), (5,10259), (43,1193), (29,1769), (5,10261),
     (13,3947), (23,2231), (7,7331), (19,2701), (17,3019), (5,10265), (7,7333), (5,10267),
     (11,4667), (89,577), (5,10271), (7,7337), (5,10273), (31,1657), (47,1093), (7,7339),
     (83,619), (191,269), (5,10277), (13,3953), (17,3023), (5,10279), (103,499), (7,7343),
     (11,4673), (101,509), (5,10283), (5,10285), (19,2707), (7,7349), (5,10289), (23,2237),
     (5,10291), (7,7351), (53,971), (13,3959), (11,4679), (5,10295), (5,10297)] =
   Some (51491, 2)"
  unfolding prime_rows_435_def by (simp only: walk_eval cong: walk_num_cong if_weak_cong)

lemma walk_445:
  "walk 51491 2 prime_rows_445
    [(11,4681), (13,3961), (23,2239), (7,7357), (5,10301), (19,2711), (5,10303), (67,769),
     (7,7361), (227,227), (29,1777), (5,10307), (7,7363), (5,10309), (19,2713), (31,1663),
     (11,4687), (47,1097), (5,10313), (7,7367), (13,3967), (5,10315), (7,7369), (79,653),
     (23,2243), (5,10319), (11,4691), (5,10321), (7,7373), (71,727), (41,1259), (11,4693),
     (5,10325), (17,3037), (5,10327), (113,457), (43,1201), (13,3973), (7,7379), (5,10331),
     (19,2719), (5,10333), (7,7381), (163,317), (31,1667), (5,10337), (11,4699), (5,10339),
     (17,3041), (13,3977), (149,347), (29,1783), (7,7387), (5,10343), (5,10345), (13,3979),
     (17,3043), (11,4703), (7,7391), (31,1669), (59,877), (5,10349), (7,7393), (5,10351),
     (73,709), (191,271), (37,1399), (23,2251), (5,10355), (7,7397), (53,977), (5,10357),
     (67,773), (7,7399), (11,4709), (5,10361), (103,503), (197,263), (5,10363), (7,7403),
     (29,1787), (17,3049), (5,10367), (47,1103), (5,10369), (139,373), (19,2729), (13,3989),
     (7,7409), (5,10373), (5,10375), (7,7411), (29,1789), (13,3991), (11,4717), (19,2731),
     (5,10379), (17,3053), (5,10381), (23,2257), (193,269), (7,7417), (137,379), (5,10385),
     (11,4721), (5,10387), (167,311), (127,409), (7,7421), (11,4723), (5,10391), (223,233),
     (7,7423), (5,10393), (157,331), (59,881), (227,229), (5,10397), (7,7427), (5,10399),
     (11,4727), (149,349), (7,7429), (131,397), (13,4001), (5,10403), (11,4729), (5,10405),
     (7,7433), (61,853), (17,3061), (13,4003), (71,733), (5,10409), (23,2263), (5,10411),
     (79,659), (11,4733), (7,7439), (5,10415), (19,2741), (5,10417), (7,7441), (13,4007),
     (113,461), (59,883), (53,983), (5,10421), (107,487), (31,1681), (5,10423), (13,4009),
     (47,1109), (7,7447), (37,1409), (5,10427), (17,3067), (23,2267), (5,10429), (11,4741),
     (7,7451), (43,1213), (5,10433), (13,4013), (7,7453), (5,10435), (23,2269), (19,2747),
     (5,10439), (7,7457), (5,10441), (17,3071), (109,479), (7,7459), (11,4747), (79,661),
     (5,10445), (29,1801), (19,2749), (5,10447), (7,7463), (89,587), (13,4019), (5,10451),
     (11,4751), (5,10453), (167,313), (13,4021), (61,857), (23,2273), (7,7469), (5,10457),
     (5,10459), (7,7471), (193,271), (19,2753), (17,3077), (5,10463), (113,463), (5,10465),
     (11,4757), (43,1217), (59,887), (199,263), (7,7477), (17,3079), (5,10469), (11,4759),
     (13,4027), (5,10471), (41,1277), (7,7481), (83,631), (5,10475), (7,7483), (5,10477),
     (11,4763), (151,347), (61,859), (13,4031), (5,10481), (7,7487), (17,3083), (5,10483),
     (23,2279), (19,2759), (7,7489), (103,509), (13,4033), (5,10487), (41,1279), (229,229),
     (5,10489), (179,293), (7,7493), (11,4769), (23,2281), (5,10493), (71,739), (137,383),
     (5,10495), (97,541), (11,4771), (31,1693), (73,719), (7,7499), (5,10499), (47,1117),
     (5,10501), (7,7501), (17,3089), (29,1811), (53,991), (5,10505), (131,401), (5,10507),
     (107,491), (11,4777), (7,7507), (5,10511), (13,4043), (5,10513), (19,2767), (7,7511),
     (5,10517), (43,1223), (7,7513), (5,10519), (149,353), (23,2287), (41,1283), (31,1697),
     (11,4783), (5,10523), (7,7517), (101,521), (5,10525), (7,7519), (13,4049), (61,863),
     (5,10529), (17,3097), (37,1423), (5,10531), (11,4787), (7,7523), (13,4051), (31,1699),
     (5,10535), (11,4789), (139,379), (5,10537), (19,2773), (23,2291), (151,349), (7,7529),
     (5,10541), (5,10543), (7,7531), (11,4793), (67,787), (5,10547), (23,2293), (13,4057),
     (5,10549), (17,3103), (71,743), (7,7537), (19,2777), (5,10553), (113,467), (5,10555),
     (89,593), (47,1123), (7,7541), (11,4799), (13,4061), (5,10559), (37,1427), (7,7543),
     (5,10561), (11,4801), (13,4063), (101,523), (5,10565), (7,7547), (23,2297), (5,10567),
     (53,997), (7,7549), (43,1229), (41,1289), (17,3109), (5,10571), (5,10573), (29,1823),
     (7,7553), (37,1429), (11,4807), (5,10577), (227,233), (5,10579), (13,4069), (191,277),
     (157,337), (7,7559), (5,10583)] =
   Some (52921, 4)"
  unfolding prime_rows_445_def by (simp only: walk_eval cong: walk_num_cong if_weak_cong)

lemma walk_455:
  "walk 52921 4 prime_rows_455
    [(11,4811), (5,10585), (7,7561), (41,1291), (43,1231), (167,317), (11,4813), (5,10589),
     (13,4073), (5,10591), (211,251), (7,7567), (5,10595), (31,1709), (5,10597), (11,4817),
     (19,2789), (197,269), (7,7571), (5,10601), (11,4819), (7,7573), (5,10603), (37,1433),
     (17,3119), (13,4079), (19,2791), (181,293), (5,10607), (7,7577), (29,1829), (5,10609),
     (7,7579), (17,3121), (97,547), (47,1129), (5,10613), (73,727), (5,10615), (7,7583),
     (109,487), (5,10619), (29,1831), (5,10621), (23,2309), (173,307), (11,4829), (7,7589),
     (5,10625), (13,4087), (5,10627), (7,7591), (11,4831), (19,2797), (23,2311), (5,10631),
     (17,3127), (5,10633), (79,673), (41,1297), (7,7597), (13,4091), (5,10637), (43,1237),
     (5,10639), (83,641), (7,7601), (13,4093), (127,419), (5,10643), (19,2801), (7,7603),
     (5,10645), (17,3131), (139,383), (37,1439), (5,10649), (7,7607), (11,4841), (5,10651),
     (19,2803), (13,4097), (7,7609), (11,4843), (5,10655), (5,10657), (13,4099), (7,7613),
     (137,389), (223,239), (151,353), (5,10661), (89,599), (5,10663), (11,4847), (71,751),
     (17,3137), (7,7619), (5,10667), (11,4849), (41,1301), (5,10669), (7,7621), (31,1721),
     (229,233), (17,3139), (5,10673), (83,643), (19,2809), (5,10675), (11,4853), (197,271),
     (7,7627), (107,499), (5,10679), (67,797), (5,10681), (31,1723), (7,7631), (41,1303),
     (5,10685), (23,2323), (7,7633), (5,10687), (13,4111), (19,2813), (11,4859), (5,10691),
     (7,7637), (193,277), (5,10693), (127,421), (11,4861), (7,7639), (53,1009), (79,677),
     (5,10697), (89,601), (149,359), (5,10699), (61,877), (7,7643), (73,733), (59,907),
     (5,10703), (109,491), (13,4117), (5,10705), (199,269), (17,3149), (11,4867), (37,1447),
     (7,7649), (5,10709), (5,10711), (7,7651), (19,2819), (29,1847), (17,3151), (13,4121),
     (5,10715), (131,409), (11,4871), (5,10717), (41,1307), (7,7657), (11,4873), (5,10721),
     (5,10723), (29,1849), (7,7661), (5,10727), (7,7663), (5,10729), (11,4877), (13,4127),
     (23,2333), (103,521), (5,10733), (7,7667), (191,281), (5,10735), (13,4129), (7,7669),
     (37,1451), (53,1013), (5,10739), (83,647), (5,10741), (43,1249), (7,7673), (11,4883),
     (31,1733), (5,10745), (13,4133), (5,10747), (17,3161), (61,881), (223,241), (71,757),
     (59,911), (7,7679), (5,10751), (37,1453), (5,10753), (7,7681), (17,3163), (11,4889),
     (5,10757), (19,2831), (5,10759), (23,2339), (11,4891), (173,311), (13,4139), (7,7687),
     (5,10763), (107,503), (5,10765), (19,2833), (13,4141), (7,7691), (17,3167), (23,2341),
     (5,10769), (7,7693), (5,10771), (61,883), (11,4897), (103,523), (17,3169), (5,10775),
     (7,7697), (5,10777), (7,7699), (19,2837), (5,10781), (31,1739), (11,4901), (5,10783),
     (7,7703), (199,271), (11,4903), (5,10787), (17,3173), (5,10789), (73,739), (163,331),
     (79,683), (7,7709), (5,10793), (29,1861), (31,1741), (5,10795), (7,7711), (23,2347),
     (37,1459), (13,4153), (5,10799), (11,4909), (5,10801), (53,1019), (19,2843), (7,7717),
     (89,607), (5,10805), (97,557), (71,761), (5,10807), (13,4157), (11,4913), (7,7721),
     (191,283), (5,10811), (7,7723), (5,10813), (13,4159), (139,389), (23,2351), (17,3181),
     (41,1319), (5,10817), (7,7727), (5,10819), (47,1151), (7,7729), (61,887), (11,4919),
     (53,1021), (5,10823), (13,4163), (5,10825), (113,479), (7,7733), (43,1259), (29,1867),
     (5,10829), (173,313), (5,10831), (31,1747), (41,1321), (19,2851), (7,7739), (5,10835),
     (17,3187), (5,10837), (7,7741), (47,1153), (11,4927), (83,653), (67,809), (5,10841),
     (151,359), (23,2357), (5,10843), (59,919), (13,4171), (211,257), (7,7747), (193,281),
     (5,10847), (73,743), (11,4931), (5,10849), (17,3191), (227,239), (7,7751), (29,1871),
     (11,4933), (5,10853), (7,7753), (5,10855), (17,3193), (19,2857), (233,233), (5,10859),
     (7,7757), (13,4177), (5,10861), (11,4937), (7,7759), (29,1873), (5,10865), (11,4939),
     (5,10867), (67,811), (7,7763), (31,1753), (17,3197), (13,4181), (5,10871), (19,2861),
     (5,10873)] =
   Some (54371, 2)"
  unfolding prime_rows_455_def by (simp only: walk_eval cong: walk_num_cong if_weak_cong)

lemma walk_465:
  "walk 54371 2 prime_rows_465
    [(11,4943), (13,4183), (7,7769), (5,10877), (137,397), (109,499), (5,10879), (7,7771),
     (41,1327), (5,10883), (5,10885), (37,1471), (13,4187), (29,1877), (7,7777), (5,10889),
     (17,3203), (5,10891), (13,4189), (11,4951), (107,509), (7,7781), (19,2867), (5,10895),
     (157,347), (7,7783), (5,10897), (23,2369), (29,1879), (5,10901), (7,7787), (19,2869),
     (5,10903), (7,7789), (11,4957), (31,1759), (23,2371), (5,10907), (5,10909), (7,7793),
     (17,3209), (89,613), (5,10913), (197,277), (11,4961), (5,10915), (13,4199), (79,691),
     (7,7799), (5,10919), (71,769), (5,10921), (7,7801), (97,563), (13,4201), (193,283),
     (5,10925), (5,10927), (11,4967), (101,541), (53,1031), (7,7807), (31,1763), (5,10931),
     (11,4969), (47,1163), (5,10933), (23,2377), (7,7811), (149,367), (5,10937), (17,3217),
     (7,7813), (5,10939), (83,659), (19,2879), (11,4973), (227,241), (5,10943), (7,7817),
     (5,10945), (229,239), (7,7819), (127,431), (19,2881), (13,4211), (5,10949), (53,1033),
     (5,10951), (17,3221), (7,7823), (23,2381), (11,4979), (5,10955), (29,1889), (5,10957),
     (11,4981), (157,349), (37,1481), (7,7829), (5,10961), (23,2383), (59,929), (5,10963),
     (7,7831), (13,4217), (73,751), (109,503), (5,10967), (29,1891), (173,317), (5,10969),
     (13,4219), (19,2887), (11,4987), (7,7837), (83,661), (5,10973), (37,1483), (5,10975),
     (71,773), (7,7841), (131,419), (17,3229), (5,10979), (13,4223), (7,7843), (5,10981),
     (43,1277), (89,617), (11,4993), (5,10985), (7,7847), (163,337), (5,10987), (137,401),
     (7,7849), (23,2389), (179,307), (5,10991), (17,3233), (5,10993), (11,4997), (7,7853),
     (13,4229), (5,10997), (11,4999), (127,433), (5,10999), (43,1279), (13,4231), (67,821),
     (7,7859), (5,11003), (37,1487), (5,11005), (7,7861), (113,487), (11,5003), (47,1171),
     (23,2393), (19,2897), (5,11009), (5,11011), (17,3239), (53,1039), (7,7867), (5,11015),
     (13,4237), (5,11017), (31,1777), (89,619), (37,1489), (7,7871), (11,5009), (5,11021),
     (7,7873), (5,11023), (11,5011), (199,277), (29,1901), (13,4241), (5,11027), (7,7877),
     (67,823), (5,11029), (131,421), (7,7879), (19,2903), (13,4243), (5,11033), (43,1283),
     (5,11035), (23,2399), (7,7883), (139,397), (11,5017), (229,241), (97,569), (5,11039),
     (17,3247), (5,11041), (13,4247), (7,7889), (5,11045), (11,5021), (5,11047), (7,7891),
     (37,1493), (101,547), (11,5023), (5,11051), (73,757), (5,11053), (17,3251), (19,2909),
     (31,1783), (167,331), (7,7897), (59,937), (5,11057), (13,4253), (5,11059), (11,5027),
     (17,3253), (29,1907), (7,7901), (19,2911), (5,11063), (11,5029), (7,7903), (5,11065),
     (61,907), (5,11069), (7,7907), (5,11071), (197,281), (23,2407), (7,7909), (13,4259),
     (17,3257), (5,11075), (79,701), (5,11077), (97,571), (7,7913), (13,4261), (31,1787),
     (17,3259), (5,11081), (67,827), (5,11083), (151,367), (157,353), (19,2917), (43,1289),
     (11,5039), (7,7919), (5,11087), (5,11089), (7,7921), (11,5041), (23,2411), (31,1789),
     (37,1499), (5,11093), (13,4267), (5,11095), (29,1913), (109,509), (113,491), (7,7927),
     (211,263), (5,11099), (19,2921), (5,11101), (47,1181), (43,1291), (7,7931), (59,941),
     (13,4271), (5,11105), (7,7933), (5,11107), (19,2923), (67,829), (13,4273), (73,761),
     (5,11111), (7,7937), (11,5051), (5,11113), (181,307), (61,911), (7,7939), (149,373),
     (11,5053), (5,11117), (23,2417), (5,11119), (53,1049), (7,7943), (17,3271), (19,2927),
     (5,11123), (5,11125), (11,5057), (23,2419), (7,7949), (5,11129), (11,5059), (19,2929),
     (5,11131), (7,7951), (179,311), (5,11135), (13,4283), (5,11137), (233,239), (11,5063),
     (7,7957), (53,1051), (5,11141), (17,3277), (5,11143), (103,541), (7,7961), (23,2423),
     (5,11147), (139,401), (7,7963), (5,11149), (107,521), (197,283), (127,439), (13,4289),
     (11,5069), (5,11153), (7,7967), (43,1297), (5,11155), (17,3281), (11,5071), (7,7969),
     (47,1187)] =
   Some (55795, 4)"
  unfolding prime_rows_465_def by (simp only: walk_eval cong: walk_num_cong if_weak_cong)

lemma walk_475:
  "walk 55795 4 prime_rows_475
    [(5,11159), (41,1361), (5,11161), (7,7973), (5,11165), (31,1801), (5,11167), (19,2939),
     (11,5077), (7,7979), (5,11171), (83,673), (13,4297), (5,11173), (7,7981), (59,947),
     (71,787), (17,3287), (29,1927), (5,11177), (11,5081), (5,11179), (37,1511), (7,7987),
     (11,5083), (5,11183), (199,281), (5,11185), (7,7991), (13,4303), (43,1301), (5,11189),
     (7,7993), (5,11191), (11,5087), (107,523), (191,293), (97,577), (223,251), (5,11195),
     (7,7997), (17,3293), (5,11197), (13,4307), (7,7999), (29,1931), (5,11201), (79,709),
     (5,11203), (13,4309), (7,8003), (11,5093), (179,313), (43,1303), (137,409), (5,11207),
     (5,11209), (41,1367), (23,2437), (29,1933), (61,919), (7,8009), (5,11213), (13,4313),
     (47,1193), (5,11215), (7,8011), (17,3299), (11,5099), (5,11219), (5,11221), (19,2953),
     (11,5101), (17,3301), (7,8017), (5,11225), (37,1517), (5,11227), (73,769), (31,1811),
     (23,2441), (7,8021), (233,241), (5,11231), (89,631), (7,8023), (5,11233), (13,4321),
     (11,5107), (19,2957), (5,11237), (7,8027), (83,677), (5,11239), (43,1307), (7,8029),
     (67,839), (5,11243), (17,3307), (11,5111), (5,11245), (59,953), (7,8033), (53,1061),
     (11,5113), (5,11249), (13,4327), (5,11251), (101,557), (127,443), (7,8039), (5,11255),
     (167,337), (23,2447), (5,11257), (7,8041), (181,311), (41,1373), (19,2963), (13,4331),
     (5,11261), (11,5119), (5,11263), (199,283), (17,3313), (151,373), (23,2449), (7,8047),
     (5,11267), (53,1063), (103,547), (5,11269), (29,1943), (37,1523), (11,5123), (7,8051),
     (157,359), (5,11273), (7,8053), (5,11275), (13,4337), (113,499), (17,3317), (5,11279),
     (7,8057), (5,11281), (13,4339), (19,2969), (7,8059), (11,5129), (17,3319), (5,11285),
     (73,773), (5,11287), (7,8063), (47,1201), (19,2971), (5,11291), (13,4343), (131,431),
     (5,11293), (149,379), (7,8069), (5,11297), (17,3323), (5,11299), (7,8071), (11,5137),
     (31,1823), (5,11303), (29,1949), (5,11305), (13,4349), (7,8077), (5,11309), (193,293),
     (11,5141), (5,11311), (23,2459), (163,347), (13,4351), (7,8081), (11,5143), (5,11315),
     (29,1951), (7,8083), (5,11317), (71,797), (17,3329), (23,2461), (5,11321), (7,8087),
     (5,11323), (11,5147), (41,1381), (7,8089), (17,3331), (5,11327), (11,5149), (13,4357),
     (5,11329), (37,1531), (7,8093), (181,313), (53,1069), (5,11333), (61,929), (5,11335),
     (19,2983), (11,5153), (83,683), (7,8099), (5,11339), (31,1829), (5,11341), (7,8101),
     (43,1319), (13,4363), (131,433), (5,11345), (17,3337), (5,11347), (23,2467), (179,317),
     (7,8107), (19,2987), (5,11351), (211,269), (31,1831), (5,11353), (11,5161), (7,8111),
     (5,11357), (109,521), (7,8113), (5,11359), (13,4369), (79,719), (43,1321), (5,11363),
     (7,8117), (5,11365), (17,3343), (7,8119), (11,5167), (113,503), (5,11369), (13,4373),
     (139,409), (5,11371), (7,8123), (101,563), (19,2993), (29,1961), (5,11375), (23,2473),
     (11,5171), (5,11377), (163,349), (17,3347), (7,8129), (5,11381), (5,11383), (7,8131),
     (13,4379), (17,3349), (5,11387), (97,587), (5,11389), (11,5177), (13,4381), (7,8137),
     (5,11393), (11,5179), (23,2477), (5,11395), (227,251), (19,2999), (7,8141), (5,11399),
     (7,8143), (5,11401), (109,523), (47,1213), (11,5183), (23,2479), (19,3001), (127,449),
     (5,11405), (7,8147), (13,4387), (5,11407), (7,8149), (89,641), (59,967), (5,11411),
     (43,1327), (5,11413), (149,383), (7,8153), (11,5189), (13,4391), (5,11417), (37,1543),
     (5,11419)] =
   Some (57101, 2)"
  unfolding prime_rows_475_def by (simp only: walk_eval cong: walk_num_cong if_weak_cong)

lemma walk_485:
  "walk 57101 2 prime_rows_485
    [(11,5191), (17,3359), (13,4393), (7,8159), (5,11423), (239,239), (5,11425), (7,8161),
     (19,3007), (17,3361), (5,11429), (67,853), (5,11431), (61,937), (13,4397), (11,5197),
     (7,8167), (5,11435), (211,271), (5,11437), (13,4399), (7,8171), (47,1217), (5,11441),
     (19,3011), (7,8173), (5,11443), (29,1973), (89,643), (151,379), (11,5203), (5,11447),
     (7,8177), (5,11449), (19,3013), (7,8179), (31,1847), (173,331), (5,11453), (5,11455),
     (11,5207), (7,8183), (59,971), (23,2491), (5,11459), (11,5209), (5,11461), (17,3371),
     (223,257), (37,1549), (13,4409), (31,1849), (7,8189), (5,11465), (5,11467), (7,8191),
     (17,3373), (11,5213), (83,691), (5,11471), (41,1399), (19,3019), (5,11473), (103,557),
     (181,317), (7,8197), (5,11477), (29,1979), (5,11479), (61,941), (137,419), (7,8201),
     (11,5219), (5,11483), (67,857), (7,8203), (5,11485), (11,5221), (79,727), (19,3023),
     (71,809), (17,3379), (5,11489), (7,8207), (73,787), (5,11491), (37,1553), (7,8209),
     (101,569), (13,4421), (5,11495), (229,251), (47,1223), (5,11497), (7,8213), (11,5227),
     (13,4423), (5,11501), (131,439), (17,3383), (5,11503), (113,509), (97,593), (23,2501),
     (7,8219), (5,11507), (163,353), (11,5231), (5,11509), (7,8221), (13,4427), (67,859),
     (11,5233), (5,11513), (23,2503), (5,11515), (13,4429), (71,811), (89,647), (7,8227),
     (5,11519), (239,241), (5,11521), (11,5237), (53,1087), (17,3389), (7,8231), (157,367),
     (29,1987), (5,11525), (11,5239), (7,8233), (5,11527), (59,977), (17,3391), (5,11531),
     (7,8237), (23,2507), (5,11533), (101,571), (7,8239), (137,421), (37,1559), (5,11537),
     (31,1861), (5,11539), (7,8243), (19,3037), (13,4439), (5,11543), (197,293), (5,11545),
     (13,4441), (11,5249), (7,8249), (5,11549), (17,3397), (5,11551), (7,8251), (11,5251),
     (47,1229), (61,947), (41,1409), (5,11555), (19,3041), (5,11557), (29,1993), (7,8257),
     (5,11561), (13,4447), (5,11563), (17,3401), (67,863), (53,1091), (7,8261), (151,383),
     (5,11567), (7,8263), (5,11569), (17,3403), (47,1231), (13,4451), (5,11573), (7,8267),
     (11,5261), (5,11575), (31,1867), (7,8269), (107,541), (13,4453), (11,5263), (5,11579),
     (5,11581), (79,733), (7,8273), (29,1997), (17,3407), (5,11585), (53,1093), (19,3049),
     (5,11587), (11,5267), (13,4457), (167,347), (7,8279), (5,11591), (11,5269), (149,389),
     (5,11593), (7,8281), (29,1999), (37,1567), (23,2521), (5,11597), (103,563), (5,11599),
     (59,983), (31,1871), (11,5273), (19,3053), (7,8287), (5,11603), (13,4463), (17,3413),
     (5,11605), (131,443), (7,8291), (127,457), (5,11609), (7,8293), (5,11611), (31,1873),
     (11,5279), (5,11615), (7,8297), (241,241), (5,11617), (29,2003), (11,5281), (7,8299),
     (13,4469), (97,599), (5,11621), (5,11623), (89,653), (7,8303), (13,4471), (37,1571),
     (61,953), (5,11627), (47,1237), (53,1097), (5,11629), (11,5287), (19,3061), (7,8309),
     (5,11633), (5,11635), (7,8311), (73,797), (83,701), (31,1877), (5,11639), (11,5291),
     (5,11641), (23,2531), (7,8317), (11,5293), (5,11645), (5,11647), (139,419), (7,8321),
     (31,1879), (13,4481), (5,11651), (17,3427), (7,8323), (5,11653), (11,5297), (19,3067),
     (101,577), (13,4483), (167,349), (5,11657), (7,8327), (71,821), (5,11659), (97,601),
     (173,337), (7,8329), (199,293), (5,11663), (29,2011), (5,11665), (17,3431), (7,8333),
     (11,5303), (227,257), (41,1423), (5,11669), (19,3071), (23,2537), (5,11671), (13,4489),
     (17,3433), (7,8339), (5,11675), (79,739), (5,11677), (7,8341), (23,2539), (11,5309),
     (5,11681), (13,4493), (5,11683), (11,5311), (37,1579), (7,8347), (71,823), (5,11687),
     (5,11689), (211,277)] =
   Some (58457, 2)"
  unfolding prime_rows_485_def by (simp only: walk_eval cong: walk_num_cong if_weak_cong)

lemma walk_495:
  "walk 58457 2 prime_rows_495
    [(7,8351), (53,1103), (17,3439), (5,11693), (59,991), (7,8353), (5,11695), (233,251),
     (11,5317), (23,2543), (29,2017), (5,11699), (7,8357), (19,3079), (5,11701), (41,1427),
     (7,8359), (163,359), (139,421), (43,1361), (5,11705), (107,547), (11,5321), (5,11707),
     (7,8363), (127,461), (11,5323), (5,11711), (31,1889), (157,373), (5,11713), (37,1583),
     (19,3083), (7,8369), (5,11717), (41,1429), (13,4507), (5,11719), (7,8371), (103,569),
     (29,2021), (5,11723), (11,5329), (31,1891), (5,11725), (23,2549), (17,3449), (191,307),
     (7,8377), (13,4511), (5,11729), (223,263), (89,659), (5,11731), (11,5333), (7,8381),
     (13,4513), (23,2551), (5,11735), (7,8383), (5,11737), (19,3089), (79,743), (47,1249),
     (5,11741), (7,8387), (5,11743), (71,827), (13,4517), (7,8389), (11,5339), (5,11747),
     (151,389), (5,11749), (13,4519), (7,8393), (41,1433), (67,877), (5,11753), (17,3457),
     (5,11755), (53,1109), (43,1367), (29,2027), (7,8399), (5,11759), (13,4523), (127,463),
     (5,11761), (7,8401), (23,2557), (103,571), (11,5347), (131,449), (59,997), (5,11765),
     (89,661), (5,11767), (17,3461), (29,2029), (19,3097), (83,709), (7,8407), (229,257),
     (5,11771), (71,829), (11,5351), (5,11773), (37,1591), (17,3463), (113,521), (7,8411),
     (97,607), (11,5353), (5,11777), (7,8413), (5,11779), (13,4531), (5,11783), (7,8417),
     (5,11785), (11,5357), (31,1901), (7,8419), (17,3467), (5,11789), (11,5359), (167,353),
     (5,11791), (19,3103), (7,8423), (109,541), (17,3469), (5,11795), (13,4537), (5,11797),
     (61,967), (11,5363), (41,1439), (7,8429), (5,11801), (5,11803), (7,8431), (67,881),
     (13,4541), (5,11807), (43,1373), (17,3473), (5,11809), (137,431), (73,809), (7,8437),
     (5,11813), (19,3109), (5,11815), (11,5371), (7,8441), (37,1597), (5,11819), (113,523),
     (7,8443), (5,11821), (13,4547), (31,1907), (5,11825), (7,8447), (29,2039), (5,11827),
     (13,4549), (7,8449), (11,5377), (149,397), (5,11831), (67,883), (5,11833), (7,8453),
     (47,1259), (17,3481), (23,2573), (5,11837), (13,4553), (11,5381), (5,11839), (53,1117),
     (73,811), (7,8459), (5,11843), (5,11845), (7,8461), (61,971), (37,1601), (5,11849),
     (179,331), (193,307), (5,11851), (11,5387), (19,3119), (13,4559), (7,8467), (5,11855),
     (11,5389), (5,11857), (101,587), (211,281), (13,4561), (7,8471), (19,3121), (31,1913),
     (5,11861), (127,467), (7,8473), (5,11863), (23,2579), (137,433), (11,5393), (41,1447),
     (79,751), (5,11867), (7,8477), (5,11869), (17,3491), (7,8479), (23,2581), (5,11873),
     (13,4567), (5,11875), (7,8483), (43,1381), (11,5399), (5,11879), (191,311), (5,11881),
     (11,5401), (19,3127), (7,8489), (5,11885), (67,887), (103,577), (5,11887), (7,8491),
     (13,4573), (5,11891), (37,1607), (97,613), (5,11893), (11,5407), (7,8497), (17,3499),
     (5,11897), (19,3131), (41,1451), (5,11899), (13,4577), (157,379), (7,8501), (5,11903),
     (53,1123), (7,8503), (5,11905), (13,4579), (59,1009), (37,1609), (29,2053), (11,5413),
     (5,11909), (7,8507), (17,3503), (5,11911), (7,8509), (71,839), (41,1453), (5,11915),
     (13,4583), (5,11917), (11,5417), (7,8513), (23,2591), (61,977), (107,557), (19,3137),
     (5,11921), (11,5419), (5,11923), (109,547), (7,8519), (5,11927), (23,2593), (19,3139),
     (5,11929), (7,8521), (11,5423), (13,4589), (5,11933), (5,11935), (83,719), (37,1613),
     (13,4591), (17,3511), (7,8527), (5,11939), (227,263), (5,11941), (29,2059), (211,283),
     (7,8531), (11,5429), (5,11945), (7,8533), (5,11947), (31,1927), (11,5431), (149,401),
     (5,11951), (7,8537), (13,4597), (5,11953), (59,1013), (7,8539), (23,2599), (191,313),
     (5,11957), (17,3517), (5,11959), (7,8543), (79,757), (11,5437), (13,4601), (5,11963),
     (41,1459), (163,367), (5,11965), (29,2063), (19,3149), (53,1129), (13,4603), (7,8549),
     (5,11969), (97,617), (11,5441), (5,11971), (7,8551), (31,1931), (131,457), (19,3151),
     (11,5443), (5,11975), (233,257), (5,11977)] =
   Some (59891, 2)"
  unfolding prime_rows_495_def by (simp only: walk_eval cong: walk_num_cong if_weak_cong)

lemma walk_505:
  "walk 59891 2 prime_rows_505
    [(13,4607), (101,593), (89,673), (7,8557), (37,1619), (5,11981), (139,431), (181,331),
     (5,11983), (11,5447), (31,1933), (7,8561), (73,821), (5,11987), (11,5449), (7,8563),
     (5,11989), (151,397), (167,359), (17,3527), (61,983), (5,11993), (7,8567), (5,11995),
     (37,1621), (7,8569), (223,269), (239,251), (17,3529), (5,11999), (29,2069), (5,12001),
     (23,2609), (7,8573), (47,1277), (193,311), (5,12005), (173,347), (5,12007), (97,619),
     (13,4619), (11,5459), (7,8579), (5,12011), (19,3161), (17,3533), (5,12013), (7,8581),
     (11,5461), (13,4621), (73,823), (5,12017), (5,12019), (19,3163), (7,8587), (47,1279),
     (5,12023), (79,761), (59,1019), (5,12025), (157,383), (7,8591), (137,439), (5,12029),
     (7,8593), (5,12031), (43,1399), (17,3539), (19,3167), (5,12035), (7,8597), (11,5471),
     (5,12037), (139,433), (23,2617), (7,8599), (17,3541), (37,1627), (11,5473), (5,12041),
     (19,3169), (5,12043), (7,8603), (229,263), (13,4633), (29,2077), (5,12047), (59,1021),
     (107,563), (5,12049), (11,5477), (89,677), (7,8609), (5,12053), (11,5479), (5,12055),
     (7,8611), (13,4637), (23,2621), (19,3173), (5,12059), (17,3547), (47,1283), (5,12061),
     (13,4639), (41,1471), (11,5483), (7,8617), (179,337), (5,12065), (23,2623), (5,12067),
     (83,727), (7,8621), (29,2081), (5,12071), (13,4643), (7,8623), (5,12073), (17,3551),
     (73,827), (173,349), (11,5489), (5,12077), (7,8627), (131,461), (5,12079), (11,5491),
     (7,8629), (29,2083), (193,313), (5,12083), (31,1949), (23,2627), (5,12085), (7,8633),
     (223,271), (13,4649), (19,3181), (5,12089), (61,991), (5,12091), (103,587), (13,4651),
     (11,5497), (17,3557), (7,8639), (5,12095), (197,307), (31,1951), (5,12097), (7,8641),
     (241,251), (101,599), (17,3559), (5,12101), (11,5501), (5,12103), (73,829), (29,2087),
     (7,8647), (11,5503), (5,12107), (13,4657), (5,12109), (191,317), (151,401), (19,3187),
     (7,8651), (23,2633), (71,853), (5,12113), (37,1637), (7,8653), (5,12115), (11,5507),
     (29,2089), (47,1289), (43,1409), (13,4661), (5,12119), (7,8657), (5,12121), (7,8659),
     (13,4663), (5,12125), (19,3191), (5,12127), (7,8663), (11,5513), (131,463), (5,12131),
     (5,12133), (19,3193), (13,4667), (17,3569), (47,1291), (7,8669), (5,12137), (137,443),
     (5,12139), (7,8671), (101,601), (17,3571), (11,5519), (109,557), (5,12143), (41,1481),
     (5,12145), (11,5521), (7,8677), (19,3197), (5,12149), (13,4673), (79,769), (5,12151),
     (7,8681), (67,907), (5,12155), (7,8683), (5,12157), (89,683), (31,1961), (11,5527),
     (163,373), (41,1483), (5,12161), (7,8687), (5,12163), (61,997), (7,8689), (13,4679),
     (59,1031), (127,479), (5,12167), (83,733), (11,5531), (5,12169), (71,857), (7,8693),
     (13,4681), (19,3203), (11,5533), (5,12173), (29,2099), (5,12175), (17,3581), (23,2647),
     (107,569), (7,8699), (5,12179), (5,12181), (7,8701), (17,3583), (5,12185), (11,5539),
     (13,4687), (5,12187), (149,409), (59,1033), (7,8707), (5,12191), (47,1297), (5,12193),
     (41,1487), (19,3209), (11,5543), (7,8711), (17,3587), (13,4691), (5,12197), (71,859),
     (7,8713), (5,12199), (181,337), (53,1151), (13,4693), (17,3589), (5,12203), (7,8717),
     (139,439), (5,12205), (7,8719), (67,911), (11,5549), (5,12209), (41,1489), (5,12211),
     (7,8723), (227,269), (79,773), (173,353), (157,389), (5,12215), (103,593), (17,3593),
     (5,12217), (13,4699), (199,307), (107,571), (7,8729), (5,12221), (53,1153), (23,2657),
     (5,12223), (7,8731), (19,3217), (11,5557), (113,541), (5,12227), (13,4703), (5,12229),
     (47,1301), (23,2659), (7,8737), (31,1973), (5,12233), (11,5561), (5,12235), (131,467),
     (193,317), (17,3599), (7,8741), (43,1423), (11,5563), (5,12239), (19,3221), (7,8743),
     (5,12241), (97,631), (41,1493), (13,4709), (29,2111), (5,12245), (7,8747), (5,12247),
     (11,5567), (47,1303), (7,8749), (73,839), (23,2663), (5,12251), (11,5569), (5,12253),
     (197,311), (7,8753), (71,863), (29,2113), (233,263), (5,12257), (167,367), (5,12259),
     (59,1039), (11,5573), (101,607), (37,1657), (7,8759), (5,12263), (17,3607), (13,4717),
     (5,12265), (7,8761), (83,739), (5,12269), (31,1979), (19,3229), (5,12271), (43,1427),
     (109,563), (7,8767), (13,4721), (5,12275), (5,12277), (17,3611), (11,5581), (29,2117),
     (7,8771), (13,4723), (5,12281), (7,8773), (5,12283), (17,3613), (239,257), (19,3233),
     (47,1307), (23,2671), (5,12287), (7,8777)] =
   Some (61445, 2)"
  unfolding prime_rows_505_def by (simp only: walk_eval cong: walk_num_cong if_weak_cong)

lemma walk_515:
  "walk 61445 2 prime_rows_515
    [(5,12289), (43,1429), (13,4727), (7,8779), (11,5587), (41,1499), (5,12293), (5,12295),
     (13,4729), (7,8783), (17,3617), (5,12299), (89,691), (11,5591), (5,12301), (137,449),
     (227,271), (7,8789), (5,12305), (13,4733), (37,1663), (5,12307), (7,8791), (19,3239),
     (61,1009), (5,12311), (5,12313), (11,5597), (23,2677), (67,919), (139,443), (7,8797),
     (5,12317), (11,5599), (17,3623), (5,12319), (31,1987), (229,269), (7,8801), (5,12323),
     (43,1433), (7,8803), (5,12325), (11,5603), (53,1163), (5,12329), (7,8807), (5,12331),
     (197,313), (7,8809), (83,743), (5,12335), (37,1667), (5,12337), (7,8813), (17,3629),
     (103,599), (11,5609), (5,12341), (23,2683), (13,4747), (5,12343), (11,5611), (17,3631),
     (7,8819), (5,12347), (107,577), (29,2129), (5,12349), (7,8821), (37,1669), (151,409),
     (13,4751), (5,12353), (19,3251), (223,277), (5,12355), (163,379), (31,1993), (11,5617),
     (7,8827), (61,1013), (5,12359), (29,2131), (23,2687), (5,12361), (19,3253), (113,547),
     (7,8831), (211,293), (5,12365), (17,3637), (7,8833), (5,12367), (13,4757), (23,2689),
     (127,487), (11,5623), (5,12371), (7,8837), (5,12373), (13,4759), (7,8839), (43,1439),
     (19,3257), (5,12377), (199,311), (59,1049), (5,12379), (11,5627), (7,8843), (103,601),
     (31,1997), (101,613), (5,12383), (11,5629), (19,3259), (5,12385), (17,3643), (241,257),
     (23,2693), (7,8849), (5,12389), (41,1511), (5,12391), (7,8851), (11,5633), (31,1999),
     (29,2137), (5,12395), (5,12397), (47,1319), (13,4769), (7,8857), (5,12401), (59,1051),
     (5,12403), (109,569), (13,4771), (7,8861), (11,5639), (17,3649), (5,12407), (7,8863),
     (5,12409), (11,5641), (229,271), (53,1171), (5,12413), (7,8867), (5,12415), (23,2699),
     (7,8869), (47,1321), (29,2141), (31,2003), (5,12419), (13,4777), (5,12421), (173,359),
     (7,8873), (179,347), (11,5647), (23,2701), (5,12425), (5,12427), (29,2143), (19,3271),
     (7,8879), (5,12431), (61,1019), (11,5651), (5,12433), (7,8881), (79,787), (97,641),
     (13,4783), (11,5653), (5,12437), (5,12439), (37,1681), (17,3659), (7,8887), (5,12443),
     (43,1447), (5,12445), (11,5657), (13,4787), (7,8891), (109,571), (67,929), (5,12449),
     (11,5659), (7,8893), (5,12451), (13,4789), (23,2707), (19,3277), (71,877), (73,853),
     (5,12455), (7,8897), (61,1021), (5,12457), (199,313), (167,373), (7,8899), (5,12461),
     (13,4793), (5,12463), (101,617), (7,8903), (157,397), (83,751), (5,12467), (17,3667),
     (31,2011), (5,12469), (23,2711), (127,491), (11,5669), (7,8909), (5,12473), (47,1327),
     (97,643), (5,12475), (7,8911), (11,5671), (13,4799), (89,701), (43,1451), (5,12479),
     (23,2713), (5,12481), (17,3671), (139,449), (13,4801), (7,8917), (5,12485), (163,383),
     (149,419), (5,12487), (29,2153), (17,3673), (41,1523), (7,8921), (197,317), (19,3287),
     (5,12491), (7,8923), (5,12493), (179,349), (43,1453), (5,12497), (7,8927), (11,5681),
     (5,12499), (7,8929), (17,3677), (11,5683), (5,12503), (101,619), (103,607), (5,12505),
     (31,2017), (7,8933), (23,2719), (13,4811), (5,12509), (71,881), (5,12511), (11,5687),
     (73,857), (19,3293), (13,4813), (7,8939), (5,12515), (11,5689), (5,12517), (7,8941),
     (53,1181), (59,1061), (5,12521), (137,457), (17,3683), (5,12523), (13,4817), (11,5693),
     (7,8947), (5,12527), (37,1693), (5,12529), (13,4819), (31,2021), (7,8951), (223,281),
     (5,12533), (29,2161), (7,8953), (5,12535), (233,269), (19,3299), (11,5699), (71,883),
     (5,12539), (7,8957), (5,12541), (73,859), (11,5701), (7,8959), (59,1063), (19,3301),
     (5,12545), (149,421), (5,12547), (43,1459), (7,8963), (17,3691), (131,479), (5,12551),
     (97,647), (5,12553), (23,2729), (41,1531), (11,5707), (67,937), (7,8969), (5,12557),
     (37,1697), (5,12559), (7,8971), (13,4831), (181,347), (107,587), (23,2731), (5,12563),
     (11,5711), (5,12565), (83,757), (19,3307), (31,2027), (7,8977), (11,5713), (5,12569),
     (17,3697), (5,12571), (239,263), (37,1699), (7,8981), (5,12575), (227,277), (7,8983),
     (5,12577), (11,5717), (61,1031), (109,577), (31,2029)] =
   Some (62905, 4)"
  unfolding prime_rows_515_def by (simp only: walk_eval cong: walk_num_cong if_weak_cong)

lemma walk_525:
  "walk 62905 4 prime_rows_525
    [(5,12581), (7,8987), (53,1187), (5,12583), (17,3701), (7,8989), (13,4841), (5,12587),
     (113,557), (5,12589), (19,3313), (7,8993), (11,5723), (157,401), (13,4843), (79,797),
     (5,12593), (5,12595), (71,887), (7,8999), (5,12599), (73,863), (251,251), (5,12601),
     (7,9001), (13,4847), (61,1033), (29,2173), (11,5729), (19,3317), (5,12605), (5,12607),
     (13,4849), (11,5731), (23,2741), (67,941), (7,9007), (17,3709), (5,12611), (19,3319),
     (5,12613), (59,1069), (7,9011), (199,317), (5,12617), (13,4853), (7,9013), (5,12619),
     (89,709), (11,5737), (223,283), (5,12623), (7,9017), (17,3713), (5,12625), (7,9019),
     (19,3323), (103,613), (233,271), (5,12629), (11,5741), (5,12631), (137,461), (7,9023),
     (83,761), (13,4859), (181,349), (11,5743), (5,12635), (23,2747), (5,12637), (179,353),
     (29,2179), (13,4861), (7,9029), (5,12641), (31,2039), (5,12643), (7,9031), (191,331),
     (17,3719), (23,2749), (53,1193), (37,1709), (5,12647), (11,5749), (5,12649), (19,3329),
     (43,1471), (17,3721), (7,9037), (41,1543), (5,12653), (151,419), (13,4867), (5,12655),
     (11,5753), (7,9041), (19,3331), (167,379), (5,12659), (7,9043), (5,12661), (29,2183),
     (23,2753), (13,4871), (5,12665), (7,9047), (5,12667), (97,653), (7,9049), (11,5759),
     (5,12671), (17,3727), (5,12673), (7,9053), (127,499), (61,1039), (241,263), (5,12677),
     (5,12679), (13,4877), (19,3337), (163,389), (7,9059), (5,12683), (5,12685), (7,9061),
     (137,463), (229,277), (11,5767), (5,12689), (67,947), (107,593), (5,12691), (23,2759),
     (17,3733), (7,9067), (5,12695), (13,4883), (11,5771), (5,12697), (173,367), (7,9071),
     (11,5773), (5,12701), (41,1549), (7,9073), (5,12703), (19,3343), (139,457), (17,3737),
     (5,12707), (7,9077), (5,12709), (11,5777), (103,617), (7,9079), (13,4889), (17,3739),
     (5,12713), (11,5779), (151,421), (5,12715), (7,9083), (13,4891), (19,3347), (5,12719),
     (5,12721), (11,5783), (113,563), (7,9089), (5,12725), (17,3743), (5,12727), (7,9091),
     (23,2767), (31,2053), (53,1201), (5,12731), (13,4897), (5,12733), (41,1553), (37,1721),
     (7,9097), (43,1481), (5,12737), (5,12739), (11,5791), (7,9101), (13,4901), (5,12743),
     (7,9103), (5,12745), (101,631), (17,3749), (13,4903), (5,12749), (7,9107), (37,1723),
     (5,12751), (103,619), (7,9109), (11,5797), (43,1483), (5,12755), (23,2773), (5,12757),
     (227,281), (7,9113), (131,487), (5,12761), (11,5801), (5,12763), (13,4909), (19,3359),
     (83,769), (29,2201), (7,9119), (5,12767), (5,12769), (7,9121), (67,953), (19,3361),
     (5,12773), (13,4913), (23,2777), (5,12775), (11,5807), (127,503), (193,331), (29,2203),
     (7,9127), (181,353), (5,12779), (11,5809), (5,12781), (79,809), (7,9131), (41,1559),
     (97,659), (5,12785), (7,9133), (5,12787), (17,3761), (43,1487), (11,5813), (13,4919),
     (31,2063), (5,12791), (7,9137), (167,383), (5,12793), (47,1361), (17,3763), (7,9139),
     (137,467), (109,587), (5,12797), (61,1049), (89,719), (5,12799), (7,9143), (29,2207),
     (11,5819), (5,12803), (73,877), (5,12805), (43,1489), (11,5821), (17,3767), (7,9149),
     (5,12809), (19,3371), (13,4927), (5,12811), (7,9151), (29,2209), (79,811), (17,3769),
     (5,12815), (139,461), (5,12817), (19,3373), (107,599), (11,5827), (7,9157), (13,4931),
     (5,12821), (61,1051), (5,12823), (97,661), (37,1733), (7,9161), (13,4933), (59,1087),
     (5,12827), (31,2069), (7,9163), (5,12829), (23,2789), (83,773), (11,5833), (5,12833),
     (7,9167), (5,12835), (29,2213), (13,4937), (7,9169), (23,2791), (5,12839), (43,1493),
     (19,3379), (5,12841), (11,5837), (7,9173), (157,409), (149,431), (5,12845), (11,5839),
     (5,12847), (227,283), (17,3779), (41,1567), (47,1367), (7,9179), (5,12851), (13,4943),
     (179,359), (5,12853), (7,9181), (11,5843), (17,3781), (5,12857), (53,1213), (239,269),
     (5,12859), (113,569), (107,601), (7,9187), (73,881), (5,12863)] =
   Some (64321, 4)"
  unfolding prime_rows_525_def by (simp only: walk_eval cong: walk_num_cong if_weak_cong)

lemma walk_535:
  "walk 64321 4 prime_rows_535
    [(131,491), (5,12865), (23,2797), (7,9191), (11,5849), (37,1739), (5,12869), (229,281),
     (7,9193), (5,12871), (139,463), (11,5851), (13,4951), (191,337), (59,1091), (5,12875),
     (7,9197), (5,12877), (31,2077), (19,3389), (7,9199), (71,907), (5,12881), (29,2221),
     (41,1571), (5,12883), (37,1741), (7,9203), (23,2801), (11,5857), (19,3391), (5,12887),
     (13,4957), (5,12889), (17,3791), (43,1499), (73,883), (7,9209), (5,12893), (23,2803),
     (11,5861), (5,12895), (7,9211), (17,3793), (59,1093), (11,5863), (5,12899), (53,1217),
     (5,12901), (251,257), (31,2081), (149,433), (7,9217), (113,571), (5,12905), (173,373),
     (47,1373), (5,12907), (11,5867), (233,277), (19,3397), (7,9221), (17,3797), (5,12911),
     (11,5869), (7,9223), (5,12913), (13,4967), (31,2083), (17,3799), (5,12917), (7,9227),
     (5,12919), (13,4969), (7,9229), (23,2809), (5,12923), (19,3401), (5,12925), (7,9233),
     (109,593), (37,1747), (127,509), (5,12929), (13,4973), (17,3803), (5,12931), (19,3403),
     (11,5879), (7,9239), (5,12935), (71,911), (5,12937), (7,9241), (11,5881), (31,2087),
     (23,2813), (89,727), (5,12941), (163,397), (5,12943), (61,1061), (59,1097), (13,4979),
     (7,9247), (19,3407), (5,12947), (41,1579), (101,641), (5,12949), (73,887), (13,4981),
     (7,9251), (31,2089), (5,12953), (239,271), (7,9253), (5,12955), (211,307), (17,3811),
     (67,967), (5,12959), (7,9257), (11,5891), (5,12961), (229,283), (7,9259), (53,1223),
     (11,5893), (5,12965), (241,269), (13,4987), (5,12967), (23,2819), (7,9263), (61,1063),
     (19,3413), (5,12971), (79,821), (37,1753), (5,12973), (11,5897), (29,2237), (7,9269),
     (5,12977), (11,5899), (5,12979), (7,9271), (41,1583), (47,1381), (13,4993), (139,467),
     (5,12983), (5,12985), (29,2239), (11,5903), (7,9277), (101,643), (5,12989), (107,607),
     (5,12991), (17,3821), (13,4997), (167,389), (7,9281), (43,1511), (5,12995), (181,359),
     (7,9283), (5,12997), (13,4999), (17,3823), (103,631), (11,5909), (5,13001), (7,9287),
     (5,13003), (79,823), (11,5911), (7,9289), (5,13007), (13,5003), (193,337), (5,13009),
     (29,2243), (7,9293), (67,971), (17,3827), (5,13013), (31,2099), (5,13015), (59,1103),
     (151,431), (37,1759), (11,5917), (7,9299), (5,13019), (5,13021), (7,9301), (19,3427),
     (13,5009), (5,13025), (11,5921), (5,13027), (53,1229), (13,5011), (7,9307), (11,5923),
     (5,13031), (23,2833), (17,3833), (5,13033), (7,9311), (5,13037), (19,3431), (7,9313),
     (5,13039), (11,5927), (113,577), (197,331), (61,1069), (5,13043), (7,9317), (13,5017),
     (5,13045), (19,3433), (37,1763), (7,9319), (89,733), (53,1231), (5,13049), (71,919),
     (23,2837), (5,13051), (7,9323), (11,5933), (13,5021), (5,13055), (29,2251), (97,673),
     (5,13057), (109,599), (17,3841), (13,5023), (7,9329), (5,13061), (241,271), (5,13063),
     (7,9331), (83,787), (11,5939), (79,827), (5,13067), (223,293), (19,3439), (5,13069),
     (101,647), (11,5941), (7,9337), (163,401), (5,13073), (131,499), (5,13075), (13,5029),
     (151,433), (7,9341), (23,2843), (5,13079), (17,3847), (7,9343), (5,13081), (149,439),
     (11,5947), (5,13085), (7,9347), (59,1109), (5,13087), (31,2111), (7,9349), (29,2257),
     (5,13091), (67,977), (11,5951), (5,13093), (17,3851), (7,9353), (233,281), (41,1597),
     (11,5953), (5,13097), (43,1523), (79,829), (5,13099), (17,3853), (31,2113), (13,5039),
     (109,601), (7,9359), (5,13103), (5,13105), (7,9361), (19,3449), (13,5041)] =
   Some (65539, 4)"
  unfolding prime_rows_535_def by (simp only: walk_eval cong: walk_num_cong if_weak_cong)

section \<open>No prime is missing\<close>

definition accounted :: "int \<Rightarrow> int \<Rightarrow> int list \<Rightarrow> int \<Rightarrow> int \<Rightarrow> bool" where
  "accounted n g ps n' g' \<longleftrightarrow> (\<exists>cs. walk n g ps cs = Some (n', g'))"

lemma accountedI: "walk n g ps cs = Some (n', g') \<Longrightarrow> accounted n g ps n' g'"
  unfolding accounted_def by blast

lemma accounted_append:
  "accounted n g ps m h \<Longrightarrow> accounted m h qs n' g' \<Longrightarrow> accounted n g (ps @ qs) n' g'"
  unfolding accounted_def by (metis walk_append)

definition prime_tail :: "int list" where
  "prime_tail =
     drop 2 prime_rows_55 @
     prime_rows_65 @
     prime_rows_75 @
     prime_rows_85 @
     prime_rows_95 @
     prime_rows_105 @
     prime_rows_115 @
     prime_rows_125 @
     prime_rows_135 @
     prime_rows_145 @
     prime_rows_155 @
     prime_rows_165 @
     prime_rows_175 @
     prime_rows_185 @
     prime_rows_195 @
     prime_rows_205 @
     prime_rows_215 @
     prime_rows_225 @
     prime_rows_235 @
     prime_rows_245 @
     prime_rows_255 @
     prime_rows_265 @
     prime_rows_275 @
     prime_rows_285 @
     prime_rows_295 @
     prime_rows_305 @
     prime_rows_315 @
     prime_rows_325 @
     prime_rows_335 @
     prime_rows_345 @
     prime_rows_355 @
     prime_rows_365 @
     prime_rows_375 @
     prime_rows_385 @
     prime_rows_395 @
     prime_rows_405 @
     prime_rows_415 @
     prime_rows_425 @
     prime_rows_435 @
     prime_rows_445 @
     prime_rows_455 @
     prime_rows_465 @
     prime_rows_475 @
     prime_rows_485 @
     prime_rows_495 @
     prime_rows_505 @
     prime_rows_515 @
     prime_rows_525 @
     prime_rows_535"

lemma prime_tail_accounted: "accounted 5 2 prime_tail 65539 4"
  unfolding prime_tail_def
  by (rule accounted_append accountedI
      walk_55 walk_65 walk_75 walk_85 walk_95 walk_105 walk_115 walk_125 walk_135 walk_145
      walk_155 walk_165 walk_175 walk_185 walk_195 walk_205 walk_215 walk_225 walk_235
      walk_245 walk_255 walk_265 walk_275 walk_285 walk_295 walk_305 walk_315 walk_325
      walk_335 walk_345 walk_355 walk_365 walk_375 walk_385 walk_395 walk_405 walk_415
      walk_425 walk_435 walk_445 walk_455 walk_465 walk_475 walk_485 walk_495 walk_505
      walk_515 walk_525 walk_535)+

lemma prime_ints_eq: "prime_ints = [2, 3] @ prime_tail"
proof -
  have "prime_rows_55 = [2, 3] @ drop 2 prime_rows_55"
    by (simp add: prime_rows_55_def)
  then show ?thesis
    unfolding prime_ints_def prime_tail_def by (metis append_assoc)
qed

lemma prime_tail_facts:
  shows prime_tail_sorted: "sorted_wrt (<) prime_tail"
    and prime_tail_range: "p \<in> set prime_tail \<Longrightarrow> 5 \<le> p \<and> p < 65539 \<and> candidate p"
    and prime_tail_all: "candidate m \<Longrightarrow> 5 \<le> m \<Longrightarrow> m < 65539 \<Longrightarrow> m \<in> set prime_tail \<or> composite m"
proof -
  from prime_tail_accounted obtain cs where w: "walk 5 2 prime_tail cs = Some (65539, 4)"
    unfolding accounted_def by blast
  have "in_step 5 2" by (simp add: in_step_def)
  note facts = walk_accounts [OF w this]
  show "sorted_wrt (<) prime_tail"
    and "p \<in> set prime_tail \<Longrightarrow> 5 \<le> p \<and> p < 65539 \<and> candidate p"
    and "candidate m \<Longrightarrow> 5 \<le> m \<Longrightarrow> m < 65539 \<Longrightarrow> m \<in> set prime_tail \<or> composite m"
    using facts by blast+
qed

lemma prime_ints_sorted: "sorted_wrt (<) prime_ints"
  unfolding prime_ints_eq using prime_tail_sorted prime_tail_range by force

lemma prime_ints_range:
  assumes "p \<in> set prime_ints" shows "2 \<le> p \<and> p \<le> 65537"
proof -
  have "p \<noteq> 65538" if "candidate p" using that by (auto simp: candidate_def)
  then show ?thesis using assms prime_tail_range [of p] by (auto simp: prime_ints_eq)
qed

lemma composite_not_prime: "composite (int n) \<Longrightarrow> \<not> is_prime n"
proof
  assume "composite (int n)" and p: "is_prime n"
  then obtain d e where de: "int n = d * e" "1 < d" "1 < e"
    unfolding composite_def by blast
  then have "n = nat d * nat e"
    by (metis int_nat_eq nat_int nat_mult_distrib order_less_imp_le zero_less_one_class.zero_le_one le_less_trans)
  then have "nat d dvd n" "nat d \<noteq> 1" "nat d \<noteq> n"
    using de by auto
  with p show False unfolding is_prime_def by blast
qed

lemma small_prime_candidate:
  assumes "is_prime n" "5 \<le> n" shows "candidate (int n)"
proof -
  have "\<not> 2 dvd n" "\<not> 3 dvd n"
    using assms unfolding is_prime_def by force+
  then show ?thesis unfolding candidate_def by presburger
qed

theorem prime_ints_complete:
  assumes "is_prime n" "n < 65539"
  shows "int n \<in> set prime_ints"
proof (cases "5 \<le> n")
  case True
  with assms show ?thesis
    using prime_tail_all [OF small_prime_candidate] composite_not_prime
    by (auto simp: prime_ints_eq)
next
  case False
  with assms have "n = 2 \<or> n = 3 \<or> n = 4" unfolding is_prime_def by auto
  moreover have "\<not> is_prime 4" unfolding is_prime_def by (auto intro!: exI [of _ 2])
  ultimately show ?thesis using assms by (auto simp: prime_ints_eq)
qed

end
