(* ===== verification/Factor.thy ===== *)
theory Factor
  imports Prime_Table "HOL-Library.Sublist"
begin

text \<open>
  The program \<open>factor\<close> (\<^verbatim>\<open>src/bsd_additions/factor/factor.c\<close>, built without OpenSSL, so a
  \<open>BIGNUM\<close> is one \<open>uint64_t\<close>): reading numbers from the arguments or from standard input,
  and trial division by the table of primes.  \<open>pr_fact\<close> walks the table with a pointer; here
  the pointer is the part of the table that is left, so the pointer one past \<open>pr_limit\<close> is
  the empty list and reading through it is undefined behaviour.
\<close>

section \<open>The program\<close>

type_synonym ubig = "64 word"

definition prime :: "ubig list" where
  "prime = map word_of_int prime_ints"

definition BN_print_fp :: "ubig \<Rightarrow> string" where
  "BN_print_fp num = show_hex (unat num)"

definition BN_print_dec_fp :: "ubig \<Rightarrow> string" where
  "BN_print_dec_fp num = show_nat (unat num)"

definition BN_dec2bn :: "string \<Rightarrow> ubig \<times> bool" where
  "BN_dec2bn str = (case strtoul 10 str of (a, ok, _) \<Rightarrow> (a, ok))"

definition BN_hex2bn :: "string \<Rightarrow> ubig \<times> bool" where
  "BN_hex2bn str = (case strtoul 16 str of (a, ok, _) \<Rightarrow> (a, ok))"

definition BN_mod_word :: "ubig \<Rightarrow> ubig \<Rightarrow> ubig" where
  "BN_mod_word a b = a mod b"

text \<open>The caller ignores the remainder that \<open>BN_div_word\<close> returns: (quotient, remainder).\<close>

definition BN_div_word :: "ubig \<Rightarrow> ubig \<Rightarrow> ubig \<times> ubig" where
  "BN_div_word a b = (a div b, a mod b)"

definition pr_print :: "bool \<Rightarrow> ubig \<Rightarrow> string" where
  "pr_print hflag val =
     (if hflag then '' 0x'' @ BN_print_fp val else '' '' @ BN_print_dec_fp val)"

text \<open>The inner search \<open>do { ... } while (++fact <= pr_limit)\<close> from the pointer \<open>fact\<close>.\<close>

fun find_fact :: "ubig \<Rightarrow> ubig list \<Rightarrow> ubig list option" where
  "find_fact val [] = None"
| "find_fact val (f # fs) =
     (if BN_mod_word val f = 0 then Some (f # fs)
      else if fs = [] then Some []
      else find_fact val fs)"

text \<open>
  The loop that divides a factor out: the text it prints and the value it leaves.  It ends
  only because the value is not zero and the factor is not one.
\<close>

partial_function (option) divide_out :: "bool \<Rightarrow> ubig \<Rightarrow> ubig \<Rightarrow> (string \<times> ubig) option" where
  "divide_out hflag val f =
     (if BN_mod_word (fst (BN_div_word val f)) f = 0
      then Option.bind (divide_out hflag (fst (BN_div_word val f)) f)
             (\<lambda>(out, v). Some (pr_print hflag f @ out, v))
      else Some (pr_print hflag f, fst (BN_div_word val f)))"

lemma find_fact_shorter: "find_fact val fs = Some gs \<Longrightarrow> length gs \<le> length fs"
  by (induction fs) (auto split: if_splits)

function pr_fact_loop :: "bool \<Rightarrow> ubig \<Rightarrow> ubig list \<Rightarrow> unit run option" where
  "pr_fact_loop hflag val facts =
     (if val = 1 then Some (put [])
      else case find_fact val facts of
             None \<Rightarrow> Some (Undef [])
           | Some [] \<Rightarrow> Some (put (pr_print hflag val))
           | Some (f # fs) \<Rightarrow>
               (case divide_out hflag val f of
                  None \<Rightarrow> None
                | Some (out, v) \<Rightarrow>
                    map_option (\<lambda>r. bind_run (put out) (\<lambda>_. r)) (pr_fact_loop hflag v fs)))"
  by pat_completeness auto
termination
  by (relation "measure (\<lambda>(h, v, fs). length fs)") (auto dest: find_fact_shorter)

declare pr_fact_loop.simps [simp del]

definition pr_header :: "bool \<Rightarrow> ubig \<Rightarrow> string" where
  "pr_header hflag val =
     (if hflag then ''0x'' @ BN_print_fp val else BN_print_dec_fp val) @ '':''"

definition pr_fact :: "bool \<Rightarrow> ubig \<Rightarrow> unit run option" where
  "pr_fact hflag val =
     (if val = 0 then Some (Exit [] [] 0)
      else if val = 1 then Some (put (''1: 1'' @ [NL]))
      else map_option
             (\<lambda>r. bind_run (put (pr_header hflag val)) (\<lambda>_. bind_run r (\<lambda>_. put [NL])))
             (pr_fact_loop hflag val prime))"

fun is_hex_str_loop :: "bool \<Rightarrow> string \<Rightarrow> bool" where
  "is_hex_str_loop saw_hex [] = saw_hex"
| "is_hex_str_loop saw_hex (c # p) =
     (if isdigit c then is_hex_str_loop saw_hex p
      else if 97 \<le> code (tolower c) \<and> code (tolower c) \<le> 102 then is_hex_str_loop True p
      else saw_hex)"

definition is_hex_str :: "string \<Rightarrow> bool" where
  "is_hex_str str = is_hex_str_loop False str"

definition check_bn :: "string \<Rightarrow> ubig \<times> bool \<Rightarrow> ubig run" where
  "check_bn p vn =
     (if snd vn then ret (fst vn) else Exit [] (p @ '': illegal numeric format.'') 1)"

definition convert_str2bn :: "string \<Rightarrow> ubig run" where
  "convert_str2bn str =
     (let p = (if deref str = CHR ''+'' then tl str else str)
      in if deref p = CHR ''-'' then Exit [] ''negative numbers aren't permitted.'' 1
         else if deref p = CHR ''0''
         then (let p1 = tl p
               in if deref p1 = CHR ''x'' \<or> deref p1 = CHR ''X''
                  then check_bn (tl p1) (BN_hex2bn (tl p1))
                  else check_bn p1 (0, False))
         else check_bn p (if is_hex_str p then BN_hex2bn p else BN_dec2bn p))"

text \<open>One number: convert it, then print its factors.\<close>

definition factor_one :: "bool \<Rightarrow> string \<Rightarrow> unit run option" where
  "factor_one hflag p =
     (case convert_str2bn p of
        Ret out val \<Rightarrow> map_option (bind_run (put out) o (\<lambda>r _. r)) (pr_fact hflag val)
      | Exit out err n \<Rightarrow> Some (Exit out err n)
      | Undef out \<Rightarrow> Some (Undef out))"

text \<open>
  \<open>factor_all hflag ps end\<close> factors the texts \<open>ps\<close> in turn and then ends the program the way
  \<open>end\<close> says; a number that makes the process exit stops the rest.
\<close>

fun factor_all :: "bool \<Rightarrow> string list \<Rightarrow> unit run \<Rightarrow> unit run option" where
  "factor_all hflag [] stop = Some stop"
| "factor_all hflag (p # ps) stop =
     (case factor_one hflag p of
        None \<Rightarrow> None
      | Some (Ret out _) \<Rightarrow>
          map_option (bind_run (put out) o (\<lambda>r _. r)) (factor_all hflag ps stop)
      | Some (Exit out err n) \<Rightarrow> Some (Exit out err n)
      | Some (Undef out) \<Rightarrow> Some (Undef out))"

text \<open>What successive calls \<open>fgets(buf, size, stdin)\<close> deliver for an input.\<close>

fun fgets_one :: "nat \<Rightarrow> string \<Rightarrow> string \<times> string" where
  "fgets_one 0 s = ([], s)"
| "fgets_one (Suc n) [] = ([], [])"
| "fgets_one (Suc n) (c # s) =
     (if c = NL then ([c], s) else (case fgets_one n s of (l, r) \<Rightarrow> (c # l, r)))"

lemma fgets_one_split: "fgets_one n s = (l, r) \<Longrightarrow> s = l @ r"
  by (induction n s arbitrary: l r rule: fgets_one.induct) (auto split: if_splits prod.splits)

lemma fgets_one_progress: "length (snd (fgets_one (Suc n) (c # s))) < length (c # s)"
proof -
  obtain l r where lr: "fgets_one n s = (l, r)" by fastforce
  with fgets_one_split [OF lr] show ?thesis by simp
qed

function fgets_all :: "nat \<Rightarrow> string \<Rightarrow> string list" where
  "fgets_all n [] = []"
| "fgets_all n (c # s) =
     fst (fgets_one (Suc n) (c # s)) # fgets_all n (snd (fgets_one (Suc n) (c # s)))"
  by pat_completeness auto
termination
  by (relation "measure (\<lambda>(n, s). length s)")
     (use fgets_one_progress in \<open>simp_all del: fgets_one.simps\<close>)

definition LINE_MAX :: nat where
  "LINE_MAX = 2048"

text \<open>A line is factored unless nothing but blanks comes before its newline or its end.\<close>

definition stdin_numbers :: "string \<Rightarrow> string list" where
  "stdin_numbers input =
     filter (\<lambda>p. deref p \<noteq> NL \<and> deref p \<noteq> NUL)
       (map (dropWhile isblank o cstr) (fgets_all (LINE_MAX - 2) input))"

text \<open>\<open>getopt(argc, argv, "h")\<close>: the number of \<open>-h\<close> and the operands; \<open>None\<close> calls \<open>factor_usage\<close>.\<close>

primrec getopt_h :: "string list \<Rightarrow> nat \<Rightarrow> (nat \<times> string list) option" where
  "getopt_h [] hflag = Some (hflag, [])"
| "getopt_h (a # argv) hflag =
     (if a = ''--'' then Some (hflag, argv)
      else if deref a \<noteq> CHR ''-'' \<or> a = ''-'' then Some (hflag, a # argv)
      else if list_all (\<lambda>c. c = CHR ''h'') (tl a) then getopt_h argv (hflag + length (tl a))
      else None)"

definition factor_usage :: "unit run" where
  "factor_usage = Exit [] (''usage: factor [-h] [value ...]'' @ [NL]) 1"

text \<open>
  \<open>factor_main\<close>: the arguments after the program name, the text of standard input and whether
  reading it ends in an error, and whether \<open>calloc\<close> found room for the number.
\<close>

definition factor_main :: "string list \<Rightarrow> string \<Rightarrow> bool \<Rightarrow> bool \<Rightarrow> unit run option" where
  "factor_main argv input read_error mem =
     (if \<not> mem then Some (Exit [] ''can't initialise bignum'' 1)
      else case getopt_h argv 0 of
        None \<Rightarrow> Some factor_usage
      | Some (hflag, args) \<Rightarrow>
          (if args = []
           then factor_all (0 < hflag) (stdin_numbers input)
                  (if read_error then Exit [] ''stdin'' 1 else Exit [] [] 0)
           else factor_all (0 < hflag) args (Exit [] [] 0)))"

section \<open>Arithmetic of the table\<close>

text \<open>
  \<open>rough b n\<close>: no prime below \<open>b\<close> divides \<open>n\<close>.  \<open>bound lim ps\<close> is the next prime that the rest
  \<open>ps\<close> of a table offers; past its end every prime from \<open>lim\<close> on is missing.
\<close>

definition rough :: "nat \<Rightarrow> nat \<Rightarrow> bool" where
  "rough b n \<longleftrightarrow> (\<forall>q. is_prime q \<and> q dvd n \<longrightarrow> b \<le> q)"

fun bound :: "nat \<Rightarrow> int list \<Rightarrow> nat" where
  "bound lim [] = lim"
| "bound lim (p # ps) = nat p"

lemma roughD: "rough b n \<Longrightarrow> is_prime q \<Longrightarrow> q dvd n \<Longrightarrow> b \<le> q"
  by (auto simp: rough_def)

lemma rough_dvd: "rough b n \<Longrightarrow> m dvd n \<Longrightarrow> rough b m"
  unfolding rough_def using dvd_trans by blast

lemma rough_one [simp]: "rough b (Suc 0)"
  by (auto simp: rough_def is_prime_def)

lemma rough_two [simp]: "rough 2 n"
  by (auto simp: rough_def is_prime_def)

lemma prime_divisor:
  assumes "1 < n" shows "\<exists>q. is_prime q \<and> q dvd n"
  using assms
proof (induction n rule: less_induct)
  case (less n)
  show ?case
  proof (cases "is_prime n")
    case False
    with less.prems obtain m where m: "m dvd n" "m \<noteq> 1" "m \<noteq> n"
      by (auto simp: is_prime_def)
    from m(1) less.prems have "m \<le> n" by (auto intro: dvd_imp_le)
    moreover from m(1) less.prems have "m \<noteq> 0" by (intro notI) simp
    ultimately have "m < n" "1 < m" using m by auto
    with less.IH obtain q where "is_prime q" "q dvd m" by blast
    with m show ?thesis using dvd_trans by blast
  qed auto
qed

text \<open>A divisor that meets a lower bound on all prime divisors is itself prime.\<close>

lemma rough_least_prime:
  assumes "rough p n" "p dvd n" "1 < p" shows "is_prime p"
proof -
  obtain q where q: "is_prime q" "q dvd p" using prime_divisor assms(3) by blast
  then have "p \<le> q" using assms dvd_trans roughD by blast
  then have "q = p" using q assms(3) by (auto dest: dvd_imp_le)
  with q show ?thesis by simp
qed

lemma rough_small_prime:
  assumes "rough b n" "1 < n" "n < b * b" shows "is_prime n"
proof -
  obtain q where q: "is_prime q" "q dvd n" using prime_divisor assms(2) by blast
  then obtain k where k: "n = q * k" by (auto elim: dvdE)
  have bq: "b \<le> q" using assms(1) q roughD by blast
  have "k = 1"
  proof (rule ccontr)
    assume "k \<noteq> 1"
    with k assms(2) have "1 < k" by (cases k) auto
    then obtain r where r: "is_prime r" "r dvd k" using prime_divisor by blast
    then have "b \<le> r" using assms(1) k roughD dvd_mult by metis
    with r \<open>1 < k\<close> have "b \<le> k" by (auto dest: dvd_imp_le)
    with bq have "b * b \<le> n" unfolding k by (rule mult_le_mono)
    with assms(3) show False by simp
  qed
  with k q show ?thesis by simp
qed

text \<open>
  What trial division relies on: an ascending table that holds every prime below \<open>lim\<close>.  The
  search of \<open>pr_fact\<close> is verified against this contract.
\<close>

abbreviation wds :: "int list \<Rightarrow> ubig list" where
  "wds ps \<equiv> map word_of_int ps"

locale trial_table =
  fixes tbl :: "int list" and lim :: nat
  assumes ascending: "sorted_wrt (<) tbl"
    and range: "p \<in> set tbl \<Longrightarrow> 2 \<le> p \<and> p < int lim"
    and complete: "is_prime n \<Longrightarrow> n < lim \<Longrightarrow> int n \<in> set tbl"
    and small: "lim < 2 ^ 64"
begin

lemma table_range:
  assumes "suffix ps tbl" "p \<in> set ps" shows "2 \<le> p" "p < int lim"
  using range [of p] assms(2) set_mono_suffix [OF assms(1)] by auto

lemma table_step:
  assumes "suffix (p # ps) tbl" "is_prime q" "nat p < q"
  shows "bound lim ps \<le> q"
proof (cases "q < lim")
  case True
  obtain us where us: "tbl = us @ p # ps" using assms(1) by (auto simp: suffix_def)
  have "int q \<in> set tbl" using True assms(2) complete by blast
  moreover have "int q \<notin> set us" "int q \<noteq> p"
    using ascending assms(3) unfolding us by (auto simp: sorted_wrt_append)
  ultimately have "int q \<in> set ps" by (simp add: us)
  then show ?thesis using ascending unfolding us
    by (cases ps) (auto simp: sorted_wrt_append)
next
  case False
  then show ?thesis using table_range [OF assms(1)] by (cases ps) force+
qed

lemma rough_step:
  assumes "suffix (p # ps) tbl" "rough (nat p) n" "\<not> nat p dvd n"
  shows "rough (bound lim ps) n"
  unfolding rough_def
proof (intro allI impI)
  fix q assume q: "is_prime q \<and> q dvd n"
  then have "nat p \<le> q" using assms(2) by (auto dest: roughD)
  moreover have "nat p \<noteq> q" using q assms(3) by blast
  ultimately show "bound lim ps \<le> q" using table_step [OF assms(1)] q by auto
qed

lemma unat_table:
  assumes "suffix ps tbl" "p \<in> set ps"
  shows "unat (word_of_int p :: ubig) = nat p"
proof -
  have "uint (word_of_int p :: ubig) = p"
    using table_range [OF assms] small by (simp add: uint_word_of_int_eq take_bit_int_eq_self)
  then show ?thesis by (metis unat_eq_nat_uint)
qed

lemma mod_word_table:
  assumes "suffix ps tbl" "p \<in> set ps"
  shows "BN_mod_word val (word_of_int p) = 0 \<longleftrightarrow> nat p dvd unat val"
  by (simp add: BN_mod_word_def unat_table [OF assms] unat_mod dvd_eq_mod_eq_0 flip: unat_eq_0)

lemma find_fact_rest:
  assumes "suffix ps tbl" "ps \<noteq> []" "rough (bound lim ps) (unat val)"
  shows "\<exists>gs. find_fact val (wds ps) = Some (wds gs) \<and> suffix gs ps \<and>
           rough (bound lim gs) (unat val) \<and> (gs \<noteq> [] \<longrightarrow> bound lim gs dvd unat val)"
  using assms
proof (induction ps)
  case (Cons p ps)
  have p: "BN_mod_word val (word_of_int p) = 0 \<longleftrightarrow> nat p dvd unat val"
    using mod_word_table [OF Cons.prems(1)] by simp
  have sub: "suffix ps tbl" by (rule suffix_ConsD [OF Cons.prems(1)])
  show ?case
  proof (cases "nat p dvd unat val")
    case True
    with p Cons.prems show ?thesis by (intro exI [of _ "p # ps"]) simp
  next
    case False
    have r: "rough (bound lim ps) (unat val)" using rough_step [OF Cons.prems(1)] Cons.prems(3) False by simp
    show ?thesis
    proof (cases "ps = []")
      case True
      with p False r show ?thesis by (intro exI [of _ "[]"]) simp
    next
      case False
      with Cons.IH sub r obtain gs where
        "find_fact val (wds ps) = Some (wds gs)" "suffix gs ps"
        "rough (bound lim gs) (unat val)" "gs \<noteq> [] \<longrightarrow> bound lim gs dvd unat val" by blast
      with False p \<open>\<not> nat p dvd unat val\<close> show ?thesis
        by (intro exI [of _ gs]) (auto intro: suffix_ConsI)
    qed
  qed
qed simp

end

interpretation tbl: trial_table prime_ints 65539
  using prime_ints_sorted prime_ints_range prime_ints_complete by unfold_locales fastforce+

section \<open>The loops of \<open>pr_fact\<close>\<close>

definition printed :: "bool \<Rightarrow> nat list \<Rightarrow> string" where
  "printed h fs = concat (map (\<lambda>f. pr_print h (word_of_nat f)) fs)"

lemma printed_simps [simp]:
  "printed h [] = []"
  "printed h (f # fs) = pr_print h (word_of_nat f) @ printed h fs"
  "printed h (fs @ gs) = printed h fs @ printed h gs"
  by (simp_all add: printed_def)

lemma divide_out_works:
  assumes "val \<noteq> 0" "1 < unat f" "unat f dvd unat val"
  shows "\<exists>k v. divide_out h val f = Some (concat (replicate (Suc k) (pr_print h f)), v) \<and>
           unat val = unat f ^ Suc k * unat v \<and> \<not> unat f dvd unat v"
  using assms
proof (induction "unat val" arbitrary: val rule: less_induct)
  case less
  let ?v = "val div f"
  have v: "unat val = unat f * unat ?v" using less.prems(3) by (simp add: unat_div)
  have pos: "0 < unat val" using less.prems(1) by (simp add: unat_gt_0)
  with v have lt: "unat ?v < unat val" "?v \<noteq> 0" using less.prems(2) by (auto simp: unat_gt_0)
  have m: "BN_mod_word ?v f = 0 \<longleftrightarrow> unat f dvd unat ?v"
    by (simp add: BN_mod_word_def unat_mod dvd_eq_mod_eq_0 flip: unat_eq_0)
  show ?case
  proof (cases "unat f dvd unat ?v")
    case True
    with less.hyps [OF lt(1,2)] less.prems(2) obtain k v' where
      "divide_out h ?v f = Some (concat (replicate (Suc k) (pr_print h f)), v')"
      "unat ?v = unat f ^ Suc k * unat v'" "\<not> unat f dvd unat v'" by blast
    with True m v show ?thesis
      by (intro exI [of _ "Suc k"] exI [of _ v'], subst divide_out.simps)
         (simp add: BN_div_word_def)
  next
    case False
    with m v show ?thesis
      by (intro exI [of _ 0] exI [of _ ?v], subst divide_out.simps) (simp add: BN_div_word_def)
  qed
qed

text \<open>
  A number is the product of the primes up to 65537 that divide it and of a rest \<open>m\<close> without
  such a divisor.
\<close>

definition factorisation :: "nat \<Rightarrow> nat list \<Rightarrow> nat \<Rightarrow> bool" where
  "factorisation n fs m \<longleftrightarrow>
     prod_list fs * m = n \<and> sorted fs \<and> (\<forall>p \<in> set fs. is_prime p \<and> p \<le> 65537) \<and> rough 65539 m"

lemma factorisation_rest: "rough 65539 n \<Longrightarrow> factorisation n [] n"
  by (simp add: factorisation_def)

lemma factorisation_dvd:
  assumes "factorisation n fs m" "p \<in> set fs" shows "p dvd n"
proof -
  have "p dvd prod_list fs" using assms(2) by (induction fs) auto
  then show ?thesis using assms(1) by (auto simp: factorisation_def)
qed

lemma factorisation_more:
  assumes fv: "factorisation v fs m" and n: "n = p ^ Suc k * v"
    and p: "rough p n" "1 < p" "p \<le> 65537"
  shows "factorisation n (replicate (Suc k) p @ fs) m"
proof -
  have "v dvd n" "p dvd n" using n by auto
  have "is_prime p" using rough_least_prime [OF p(1) \<open>p dvd n\<close> p(2)] .
  moreover have "p \<le> q" if "q \<in> set fs" for q
    using that fv factorisation_dvd [OF fv that] roughD [OF p(1), of q] \<open>v dvd n\<close>
    by (auto simp: factorisation_def intro: dvd_trans)
  ultimately show ?thesis
    using fv n p(3) by (auto simp: factorisation_def sorted_append)
qed

lemma last_prime: "last prime_ints = 65537"
  by (simp add: prime_ints_def prime_rows_535_def)

lemma prime_table_max: "suffix ps prime_ints \<Longrightarrow> p \<in> set ps \<Longrightarrow> p \<le> 65537"
  using prime_ints_range set_mono_suffix by blast

lemma table_end:
  assumes "suffix (p # ps) prime_ints" shows "ps = [] \<longleftrightarrow> p = 65537"
proof
  obtain us where us: "prime_ints = us @ p # ps" using assms by (auto simp: suffix_def)
  show "p = 65537" if "ps = []" using last_prime that unfolding us by simp
  show "ps = []" if "p = 65537"
  proof (cases ps)
    case (Cons q qs)
    then have "p < q" using prime_ints_sorted unfolding us by (simp add: sorted_wrt_append)
    moreover have "q \<le> 65537" using prime_table_max [OF assms] Cons by simp
    ultimately show ?thesis using that by simp
  qed
qed

definition fact_result :: "bool \<Rightarrow> bool \<Rightarrow> nat list \<Rightarrow> nat \<Rightarrow> unit run" where
  "fact_result at_end h fs m =
     (if m = 1 then put (printed h fs)
      else if at_end \<or> 65537 \<in> set fs then Undef (printed h fs)
      else put (printed h (fs @ [m])))"

lemma fact_result_more:
  "bind_run (put (concat (replicate k (pr_print h (word_of_nat p)))))
      (\<lambda>_. fact_result (p = 65537) h fs m)
   = fact_result False h (replicate k p @ fs) m" if "0 < k"
proof -
  have "concat (replicate k (pr_print h (word_of_nat p))) = printed h (replicate k p)"
    by (induction k) auto
  then show ?thesis using that by (auto simp: fact_result_def)
qed

lemma unat_eq_1: "unat (w :: ubig) = 1 \<longleftrightarrow> w = 1"
  by (metis unsigned_1 unsigned_word_eqI)

lemma pr_fact_loop_result:
  assumes "suffix ps prime_ints" "rough (bound 65539 ps) (unat val)" "val \<noteq> 0"
  shows "\<exists>fs m. factorisation (unat val) fs m \<and>
           pr_fact_loop h val (wds ps) = Some (fact_result (ps = []) h fs m)"
  using assms
proof (induction "length ps" arbitrary: ps val rule: less_induct)
  case less
  note loop = pr_fact_loop.simps [of h val "wds ps"]
  consider "val = 1" | "val \<noteq> 1" "ps = []" | "val \<noteq> 1" "ps \<noteq> []" by blast
  then show ?case
  proof cases
    case 1
    then show ?thesis using factorisation_rest [of 1] loop
      by (intro exI [of _ "[]"] exI [of _ 1]) (simp add: fact_result_def)
  next
    case 2
    then have "unat val \<noteq> 1" by (simp add: unat_eq_1 del: One_nat_def)
    with 2 less.prems show ?thesis using factorisation_rest [of "unat val"] loop
      by (intro exI [of _ "[]"] exI [of _ "unat val"]) (simp add: fact_result_def)
  next
    case 3
    with tbl.find_fact_rest less.prems(1,2) obtain gs where gs:
      "find_fact val (wds ps) = Some (wds gs)" "suffix gs ps"
      "rough (bound 65539 gs) (unat val)" "gs \<noteq> [] \<longrightarrow> bound 65539 gs dvd unat val" by blast
    show ?thesis
    proof (cases gs)
      case Nil
      from 3 have "unat val \<noteq> 1" by (simp add: unat_eq_1 del: One_nat_def)
      with 3 gs Nil show ?thesis using factorisation_rest [of "unat val"] loop
        by (intro exI [of _ "[]"] exI [of _ "unat val"]) (simp add: fact_result_def)
    next
      case (Cons p qs)
      let ?f = "word_of_int p :: ubig"
      have suf: "suffix (p # qs) prime_ints"
        using gs(2) less.prems(1) Cons suffix_order.trans by blast
      have p: "2 \<le> p" "p \<le> 65537" "unat ?f = nat p" "?f = word_of_nat (nat p)"
        using tbl.table_range(1) [OF suf, of p] prime_table_max [OF suf, of p]
          tbl.unat_table [OF suf, of p] by simp_all
      have f: "1 < unat ?f" "unat ?f dvd unat val" using gs(4) Cons p(1,3) by simp_all
      obtain k v where kv:
        "divide_out h val ?f = Some (concat (replicate (Suc k) (pr_print h ?f)), v)"
        "unat val = nat p ^ Suc k * unat v" "\<not> nat p dvd unat v"
        using divide_out_works [OF less.prems(3) f, of h, unfolded p(3)] by blast
      have v0: "v \<noteq> 0" using kv(2) less.prems(3) by (auto simp: unat_eq_0)
      have rv: "rough (nat p) (unat v)" using gs(3) Cons kv(2) by (auto intro: rough_dvd)
      have "length qs < length ps" using gs(2) Cons suffix_length_le by fastforce
      note ih = less.hyps [OF this suffix_ConsD [OF suf] tbl.rough_step [OF suf rv kv(3)] v0]
      have at_end: "qs = [] \<longleftrightarrow> nat p = 65537" using table_end [OF suf] p(1) by auto
      obtain fs m where fm: "factorisation (unat v) fs m"
        "pr_fact_loop h v (wds qs) = Some (fact_result (nat p = 65537) h fs m)"
        using ih unfolding at_end by blast
      have "factorisation (unat val) (replicate (Suc k) (nat p) @ fs) m"
        using factorisation_more [OF fm(1) kv(2)] gs(3) Cons p(1,2) by simp
      moreover have "pr_fact_loop h val (wds ps)
          = Some (fact_result False h (replicate (Suc k) (nat p) @ fs) m)"
        using 3 loop gs(1) Cons kv(1) fm(2) fact_result_more [of "Suc k" h "nat p" fs m] p(4)
        by (simp del: bind_run.simps replicate_Suc)
      ultimately show ?thesis using 3 by auto
    qed
  qed
qed

section \<open>What \<open>pr_fact\<close> prints\<close>

lemma prime_table_bound: "rough (bound 65539 prime_ints) n"
  by (simp add: prime_ints_eq)

lemma pr_fact_result:
  assumes "1 < val"
  obtains fs m where "factorisation (unat val) fs m"
    "pr_fact h val = Some (bind_run (put (pr_header h val))
       (\<lambda>_. bind_run (fact_result False h fs m) (\<lambda>_. put [NL])))"
proof -
  have v: "val \<noteq> 0" "val \<noteq> 1" using assms by auto
  have "prime_ints \<noteq> []" by (simp add: prime_ints_eq)
  with pr_fact_loop_result [OF suffix_order.refl prime_table_bound v(1), of h] v show ?thesis
    by (auto simp: pr_fact_def prime_def simp del: bind_run.simps intro: that)
qed

lemma rough_rest_large: "rough b m \<Longrightarrow> m \<noteq> 0 \<Longrightarrow> m \<noteq> 1 \<Longrightarrow> b \<le> m"
proof -
  assume m: "rough b m" "m \<noteq> 0" "m \<noteq> 1"
  then obtain q where q: "is_prime q" "q dvd m" using prime_divisor [of m] by auto
  then have "q \<le> m" using m(2) by (intro dvd_imp_le) auto
  with roughD [OF m(1) q] show ?thesis by simp
qed

lemma prod_list_mem_le: "p \<in> set fs \<Longrightarrow> prod_list fs \<noteq> 0 \<Longrightarrow> p \<le> prod_list (fs :: nat list)"
  by (induction fs) (auto intro: order_trans)

text \<open>The primes a complete factorisation lists, in order.\<close>

definition prime_factors_of :: "nat \<Rightarrow> nat list \<Rightarrow> bool" where
  "prime_factors_of n fs \<longleftrightarrow> prod_list fs = n \<and> sorted fs \<and> (\<forall>p \<in> set fs. is_prime p)"

lemma factorisation_complete:
  assumes "factorisation n fs m" "m \<noteq> 0" "m \<noteq> 1" "m < 65539 * 65539"
  shows "prime_factors_of n (fs @ [m])"
proof -
  have "is_prime m" using assms rough_small_prime [of 65539 m]
    by (auto simp: factorisation_def)
  moreover have "65539 \<le> m" using assms rough_rest_large by (auto simp: factorisation_def)
  ultimately show ?thesis using assms(1)
    by (force simp: prime_factors_of_def factorisation_def sorted_append)
qed

lemma pr_fact_small:
  assumes "1 < val" "val < 65537 * 65539"
  shows "\<exists>fs. prime_factors_of (unat val) fs \<and>
           pr_fact h val = Some (put (pr_header h val @ printed h fs @ [NL]))"
proof -
  obtain fs m where fm: "factorisation (unat val) fs m"
    "pr_fact h val = Some (bind_run (put (pr_header h val))
       (\<lambda>_. bind_run (fact_result False h fs m) (\<lambda>_. put [NL])))"
    using pr_fact_result assms(1) by blast
  have val: "unat val < 65537 * 65539" "unat val \<noteq> 0"
    using assms by (auto simp: word_less_nat_alt unat_eq_0)
  have eq: "prod_list fs * m = unat val" using fm(1) by (simp add: factorisation_def)
  with val(2) have nz: "m \<noteq> 0" "prod_list fs \<noteq> 0" by (metis mult_eq_0_iff)+
  show ?thesis
  proof (cases "m = 1")
    case True
    with fm show ?thesis
      by (intro exI [of _ fs]) (auto simp: fact_result_def prime_factors_of_def factorisation_def)
  next
    case False
    have m: "65539 \<le> m" using fm(1) False nz rough_rest_large by (auto simp: factorisation_def)
    have "65537 \<notin> set fs"
    proof
      assume "65537 \<in> set fs"
      then have "65537 \<le> prod_list fs" using prod_list_mem_le nz by blast
      from mult_le_mono [OF this m] have "65537 * 65539 \<le> prod_list fs * m" .
      with val eq show False by simp
    qed
    moreover have "m \<le> unat val" using eq nz(2) by (metis mult_le_mono1 nat_mult_1 less_one not_le)
    with val(1) have "m < 65539 * 65539" by simp
    ultimately show ?thesis using fm False factorisation_complete [OF fm(1) nz(1) False]
      by (intro exI [of _ "fs @ [m]"]) (simp add: fact_result_def)
  qed
qed

text \<open>Euclid's lemma for \<open>is_prime\<close>, and that 65537, the last entry of the table, is prime.\<close>

lemma is_prime_dvd_mult:
  assumes "is_prime p" "p dvd a * b" shows "p dvd a \<or> p dvd b"
proof (cases "p dvd a")
  case False
  have "coprime p a"
  proof (rule coprimeI)
    fix c assume c: "c dvd p" "c dvd a"
    then have "c = 1 \<or> c = p" using assms(1) by (simp add: is_prime_def)
    with c False show "is_unit c" by auto
  qed
  then show ?thesis using assms(2) by (simp add: coprime_dvd_mult_right_iff)
qed simp

lemma is_prime_dvd_prime: "is_prime p \<Longrightarrow> is_prime q \<Longrightarrow> p dvd q \<Longrightarrow> p = q"
  by (auto simp: is_prime_def)

lemma is_prime_dvd_prod_list:
  assumes "is_prime p" "p dvd prod_list fs" "\<forall>f \<in> set fs. is_prime f" shows "p \<in> set fs"
  using assms(2,3)
proof (induction fs)
  case Nil
  then show ?case using assms(1) by (simp add: is_prime_def)
next
  case (Cons f fs)
  then show ?case using is_prime_dvd_mult [OF assms(1)] is_prime_dvd_prime [OF assms(1)] by auto
qed

lemma is_prime_trial:
  assumes "\<forall>q \<in> set [2..256]. int n mod q \<noteq> 0" "1 < n" "n < 257 * 257"
  shows "is_prime n"
proof (rule rough_small_prime [of 257])
  have int: "\<not> q dvd int n" if "2 \<le> q" "q \<le> 256" for q :: int
    using assms(1) that unfolding set_upto dvd_eq_mod_eq_0 by (metis atLeastAtMost_iff)
  have "257 \<le> q" if "is_prime q" "q dvd n" for q
    using that int [of "int q"] int_dvd_int_iff [of q n]
    by (cases "q \<le> 256") (simp_all add: is_prime_def)
  then show "rough 257 n" by (simp add: rough_def)
qed (use assms in simp_all)

lemma is_prime_65537: "is_prime 65537"
  by (rule is_prime_trial) (simp_all only: of_nat_numeral, code_simp+)

lemma is_prime_65539: "is_prime 65539"
  by (rule is_prime_trial) (simp_all only: of_nat_numeral, code_simp+)

lemma factorisation_65537:
  assumes "factorisation n fs m" shows "65537 \<in> set fs \<longleftrightarrow> 65537 dvd n"
proof
  show "65537 dvd n" if "65537 \<in> set fs" using factorisation_dvd [OF assms that] .
  assume "65537 dvd n"
  then have "65537 dvd prod_list fs * m" using assms by (simp add: factorisation_def)
  then consider "65537 dvd prod_list fs" | "65537 dvd m"
    using is_prime_dvd_mult [OF is_prime_65537] by blast
  then show "65537 \<in> set fs"
  proof cases
    case 1
    then show ?thesis
      using is_prime_dvd_prod_list [OF is_prime_65537] assms by (auto simp: factorisation_def)
  next
    case 2
    then show ?thesis using assms roughD [of 65539 m 65537] is_prime_65537
      by (simp add: factorisation_def)
  qed
qed

lemma factorisation_rest_iff:
  assumes "factorisation n fs m" "n \<noteq> 0"
  shows "m \<noteq> 1 \<longleftrightarrow> (\<exists>q. is_prime q \<and> 65537 < q \<and> q dvd n)"
proof
  have m0: "m \<noteq> 0" "m dvd n" using assms by (auto simp: factorisation_def)
  show "\<exists>q. is_prime q \<and> 65537 < q \<and> q dvd n" if "m \<noteq> 1"
  proof -
    obtain q where q: "is_prime q" "q dvd m" using prime_divisor [of m] m0 \<open>m \<noteq> 1\<close> by auto
    then have "65539 \<le> q" using assms(1) roughD by (auto simp: factorisation_def)
    with q show ?thesis using m0 dvd_trans by (intro exI [of _ q]) auto
  qed
  assume "\<exists>q. is_prime q \<and> 65537 < q \<and> q dvd n"
  then obtain q where q: "is_prime q" "65537 < q" "q dvd prod_list fs * m"
    using assms(1) by (auto simp: factorisation_def)
  show "m \<noteq> 1"
  proof
    assume "m = 1"
    with q assms(1) have "q \<in> set fs"
      using is_prime_dvd_prod_list by (auto simp: factorisation_def)
    with q(2) assms(1) show False by (auto simp: factorisation_def)
  qed
qed

section \<open>Reading numbers\<close>

lemma hexchar_eq_0: "d < 16 \<Longrightarrow> hexchar d = CHR ''0'' \<longleftrightarrow> d = 0"
  by (auto simp: hexchar_def char_of_eq)

lemma show_base_hd:
  assumes "2 \<le> b" "b \<le> 16" "n \<noteq> 0"
  shows "deref (show_base b n) \<noteq> CHR ''0''"
  using assms(3)
proof (induction n rule: less_induct)
  case (less n)
  show ?case
  proof (cases "n < b")
    case True
    then show ?thesis using assms less.prems
      by (subst show_base.simps) (simp add: hexchar_eq_0)
  next
    case False
    then have "n div b < n" "n div b \<noteq> 0" using assms by (auto simp: div_eq_0_iff)
    with less.IH have "deref (show_base b (n div b)) \<noteq> CHR ''0''" by blast
    moreover have "deref (xs @ ys) = deref xs" if "xs \<noteq> []" for xs ys
      using that by (cases xs) auto
    ultimately show ?thesis using False assms by (subst show_base.simps) simp
  qed
qed

lemma is_digit_in_facts:
  assumes "is_digit_in b c" "b \<le> 16"
  shows "\<not> isspace c" "\<not> is_sign c" "c \<noteq> CHR ''+''" "c \<noteq> CHR ''-''" "\<not> isblank c"
    "c \<noteq> NL" "c \<noteq> NUL" "tolower c \<noteq> CHR ''x''" "c \<noteq> CHR ''x''" "c \<noteq> CHR ''X''"
  using assms
  by (auto simp: is_digit_in_def digit_of_def ctype_simps is_sign_def char_of_eq
      split: if_splits)

text \<open>\<open>strtoul\<close> reads back what \<open>printf\<close> wrote, up to the first character that is no digit.\<close>

lemma strtoul_show_base:
  assumes "b = 10 \<or> b = 16" "n < 2 ^ 64" "rest = [] \<or> \<not> isalnum (hd rest)"
  shows "strtoul b (show_base b n @ rest) = (word_of_nat n, True, rest)"
proof -
  have b: "2 \<le> b" "b \<le> 16" using assms(1) by auto
  let ?s = "show_base b n"
  have dig: "\<forall>c \<in> set ?s. is_digit_in b c" using show_base_digits b by blast
  have rest: "takeWhile (is_digit_in b) rest = []" "dropWhile (is_digit_in b) rest = rest"
    using assms(3) by (cases rest; auto simp: is_digit_in_def digit_of_def isalnum_def isalpha_def
        split: if_splits)+
  obtain c cs where s: "?s = c # cs" by (cases ?s) auto
  then have c: "is_digit_in b c" using dig by simp
  note facts = is_digit_in_facts [OF c b(2)]
  have "\<not> has_hex_prefix (?s @ rest)"
  proof
    assume "has_hex_prefix (?s @ rest)"
    then obtain x d xs where x: "cs @ rest = x # d # xs" "tolower x = CHR ''x''"
      by (auto simp: has_hex_prefix_def s split: list.splits)
    then consider "x \<in> set ?s" | "rest = x # d # xs" by (cases cs) (auto simp: s)
    then show False
    proof cases
      case 1
      then show False using dig x(2) is_digit_in_facts(8) [OF _ b(2), of x] by blast
    next
      case 2
      then have "\<not> isalnum x" using assms(3) by simp
      with x(2) show False by (auto simp: ctype_simps split: if_splits)
    qed
  qed
  then have "strto_prefix b (?s @ rest) = (b, ?s @ rest)"
    using assms(1) by (auto simp: strto_prefix_def)
  moreover have "dropWhile isspace (?s @ rest) = ?s @ rest" "deref (?s @ rest) = c"
    using facts by (simp_all add: s)
  moreover have "takeWhile (is_digit_in b) (?s @ rest) = ?s"
    "dropWhile (is_digit_in b) (?s @ rest) = rest"
    using dig rest by (simp_all add: takeWhile_all_append dropWhile_all_append)
  ultimately show ?thesis
    using facts assms(2) show_base_val [OF b, of n] by (simp add: strtoul_def)
qed

lemma is_hex_str_digits:
  "list_all isdigit s \<Longrightarrow> rest = [] \<or> \<not> isalnum (hd rest) \<Longrightarrow> \<not> is_hex_str (s @ rest)"
proof -
  assume rest: "rest = [] \<or> \<not> isalnum (hd rest)"
  have "\<not> is_hex_str_loop False rest" using rest
    by (cases rest) (auto simp: ctype_simps split: if_splits)
  then show "list_all isdigit s \<Longrightarrow> \<not> is_hex_str (s @ rest)"
    unfolding is_hex_str_def by (induction s) auto
qed

lemma convert_decimal:
  assumes "n \<noteq> 0" "n < 2 ^ 64" "rest = [] \<or> \<not> isalnum (hd rest)"
  shows "convert_str2bn (show_nat n @ rest) = ret (word_of_nat n)"
proof -
  obtain c cs where s: "show_nat n = c # cs" unfolding show_nat_def
    by (cases "show_base 10 n") auto
  have c: "is_digit_in 10 c" using show_nat_digits [of n] by (simp add: s is_digit_10)
  have "c \<noteq> CHR ''0''" using show_base_hd [of 10 n] assms(1) s by (simp add: show_nat_def)
  moreover have "BN_dec2bn (show_nat n @ rest) = (word_of_nat n, True)"
    using strtoul_show_base [of 10 n rest] assms(2,3) by (simp add: BN_dec2bn_def show_nat_def)
  moreover have "\<not> is_hex_str (show_nat n @ rest)"
    using is_hex_str_digits [OF show_nat_digits assms(3)] .
  ultimately show ?thesis using is_digit_in_facts [OF c]
    by (simp add: convert_str2bn_def check_bn_def s)
qed

lemma convert_hex:
  assumes "n < 2 ^ 64" "rest = [] \<or> \<not> isalnum (hd rest)"
  shows "convert_str2bn (''0x'' @ show_hex n @ rest) = ret (word_of_nat n)"
  using strtoul_show_base [of 16 n rest] assms
  by (simp add: convert_str2bn_def check_bn_def BN_hex2bn_def show_hex_def)

section \<open>Properties of factor\<close>

text \<open>
  C5: the table \<open>prime\<close> is strictly ascending, lies between 2 and 65537 and leaves out no prime
  up to 65538.
\<close>

theorem prime_table_complete:
  "sorted_wrt (<) (map unat prime) \<and> (\<forall>p \<in> set prime. 2 \<le> p \<and> p \<le> 65537) \<and>
   (is_prime n \<and> n < 65539 \<longrightarrow> word_of_nat n \<in> set prime)"
proof (intro conjI ballI impI)
  have un: "map unat prime = map nat prime_ints"
    using tbl.unat_table [OF suffix_order.refl] by (simp add: prime_def)
  show "sorted_wrt (<) (map unat prime)" unfolding un sorted_wrt_map
    by (rule sorted_wrt_mono_rel [OF _ prime_ints_sorted]) (use prime_ints_range in force)
  show "2 \<le> p" "p \<le> 65537" if p: "p \<in> set prime" for p
  proof -
    have "unat p \<in> set (map nat prime_ints)" using p unfolding un [symmetric] by simp
    then have "2 \<le> unat p" "unat p \<le> 65537" using prime_ints_range by force+
    then show "2 \<le> p" "p \<le> 65537" by (simp_all add: word_le_nat_alt)
  qed
  show "word_of_nat n \<in> set prime" if "is_prime n \<and> n < 65539"
    using prime_ints_complete [of n] that by (force simp: prime_def)
qed

theorem prime_table_complete_witness: "65537 \<in> set prime"
  using prime_table_complete [of 65537] is_prime_65537 by simp

text \<open>
  C1: for every number below 65537 * 65539 (so for every 32-bit number and a little more),
  \<open>pr_fact\<close> returns, and the line it prints is the number, a colon and exactly its prime
  factors with their multiplicity in ascending order, in decimal or (with \<open>-h\<close>) hexadecimal.
\<close>

theorem pr_fact_prime_factors:
  assumes "1 < val" "val < 65537 * 65539"
  shows "\<exists>fs. prod_list fs = unat val \<and> sorted fs \<and> (\<forall>p \<in> set fs. is_prime p) \<and>
           pr_fact h val = Some (put (pr_header h val @ printed h fs @ [NL]))"
  using pr_fact_small [OF assms, of h] unfolding prime_factors_of_def by blast

theorem pr_fact_prime_factors_witness:
  "\<exists>fs. prod_list fs = 12 \<and> sorted fs \<and> (\<forall>p \<in> set fs. is_prime p) \<and>
           pr_fact False 12 = Some (put (pr_header False 12 @ printed False fs @ [NL]))"
  using pr_fact_prime_factors [of 12 False] by simp

text \<open>
  C3: every 64-bit number \<open>val > 1\<close> is split into the primes up to 65537 that divide it and a
  rest \<open>m\<close> without such a divisor, and \<open>pr_fact\<close> always returns or runs off the table: it
  prints the primes, then \<open>m\<close> as it is when \<open>m > 1\<close> (also when \<open>m\<close> is composite), except that
  with 65537 among the primes and \<open>m > 1\<close> it reads past the end of the table.
\<close>

theorem pr_fact_all_numbers:
  assumes "1 < val"
  shows "\<exists>fs m. factorisation (unat val) fs m \<and>
     pr_fact h val =
       Some (if m = 1 then put (pr_header h val @ printed h fs @ [NL])
             else if 65537 \<in> set fs then Undef (pr_header h val @ printed h fs)
             else put (pr_header h val @ printed h (fs @ [m]) @ [NL]))"
proof -
  obtain fs m where "factorisation (unat val) fs m"
    "pr_fact h val = Some (bind_run (put (pr_header h val))
       (\<lambda>_. bind_run (fact_result False h fs m) (\<lambda>_. put [NL])))"
    using pr_fact_result assms by blast
  then show ?thesis by (intro exI [of _ fs] exI [of _ m]) (simp add: fact_result_def)
qed

theorem pr_fact_all_numbers_witness:
  "\<exists>fs m. factorisation 35 fs m \<and>
     pr_fact True 35 =
       Some (if m = 1 then put (pr_header True 35 @ printed True fs @ [NL])
             else if 65537 \<in> set fs then Undef (pr_header True 35 @ printed True fs)
             else put (pr_header True 35 @ printed True (fs @ [m]) @ [NL]))"
  using pr_fact_all_numbers [of 35 True] by simp

text \<open>
  C4: the inputs on which \<open>pr_fact\<close> reads \<open>prime[6543]\<close>, one past the end of the table, are
  exactly the multiples of 65537 that have a prime factor greater than 65537.
\<close>

theorem pr_fact_overread_iff:
  assumes "1 < val"
  shows "(\<exists>out. pr_fact h val = Some (Undef out)) \<longleftrightarrow>
           65537 dvd unat val \<and> (\<exists>q. is_prime q \<and> 65537 < q \<and> q dvd unat val)"
proof -
  obtain fs m where fm: "factorisation (unat val) fs m"
    "pr_fact h val = Some (bind_run (put (pr_header h val))
       (\<lambda>_. bind_run (fact_result False h fs m) (\<lambda>_. put [NL])))"
    using pr_fact_result assms by blast
  have "unat val \<noteq> 0" using assms by (auto simp: unat_eq_0)
  from factorisation_65537 [OF fm(1)] factorisation_rest_iff [OF fm(1) this] fm(2)
  show ?thesis by (auto simp: fact_result_def)
qed

theorem pr_fact_overread_iff_witness:
  "\<exists>out. pr_fact False 4295229443 = Some (Undef out)"
proof -
  have "unat (4295229443 :: ubig) = 65537 * 65539" by simp
  then show ?thesis
    using pr_fact_overread_iff [of 4295229443 False] is_prime_65539
    by (auto intro!: exI [of _ 65539])
qed


text \<open>
  C6: \<open>convert_str2bn\<close> reads back both notations the program prints: the decimal digits of a
  number that is not 0, and \<open>0x\<close> with its hexadecimal digits, each alone or followed by
  white space or punctuation.
\<close>

theorem convert_str2bn_roundtrip:
  assumes "w \<noteq> 0" "rest = [] \<or> \<not> isalnum (hd rest)"
  shows "convert_str2bn (BN_print_dec_fp w @ rest) = ret w \<and>
         convert_str2bn (''0x'' @ BN_print_fp w @ rest) = ret w"
proof -
  have "unat w < 2 ^ 64" using unsigned_less [of w] by simp
  with assms convert_decimal [of "unat w" rest] convert_hex [of "unat w" rest]
  show ?thesis by (simp add: BN_print_dec_fp_def BN_print_fp_def unat_eq_0)
qed

theorem convert_str2bn_roundtrip_witness:
  "convert_str2bn (BN_print_dec_fp 255 @ [NL]) = ret 255 \<and>
   convert_str2bn (''0x'' @ BN_print_fp 255 @ [NL]) = ret 255"
  using convert_str2bn_roundtrip [of 255 "[NL]"] by (simp add: ctype_simps)

lemma convert_negative_blank:
  assumes "n < 2 ^ 64" shows "convert_str2bn ('' -'' @ show_nat n) = ret (- word_of_nat n)"
proof -
  have "\<forall>c \<in> set (show_nat n). is_digit_in 10 c"
    using show_nat_digits [of n] by (simp add: is_digit_10 list_all_iff)
  note all = takeWhile_eq_all_conv [THEN iffD2, OF this]
  have "digits_val 10 (show_nat n) = n" "show_nat n \<noteq> []"
    using show_base_val [of 10 n] by (simp_all add: show_nat_def)
  moreover have "\<not> is_hex_str (CHR '' '' # CHR ''-'' # show_nat n)"
    by (simp add: is_hex_str_def ctype_simps)
  ultimately show ?thesis
    using assms by (simp add: convert_str2bn_def check_bn_def BN_dec2bn_def strtoul_def
        strto_prefix_def is_sign_def ctype_simps Let_def all)
qed

text \<open>
  C7: the texts \<open>convert_str2bn\<close> refuses and one it should refuse.  A leading minus sign and
  a leading 0 that no \<open>x\<close> follows end the program with status 1, so the number 0 in its usual
  notation never reaches the branch of \<open>pr_fact\<close> that exits quietly; but a minus sign behind
  white space is left to \<open>strtoul\<close>, which wraps the number modulo \<open>2^64\<close>.
\<close>

theorem convert_str2bn_edge:
  "convert_str2bn (CHR ''-'' # s) = Exit [] ''negative numbers aren't permitted.'' 1 \<and>
   (x \<noteq> CHR ''x'' \<and> x \<noteq> CHR ''X'' \<longrightarrow>
     convert_str2bn (CHR ''0'' # x # s) = Exit [] (x # s @ '': illegal numeric format.'') 1) \<and>
   convert_str2bn ''0'' = Exit [] '': illegal numeric format.'' 1 \<and>
   (n < 2 ^ 64 \<longrightarrow> convert_str2bn ('' -'' @ show_nat n) = ret (- word_of_nat n))"
  using convert_negative_blank [of n] by (simp add: convert_str2bn_def check_bn_def)

theorem convert_str2bn_edge_witness:
  "convert_str2bn (CHR ''0'' # CHR ''7'' # []) = Exit [] ''7: illegal numeric format.'' 1 \<and>
   convert_str2bn ('' -'' @ show_nat 5) = ret (- 5)"
  using convert_str2bn_edge [of "[]" "CHR ''7''" 5] by simp

section \<open>The whole program\<close>

lemma bind_put_run: "bind_run (put out) (\<lambda>_. r) =
  (case r of Ret o' u \<Rightarrow> Ret (out @ o') u | Exit o' e n \<Rightarrow> Exit (out @ o') e n
           | Undef o' \<Rightarrow> Undef (out @ o'))"
  by simp

lemma factor_one_small:
  assumes "1 < n" "n < 65537 * 65539" "rest = [] \<or> \<not> isalnum (hd rest)"
  shows "\<exists>fs. prime_factors_of n fs \<and>
     factor_one h (show_nat n @ rest)
       = Some (put (pr_header h (word_of_nat n) @ printed h fs @ [NL]))"
proof -
  let ?w = "word_of_nat n :: ubig"
  have n: "n < 2 ^ 64" "unat ?w = n" using assms(2) by (simp_all add: unat_of_nat)
  then have "1 < ?w" "?w < 65537 * 65539" using assms by (simp_all add: word_less_nat_alt)
  with pr_fact_small [of ?w h] n obtain fs where
    "prime_factors_of n fs" "pr_fact h ?w = Some (put (pr_header h ?w @ printed h fs @ [NL]))"
    by (auto simp del: unat_of_nat)
  moreover have "convert_str2bn (show_nat n @ rest) = ret ?w"
    using convert_decimal n(1) assms by simp
  ultimately show ?thesis by (intro exI [of _ fs]) (simp add: factor_one_def)
qed

definition report :: "bool \<Rightarrow> nat list \<Rightarrow> nat list list \<Rightarrow> string" where
  "report h ns fss =
     concat (map2 (\<lambda>n fs. pr_header h (word_of_nat n) @ printed h fs @ [NL]) ns fss)"

lemma factor_all_small:
  assumes "\<forall>n \<in> set ns. 1 < n \<and> n < 65537 * 65539" "rest = [] \<or> \<not> isalnum (hd rest)"
  shows "\<exists>fss. list_all2 prime_factors_of ns fss \<and>
     factor_all h (map (\<lambda>n. show_nat n @ rest) ns) stop
       = Some (bind_run (put (report h ns fss)) (\<lambda>_. stop))"
  using assms(1)
proof (induction ns)
  case Nil
  then show ?case by (simp add: report_def del: bind_run.simps)
next
  case (Cons n ns)
  then obtain fss where fss: "list_all2 prime_factors_of ns fss"
    "factor_all h (map (\<lambda>n. show_nat n @ rest) ns) stop
       = Some (bind_run (put (report h ns fss)) (\<lambda>_. stop))" by auto
  obtain fs where fs: "prime_factors_of n fs" "factor_one h (show_nat n @ rest)
       = Some (put (pr_header h (word_of_nat n) @ printed h fs @ [NL]))"
    using factor_one_small [OF _ _ assms(2), of n h] Cons.prems by auto
  from fss fs show ?case
    by (intro exI [of _ "fs # fss"]) (auto simp: report_def split: run.splits)
qed

lemma getopt_h_numbers: "getopt_h (map show_nat ns) k = Some (k, map show_nat ns)"
proof (cases ns)
  case (Cons n ns')
  obtain c cs where c: "show_nat n = c # cs" "isdigit c" using show_nat_cons [of n] by blast
  then have "c \<noteq> CHR ''-''" by (auto simp: ctype_simps)
  with c Cons show ?thesis by simp
qed simp

lemma show_base_length:
  assumes "2 \<le> b" "n < b ^ Suc k" shows "length (show_base b n) \<le> Suc k"
  using assms(2)
proof (induction k arbitrary: n)
  case 0
  then show ?case by (subst show_base.simps) simp
next
  case (Suc k)
  then have "n div b < b ^ Suc k"
    using assms(1) by (metis less_mult_imp_div_less power_Suc2)
  with Suc.IH show ?case by (subst show_base.simps) simp
qed

lemma fgets_one_line:
  "NL \<notin> set l \<Longrightarrow> length l < n \<Longrightarrow> fgets_one n (l @ NL # s) = (l @ [NL], s)"
proof (induction l arbitrary: n)
  case Nil
  then show ?case by (cases n) auto
next
  case (Cons c l)
  then show ?case by (cases n) auto
qed

lemma fgets_all_lines:
  assumes "\<forall>l \<in> set ls. NL \<notin> set l \<and> length l \<le> n"
  shows "fgets_all n (concat (map (\<lambda>l. l @ [NL]) ls)) = map (\<lambda>l. l @ [NL]) ls"
  using assms
proof (induction ls)
  case (Cons l ls)
  let ?s = "concat (map (\<lambda>l. l @ [NL]) ls)"
  have line: "fgets_one (Suc n) (l @ NL # ?s) = (l @ [NL], ?s)"
    using Cons.prems by (intro fgets_one_line) auto
  obtain c r where c: "l @ NL # ?s = c # r" by (cases l) auto
  have "fgets_all n (l @ NL # ?s) = (l @ [NL]) # fgets_all n ?s"
    using line unfolding c by (simp del: fgets_one.simps)
  with Cons show ?case by simp
qed simp

lemma stdin_numbers_lines:
  assumes "\<forall>n \<in> set ns. n < 10 ^ 20"
  shows "stdin_numbers (concat (map (\<lambda>n. show_nat n @ [NL]) ns)) = map (\<lambda>n. show_nat n @ [NL]) ns"
proof -
  have dig: "c \<noteq> NL" "c \<noteq> NUL" "\<not> isblank c" if "isdigit c" for c
    using that by (auto simp: ctype_simps)
  have l: "NL \<notin> set (show_nat n) \<and> length (show_nat n) \<le> 2046" if "n \<in> set ns" for n
    using show_nat_digits [of n] dig show_base_length [of 10 n 19] assms that
    by (fastforce simp: list_all_iff show_nat_def)
  have "fgets_all 2046 (concat (map (\<lambda>l. l @ [NL]) (map show_nat ns)))
          = map (\<lambda>l. l @ [NL]) (map show_nat ns)"
    using l by (intro fgets_all_lines) auto
  then have "stdin_numbers (concat (map (\<lambda>n. show_nat n @ [NL]) ns))
      = filter (\<lambda>p. deref p \<noteq> NL \<and> deref p \<noteq> NUL)
          (map (\<lambda>n. dropWhile isblank (cstr (show_nat n @ [NL]))) ns)"
    by (simp add: stdin_numbers_def LINE_MAX_def comp_def)
  moreover have "dropWhile isblank (cstr (show_nat n @ [NL])) = show_nat n @ [NL]"
    "deref (show_nat n @ [NL]) \<noteq> NL" "deref (show_nat n @ [NL]) \<noteq> NUL" for n
  proof -
    obtain c cs where c: "show_nat n = c # cs" "isdigit c" using show_nat_cons [of n] by blast
    have "\<forall>c \<in> set (show_nat n). c \<noteq> NUL"
      using show_nat_digits [of n] dig by (auto simp: list_all_iff)
    then have "cstr (show_nat n @ [NL]) = show_nat n @ [NL]"
      by (simp add: cstr_def takeWhile_all_append)
    with c dig show "dropWhile isblank (cstr (show_nat n @ [NL])) = show_nat n @ [NL]"
      "deref (show_nat n @ [NL]) \<noteq> NL" "deref (show_nat n @ [NL]) \<noteq> NUL" by auto
  qed
  ultimately show ?thesis by (simp add: filter_id_conv)
qed



end
