(* ===== verification/C_Double.thy ===== *)
theory C_Double
  imports Prelude Complex_Main
begin

text \<open>
  The part of C's \<open>double\<close> that \<open>timeout\<close> uses: IEEE 754 binary64 values without the sign of
  zero, rounding to nearest with ties to even, and the C library's \<open>strtod\<close>.
\<close>

section \<open>Values and rounding\<close>

datatype double = NaN | Inf bool | Fin rat

text \<open>\<open>Inf True\<close> is minus infinity.  \<open>scale e\<close> is \<open>2^e\<close>.\<close>

definition scale :: "int \<Rightarrow> rat" where
  "scale e = (if 0 \<le> e then 2 ^ nat e else 1 / 2 ^ nat (- e))"

definition round_half_even :: "rat \<Rightarrow> int" where
  "round_half_even x =
     (let f = \<lfloor>x\<rfloor>; d = x - of_int f
      in if d < 1 / 2 \<or> d = 1 / 2 \<and> even f then f else f + 1)"

text \<open>
  The exponent of the last of the 53 bits of the significand is the least one that leaves
  room for the value, and never less than -1074.
\<close>

definition exponents :: "int list" where
  "exponents = [-1074..971]"

definition rnd :: "rat \<Rightarrow> double" where
  "rnd q =
     (case find (\<lambda>e. \<bar>q\<bar> < scale (e + 53)) exponents of
        None \<Rightarrow> Inf (q < 0)
      | Some e \<Rightarrow>
          (let r = of_int (round_half_even (\<bar>q\<bar> / scale e)) * scale e
           in if r < scale 1024 then Fin (if q < 0 then - r else r) else Inf (q < 0)))"

fun mul_d :: "double \<Rightarrow> rat \<Rightarrow> double" where
  "mul_d NaN k = NaN"
| "mul_d (Inf s) k = Inf s"
| "mul_d (Fin q) k = rnd (q * k)"

fun less_d :: "double \<Rightarrow> rat \<Rightarrow> bool" where
  "less_d NaN k = False"
| "less_d (Inf s) k = s"
| "less_d (Fin q) k = (q < k)"

fun ge_d :: "double \<Rightarrow> rat \<Rightarrow> bool" where
  "ge_d NaN k = False"
| "ge_d (Inf s) k = (\<not> s)"
| "ge_d (Fin q) k = (k \<le> q)"

text \<open>Conversion to an integer type drops the fraction.\<close>

definition trunc :: "rat \<Rightarrow> int" where
  "trunc q = (if 0 \<le> q then \<lfloor>q\<rfloor> else \<lceil>q\<rceil>)"

section \<open>strtod\<close>

definition lower :: "string \<Rightarrow> string" where
  "lower s = map tolower s"

text \<open>An exponent: a letter, an optional sign and at least one digit, or nothing.\<close>

definition strtod_exp :: "char \<Rightarrow> string \<Rightarrow> int \<times> string" where
  "strtod_exp letter s =
     (let s1 = tl s;
          neg = (deref s1 = CHR ''-'');
          s2 = (if is_sign (deref s1) then tl s1 else s1);
          ds = takeWhile isdigit s2;
          n = int (digits_val 10 ds)
      in if s \<noteq> [] \<and> tolower (deref s) = letter \<and> ds \<noteq> []
         then (if neg then - n else n, dropWhile isdigit s2)
         else (0, s))"

text \<open>Digits with an optional point in base \<open>b\<close>: the digits before and after it, and the rest.\<close>

definition strtod_digits :: "nat \<Rightarrow> string \<Rightarrow> string \<times> string \<times> string" where
  "strtod_digits b s =
     (let ds = takeWhile (is_digit_in b) s;
          r = dropWhile (is_digit_in b) s;
          fs = takeWhile (is_digit_in b) (tl r)
      in if deref r = CHR ''.'' \<and> (ds \<noteq> [] \<or> fs \<noteq> [])
         then (ds, fs, dropWhile (is_digit_in b) (tl r))
         else (ds, [], r))"

definition exact_power :: "rat \<Rightarrow> int \<Rightarrow> rat" where
  "exact_power b e = (if 0 \<le> e then b ^ nat e else 1 / b ^ nat (- e))"

definition strtod_number :: "string \<Rightarrow> (rat \<times> string) option" where
  "strtod_number s =
     (case strtod_digits 16 (drop 2 s) of (hs, hf, hr) \<Rightarrow>
        if deref s = CHR ''0'' \<and> tolower (deref (tl s)) = CHR ''x'' \<and> hs @ hf \<noteq> []
        then (case strtod_exp (CHR ''p'') hr of (e, r) \<Rightarrow>
                Some (of_nat (digits_val 16 (hs @ hf))
                        * exact_power 2 (e - 4 * int (length hf)), r))
        else (case strtod_digits 10 s of (ds, fs, dr) \<Rightarrow>
                if ds @ fs = [] then None
                else (case strtod_exp (CHR ''e'') dr of (e, r) \<Rightarrow>
                        Some (of_nat (digits_val 10 (ds @ fs))
                                * exact_power 10 (e - int (length fs)), r))))"

text \<open>The optional \<open>(n-char-sequence)\<close> of a NaN.\<close>

definition nan_rest :: "string \<Rightarrow> string" where
  "nan_rest s =
     (let r = dropWhile (\<lambda>c. isalnum c \<or> c = CHR ''_'') (tl s)
      in if deref s = CHR ''('' \<and> deref r = CHR '')'' then tl r else s)"

fun neg_d :: "bool \<Rightarrow> double \<Rightarrow> double" where
  "neg_d False d = d"
| "neg_d True NaN = NaN"
| "neg_d True (Inf s) = Inf (\<not> s)"
| "neg_d True (Fin q) = Fin (- q)"

text \<open>\<open>strtod(str, &end)\<close>: the value, the text at \<open>end\<close>, and whether \<open>errno\<close> becomes \<open>ERANGE\<close>.\<close>

definition strtod :: "string \<Rightarrow> double \<times> string \<times> bool" where
  "strtod str =
     (let s0 = dropWhile isspace str;
          neg = (deref s0 = CHR ''-'');
          s = (if is_sign (deref s0) then tl s0 else s0)
      in if lower (take 3 s) = ''inf''
         then (Inf neg, if lower (take 8 s) = ''infinity'' then drop 8 s else drop 3 s, False)
         else if lower (take 3 s) = ''nan'' then (NaN, nan_rest (drop 3 s), False)
         else (case strtod_number s of
                 None \<Rightarrow> (Fin 0, str, False)
               | Some (q, r) \<Rightarrow>
                   (neg_d neg (rnd q), r, q \<noteq> 0 \<and> (rnd q = Fin 0 \<or> rnd q = Inf False))))"

section \<open>Facts\<close>

lemma scale_pos [simp]: "0 < scale e"
  by (simp add: scale_def)

lemma scale_53: "scale 53 = 9007199254740992"
  by (simp add: scale_def)

lemma round_half_even_int [simp]: "round_half_even (of_int n) = n"
  by (simp add: round_half_even_def)

lemma find_upto_ex:
  assumes "a \<le> k" "k \<le> b" "P k" shows "\<exists>e. find P [a..b] = Some e \<and> e \<le> k"
  using assms(1)
proof (induction "nat (k - a)" arbitrary: a)
  case 0
  then show ?case using assms(2,3) upto_rec1 [of a b] by auto
next
  case (Suc n)
  then have "n = nat (k - (a + 1))" "a + 1 \<le> k" by auto
  with Suc show ?case using assms(2) upto_rec1 [of a b] by auto
qed

text \<open>A whole number of at most 53 bits is a \<open>double\<close>.\<close>

lemma rnd_int:
  assumes "\<bar>n\<bar> < 2 ^ 53" shows "rnd (of_int n) = Fin (of_int n)"
proof -
  let ?P = "\<lambda>e. \<bar>of_int n\<bar> < scale (e + 53)"
  have P0: "?P 0" using assms by (simp add: scale_53 flip: of_int_abs)
  have "\<exists>e. find ?P exponents = Some e \<and> e \<le> 0"
    unfolding exponents_def by (rule find_upto_ex) (use P0 in simp_all)
  then obtain e where e: "find ?P exponents = Some e" and "e \<le> 0" by blast
  then obtain k where k: "e = - int k" by (metis zero_le_imp_eq_int neg_0_le_iff_le minus_minus)
  have sc: "scale e = 1 / 2 ^ k" by (simp add: scale_def k)
  have "round_half_even (\<bar>of_int n\<bar> / scale e) = \<bar>n\<bar> * 2 ^ k"
    using round_half_even_int [of "\<bar>n\<bar> * 2 ^ k"] by (simp add: sc)
  then have "of_int (round_half_even (\<bar>of_int n\<bar> / scale e)) * scale e = of_int \<bar>n\<bar>"
    by (simp add: sc)
  moreover have "of_int \<bar>n\<bar> < scale 1024"
  proof -
    have "(2 :: rat) ^ 53 < 2 ^ 1024" by (rule power_strict_increasing) auto
    moreover have "(of_int \<bar>n\<bar> :: rat) < 2 ^ 53" using P0 by (simp add: scale_53)
    ultimately show ?thesis by (simp add: scale_def)
  qed
  ultimately show ?thesis by (simp add: rnd_def e Let_def)
qed

text \<open>\<open>strtod\<close> on a decimal number that a unit letter or the end of the text follows.\<close>

definition ends_number :: "string \<Rightarrow> bool" where
  "ends_number r \<longleftrightarrow> \<not> isdigit (deref r) \<and> tolower (deref r) \<notin> {CHR ''.'', CHR ''e'', CHR ''x''}"

lemma strtod_decimal:
  assumes "n < 2 ^ 53" "ends_number r"
  shows "strtod (show_nat n @ r) = (Fin (of_nat n), r, False)"
proof -
  obtain c cs where s: "show_nat n = c # cs" and c: "isdigit c" "list_all isdigit cs"
    using show_nat_cons by blast
  have r: "\<not> isdigit (deref r)" "deref r \<noteq> CHR ''.''" "tolower (deref r) \<noteq> CHR ''e''"
    "tolower (deref r) \<noteq> CHR ''x''"
    using assms(2) by (auto simp: ends_number_def ctype_simps)
  have dig: "\<forall>x \<in> set (show_nat n). is_digit_in 10 x"
    using show_nat_digits [of n] by (simp add: is_digit_10 list_all_iff)
  have rest: "takeWhile (is_digit_in 10) r = []" "dropWhile (is_digit_in 10) r = r"
    using r(1) by (cases r; simp add: is_digit_10)+
  have "strtod_digits 10 (show_nat n @ r) = (show_nat n, [], r)"
    using dig rest r(2)
    by (simp add: strtod_digits_def takeWhile_all_append dropWhile_all_append)
  moreover have "strtod_exp (CHR ''e'') r = (0, r)" using r(3) by (simp add: strtod_exp_def)
  moreover have "tolower (deref (tl (show_nat n @ r))) \<noteq> CHR ''x''"
    using r(4) c(2) by (cases cs) (auto simp: s isdigit_facts)
  ultimately have "strtod_number (show_nat n @ r) = Some (of_nat n, r)"
    using show_base_val [of 10 n] s
    by (simp add: strtod_number_def exact_power_def split: prod.splits) (simp add: show_nat_def)
  moreover have "rnd (of_nat n) = Fin (of_nat n)" using rnd_int [of "int n"] assms(1) by simp
  ultimately show ?thesis using isdigit_facts [OF c(1)] by (auto simp: strtod_def s lower_def)
qed

end
