(* ===== verification/Timeout.thy ===== *)
theory Timeout
  imports C_Double
begin

text \<open>
  The program \<open>timeout\<close> (\<^verbatim>\<open>src/bsd_additions/timeout/timeout.c\<close>, \<^verbatim>\<open>compat.h\<close> and the shim
  \<^verbatim>\<open>include/sys/prctl.h\<close>).  Durations and signals are parsed with the caller's \<open>errno\<close> passed
  along, because \<open>parse_signal\<close> looks at an \<open>errno\<close> nobody resets.  The parent's loop is a state
  machine: the environment decides which signals \<open>sigsuspend\<close> delivers and what \<open>waitpid\<close>
  reports, and each iteration yields the system calls it makes and the next state.
\<close>

section \<open>Durations and signals\<close>

datatype errno = E0 | EINVAL | ERANGE | ENOENT | EOther

definition EXIT_TIMEOUT :: int where "EXIT_TIMEOUT = 124"
definition EXIT_INVALID :: int where "EXIT_INVALID = 125"
definition EXIT_CMD_ERROR :: int where "EXIT_CMD_ERROR = 126"
definition EXIT_CMD_NOENT :: int where "EXIT_CMD_NOENT = 127"

abbreviation invalid_duration :: "'a run" where
  "invalid_duration \<equiv> Exit [] ''invalid duration'' EXIT_INVALID"

definition unit_seconds :: "char \<Rightarrow> rat option" where
  "unit_seconds c =
     (if c = CHR ''s'' then Some 1
      else if c = CHR ''m'' then Some 60
      else if c = CHR ''h'' then Some (60 * 60)
      else if c = CHR ''d'' then Some (60 * 60 * 24)
      else None)"

definition parse_duration :: "errno \<Rightarrow> string \<Rightarrow> (double \<times> errno) run" where
  "parse_duration errno duration =
     (case strtod duration of (r, e, out_of_range) \<Rightarrow>
        let errno1 = (if out_of_range then ERANGE else errno)
        in if r = Fin 0 \<and> e = duration then invalid_duration
           else if e = [] then ret (r, errno1)
           else if tl e \<noteq> [] then invalid_duration
           else case unit_seconds (hd e) of
                  None \<Rightarrow> invalid_duration
                | Some k \<Rightarrow>
                    let r1 = (if k = 1 then r else mul_d r k)
                    in if less_d r1 0 \<or> ge_d r1 100000000 then invalid_duration
                       else ret (r1, errno1))"

definition NSIG :: nat where "NSIG = 32"

definition sys_signame :: "string list" where
  "sys_signame =
     [''Signal 0'', ''hup'', ''int'', ''quit'', ''ill'', ''trap'', ''abrt'', ''emt'', ''fpe'',
      ''kill'', ''bus'', ''segv'', ''sys'', ''pipe'', ''alrm'', ''term'', ''urg'', ''stop'',
      ''tstp'', ''cont'', ''chld'', ''ttin'', ''ttou'', ''io'', ''xcpu'', ''xfsz'', ''vtalrm'',
      ''prof'', ''winch'', ''info'', ''usr1'', ''usr2'']"

definition signum_to_signame :: "int \<Rightarrow> string" where
  "signum_to_signame signo =
     (if signo \<le> 0 \<or> int NSIG \<le> signo then ''UNKNOWN'' else sys_signame ! nat signo)"

text \<open>\<open>strtol(str, &end, 10)\<close>: a \<open>long\<close>, clamped to its range, and \<open>errno\<close>.\<close>

definition strtol10 :: "errno \<Rightarrow> string \<Rightarrow> int \<times> errno" where
  "strtol10 errno str =
     (let s = dropWhile isspace str;
          neg = (deref s = CHR ''-'');
          s1 = (if is_sign (deref s) then tl s else s);
          ds = takeWhile isdigit s1;
          n = int (digits_val 10 ds);
          v = (if neg then - n else n)
      in if ds = [] then (0, EINVAL)
         else if 2 ^ 63 - 1 < v then (2 ^ 63 - 1, ERANGE)
         else if v < - (2 ^ 63) then (- (2 ^ 63), ERANGE)
         else (v, errno))"

definition to_int :: "int \<Rightarrow> int" where
  "to_int v = sint (word_of_int v :: 32 word)"

definition parse_signal :: "errno \<Rightarrow> string \<Rightarrow> (int \<times> errno) run" where
  "parse_signal errno str =
     (case strtol10 errno str of (v, errno1) \<Rightarrow>
        let sig = to_int v
        in if errno1 \<noteq> EINVAL \<and> errno1 \<noteq> ERANGE \<and> 1 < sig \<and> sig < int NSIG
           then ret (sig, errno1)
           else let str1 = (if lower (take 3 str) = ''sig'' then drop 3 str else str)
                in case find (\<lambda>i. lower str1 = lower (signum_to_signame (int i))) [1..<NSIG] of
                     None \<Rightarrow> Exit [] ''invalid signal'' EXIT_INVALID
                   | Some i \<Rightarrow> ret (int i, errno1))"

section \<open>Options\<close>

record options =
  foreground :: bool
  preserve :: bool
  verbose :: bool
  do_second_kill :: bool
  second_kill :: double
  killsig :: int
  errno_after :: errno

definition SIGHUP :: int where "SIGHUP = 1"
definition SIGINT :: int where "SIGINT = 2"
definition SIGQUIT :: int where "SIGQUIT = 3"
definition SIGKILL :: int where "SIGKILL = 9"
definition SIGALRM :: int where "SIGALRM = 14"
definition SIGTERM :: int where "SIGTERM = 15"
definition SIGSTOP :: int where "SIGSTOP = 17"
definition SIGCHLD :: int where "SIGCHLD = 20"
definition SIGTTIN :: int where "SIGTTIN = 21"
definition SIGTTOU :: int where "SIGTTOU = 22"

lemmas signals = SIGHUP_def SIGINT_def SIGQUIT_def SIGKILL_def SIGALRM_def SIGTERM_def
  SIGSTOP_def SIGCHLD_def SIGTTIN_def SIGTTOU_def

text \<open>
  What one call of \<open>getopt_long\<close> reports: an option with its argument, the two options that
  set a flag and return 0, or an error.
\<close>

datatype opt = Opt char string | FlagPreserve | FlagForeground | OptError

definition longopts :: "(string \<times> bool \<times> (string \<Rightarrow> opt)) list" where
  "longopts =
     [(''preserve-status'', False, \<lambda>_. FlagPreserve),
      (''foreground'', False, \<lambda>_. FlagForeground),
      (''kill-after'', True, Opt (CHR ''k'')),
      (''signal'', True, Opt (CHR ''s'')),
      (''help'', False, Opt (CHR ''h'')),
      (''verbose'', False, Opt (CHR ''v''))]"

text \<open>An exact match, or the only option that starts with the name.\<close>

definition find_long :: "string \<Rightarrow> (bool \<times> (string \<Rightarrow> opt)) option" where
  "find_long name =
     (case map_of longopts name of
        Some x \<Rightarrow> Some x
      | None \<Rightarrow>
          (case filter (\<lambda>(n, _). take (length name) n = name) longopts of
             [(_, x)] \<Rightarrow> Some x
           | _ \<Rightarrow> None))"

definition long_option :: "string \<Rightarrow> string list \<Rightarrow> opt \<times> string list" where
  "long_option a argv =
     (let name = takeWhile (\<lambda>c. c \<noteq> CHR ''='') (drop 2 a);
          val = dropWhile (\<lambda>c. c \<noteq> CHR ''='') (drop 2 a)
      in case find_long name of
           None \<Rightarrow> (OptError, argv)
         | Some (False, f) \<Rightarrow> (if val = [] then f [] else OptError, argv)
         | Some (True, f) \<Rightarrow>
             (if val \<noteq> [] then (f (tl val), argv)
              else case argv of [] \<Rightarrow> (OptError, []) | v # argv' \<Rightarrow> (f v, argv')))"

text \<open>The letters of one argument, and the arguments left; \<open>None\<close> when a lone dash ends it.\<close>

fun short_options :: "string \<Rightarrow> string list \<Rightarrow> opt list \<times> string list option" where
  "short_options [] argv = ([], Some argv)"
| "short_options (c # cs) argv =
     (if c = CHR ''k'' \<or> c = CHR ''s''
      then (if cs \<noteq> [] then ([Opt c cs], Some argv)
            else case argv of [] \<Rightarrow> ([OptError], Some []) | v # argv' \<Rightarrow> ([Opt c v], Some argv'))
      else if c = CHR ''-'' \<and> cs = [] then ([], None)
      else (case short_options cs argv of (os, r) \<Rightarrow>
              ((if c = CHR ''v'' \<or> c = CHR ''h'' then Opt c [] else OptError) # os, r)))"

lemma short_options_shorter:
  "short_options cs argv = (os, Some r) \<Longrightarrow> length r \<le> length argv"
  by (induction cs arbitrary: os) (auto split: if_splits list.splits prod.splits)

lemma long_option_shorter: "length (snd (long_option a argv)) \<le> length argv"
  by (auto simp: long_option_def Let_def split: option.splits bool.splits list.splits)

function getopt_long :: "string list \<Rightarrow> opt list \<times> string list" where
  "getopt_long [] = ([], [])"
| "getopt_long (a # argv) =
     (if a = ''--'' then ([], argv)
      else if deref a \<noteq> CHR ''-'' \<or> a = ''-'' then ([], a # argv)
      else if deref (tl a) = CHR ''-''
      then (case getopt_long (snd (long_option a argv)) of (os, r) \<Rightarrow>
              (fst (long_option a argv) # os, r))
      else (case short_options (tl a) argv of
              (os1, None) \<Rightarrow> (os1, a # argv)
            | (os1, Some argv') \<Rightarrow>
                (case getopt_long argv' of (os, r) \<Rightarrow> (os1 @ os, r))))"
  by pat_completeness auto
termination
  by (relation "measure length")
     (auto simp: less_Suc_eq_le long_option_shorter dest: short_options_shorter [OF sym])

declare getopt_long.simps [simp del]

definition timeout_usage :: "'a run" where
  "timeout_usage =
     Exit [] (''Usage: timeout [-k time | --kill-after time] [-s sig | --signal sig]'' @
              '' [-v | --verbose] [--foreground] [--preserve-status] <duration> <command>'' @
              '' <arg ...>'' @ [NL]) 1"

fun do_options :: "opt list \<Rightarrow> options \<Rightarrow> options run" where
  "do_options [] opts = ret opts"
| "do_options (FlagPreserve # os) opts = do_options os (opts\<lparr>preserve := True\<rparr>)"
| "do_options (FlagForeground # os) opts = do_options os (opts\<lparr>foreground := True\<rparr>)"
| "do_options (OptError # os) opts = timeout_usage"
| "do_options (Opt c arg # os) opts =
     (if c = CHR ''k''
      then bind_run (parse_duration (errno_after opts) arg)
             (\<lambda>(d, e). do_options os
                (opts\<lparr>do_second_kill := True, second_kill := d, errno_after := e\<rparr>))
      else if c = CHR ''s''
      then bind_run (parse_signal (errno_after opts) arg)
             (\<lambda>(s, e). do_options os (opts\<lparr>killsig := s, errno_after := e\<rparr>))
      else if c = CHR ''v'' then do_options os (opts\<lparr>verbose := True\<rparr>)
      else timeout_usage)"

definition default_options :: "errno \<Rightarrow> options" where
  "default_options e =
     \<lparr>foreground = False, preserve = False, verbose = False, do_second_kill = False,
      second_kill = Fin 0, killsig = SIGTERM, errno_after = e\<rparr>"

section \<open>The parent process\<close>

text \<open>
  The system calls with an effect outside the process, how the process can end, and a piece of
  the program as the calls it makes and its result: \<open>Inl\<close> when the process is over.
\<close>

datatype act =
    Sigaction int
  | Ignore int
  | Default int
  | Fork
  | Setitimer int int
  | Warnx string
  | Kill int int

datatype outcome =
    Exited int string
  | KilledBy int
  | Replaced
  | Waiting
  | UB

type_synonym 'a proc = "act list \<times> (outcome + 'a)"

definition bind_proc :: "'a proc \<Rightarrow> ('a \<Rightarrow> 'b proc) \<Rightarrow> 'b proc" where
  "bind_proc p f =
     (case snd p of Inl e \<Rightarrow> (fst p, Inl e) | Inr a \<Rightarrow> (fst p @ fst (f a), snd (f a)))"

text \<open>
  What the system decides: the process id, which calls succeed, what \<open>fork\<close> returns and why
  \<open>execvp\<close> fails, if it does.
\<close>

record sys =
  getpid :: int
  sigaction_ok :: "int \<Rightarrow> bool"
  fork_ret :: int
  exec_errno :: "errno option"
  sigprocmask_ok :: bool
  setitimer_ok :: "int \<Rightarrow> int \<Rightarrow> bool"
  selfkill_ok :: "int \<Rightarrow> bool"

text \<open>One result of \<open>waitpid\<close> or \<open>wait\<close>: a child's status, or an error and whether it is \<open>EINTR\<close>.\<close>

datatype wait_res = Child int int | WaitError bool

record tstate =
  sig_chld :: bool
  sig_term :: int
  sig_alrm :: bool
  sig_ign :: int
  cur_killsig :: int
  second :: bool
  timedout :: bool
  child_done :: bool
  pstat :: "int option"

definition sig_handler :: "int \<Rightarrow> tstate \<Rightarrow> tstate" where
  "sig_handler signo st =
     (if sig_ign st \<noteq> 0 \<and> signo = sig_ign st then st\<lparr>sig_ign := 0\<rparr>
      else if signo = 0 \<or> signo = SIGINT \<or> signo = SIGHUP \<or> signo = SIGQUIT \<or> signo = SIGTERM
      then st\<lparr>sig_term := signo\<rparr>
      else if signo = SIGCHLD then st\<lparr>sig_chld := True\<rparr>
      else if signo = SIGALRM then st\<lparr>sig_alrm := True\<rparr>
      else st)"

definition send_sig :: "bool \<Rightarrow> string \<Rightarrow> int \<Rightarrow> int \<Rightarrow> act list" where
  "send_sig verb command pid signo =
     (if verb
      then [Warnx (''sending signal '' @ signum_to_signame signo @ ''('' @ show_int signo @
                   '') to command '' @ [CHR 0x27] @ command @ [CHR 0x27])]
      else []) @ [Kill pid signo]"

definition set_interval :: "sys \<Rightarrow> double \<Rightarrow> unit proc" where
  "set_interval sys iv =
     (case iv of
        Fin q \<Rightarrow>
          (let sec = trunc q
           in if sec < - (2 ^ 63) \<or> 2 ^ 63 \<le> sec then ([], Inl UB)
              else case rnd (q - of_int sec) of
                     Fin f \<Rightarrow>
                       (case mul_d (Fin f) 1000000 of
                          Fin u \<Rightarrow>
                            ([Setitimer sec (trunc u)],
                             if setitimer_ok sys sec (trunc u) then Inr ()
                             else Inl (Exited 1 ''setitimer()''))
                        | _ \<Rightarrow> ([], Inl UB))
                   | _ \<Rightarrow> ([], Inl UB))
      | _ \<Rightarrow> ([], Inl UB))"

definition PR_SET_CHILD_SUBREAPER :: int where "PR_SET_CHILD_SUBREAPER = 36"
definition PR_GET_CHILD_SUBREAPER :: int where "PR_GET_CHILD_SUBREAPER = 37"

text \<open>The result and what the shim stores through its pointer argument.\<close>

definition prctl :: "int \<Rightarrow> int \<times> int option" where
  "prctl option =
     (if option = PR_SET_CHILD_SUBREAPER then (0, None)
      else if option = PR_GET_CHILD_SUBREAPER then (0, Some 0)
      else (0, None))"

text \<open>The loop over \<open>waitpid(-1, &status, WNOHANG)\<close>; at the end of the list it returns 0.\<close>

fun reap :: "int \<Rightarrow> wait_res list \<Rightarrow> tstate \<Rightarrow> tstate" where
  "reap pid [] st = st"
| "reap pid (WaitError eintr # ws) st = (if eintr then reap pid ws st else st)"
| "reap pid (Child cpid status # ws) st =
     reap pid ws
       (if cpid = pid then st\<lparr>pstat := Some status, child_done := True\<rparr> else st)"

definition escalate :: "sys \<Rightarrow> options \<Rightarrow> tstate \<Rightarrow> (bool \<times> tstate) proc" where
  "escalate sys opts st =
     (if second st
      then bind_proc (set_interval sys (second_kill opts))
             (\<lambda>_. ([], Inr (True, st\<lparr>second := False, sig_ign := cur_killsig st,
                                   cur_killsig := SIGKILL\<rparr>)))
      else ([], Inr (False, st)))"

text \<open>
  One iteration after \<open>sigsuspend\<close>: whether the loop goes on, and the state.  A \<open>SIGKILL\<close> that
  the process sends itself ends it.
\<close>

definition loop_body ::
  "sys \<Rightarrow> options \<Rightarrow> string \<Rightarrow> int \<Rightarrow> wait_res list \<Rightarrow> tstate \<Rightarrow> (bool \<times> tstate) proc" where
  "loop_body sys opts command pid ws st =
     (if sig_chld st
      then (let st1 = reap pid ws (st\<lparr>sig_chld := False\<rparr>)
            in ([], Inr (\<not> (child_done st1 \<and>
                           (foreground opts \<or> snd (prctl PR_GET_CHILD_SUBREAPER) = Some 0)), st1)))
      else if sig_alrm st
      then (let st1 = st\<lparr>sig_alrm := False, timedout := True\<rparr>
            in bind_proc
                 (if \<not> foreground opts
                  then ([Kill (getpid sys) SIGKILL],
                        Inl (if selfkill_ok sys SIGKILL then KilledBy SIGKILL
                             else Exited 1 ''kill''))
                  else (send_sig (verbose opts) command pid (cur_killsig st1), Inr ()))
                 (\<lambda>_. escalate sys opts st1))
      else if sig_term st \<noteq> 0
      then bind_proc
             (if \<not> foreground opts
              then ([Kill (getpid sys) SIGTERM],
                    if selfkill_ok sys SIGTERM then Inr () else Inl (Exited 1 ''kill''))
              else (send_sig (verbose opts) command pid (sig_term st), Inr ()))
             (\<lambda>_. escalate sys opts st)
      else ([], Inr (True, st)))"

text \<open>An event: the signals one \<open>sigsuspend\<close> delivers, and what \<open>waitpid\<close> reports after it.\<close>

type_synonym event = "int list \<times> wait_res list"

fun main_loop ::
  "sys \<Rightarrow> options \<Rightarrow> string \<Rightarrow> int \<Rightarrow> event list \<Rightarrow> tstate \<Rightarrow> (event list \<times> tstate) proc" where
  "main_loop sys opts command pid [] st = ([], Inl Waiting)"
| "main_loop sys opts command pid (ev # evs) st =
     bind_proc (loop_body sys opts command pid (snd ev) (fold sig_handler (fst ev) st))
       (\<lambda>(go, st1). if go then main_loop sys opts command pid evs st1 else ([], Inr (evs, st1)))"

fun final_wait :: "wait_res list \<Rightarrow> tstate \<Rightarrow> tstate proc" where
  "final_wait ws st =
     (if child_done st then ([], Inr st)
      else case ws of
             [] \<Rightarrow> ([], Inl Waiting)
           | WaitError eintr # ws' \<Rightarrow>
               (if eintr then final_wait ws' st else ([], Inl (Exited 1 ''waitpid()'')))
           | Child cpid status # ws' \<Rightarrow> ([], Inr (st\<lparr>pstat := Some status\<rparr>)))"

declare final_wait.simps [simp del]

definition WEXITSTATUS :: "int \<Rightarrow> int" where "WEXITSTATUS s = s div 256 mod 256"
definition WTERMSIG :: "int \<Rightarrow> int" where "WTERMSIG s = s mod 128"
definition WIFSIGNALED :: "int \<Rightarrow> bool" where
  "WIFSIGNALED s \<longleftrightarrow> WTERMSIG s \<noteq> 127 \<and> WTERMSIG s \<noteq> 0"

definition exit_code :: "bool \<Rightarrow> bool \<Rightarrow> int \<Rightarrow> int" where
  "exit_code preserved timed status =
     (if timed \<and> \<not> preserved then EXIT_TIMEOUT
      else if WEXITSTATUS status \<noteq> 0 then WEXITSTATUS status
      else if WIFSIGNALED status then 128 + WTERMSIG status
      else status)"

definition initial_state :: "options \<Rightarrow> tstate" where
  "initial_state opts =
     \<lparr>sig_chld = False, sig_term = 0, sig_alrm = False, sig_ign = 0, cur_killsig = killsig opts,
      second = do_second_kill opts, timedout = False, child_done = False, pstat = None\<rparr>"

section \<open>The whole program\<close>

definition of_run :: "'a run \<Rightarrow> 'a proc" where
  "of_run r = (case r of Ret _ a \<Rightarrow> ([], Inr a) | Exit _ err n \<Rightarrow> ([], Inl (Exited n err))
                       | Undef _ \<Rightarrow> ([], Inl UB))"

definition signums :: "int \<Rightarrow> int list" where
  "signums ksig =
     [if ksig \<noteq> SIGKILL \<and> ksig \<noteq> SIGSTOP then ksig else -1,
      SIGTERM, SIGINT, SIGHUP, SIGCHLD, SIGALRM, SIGQUIT]"

fun install_handlers :: "sys \<Rightarrow> int list \<Rightarrow> unit proc" where
  "install_handlers sys [] = ([], Inr ())"
| "install_handlers sys (s # ss) =
     (if s \<noteq> -1 \<and> s \<noteq> 0
      then bind_proc ([Sigaction s],
             if sigaction_ok sys s then Inr () else Inl (Exited 1 ''sigaction()''))
             (\<lambda>_. install_handlers sys ss)
      else install_handlers sys ss)"

text \<open>The child after \<open>fork\<close>: it runs the command or reports why it cannot.\<close>

definition run_child :: "sys \<Rightarrow> string \<Rightarrow> outcome" where
  "run_child sys command =
     (case exec_errno sys of
        None \<Rightarrow> Replaced
      | Some e \<Rightarrow> Exited (if e = ENOENT then EXIT_CMD_NOENT else EXIT_CMD_ERROR)
                    (''exec('' @ command @ '')''))"

text \<open>The parent after \<open>fork\<close>, from \<open>sigprocmask\<close> to the exit status.\<close>

definition run_parent ::
  "sys \<Rightarrow> options \<Rightarrow> string \<Rightarrow> double \<Rightarrow> event list \<Rightarrow> wait_res list \<Rightarrow> unit proc" where
  "run_parent sys opts command first_kill evs ws =
     (if \<not> sigprocmask_ok sys then ([], Inl (Exited 1 ''sigprocmask()''))
      else bind_proc (set_interval sys first_kill) (\<lambda>_.
           bind_proc (main_loop sys opts command (fork_ret sys) evs (initial_state opts))
             (\<lambda>(_, st). bind_proc (final_wait ws st)
               (\<lambda>st1. case pstat st1 of
                        None \<Rightarrow> ([], Inl UB)
                      | Some p \<Rightarrow>
                          ([], Inl (Exited (exit_code (preserve opts) (timedout st1) p) []))))))"

definition timeout_main ::
  "sys \<Rightarrow> errno \<Rightarrow> string list \<Rightarrow> event list \<Rightarrow> wait_res list \<Rightarrow> unit proc" where
  "timeout_main sys e argv evs ws =
     (case getopt_long argv of (os, args) \<Rightarrow>
        bind_proc (of_run (do_options os (default_options e))) (\<lambda>opts.
          case args of
            duration # command # _ \<Rightarrow>
              bind_proc (of_run (parse_duration (errno_after opts) duration)) (\<lambda>(first_kill, _).
                if \<not> foreground opts \<and> fst (prctl PR_SET_CHILD_SUBREAPER) = -1
                then ([], Inl (Exited 1 ''Fail to acquire the reaper''))
                else bind_proc (install_handlers sys (signums (killsig opts))) (\<lambda>_.
                  bind_proc ([Ignore SIGTTIN, Ignore SIGTTOU, Fork], Inr ()) (\<lambda>_.
                    if fork_ret sys = -1 then ([], Inl (Exited 1 ''fork()''))
                    else if fork_ret sys = 0
                    then ([Default SIGTTIN, Default SIGTTOU], Inl (run_child sys command))
                    else run_parent sys opts command first_kill evs ws)))
          | _ \<Rightarrow> of_run timeout_usage))"

section \<open>Facts about parsing\<close>

lemma unit_seconds_cases:
  assumes "unit_seconds u = Some k"
  shows "u \<in> {CHR ''s'', CHR ''m'', CHR ''h'', CHR ''d''}" "k = of_nat (nat \<lfloor>k\<rfloor>)" "1 \<le> k" "k \<le> 86400"
  using assms by (auto simp: unit_seconds_def split: if_splits)

lemma ends_number_unit: "unit_seconds u = Some k \<Longrightarrow> ends_number [u]"
  using unit_seconds_cases(1) by (fastforce simp: ends_number_def ctype_simps)

lemma ends_number_Nil: "ends_number []"
  by (simp add: ends_number_def ctype_simps)

lemma mul_d_whole:
  assumes "unit_seconds u = Some k" "n < 2 ^ 36"
  shows "mul_d (Fin (of_nat n)) k = Fin (of_nat n * k)"
proof -
  define m where "m = nat \<lfloor>k\<rfloor>"
  have k: "k = of_nat m" "m \<le> 86400"
    using unit_seconds_cases(2,4) [OF assms(1)] unfolding m_def by linarith+
  have "n * m \<le> 2 ^ 36 * 86400" using assms(2) k(2) by (intro mult_le_mono) auto
  then have "int (n * m) \<le> int (2 ^ 36 * 86400)" by (simp only: of_nat_le_iff)
  then have "\<bar>int (n * m)\<bar> < 2 ^ 53" by (simp del: of_nat_mult)
  then show ?thesis using rnd_int [of "int (n * m)"] by (simp add: k)
qed

lemma parse_duration_unit:
  assumes "unit_seconds u = Some k" "n < 2 ^ 36"
  shows "parse_duration e (show_nat n @ [u]) =
           (if of_nat n * k < 100000000 then ret (Fin (of_nat n * k), e) else invalid_duration)"
proof -
  have "strtod (show_nat n @ [u]) = (Fin (of_nat n), [u], False)"
    using strtod_decimal ends_number_unit [OF assms(1)] assms(2) by simp
  moreover have "[u] \<noteq> show_nat n @ [u]" using show_nat_cons [of n] by auto
  moreover have "(if k = 1 then Fin (of_nat n) else mul_d (Fin (of_nat n)) k) = Fin (of_nat n * k)"
    using mul_d_whole [OF assms] by simp
  moreover have "0 \<le> of_nat n * k" using unit_seconds_cases(3) [OF assms(1)] by simp
  ultimately show ?thesis using assms(1) by (simp add: parse_duration_def Let_def not_less)
qed

lemma parse_duration_plain:
  "n < 2 ^ 53 \<Longrightarrow> parse_duration e (show_nat n) = ret (Fin (of_nat n), e)"
  using strtod_decimal [OF _ ends_number_Nil, of n] show_nat_cons [of n]
  by (auto simp: parse_duration_def)

lemma strtod_negative:
  assumes "n < 2 ^ 53" "ends_number r"
  shows "strtod (CHR ''-'' # show_nat n @ r) = (Fin (- of_nat n), r, False)"
proof -
  obtain c cs where s: "show_nat n = c # cs" and c: "isdigit c" using show_nat_cons by blast
  note facts = isdigit_facts [OF c]
  have "strtod (show_nat n @ r) = (Fin (of_nat n), r, False)" using strtod_decimal assms .
  then show ?thesis using facts
    by (auto simp: strtod_def s lower_def is_sign_def ctype_simps Let_def
        split: option.splits if_splits elim: neg_d.elims)
qed

lemma strtol10_digits:
  assumes "n < 2 ^ 31" shows "strtol10 e (show_nat n) = (int n, e)"
proof -
  obtain c cs where s: "show_nat n = c # cs" and c: "isdigit c" using show_nat_cons by blast
  have all: "takeWhile isdigit (show_nat n) = show_nat n"
    using show_nat_digits [of n] by (simp add: takeWhile_eq_all_conv list_all_iff)
  have "digits_val 10 (show_nat n) = n" using show_base_val [of 10 n] by (simp add: show_nat_def)
  with all isdigit_facts [OF c] assms show ?thesis by (simp add: strtol10_def s Let_def)
qed

lemma strtol10_letter:
  assumes "isalpha (deref s)" shows "strtol10 e s = (0, EINVAL)"
  using assms by (cases s) (auto simp: strtol10_def Let_def ctype_simps is_sign_def)

lemma to_int_small: "0 \<le> v \<Longrightarrow> v < 2 ^ 31 \<Longrightarrow> to_int v = v"
  by (simp add: to_int_def sint_uint uint_word_of_int_eq take_bit_int_eq_self
      signed_take_bit_int_eq_self)

text \<open>The names are distinct, in lower case and start with a letter other than those of \<open>sig\<close>.\<close>

lemma signame_table:
  "distinct sys_signame" "length sys_signame = NSIG"
  "list_all (\<lambda>n. lower n = n \<and> n \<noteq> [] \<and> isalpha (hd n) \<and> take 3 n \<noteq> ''sig'') (tl sys_signame)"
  by code_simp+

lemma find_unique:
  assumes "x \<in> set xs" "P x" "\<forall>y \<in> set xs. P y \<longrightarrow> y = x"
  shows "find P xs = Some x"
  using assms
proof (induction xs)
  case (Cons a xs)
  have r: "\<forall>y \<in> set xs. P y \<longrightarrow> y = x" using Cons.prems(3) by (meson list.set_intros(2))
  show ?case
  proof (cases "P a")
    case True
    then have "a = x" using Cons.prems(3) by (meson list.set_intros(1))
    with True show ?thesis by simp
  next
    case False
    with Cons.prems(1,2) have "x \<in> set xs" by auto
    with False Cons.IH [OF _ Cons.prems(2) r] show ?thesis by simp
  qed
qed simp

lemma signame_nth:
  assumes "0 < i" "i < NSIG"
  shows "signum_to_signame (int i) = sys_signame ! i" "lower (sys_signame ! i) = sys_signame ! i"
    "isalpha (deref (sys_signame ! i))" "take 3 (sys_signame ! i) \<noteq> ''sig''"
proof -
  show "signum_to_signame (int i) = sys_signame ! i"
    using assms by (simp add: signum_to_signame_def)
  obtain j where i: "i = Suc j" using assms(1) by (cases i) auto
  have "tl sys_signame ! j = sys_signame ! i" "j < length (tl sys_signame)"
    using assms(2) signame_table(2) i by (simp_all add: nth_tl)
  then have "sys_signame ! i \<in> set (tl sys_signame)" by (metis nth_mem)
  with signame_table(3) have f: "lower (sys_signame ! i) = sys_signame ! i"
    "isalpha (hd (sys_signame ! i))" "take 3 (sys_signame ! i) \<noteq> ''sig''" "sys_signame ! i \<noteq> []"
    unfolding list_all_iff by blast+
  then show "lower (sys_signame ! i) = sys_signame ! i"
    "isalpha (deref (sys_signame ! i))" "take 3 (sys_signame ! i) \<noteq> ''sig''"
    by (cases "sys_signame ! i"; simp)+
qed

lemma find_signame:
  assumes "0 < i" "i < NSIG"
  shows "find (\<lambda>j. sys_signame ! i = lower (signum_to_signame (int j))) [1..<NSIG] = Some i"
proof (rule find_unique; (intro ballI impI)?)
  fix j assume "j \<in> set [1..<NSIG]" "sys_signame ! i = lower (signum_to_signame (int j))"
  then have "sys_signame ! i = sys_signame ! j" "j < NSIG" using signame_nth [of j] by auto
  then show "j = i"
    using assms nth_eq_iff_index_eq [OF signame_table(1)] signame_table(2) by metis
qed (use assms signame_nth [of i] in auto)

lemma isalpha_tolower: "isalpha (tolower c) \<longleftrightarrow> isalpha c"
  by (auto simp: ctype_simps)

lemma deref_lower: "s \<noteq> [] \<Longrightarrow> deref (lower s) = tolower (deref s)"
  by (cases s) (auto simp: lower_def)

lemma parse_signal_name:
  assumes i: "0 < i" "i < NSIG"
    and str: "lower str = sys_signame ! i \<or> lower str = ''sig'' @ sys_signame ! i"
  shows "parse_signal e str = ret (int i, EINVAL)"
proof -
  note nm = signame_nth [OF i]
  have ne: "str \<noteq> []" using str nm(3) by (auto simp: lower_def ctype_simps)
  have "isalpha (deref (lower str))" using str nm(3) by (auto simp: ctype_simps)
  then have "isalpha (deref str)" using ne by (simp add: deref_lower isalpha_tolower)
  then have l: "strtol10 e str = (0, EINVAL)" by (rule strtol10_letter)
  have tk: "lower (take 3 str) = take 3 (lower str)" "lower (drop 3 str) = drop 3 (lower str)"
    by (simp_all add: lower_def take_map drop_map)
  have "lower (if lower (take 3 str) = ''sig'' then drop 3 str else str) = sys_signame ! i"
    using str nm(4) tk by auto
  then show ?thesis using l find_signame [OF i] by (simp add: parse_signal_def Let_def)
qed

lemma find_signame_none:
  assumes "isdigit (deref str)"
  shows "find (\<lambda>j. lower str = lower (signum_to_signame (int j))) [1..<NSIG] = None"
proof -
  have "lower str \<noteq> lower (signum_to_signame (int j))" if "0 < j" "j < NSIG" for j
  proof
    assume "lower str = lower (signum_to_signame (int j))"
    with signame_nth [OF that] have "isalpha (deref (lower str))" by simp
    moreover have "str \<noteq> []" using assms by (auto simp: ctype_simps)
    ultimately have "isalpha (deref str)" by (simp add: deref_lower isalpha_tolower)
    with assms show False by (auto simp: ctype_simps)
  qed
  then show ?thesis by (auto simp: find_None_iff)
qed

lemma parse_signal_digits:
  assumes "n < 2 ^ 31"
  shows "parse_signal e (show_nat n) =
           (if e \<noteq> EINVAL \<and> e \<noteq> ERANGE \<and> 1 < n \<and> n < NSIG then ret (int n, e)
            else Exit [] ''invalid signal'' EXIT_INVALID)"
proof -
  obtain c cs where s: "show_nat n = c # cs" and c: "isdigit c" using show_nat_cons by blast
  have "lower (take 3 (show_nat n)) \<noteq> ''sig''" using c by (auto simp: s lower_def ctype_simps)
  moreover have "to_int (int n) = int n" using assms by (intro to_int_small) auto
  ultimately show ?thesis
    using strtol10_digits [OF assms, of e] find_signame_none [of "show_nat n"] s c
    by (simp add: parse_signal_def Let_def)
qed

section \<open>Facts about the loop\<close>

text \<open>
  \<open>run_loop\<close>: the states the loop can be in when it waits in \<open>sigsuspend\<close>, with the system calls
  made so far.
\<close>

inductive run_loop :: "sys \<Rightarrow> options \<Rightarrow> string \<Rightarrow> int \<Rightarrow> act list \<Rightarrow> tstate \<Rightarrow> bool"
  for sys opts command pid
  where
    start: "run_loop sys opts command pid [] (initial_state opts)"
  | step: "run_loop sys opts command pid acts st \<Longrightarrow>
           loop_body sys opts command pid ws (fold sig_handler sigs st) = (acts', Inr (True, st')) \<Longrightarrow>
           run_loop sys opts command pid (acts @ acts') st'"

text \<open>The signals that the command is sent.\<close>

fun sent :: "int \<Rightarrow> act list \<Rightarrow> int list" where
  "sent pid [] = []"
| "sent pid (Kill p s # acts) = (if p = pid then [s] else []) @ sent pid acts"
| "sent pid (_ # acts) = sent pid acts"

lemma sent_append [simp]: "sent pid (a @ b) = sent pid a @ sent pid b"
  by (induction pid a rule: sent.induct) auto

lemma sent_send_sig [simp]: "sent pid (send_sig v command pid s) = [s]"
  by (simp add: send_sig_def)

lemma set_interval_acts: "sent pid (fst (set_interval sys iv)) = []"
  by (auto simp: set_interval_def Let_def split: double.splits)

text \<open>What the handler cannot change.\<close>

lemma sig_handler_frame [simp]:
  "cur_killsig (sig_handler s st) = cur_killsig st" "second (sig_handler s st) = second st"
  "timedout (sig_handler s st) = timedout st" "child_done (sig_handler s st) = child_done st"
  "pstat (sig_handler s st) = pstat st"
  by (simp_all add: sig_handler_def)

lemma handlers_frame [simp]:
  "cur_killsig (fold sig_handler ss st) = cur_killsig st"
  "second (fold sig_handler ss st) = second st"
  "timedout (fold sig_handler ss st) = timedout st"
  "child_done (fold sig_handler ss st) = child_done st"
  "pstat (fold sig_handler ss st) = pstat st"
  by (induction ss arbitrary: st) simp_all

lemma reap_frame [simp]:
  "cur_killsig (reap pid ws st) = cur_killsig st" "second (reap pid ws st) = second st"
  "timedout (reap pid ws st) = timedout st"
  by (induction pid ws st rule: reap.induct) auto

lemma reap_pstat:
  "child_done st \<longrightarrow> pstat st \<noteq> None \<Longrightarrow>
   child_done (reap pid ws st) \<longrightarrow> pstat (reap pid ws st) \<noteq> None"
  by (induction pid ws st rule: reap.induct) auto

lemma bind_proc_Inr:
  "bind_proc p f = (acts, Inr b) \<longleftrightarrow>
     (\<exists>a1 a a2. p = (a1, Inr a) \<and> f a = (a2, Inr b) \<and> acts = a1 @ a2)"
  by (cases p; cases "snd p"; cases "f (projr (snd p))") (auto simp: bind_proc_def)

lemma escalateD:
  assumes "escalate sys opts st = (acts, Inr (go, st'))"
  shows "(\<forall>pid. sent pid acts = []) \<and> go = second st \<and>
    st' = (if second st then st\<lparr>second := False, sig_ign := cur_killsig st, cur_killsig := SIGKILL\<rparr>
           else st)"
proof -
  have "sent pid a = []" if "set_interval sys (second_kill opts) = (a, r)" for a r pid
    using set_interval_acts [of pid sys "second_kill opts"] that by simp
  with assms show ?thesis
    by (auto simp: escalate_def bind_proc_Inr split: if_splits)
qed

text \<open>
  One iteration that returns: it either sends nothing and keeps \<open>second\<close> and \<open>cur_killsig\<close>, or
  sends one signal and goes on exactly if a second signal is still due.
\<close>

lemma loop_body_fg:
  assumes "loop_body sys opts command pid ws st = (acts, Inr (go, st'))" "foreground opts"
  shows "(sent pid acts = [] \<and> second st' = second st \<and> cur_killsig st' = cur_killsig st \<and>
            timedout st' = timedout st) \<or>
         (\<exists>s. sent pid acts = [s] \<and> (s = cur_killsig st \<and> timedout st' \<or> s = sig_term st \<and> s \<noteq> 0) \<and>
            go = second st \<and> \<not> second st' \<and>
            cur_killsig st' = (if second st then SIGKILL else cur_killsig st))"
  using assms
  by (auto simp: loop_body_def Let_def bind_proc_Inr split: if_splits
      dest!: escalateD)

lemma sent_bind_proc:
  "sent pid (fst (bind_proc p f)) =
     sent pid (fst p) @ (case snd p of Inl _ \<Rightarrow> [] | Inr a \<Rightarrow> sent pid (fst (f a)))"
  by (simp add: bind_proc_def split: sum.splits)

lemma sent_escalate [simp]: "sent pid (fst (escalate sys opts st)) = []"
  by (simp add: escalate_def sent_bind_proc set_interval_acts split: sum.splits)

lemma loop_body_sent:
  "foreground opts \<Longrightarrow>
   sent pid (fst (loop_body sys opts command pid ws st)) =
     (if sig_chld st then []
      else if sig_alrm st then [cur_killsig st]
      else if sig_term st \<noteq> 0 then [sig_term st] else [])"
  by (simp add: loop_body_def Let_def sent_bind_proc)

lemma loop_body_background:
  "\<not> foreground opts \<Longrightarrow> pid \<noteq> getpid sys \<Longrightarrow>
   sent pid (fst (loop_body sys opts command pid ws st)) = []"
  by (simp add: loop_body_def Let_def sent_bind_proc split: sum.splits)

lemma main_loop_background:
  assumes "\<not> foreground opts" "pid \<noteq> getpid sys"
  shows "sent pid (fst (main_loop sys opts command pid evs st)) = []"
proof (induction evs arbitrary: st)
  case (Cons ev evs)
  then show ?case
    using loop_body_background [OF assms] by (auto simp: sent_bind_proc split: sum.splits)
qed simp

lemma sent_final_wait [simp]: "fst (final_wait ws st) = []"
proof (induction ws)
  case Nil
  then show ?case by (subst final_wait.simps) simp
next
  case (Cons w ws)
  then show ?case by (subst final_wait.simps) (cases w; simp)
qed

lemma run_parent_background:
  assumes "\<not> foreground opts" "fork_ret sys \<noteq> getpid sys"
  shows "sent (fork_ret sys) (fst (run_parent sys opts command d evs ws)) = []"
  using main_loop_background [OF assms]
  by (auto simp: run_parent_def sent_bind_proc set_interval_acts split: sum.splits option.splits)

lemma do_options_foreground:
  assumes "do_options os opts = Ret out opts'"
  shows "foreground opts' \<longleftrightarrow> foreground opts \<or> FlagForeground \<in> set os"
  using assms
proof (induction os opts arbitrary: out rule: do_options.induct)
  case (5 c arg os opts)
  then show ?case
    by (fastforce simp: bind_run_eq_Ret timeout_usage_def split: if_splits prod.splits)
qed (auto simp: timeout_usage_def)

lemma sent_of_run [simp]: "fst (of_run r) = []"
  by (simp add: of_run_def split: run.splits)

lemma sent_install_handlers [simp]: "sent pid (fst (install_handlers sys ss)) = []"
  by (induction ss) (auto simp: sent_bind_proc split: sum.splits)

lemma sent_timeout_main:
  "sent pid (fst (timeout_main sys e argv evs ws)) =
     (case getopt_long argv of (os, args) \<Rightarrow>
        case snd (of_run (do_options os (default_options e))) of
          Inl _ \<Rightarrow> []
        | Inr opts \<Rightarrow>
            (case args of
               d # c # _ \<Rightarrow>
                 (case snd (of_run (parse_duration (errno_after opts) d)) of
                    Inl _ \<Rightarrow> []
                  | Inr (first, _) \<Rightarrow>
                      if (\<exists>out. snd (install_handlers sys (signums (killsig opts))) = Inl out) \<or>
                         fork_ret sys = -1 \<or> fork_ret sys = 0
                      then []
                      else sent pid (fst (run_parent sys opts c first evs ws)))
             | _ \<Rightarrow> []))"
  by (auto simp: timeout_main_def sent_bind_proc prctl_def PR_SET_CHILD_SUBREAPER_def
      split: prod.splits sum.splits list.splits)

section \<open>Invariants of the loop\<close>

definition term_signals :: "int set" where
  "term_signals = {SIGINT, SIGHUP, SIGQUIT, SIGTERM}"

text \<open>
  The invariant at \<open>sigsuspend\<close> in foreground mode: before the first signal nothing has been sent
  and the signal to send is the one asked for; after it, \<open>SIGKILL\<close> is next and no further
  escalation is due.
\<close>

definition loop_inv :: "options \<Rightarrow> int \<Rightarrow> act list \<Rightarrow> tstate \<Rightarrow> bool" where
  "loop_inv opts pid acts st \<longleftrightarrow>
     sig_term st \<in> insert 0 term_signals \<and>
     (child_done st \<longrightarrow> pstat st \<noteq> None) \<and>
     (second st = do_second_kill opts \<and> cur_killsig st = killsig opts \<and> sent pid acts = [] \<or>
      do_second_kill opts \<and> \<not> second st \<and> cur_killsig st = SIGKILL \<and>
        (\<exists>s. sent pid acts = [s] \<and> (s = killsig opts \<or> s \<in> term_signals)))"

lemma sig_term_handlers:
  "sig_term st \<in> insert 0 term_signals \<Longrightarrow>
   sig_term (fold sig_handler ss st) \<in> insert 0 term_signals"
proof (induction ss arbitrary: st)
  case (Cons s ss)
  then have "sig_term (sig_handler s st) \<in> insert 0 term_signals"
    by (auto simp: sig_handler_def term_signals_def)
  with Cons.IH show ?case by simp
qed simp

lemma reap_sig_term [simp]: "sig_term (reap pid ws st) = sig_term st"
  by (induction pid ws st rule: reap.induct) auto

lemma loop_body_frame:
  assumes "loop_body sys opts command pid ws st = (acts, Inr (go, st'))"
    "child_done st \<longrightarrow> pstat st \<noteq> None"
  shows "sig_term st' = sig_term st" "child_done st' \<longrightarrow> pstat st' \<noteq> None"
proof -
  have "child_done (reap pid ws (st\<lparr>sig_chld := False\<rparr>)) \<longrightarrow>
        pstat (reap pid ws (st\<lparr>sig_chld := False\<rparr>)) \<noteq> None"
    using assms(2) by (intro reap_pstat) simp
  with assms show "sig_term st' = sig_term st" "child_done st' \<longrightarrow> pstat st' \<noteq> None"
    by (auto simp: loop_body_def Let_def bind_proc_Inr split: if_splits dest!: escalateD)
qed

lemma run_loop_inv:
  assumes "run_loop sys opts command pid acts st" "foreground opts"
  shows "loop_inv opts pid acts st"
  using assms(1)
proof (induction rule: run_loop.induct)
  case start
  then show ?case by (simp add: loop_inv_def initial_state_def)
next
  case (step acts st ws sigs acts' st')
  let ?h = "fold sig_handler sigs st"
  have h: "sig_term ?h \<in> insert 0 term_signals" "child_done ?h \<longrightarrow> pstat ?h \<noteq> None"
    using step.IH sig_term_handlers by (auto simp: loop_inv_def)
  note frame = loop_body_frame [OF step.hyps(2) h(2)]
  have base: "sig_term st' \<in> insert 0 term_signals" "child_done st' \<longrightarrow> pstat st' \<noteq> None"
    using frame h by simp_all
  consider (quiet) "sent pid acts' = []" "second st' = second ?h" "cur_killsig st' = cur_killsig ?h"
    | (signal) s where "sent pid acts' = [s]" "second ?h" "\<not> second st'" "cur_killsig st' = SIGKILL"
        "s = cur_killsig ?h \<or> s = sig_term ?h \<and> s \<noteq> 0"
    using loop_body_fg [OF step.hyps(2) assms(2)] by auto
  then show ?case
  proof cases
    case quiet
    with step.IH base show ?thesis by (simp add: loop_inv_def)
  next
    case (signal s)
    from step.IH signal(2) have first: "do_second_kill opts" "cur_killsig st = killsig opts"
      "sent pid acts = []" by (auto simp: loop_inv_def)
    have "s = killsig opts \<or> s \<in> term_signals" using signal(5) h(1) first(2) by auto
    with signal first base show ?thesis by (simp add: loop_inv_def)
  qed
qed

text \<open>
  How \<open>main_loop\<close> and \<open>run_loop\<close> fit: from a reachable state the loop waits for ever or makes its
  last iteration.
\<close>

definition ends_from where
  "ends_from sys opts command pid acts r st \<longleftrightarrow>
     acts = [] \<and> r = Inl Waiting \<or>
     (\<exists>ws sigs r0. loop_body sys opts command pid ws (fold sig_handler sigs st) = (acts, r0) \<and>
        (case r0 of Inl e \<Rightarrow> r = Inl e
         | Inr (go, st2) \<Rightarrow> \<not> go \<and> (\<exists>evs :: event list. r = Inr (evs, st2))))"

lemma main_loop_run_loop:
  assumes "run_loop sys opts command pid acts0 st"
  shows "\<exists>acts1 acts2 st1. run_loop sys opts command pid (acts0 @ acts1) st1 \<and>
     fst (main_loop sys opts command pid evs st) = acts1 @ acts2 \<and>
     ends_from sys opts command pid acts2 (snd (main_loop sys opts command pid evs st)) st1"
  using assms
proof (induction evs arbitrary: acts0 st)
  case Nil
  then show ?case
    by (intro exI [of _ "[]"] exI [of _ st]) (simp add: ends_from_def)
next
  case (Cons ev evs)
  let ?h = "fold sig_handler (fst ev) st" and ?m = "main_loop sys opts command pid"
  obtain a r where b: "loop_body sys opts command pid (snd ev) ?h = (a, r)" by fastforce
  show ?case
  proof (cases "\<exists>st2. r = Inr (True, st2)")
    case True
    then obtain st2 where r: "r = Inr (True, st2)" by blast
    have m: "?m (ev # evs) st = (a @ fst (?m evs st2), snd (?m evs st2))"
      by (simp add: b r bind_proc_def)
    have "run_loop sys opts command pid (acts0 @ a) st2"
      using run_loop.step [OF Cons.prems] b r by blast
    from Cons.IH [OF this] obtain acts1 acts2 st1 where
      "run_loop sys opts command pid ((acts0 @ a) @ acts1) st1" "fst (?m evs st2) = acts1 @ acts2"
      "ends_from sys opts command pid acts2 (snd (?m evs st2)) st1" by blast
    then show ?thesis unfolding m
      by (intro exI [of _ "a @ acts1"] exI [of _ acts2] exI [of _ st1]) simp
  next
    case False
    have m: "fst (?m (ev # evs) st) = a"
      using False by (auto simp: b bind_proc_def split: sum.splits)
    have "ends_from sys opts command pid a (snd (?m (ev # evs) st)) st"
      unfolding ends_from_def using b False
      by (intro disjI2 exI [of _ "snd ev"] exI [of _ "fst ev"] exI [of _ r])
         (auto simp: bind_proc_def split: sum.splits)
    with Cons.prems m show ?thesis
      by (intro exI [of _ "[]"] exI [of _ a] exI [of _ st]) simp
  qed
qed

lemma main_loop_sent:
  assumes "foreground opts"
  shows "\<exists>k. sent pid (fst (main_loop sys opts command pid evs (initial_state opts))) = k \<and>
     (k = [] \<or>
      (\<exists>s. k = [s] \<and> (s = killsig opts \<or> s \<in> term_signals)) \<or>
      (\<exists>s t. k = [s, t] \<and> do_second_kill opts \<and> (s = killsig opts \<or> s \<in> term_signals) \<and>
         (t = SIGKILL \<or> t \<in> term_signals)))"
proof -
  obtain acts1 acts2 st1 where r: "run_loop sys opts command pid acts1 st1"
    "fst (main_loop sys opts command pid evs (initial_state opts)) = acts1 @ acts2"
    "ends_from sys opts command pid acts2
       (snd (main_loop sys opts command pid evs (initial_state opts))) st1"
    using main_loop_run_loop [OF run_loop.start] by fastforce
  have inv: "loop_inv opts pid acts1 st1" using run_loop_inv r(1) assms .
  have "sent pid acts2 = [] \<or> (\<exists>t. sent pid acts2 = [t] \<and> (t = cur_killsig st1 \<or> t \<in> term_signals))"
  proof (cases "acts2 = []")
    case False
    with r(3) obtain ws sigs where
      "acts2 = fst (loop_body sys opts command pid ws (fold sig_handler sigs st1))"
      unfolding ends_from_def by (metis fst_conv)
    then show ?thesis
      using loop_body_sent [OF assms] sig_term_handlers [of st1 sigs] inv
      by (auto simp: loop_inv_def)
  qed simp
  with inv r(2) show ?thesis by (auto simp: loop_inv_def)
qed

lemma set_interval_whole:
  assumes "n < 2 ^ 53"
  shows "set_interval sys (Fin (of_nat n)) =
    ([Setitimer (int n) 0],
     if setitimer_ok sys (int n) 0 then Inr () else Inl (Exited 1 ''setitimer()''))"
proof -
  have "trunc (of_nat n) = int n" by (simp add: trunc_def)
  moreover have "rnd 0 = Fin 0" using rnd_int [of 0] by simp
  ultimately show ?thesis using assms by (simp add: set_interval_def trunc_def)
qed

section \<open>Properties of timeout\<close>

text \<open>
  C9: in the default (background) mode the command is never sent a signal, whatever signals and
  child events arrive: on expiry the program sends \<open>SIGKILL\<close> to itself, not to the command.
\<close>

theorem background_never_signals_command:
  assumes "getopt_long argv = (os, args)" "FlagForeground \<notin> set os" "fork_ret sys \<noteq> getpid sys"
  shows "sent (fork_ret sys) (fst (timeout_main sys e argv evs ws)) = []"
proof -
  have "\<not> foreground opts" if "snd (of_run (do_options os (default_options e))) = Inr opts" for opts
    using that do_options_foreground [of os "default_options e"] assms(2)
    by (auto simp: of_run_def default_options_def split: run.splits)
  then show ?thesis
    using run_parent_background assms
    by (auto simp: sent_timeout_main split: prod.splits sum.splits list.splits)
qed

definition plain_sys :: "int \<Rightarrow> sys" where
  "plain_sys pid =
     \<lparr>getpid = 100, sigaction_ok = (\<lambda>_. True), fork_ret = pid, exec_errno = None,
      sigprocmask_ok = True, setitimer_ok = (\<lambda>s u. 0 \<le> s \<and> 0 \<le> u), selfkill_ok = (\<lambda>_. True)\<rparr>"

lemma getopt_long_operand [simp]:
  "deref a \<noteq> CHR ''-'' \<Longrightarrow> getopt_long (a # argv) = ([], a # argv)"
  by (subst getopt_long.simps) auto

theorem background_never_signals_command_witness:
  "sent 7 (fst (timeout_main (plain_sys 7) E0 [''5'', ''sleep'', ''9''] [([SIGALRM], [])] [])) = []"
  using background_never_signals_command [of "[''5'', ''sleep'', ''9'']" "[]" _ "plain_sys 7"]
  by (simp add: plain_sys_def)

text \<open>
  C11: in foreground mode the command is sent at most two signals in any run: first the signal
  asked for (or a terminating signal that timeout itself received), and a second one only with
  \<open>--kill-after\<close>, which is \<open>SIGKILL\<close> or again a received signal.
\<close>

theorem foreground_signals:
  assumes "foreground opts"
  shows "\<exists>k. sent pid (fst (main_loop sys opts command pid evs (initial_state opts))) = k \<and>
     (k = [] \<or>
      (\<exists>s. k = [s] \<and> (s = killsig opts \<or> s \<in> term_signals)) \<or>
      (\<exists>s t. k = [s, t] \<and> do_second_kill opts \<and> (s = killsig opts \<or> s \<in> term_signals) \<and>
         (t = SIGKILL \<or> t \<in> term_signals)))"
  using main_loop_sent assms .

theorem foreground_signals_witness:
  "\<exists>k. sent 7 (fst (main_loop (plain_sys 7) ((default_options E0)\<lparr>foreground := True\<rparr>) ''sleep'' 7
         [([SIGALRM], [])] (initial_state ((default_options E0)\<lparr>foreground := True\<rparr>)))) = k \<and>
     (k = [] \<or> (\<exists>s. k = [s] \<and> (s = SIGTERM \<or> s \<in> term_signals)))"
  using foreground_signals [of "(default_options E0)\<lparr>foreground := True\<rparr>" 7 "plain_sys 7" "''sleep''"
      "[([SIGALRM], [])]"]
  by (auto simp: default_options_def)

lemma getopt_long_foreground_s:
  assumes "deref d \<noteq> CHR ''-''"
  shows "getopt_long (''--foreground'' # ''-s'' # sg # d # args) =
           ([FlagForeground, Opt (CHR ''s'') sg], d # args)"
  using assms by (auto simp: getopt_long.simps long_option_def find_long_def longopts_def)

lemma install_handlers_ok:
  "\<forall>s. sigaction_ok sys s \<Longrightarrow> snd (install_handlers sys ss) = Inr ()"
  by (induction ss) (auto simp: bind_proc_def)

text \<open>
  C10: the whole program on \<open>--foreground -s SIG n command\<close> when the time runs out first: it arms
  the timer with \<open>n\<close> seconds, sends exactly the signal named to the command, collects it, and
  exits with status 124.
\<close>

theorem foreground_timeout_run:
  assumes sg: "0 < i" "i < NSIG" "lower name = sys_signame ! i \<or> lower name = ''sig'' @ sys_signame ! i"
    and n: "n < 2 ^ 53"
    and sys: "\<forall>s. sigaction_ok sys s" "sigprocmask_ok sys" "setitimer_ok sys (int n) 0"
      "0 < fork_ret sys"
  shows "let r = timeout_main sys E0 (''--foreground'' # ''-s'' # name # show_nat n # command # args)
                   [([SIGALRM], [])] [Child (fork_ret sys) status]
         in sent (fork_ret sys) (fst r) = [int i] \<and> Setitimer (int n) 0 \<in> set (fst r) \<and>
            snd r = Inl (Exited 124 [])"
proof -
  obtain c cs where "show_nat n = c # cs" "isdigit c" using show_nat_cons by blast
  then have "deref (show_nat n) \<noteq> CHR ''-''" by (auto simp: ctype_simps)
  note go = getopt_long_foreground_s [OF this, of name "command # args"]
  let ?o = "(default_options E0)\<lparr>foreground := True, killsig := int i, errno_after := EINVAL\<rparr>"
  have opts: "do_options [FlagForeground, Opt (CHR ''s'') name] (default_options E0) = ret ?o"
    using parse_signal_name [OF sg, of E0] by (simp add: default_options_def)
  have dur: "parse_duration EINVAL (show_nat n) = ret (Fin (of_nat n), EINVAL)"
    using parse_duration_plain [OF n] .
  have alarm: "fold sig_handler [SIGALRM] (initial_state ?o) = (initial_state ?o)\<lparr>sig_alrm := True\<rparr>"
    by (simp add: sig_handler_def initial_state_def signals)
  have body: "loop_body sys ?o command (fork_ret sys) [] ((initial_state ?o)\<lparr>sig_alrm := True\<rparr>) =
      (send_sig False command (fork_ret sys) (int i),
       Inr (False, (initial_state ?o)\<lparr>timedout := True\<rparr>))"
    by (simp add: loop_body_def initial_state_def default_options_def bind_proc_def escalate_def)
  have par: "run_parent sys ?o command (Fin (of_nat n)) [([SIGALRM], [])] [Child (fork_ret sys) status] =
      (Setitimer (int n) 0 # send_sig False command (fork_ret sys) (int i), Inl (Exited 124 []))"
    using alarm body sys(2,3) set_interval_whole [OF n, of sys]
    by (simp add: run_parent_def bind_proc_def final_wait.simps initial_state_def exit_code_def
        EXIT_TIMEOUT_def default_options_def)
  obtain ha where h: "install_handlers sys (signums (int i)) = (ha, Inr ())"
    using install_handlers_ok [OF sys(1)] by (metis prod.collapse)
  have "sent (fork_ret sys) ha = []" using sent_install_handlers [of "fork_ret sys" sys] h by (metis fst_conv)
  then show ?thesis
    using go opts dur h par sys(4)
    by (simp add: timeout_main_def of_run_def bind_proc_def prctl_def PR_SET_CHILD_SUBREAPER_def
        default_options_def Let_def)
qed

theorem foreground_timeout_run_witness:
  "let r = timeout_main (plain_sys 7) E0
             [''--foreground'', ''-s'', ''SIGKILL'', show_nat 3, ''sleep'', ''9'']
             [([SIGALRM], [])] [Child 7 9]
   in sent 7 (fst r) = [9] \<and> Setitimer 3 0 \<in> set (fst r) \<and> snd r = Inl (Exited 124 [])"
proof -
  have "lower ''SIGKILL'' = ''sig'' @ sys_signame ! 9" by code_simp
  then show ?thesis
    using foreground_timeout_run [of 9 "''SIGKILL''" 3 "plain_sys 7" "''sleep''" "[''9'']" 9]
    by (simp add: plain_sys_def NSIG_def)
qed

text \<open>
  C12: the exit status.  A command that ended in time passes on its own status, or 128 plus the
  signal that killed it; after a timeout the status is 124 unless \<open>--preserve-status\<close> is given.
\<close>

theorem exit_code_cases:
  assumes "0 \<le> c" "c < 256" "0 < s" "s < 127" "core = 0 \<or> core = 128"
  shows "exit_code p False (c * 256) = c \<and> exit_code p False (s + core) = 128 + s \<and>
         exit_code True t (c * 256) = c \<and> exit_code True t (s + core) = 128 + s \<and>
         exit_code False True w = 124"
proof -
  have "WEXITSTATUS (c * 256) = c" "WTERMSIG (c * 256) = 0"
    using assms(1,2) by (simp_all add: WEXITSTATUS_def WTERMSIG_def)
  moreover have "WEXITSTATUS (s + core) = 0" "WTERMSIG (s + core) = s"
    using assms(3-5) by (auto simp: WEXITSTATUS_def WTERMSIG_def)
  moreover have "WTERMSIG 0 = 0" by (simp add: WTERMSIG_def)
  ultimately show ?thesis using assms by (simp add: exit_code_def WIFSIGNALED_def EXIT_TIMEOUT_def)
qed

theorem exit_code_cases_witness:
  "exit_code False False (3 * 256) = 3 \<and> exit_code True True 15 = 143 \<and> exit_code False True 9 = 124"
  using exit_code_cases [of 3 15 0 False True 9] by simp

text \<open>
  C13: an expiry can be lost.  When \<open>SIGALRM\<close> and \<open>SIGCHLD\<close> are delivered by the same
  \<open>sigsuspend\<close> and the command has not ended (it was stopped or continued), the iteration takes
  the branch of \<open>SIGCHLD\<close> only: no signal is sent and the loop waits again with the flag of the
  expired timer still set.
\<close>

theorem alarm_with_sigchld_lost:
  assumes "\<not> child_done st" "sig_ign st = 0" "\<forall>w \<in> set ws. \<forall>s. w \<noteq> Child pid s"
  shows "\<exists>st'. loop_body sys opts command pid ws (fold sig_handler [SIGCHLD, SIGALRM] st) =
                 ([], Inr (True, st')) \<and> sig_alrm st' \<and> timedout st' = timedout st"
proof -
  have r: "reap pid ws s = s" if "\<forall>w \<in> set ws. \<forall>x. w \<noteq> Child pid x" for s
    using that by (induction pid ws s rule: reap.induct) auto
  show ?thesis using assms(1,2) r [OF assms(3)]
    by (simp add: loop_body_def sig_handler_def signals Let_def)
qed

theorem alarm_with_sigchld_lost_witness:
  "\<exists>st'. loop_body (plain_sys 7) ((default_options E0)\<lparr>foreground := True\<rparr>) ''sleep'' 7 []
           (fold sig_handler [SIGCHLD, SIGALRM] (initial_state (default_options E0))) =
         ([], Inr (True, st')) \<and> sig_alrm st' \<and> \<not> timedout st'"
  using alarm_with_sigchld_lost [of "initial_state (default_options E0)" "[]" 7 "plain_sys 7"
      "(default_options E0)\<lparr>foreground := True\<rparr>" "''sleep''"]
  by (simp add: initial_state_def)

text \<open>
  C14: with \<open>-s ALRM\<close> and \<open>--kill-after\<close> in foreground mode the second timer is lost: after the
  first expiry the handler is told to ignore one \<open>SIGALRM\<close>, so the expiry of the second timer
  changes nothing but that mark, and the \<open>SIGKILL\<close> that is due is not sent.
\<close>

theorem second_alarm_swallowed:
  assumes "foreground opts" "killsig opts = SIGALRM" "do_second_kill opts"
    "second_kill opts = Fin (of_nat n)" "n < 2 ^ 53" "setitimer_ok sys (int n) 0"
  shows "\<exists>acts. main_loop sys opts command pid [([SIGALRM], []), ([SIGALRM], [])] (initial_state opts)
           = (acts, Inl Waiting) \<and> sent pid acts = [SIGALRM]"
proof -
  let ?st = "(initial_state opts)\<lparr>sig_alrm := True\<rparr>"
  let ?st2 = "(initial_state opts)\<lparr>timedout := True, second := False, sig_ign := SIGALRM,
                cur_killsig := SIGKILL\<rparr>"
  have h1: "fold sig_handler [SIGALRM] (initial_state opts) = ?st"
    by (simp add: sig_handler_def initial_state_def signals)
  have b1: "loop_body sys opts command pid [] ?st =
      (send_sig (verbose opts) command pid SIGALRM @ [Setitimer (int n) 0], Inr (True, ?st2))"
    using assms set_interval_whole [OF assms(5), of sys]
    by (simp add: loop_body_def initial_state_def bind_proc_def escalate_def)
  have h2: "fold sig_handler [SIGALRM] ?st2 = ?st2\<lparr>sig_ign := 0\<rparr>"
    by (simp add: sig_handler_def signals)
  have b2: "loop_body sys opts command pid [] (?st2\<lparr>sig_ign := 0\<rparr>) = ([], Inr (True, ?st2\<lparr>sig_ign := 0\<rparr>))"
    by (simp add: loop_body_def initial_state_def)
  show ?thesis using h1 b1 h2 b2 by (simp add: bind_proc_def)
qed

theorem second_alarm_swallowed_witness:
  "\<exists>acts. main_loop (plain_sys 7)
       ((default_options E0)\<lparr>foreground := True, killsig := SIGALRM, do_second_kill := True,
          second_kill := Fin (of_nat 1)\<rparr>) ''sleep'' 7 [([SIGALRM], []), ([SIGALRM], [])]
       (initial_state ((default_options E0)\<lparr>foreground := True, killsig := SIGALRM,
          do_second_kill := True, second_kill := Fin (of_nat 1)\<rparr>))
     = (acts, Inl Waiting) \<and> sent 7 acts = [SIGALRM]"
  by (rule second_alarm_swallowed [where n = 1]) (simp_all add: plain_sys_def)

text \<open>
  C15: durations.  A whole number with a unit is that many seconds if the product is below 10^8
  and is refused with status 125 otherwise; without a unit there is no such check, and a
  negative number is accepted.
\<close>

theorem parse_duration_whole:
  assumes "unit_seconds u = Some k" "n < 2 ^ 36"
  shows "parse_duration e (show_nat n @ [u]) =
           (if of_nat n * k < 100000000 then ret (Fin (of_nat n * k), e)
            else Exit [] ''invalid duration'' EXIT_INVALID) \<and>
         parse_duration e (show_nat n) = ret (Fin (of_nat n), e) \<and>
         parse_duration e (CHR ''-'' # show_nat n) = ret (Fin (- of_nat n), e)"
proof -
  have "parse_duration e (CHR ''-'' # show_nat n) = ret (Fin (- of_nat n), e)"
    using strtod_negative [OF _ ends_number_Nil, of n] assms(2) by (simp add: parse_duration_def)
  moreover have "parse_duration e (show_nat n) = ret (Fin (of_nat n), e)"
    using parse_duration_plain assms(2) by simp
  ultimately show ?thesis using parse_duration_unit [OF assms] by simp
qed

theorem parse_duration_whole_witness:
  "parse_duration E0 (show_nat 2 @ ''h'') = ret (Fin 7200, E0) \<and>
   parse_duration E0 (show_nat 2000 @ ''d'') = Exit [] ''invalid duration'' EXIT_INVALID"
  using parse_duration_whole [of "CHR ''h''" 3600 2 E0]
    parse_duration_whole [of "CHR ''d''" 86400 2000 E0]
  by (simp add: unit_seconds_def)

text \<open>
  C16: signals.  Every signal name is understood in upper or lower case, with or without \<open>SIG\<close>.
  A number from 2 to 31 is understood only while \<open>errno\<close> holds neither \<open>EINVAL\<close> nor \<open>ERANGE\<close> from
  an earlier call, and parsing a name leaves \<open>EINVAL\<close> behind; the number 1 is always refused.
\<close>

theorem parse_signal_cases:
  "(0 < i \<and> i < NSIG \<and> (lower str = sys_signame ! i \<or> lower str = ''sig'' @ sys_signame ! i) \<longrightarrow>
      parse_signal e str = ret (int i, EINVAL)) \<and>
   (1 < n \<and> n < NSIG \<longrightarrow>
      parse_signal e (show_nat n) =
        (if e = EINVAL \<or> e = ERANGE then Exit [] ''invalid signal'' EXIT_INVALID
         else ret (int n, e))) \<and>
   parse_signal e (show_nat 1) = Exit [] ''invalid signal'' EXIT_INVALID"
  using parse_signal_name [of i str e] parse_signal_digits [of n e] parse_signal_digits [of 1 e]
  by (auto simp: NSIG_def)

theorem parse_signal_cases_witness:
  "parse_signal ERANGE ''sigTERM'' = ret (15, EINVAL) \<and>
   parse_signal E0 (show_nat 9) = ret (9, E0) \<and>
   parse_signal EINVAL (show_nat 9) = Exit [] ''invalid signal'' EXIT_INVALID"
proof -
  have "lower ''sigTERM'' = ''sig'' @ sys_signame ! 15" by code_simp
  then show ?thesis
    using parse_signal_cases [of 15 "''sigTERM''" ERANGE 9] parse_signal_cases [of 15 "[]" E0 9]
      parse_signal_cases [of 15 "[]" EINVAL 9] by (simp add: NSIG_def)
qed

text \<open>
  C17: a negative duration behind \<open>--\<close> passes the parser; the program then starts the command,
  fails to arm the timer and exits with status 1, leaving the command running without a limit.
\<close>

theorem negative_duration_leaves_command:
  assumes "n < 2 ^ 36" "\<forall>s. sigaction_ok sys s" "sigprocmask_ok sys"
    "\<not> setitimer_ok sys (- int n) 0" "0 < fork_ret sys"
  shows "\<exists>acts. timeout_main sys e (''--'' # (CHR ''-'' # show_nat n) # command # args) evs ws =
           (acts, Inl (Exited 1 ''setitimer()'')) \<and> Fork \<in> set acts \<and> sent (fork_ret sys) acts = []"
proof -
  have go: "getopt_long (''--'' # (CHR ''-'' # show_nat n) # command # args) =
      ([], (CHR ''-'' # show_nat n) # command # args)" by (simp add: getopt_long.simps)
  have dur: "parse_duration e (CHR ''-'' # show_nat n) = ret (Fin (- of_nat n), e)"
    using strtod_negative [OF _ ends_number_Nil, of n] assms(1) by (simp add: parse_duration_def)
  have "trunc (- of_nat n) = - int n" by (auto simp: trunc_def ceiling_def)
  moreover have "rnd 0 = Fin 0" "trunc 0 = 0" using rnd_int [of 0] by (simp_all add: trunc_def)
  ultimately have iv: "set_interval sys (Fin (- of_nat n)) =
      ([Setitimer (- int n) 0], Inl (Exited 1 ''setitimer()''))"
    using assms(1,4) by (simp add: set_interval_def Let_def)
  obtain ha where h: "install_handlers sys (signums SIGTERM) = (ha, Inr ())"
    using install_handlers_ok [OF assms(2)] by (metis prod.collapse)
  have "sent (fork_ret sys) ha = []" using sent_install_handlers [of "fork_ret sys" sys] h by (metis fst_conv)
  then show ?thesis
    using go dur iv h assms(3,5)
    by (simp add: timeout_main_def of_run_def bind_proc_def prctl_def PR_SET_CHILD_SUBREAPER_def
        default_options_def run_parent_def)
qed

theorem negative_duration_leaves_command_witness:
  "\<exists>acts. timeout_main (plain_sys 7) E0 (''--'' # (CHR ''-'' # show_nat 5) # ''sleep'' # [''9'']) [] [] =
           (acts, Inl (Exited 1 ''setitimer()'')) \<and> Fork \<in> set acts \<and> sent 7 acts = []"
  using negative_duration_leaves_command [of 5 "plain_sys 7" E0 "''sleep''" "[''9'']" "[]" "[]"]
  by (simp add: plain_sys_def)

end
