(* ===== verification/Indent_Names.thy ===== *)
theory Indent_Names
  imports Prelude "HOL-Library.Char_ord" "HOL-Library.List_Lexorder"
begin

text \<open>
  The two name tables of \<open>indent\<close>'s lexer (\<^verbatim>\<open>src/bsd_additions/indent/lexi.c\<close>): the
  reserved words, which are constant, and the type names, which grow with \<open>add_typename\<close>.
  Both are sorted arrays searched with \<open>bsearch\<close>; the locale \<open>name_set\<close> is what their users
  rely on, and the type names are shown to be one.
\<close>

section \<open>strcmp and bsearch\<close>

text \<open>Only the sign of the result is used.\<close>

fun strcmp :: "string \<Rightarrow> string \<Rightarrow> int" where
  "strcmp [] [] = 0"
| "strcmp [] (d # t) = -1"
| "strcmp (c # s) [] = 1"
| "strcmp (c # s) (d # t) = (if c = d then strcmp s t else if code c < code d then -1 else 1)"

lemma strcmp_zero [simp]: "strcmp s t = 0 \<longleftrightarrow> s = t"
  by (induction s t rule: strcmp.induct) auto

lemma strcmp_neg [simp]: "strcmp s t < 0 \<longleftrightarrow> s < t"
  by (induction s t rule: strcmp.induct) (auto simp: less_char_def)

lemma strcmp_pos [simp]: "0 < strcmp s t \<longleftrightarrow> t < s"
  by (induction s t rule: strcmp.induct) (auto simp: less_char_def not_less le_less)

lemma strcmp_nonneg [simp]: "0 \<le> strcmp s t \<longleftrightarrow> t \<le> s"
  by (metis strcmp_neg linorder_not_less)

text \<open>\<open>cmp\<close> compares the key with an element, as the comparison functions here do.\<close>

function bsearch_at :: "('a \<Rightarrow> int) \<Rightarrow> 'a list \<Rightarrow> nat \<Rightarrow> nat \<Rightarrow> nat option" where
  "bsearch_at cmp xs lo hi =
     (if hi \<le> lo then None
      else let mid = (lo + hi) div 2; c = cmp (xs ! mid)
           in if c = 0 then Some mid
              else if c < 0 then bsearch_at cmp xs lo mid
              else bsearch_at cmp xs (mid + 1) hi)"
  by pat_completeness auto
termination by (relation "measure (\<lambda>(cmp, xs, lo, hi). hi - lo)") auto

declare bsearch_at.simps [simp del]

definition bsearch :: "('a \<Rightarrow> int) \<Rightarrow> 'a list \<Rightarrow> nat option" where
  "bsearch cmp xs = bsearch_at cmp xs 0 (length xs)"

lemma bsearch_at_sound:
  "bsearch_at cmp xs lo hi = Some i \<Longrightarrow> lo \<le> i \<and> i < hi \<and> cmp (xs ! i) = 0"
proof (induction cmp xs lo hi rule: bsearch_at.induct)
  case (1 cmp xs lo hi)
  let ?m = "(lo + hi) div 2"
  show ?case
  proof (cases "lo < hi")
    case True
    then have m: "lo \<le> ?m" "?m < hi" by auto
    from "1.prems" True consider "cmp (xs ! ?m) = 0" "i = ?m" | "cmp (xs ! ?m) < 0" "bsearch_at cmp xs lo ?m = Some i"
      | "\<not> cmp (xs ! ?m) < 0" "cmp (xs ! ?m) \<noteq> 0" "bsearch_at cmp xs (?m + 1) hi = Some i"
      by (auto simp: bsearch_at.simps [of cmp xs lo hi] Let_def split: if_splits)
    then show ?thesis
    proof cases
      case 1 then show ?thesis using m by simp
    next
      case 2 then show ?thesis using "1.IH"(1) [OF _ refl refl] True m by auto
    next
      case 3 then show ?thesis using "1.IH"(2) [OF _ refl refl] True m by auto
    qed
  qed (use "1.prems" in \<open>simp add: bsearch_at.simps [of cmp xs lo hi]\<close>)
qed

text \<open>With elements in order, the key is found wherever it is.\<close>

lemma bsearch_at_complete:
  fixes key :: "'a :: linorder" and g :: "'b \<Rightarrow> 'a"
  assumes "sorted_wrt (<) (map g xs)" "hi \<le> length xs" "lo \<le> i" "i < hi" "g (xs ! i) = key"
    "\<And>x. (c x < 0) = (key < g x)" "\<And>x. (c x = 0) = (key = g x)"
  shows "bsearch_at c xs lo hi = Some i"
  using assms
proof (induction c xs lo hi rule: bsearch_at.induct)
  case (1 c xs lo hi)
  let ?m = "(lo + hi) div 2"
  have m: "lo \<le> ?m" "?m < hi" using "1.prems"(3,4) by auto
  have mono: "g (xs ! a) < g (xs ! b)" if "a < b" "b < length xs" for a b
    using sorted_wrt_nth_less [OF "1.prems"(1), of a b] that by simp
  consider "?m = i" | "i < ?m" | "?m < i" by linarith
  then show ?case
  proof cases
    case 1
    then show ?thesis using "1.prems" m by (simp add: bsearch_at.simps [of c xs lo hi] Let_def)
  next
    case 2
    then have "key < g (xs ! ?m)" using mono [of i ?m] "1.prems" m by simp
    with 2 m "1.prems" "1.IH"(1) [OF _ refl refl] show ?thesis
      by (auto simp: bsearch_at.simps [of c xs lo hi] Let_def)
  next
    case 3
    then have "g (xs ! ?m) < key" using mono [of ?m i] "1.prems" by simp
    with 3 m "1.prems" "1.IH"(2) [OF _ refl refl] show ?thesis
      by (auto simp: bsearch_at.simps [of c xs lo hi] Let_def)
  qed
qed

lemma bsearch_sorted:
  fixes key :: "'a :: linorder"
  assumes "sorted_wrt (<) (map g xs)" "\<And>x. (c x < 0) = (key < g x)" "\<And>x. (c x = 0) = (key = g x)"
  shows "bsearch c xs = Some i \<longleftrightarrow> i < length xs \<and> g (xs ! i) = key"
    and "bsearch c xs = None \<longleftrightarrow> key \<notin> g ` set xs"
proof -
  show a: "bsearch c xs = Some i \<longleftrightarrow> i < length xs \<and> g (xs ! i) = key" for i
    using bsearch_at_sound [of c xs 0 "length xs" i] bsearch_at_complete [of g xs "length xs" 0 i key c] assms
    by (auto simp: bsearch_def)
  have "bsearch c xs = None \<longleftrightarrow> (\<forall>i. \<not> (i < length xs \<and> g (xs ! i) = key))"
    using a by (metis not_None_eq)
  then show "bsearch c xs = None \<longleftrightarrow> key \<notin> g ` set xs" by (metis imageE imageI in_set_conv_nth)
qed

section \<open>Reserved words\<close>

text \<open>A word and the class \<open>lexi\<close> puts it in.\<close>

definition specials :: "(string \<times> nat) list" where
  "specials =
     [(''_Bool'', 4), (''_Complex'', 4), (''_Imaginary'', 4), (''auto'', 10), (''bool'', 4),
      (''break'', 9), (''case'', 8), (''char'', 4), (''complex'', 4), (''const'', 4),
      (''continue'', 12), (''default'', 8), (''do'', 6), (''double'', 4), (''else'', 6),
      (''enum'', 3), (''extern'', 10), (''float'', 4), (''for'', 5), (''global'', 4),
      (''goto'', 9), (''if'', 5), (''imaginary'', 4), (''inline'', 12), (''int'', 4),
      (''long'', 4), (''offsetof'', 1), (''register'', 10), (''restrict'', 12), (''return'', 9),
      (''short'', 4), (''signed'', 4), (''sizeof'', 2), (''static'', 10), (''struct'', 3),
      (''switch'', 7), (''typedef'', 11), (''union'', 3), (''unsigned'', 4), (''void'', 4),
      (''volatile'', 4), (''while'', 5)]"

definition strcmp_type :: "string \<Rightarrow> string \<Rightarrow> int" where
  "strcmp_type e1 e2 = strcmp e1 e2"

text \<open>\<open>lexi\<close>'s lookup of a word; the string is the first member of a \<open>struct templ\<close>.\<close>

definition find_special :: "string \<Rightarrow> (string \<times> nat) option" where
  "find_special w = map_option (\<lambda>i. specials ! i) (bsearch (\<lambda>p. strcmp_type w (fst p)) specials)"

lemma specials_sorted: "sorted_wrt (<) (map fst specials)"
  by code_simp

lemma find_special_eq: "find_special w = Some p \<longleftrightarrow> p \<in> set specials \<and> fst p = w"
proof -
  have s: "bsearch (\<lambda>p. strcmp_type w (fst p)) specials = Some i \<longleftrightarrow> i < length specials \<and> fst (specials ! i) = w" for i
    by (rule bsearch_sorted [OF specials_sorted]) (auto simp: strcmp_type_def)
  show ?thesis by (auto simp: find_special_def s in_set_conv_nth)
qed

lemma find_special_none: "find_special w = None \<longleftrightarrow> w \<notin> fst ` set specials"
  using find_special_eq by (metis (no_types, lifting) image_iff not_None_eq)

section \<open>Type names\<close>

text \<open>The names in use and the room allocated for them; \<open>typename_top\<close> is the last index.\<close>

record typetab =
  typenames_of :: "string list"
  typename_count :: nat

definition alloc_typenames :: typetab where
  "alloc_typenames = \<lparr>typenames_of = [], typename_count = 16\<rparr>"

text \<open>The place for a new key; \<open>None\<close> is a read past the last name.\<close>

fun find_place :: "string \<Rightarrow> string list \<Rightarrow> nat option" where
  "find_place key [] = None"
| "find_place key (t # ts) = (if 0 < strcmp key t then map_option Suc (find_place key ts) else Some 0)"

text \<open>\<open>None\<close> is an access outside the array.\<close>

definition add_typename :: "string \<Rightarrow> typetab \<Rightarrow> typetab option" where
  "add_typename key tab0 =
     (let tab = (if typename_count tab0 \<le> length (typenames_of tab0)
                 then tab0\<lparr>typename_count := 2 * typename_count tab0\<rparr> else tab0);
          names = typenames_of tab;
          store = (\<lambda>ts. if length ts \<le> typename_count tab then Some (tab\<lparr>typenames_of := ts\<rparr>) else None)
      in if names = [] then store [key]
         else let comparison = strcmp key (last names)
              in if 0 \<le> comparison
                 then (if comparison = 0 then Some tab else store (names @ [key]))
                 else case find_place key names of
                        None \<Rightarrow> None
                      | Some p \<Rightarrow>
                          if strcmp key (names ! p) = 0 then Some tab
                          else store (take p names @ key # drop p names))"

definition find_typename :: "string \<Rightarrow> typetab \<Rightarrow> bool" where
  "find_typename w tab \<longleftrightarrow> bsearch (strcmp_type w) (typenames_of tab) \<noteq> None"

definition tab_ok :: "typetab \<Rightarrow> bool" where
  "tab_ok tab \<longleftrightarrow> sorted_wrt (<) (typenames_of tab) \<and> length (typenames_of tab) \<le> typename_count tab \<and>
     0 < typename_count tab"

text \<open>What the option scanner and the lexer rely on: a set of names.\<close>

locale name_set =
  fixes empty :: 't and add :: "string \<Rightarrow> 't \<Rightarrow> 't option" and has :: "string \<Rightarrow> 't \<Rightarrow> bool"
    and ok :: "'t \<Rightarrow> bool"
  assumes empty_ok: "ok empty" and empty_has: "\<not> has w empty"
    and add_ok: "ok t \<Longrightarrow> \<exists>t'. add key t = Some t' \<and> ok t' \<and> (\<forall>w. has w t' \<longleftrightarrow> w = key \<or> has w t)"
begin

fun add_all :: "string list \<Rightarrow> 't \<Rightarrow> 't option" where
  "add_all [] t = Some t"
| "add_all (k # ks) t = (case add k t of None \<Rightarrow> None | Some t' \<Rightarrow> add_all ks t')"

lemma add_all_set:
  "ok t \<Longrightarrow> \<exists>t'. add_all ks t = Some t' \<and> ok t' \<and> (\<forall>w. has w t' \<longleftrightarrow> w \<in> set ks \<or> has w t)"
proof (induction ks arbitrary: t)
  case (Cons k ks)
  obtain t1 where t1: "add k t = Some t1" "ok t1" "\<forall>w. has w t1 \<longleftrightarrow> w = k \<or> has w t"
    using add_ok [OF Cons.prems] by blast
  from Cons.IH [OF t1(2)] obtain t' where "add_all ks t1 = Some t'" "ok t'" "\<forall>w. has w t' \<longleftrightarrow> w \<in> set ks \<or> has w t1"
    by blast
  with t1 show ?case by auto
qed simp

lemma add_all_perm:
  assumes "set ks = set ls" "add_all ks empty = Some t" "add_all ls empty = Some u"
  shows "has w t \<longleftrightarrow> has w u"
  using add_all_set [OF empty_ok, of ks] add_all_set [OF empty_ok, of ls] assms by auto

end

lemma find_place_sorted:
  assumes "sorted_wrt (<) names" "names \<noteq> []" "key < last names"
  shows "\<exists>p < length names. find_place key names = Some p \<and> (\<forall>t \<in> set (take p names). t < key) \<and>
           key \<le> names ! p \<and> (key \<noteq> names ! p \<longrightarrow> (\<forall>t \<in> set (drop p names). key < t))"
  using assms
proof (induction names)
  case (Cons t ts)
  show ?case
  proof (cases "t < key")
    case True
    then have "ts \<noteq> []" using Cons.prems(3) by (auto split: if_splits)
    with Cons True obtain p where "p < length ts" "find_place key ts = Some p" "\<forall>t \<in> set (take p ts). t < key"
      "key \<le> ts ! p" "key \<noteq> ts ! p \<longrightarrow> (\<forall>t \<in> set (drop p ts). key < t)" by auto
    with True show ?thesis by (intro exI [of _ "Suc p"]) auto
  next
    case False
    with Cons.prems(1) show ?thesis by (intro exI [of _ 0]) (auto simp: not_less)
  qed
qed simp

lemma sorted_insert:
  assumes "sorted_wrt (<) names" "\<forall>t \<in> set (take p names). t < key" "\<forall>t \<in> set (drop p names). key < (t :: string)"
  shows "sorted_wrt (<) (take p names @ key # drop p names)"
proof -
  have "sorted_wrt (<) (take p names @ drop p names)" using assms(1) by simp
  with assms(2,3) show ?thesis unfolding sorted_wrt_append by auto
qed

lemma find_typename_set: "tab_ok tab \<Longrightarrow> find_typename w tab \<longleftrightarrow> w \<in> set (typenames_of tab)"
  using bsearch_sorted(2) [of id "typenames_of tab" "strcmp_type w" w]
  by (auto simp: find_typename_def tab_ok_def strcmp_type_def)

lemma add_typename_ok:
  assumes "tab_ok tab"
  shows "\<exists>tab'. add_typename key tab = Some tab' \<and> tab_ok tab' \<and>
           set (typenames_of tab') = insert key (set (typenames_of tab))"
proof -
  define tab1 where "tab1 = (if typename_count tab \<le> length (typenames_of tab)
                 then tab\<lparr>typename_count := 2 * typename_count tab\<rparr> else tab)"
  note def = add_typename_def [of key tab, unfolded Let_def, folded tab1_def]
  let ?names = "typenames_of tab"
  have t1: "typenames_of tab1 = ?names" "length ?names < typename_count tab1"
    using assms by (auto simp: tab1_def tab_ok_def)
  have ok1: "tab_ok tab1" using assms t1 by (auto simp: tab_ok_def)
  have st: "tab_ok (tab1\<lparr>typenames_of := ts\<rparr>)" if "sorted_wrt (<) ts" "length ts = Suc (length ?names)" for ts
    using that t1(2) by (auto simp: tab_ok_def)
  have so: "sorted_wrt (<) ?names" using assms by (simp add: tab_ok_def)
  consider "?names = []" | "?names \<noteq> []" "key = last ?names" | "?names \<noteq> []" "last ?names < key"
    | "?names \<noteq> []" "key < last ?names" by fastforce
  then show ?thesis
  proof cases
    case 1
    then show ?thesis unfolding def using t1 st [of "[key]"] by auto
  next
    case 2
    then show ?thesis unfolding def using t1 ok1 by (auto simp: insert_absorb)
  next
    case 3
    have "t < key" if "t \<in> set ?names" for t
    proof -
      have "?names = butlast ?names @ [last ?names]" using 3 by simp
      then have "t \<in> set (butlast ?names) \<or> t = last ?names" using that by (metis in_set_conv_decomp rotate1.simps(2) set_ConsD set_rotate1)
      moreover have "t < last ?names" if "t \<in> set (butlast ?names)"
        using so that \<open>?names = butlast ?names @ [last ?names]\<close> by (metis list.set_intros(1) sorted_wrt_append)
      ultimately show ?thesis using 3 by auto
    qed
    then have "sorted_wrt (<) (?names @ [key])" using so by (simp add: sorted_wrt_append)
    then show ?thesis unfolding def using 3 t1 st [of "?names @ [key]"] by auto
  next
    case 4
    from find_place_sorted [OF so 4] obtain p where p: "p < length ?names" "find_place key ?names = Some p"
      "\<forall>t \<in> set (take p ?names). t < key" "key \<noteq> ?names ! p \<longrightarrow> (\<forall>t \<in> set (drop p ?names). key < t)" by blast
    have n: "\<not> 0 \<le> strcmp key (last ?names)" using 4 by (simp add: not_le)
    have s: "set (take p ?names) \<union> set (drop p ?names) = set ?names"
      by (metis append_take_drop_id set_append)
    show ?thesis
    proof (cases "key = ?names ! p")
      case True
      then have "key \<in> set ?names" using p(1) by simp
      with True 4 n t1 ok1 p(2) show ?thesis unfolding def by (auto simp: insert_absorb)
    next
      case False
      with p so have "sorted_wrt (<) (take p ?names @ key # drop p ?names)" by (intro sorted_insert) auto
      with False 4 n t1 p s st [of "take p ?names @ key # drop p ?names"] show ?thesis
        unfolding def by auto
    qed
  qed
qed

interpretation tn: name_set alloc_typenames add_typename find_typename tab_ok
proof
  show "tab_ok alloc_typenames" by (simp add: tab_ok_def alloc_typenames_def)
  show "\<not> find_typename w alloc_typenames" for w
    by (simp add: find_typename_def alloc_typenames_def bsearch_def bsearch_at.simps)
  show "\<exists>t'. add_typename key t = Some t' \<and> tab_ok t' \<and> (\<forall>w. find_typename w t' \<longleftrightarrow> w = key \<or> find_typename w t)"
    if "tab_ok t" for t key
    using add_typename_ok [OF that, of key] find_typename_set that by auto
qed

section \<open>Properties\<close>

text \<open> C18: the table of type names is a set.  Adding any names, in any order and with repetitions,
  to the empty table never reads or writes outside the array, keeps it sorted without
  duplicates within the room allocated, and afterwards the binary search of the lexer finds
  exactly the names that were added.\<close>

theorem typenames_form_a_set:
  "\<exists>tab. tn.add_all keys alloc_typenames = Some tab \<and> tab_ok tab \<and>
     (\<forall>w. find_typename w tab \<longleftrightarrow> w \<in> set keys)"
  using tn.add_all_set [OF tn.empty_ok, of keys] tn.empty_has by auto

text \<open> C19: the binary search for a reserved word finds what a search of the whole table finds: every
  reserved word with its class, and no other word.\<close>

theorem find_special_linear:
  "find_special w = map_option (Pair w) (map_of specials w)"
proof (cases "map_of specials w")
  case None
  then have "find_special w = None" by (simp add: find_special_none map_of_eq_None_iff)
  with None show ?thesis by simp
next
  case (Some k)
  then show ?thesis using map_of_SomeD find_special_eq [of w "(w, k)"] by fastforce
qed

end
