(* ===== verification/Indent_Globs.thy ===== *)
theory Indent_Globs
  imports C_Double Indent_Names
begin

text \<open>
  The globals of \<open>indent\<close> (\<^verbatim>\<open>src/bsd_additions/indent/indent_globs.h\<close> and
  \<^verbatim>\<open>indent_codes.h\<close>): token codes, options, the parser's state, the text buffers and the
  input.  Flags that only ever hold 0 or 1 are \<open>bool\<close>; a \<open>float\<close> is a rational that every
  operation rounds to 24 bits.
\<close>

section \<open>Token codes\<close>

text \<open>\<open>eofcode\<close> is the code 0 that \<open>lexi\<close> returns at the end of the input.\<close>

datatype code =
    eofcode | newline | lparen | rparen | unary_op | binary_op | postop | question | casestmt
  | colon | semicolon | lbrace | rbrace | ident | comma | comment | swstmt | preesc | form_feed
  | decl | sp_paren | sp_nparen | ifstmt | whilestmt | forstmt | stmt | stmtl | elselit | dolit
  | dohead | ifhead | elsehead | period | strpfx | storage | funcname | type_def | structure_tok

section \<open>Single precision numbers\<close>

definition float_exponents :: "int list" where
  "float_exponents = [-149..104]"

definition flt :: "rat \<Rightarrow> rat" where
  "flt q =
     (case find (\<lambda>e. \<bar>q\<bar> < scale (e + 24)) float_exponents of
        None \<Rightarrow> q
      | Some e \<Rightarrow>
          (let r = of_int (round_half_even (\<bar>q\<bar> / scale e)) * scale e
           in if q < 0 then - r else r))"

lemma flt_int:
  assumes "\<bar>n\<bar> < 2 ^ 24" shows "flt (of_int n) = of_int n"
proof -
  let ?P = "\<lambda>e. \<bar>of_int n\<bar> < scale (e + 24)"
  have "?P 0" using assms by (simp add: scale_def flip: of_int_abs)
  then have "\<exists>e. find ?P float_exponents = Some e \<and> e \<le> 0"
    unfolding float_exponents_def by (intro find_upto_ex) simp_all
  then obtain e where e: "find ?P float_exponents = Some e" and "e \<le> 0" by blast
  then obtain k where k: "e = - int k" by (metis zero_le_imp_eq_int neg_0_le_iff_le minus_minus)
  have sc: "scale e = 1 / 2 ^ k" by (simp add: scale_def k)
  have "round_half_even (\<bar>of_int n\<bar> / scale e) = \<bar>n\<bar> * 2 ^ k"
    using round_half_even_int [of "\<bar>n\<bar> * 2 ^ k"] by (simp add: sc)
  then show ?thesis using e by (simp add: flt_def sc Let_def)
qed

section \<open>Options\<close>

record indent_options =
  blanklines_around_conditional_compilation :: bool
  blanklines_after_declarations_at_proctop :: bool
  blanklines_after_declarations :: bool
  blanklines_after_procs :: bool
  blanklines_before_blockcomments :: bool
  leave_comma :: bool
  btype_2 :: bool
  Bill_Shannon :: bool
  comment_delimiter_on_blankline :: bool
  decl_com_ind :: int
  cuddle_else :: bool
  continuation_indent :: int
  case_indent :: rat
  com_ind :: int
  decl_indent :: int
  ljust_decl :: bool
  unindent_displace :: int
  extra_expression_indent :: bool
  else_if :: bool
  function_brace_split :: bool
  format_col1_comments :: bool
  format_block_comments :: bool
  indent_parameters :: bool
  ind_size :: int
  block_comment_max_col :: int
  local_decl_indent :: int
  lineup_to_parens_always :: bool
  lineup_to_parens :: bool
  pointer_as_binop :: bool
  proc_calls_space :: bool
  procnames_start_line :: bool
  space_after_cast :: bool
  star_comment_cont :: bool
  swallow_optional_blanklines :: bool
  auto_typedefs :: bool
  tabsize :: int
  max_col :: int
  use_tabs :: bool
  verbose :: bool

section \<open>The parser's state\<close>

definition STACKSIZE :: nat where
  "STACKSIZE = 256"

text \<open>The arrays are total functions; the operations check the index against the size.\<close>

record parser_state =
  last_token :: code
  p_stack :: "nat \<Rightarrow> code"
  il :: "nat \<Rightarrow> int"
  cstk :: "nat \<Rightarrow> rat"
  box_com :: bool
  comment_delta :: int
  n_comment_delta :: int
  cast_mask :: "32 word"
  not_cast_mask :: "32 word"
  block_init :: bool
  block_init_level :: int
  last_nl :: bool
  in_or_st :: bool
  bl_line :: bool
  col_1 :: bool
  com_col :: int
  com_lines :: int
  dec_nest :: int
  decl_on_line :: bool
  i_l_follow :: int
  in_decl :: bool
  in_stmt :: bool
  ind_level :: int
  ind_stmt :: bool
  last_u_d :: bool
  out_coms :: int
  out_lines :: int
  p_l_follow :: int
  paren_level :: int
  paren_indents :: "nat \<Rightarrow> int"
  pcase :: bool
  search_brace :: bool
  use_ff :: bool
  want_blank :: bool
  keyword :: int
  dumped_decl_indent :: bool
  in_parameter_declaration :: bool
  tos :: nat
  procname :: string
  just_saw_decl :: int

section \<open>Buffers\<close>

text \<open>
  A text buffer with its start and end pointer: the text between them, and the bytes from the
  end pointer on that earlier writes left in memory.
\<close>

record cbuf =
  held :: string
  stale :: string

definition cb_put :: "char \<Rightarrow> cbuf \<Rightarrow> cbuf" where
  "cb_put c b = \<lparr>held = held b @ [c], stale = tl (stale b)\<rparr>"

definition cb_puts :: "string \<Rightarrow> cbuf \<Rightarrow> cbuf" where
  "cb_puts s b = \<lparr>held = held b @ s, stale = drop (length s) (stale b)\<rparr>"

text \<open>Writing the terminator at the end pointer, and moving the end pointer back to the start.\<close>

definition cb_term :: "cbuf \<Rightarrow> cbuf" where
  "cb_term b = b\<lparr>stale := NUL # tl (stale b)\<rparr>"

definition cb_reset :: "cbuf \<Rightarrow> cbuf" where
  "cb_reset b = \<lparr>held = [], stale = NUL # tl (held b @ stale b)\<rparr>"

text \<open>Moving the end pointer back over the last \<open>n\<close> characters.\<close>

definition cb_back :: "nat \<Rightarrow> cbuf \<Rightarrow> cbuf" where
  "cb_back n b =
     \<lparr>held = take (length (held b) - n) (held b), stale = drop (length (held b) - n) (held b) @ stale b\<rparr>"

text \<open>The C string at the start of the buffer; \<open>None\<close> if no terminator was ever written.\<close>

definition cb_string :: "cbuf \<Rightarrow> string option" where
  "cb_string b = (if NUL \<in> set (held b @ stale b) then Some (cstr (held b @ stale b)) else None)"

lemma cb_string_term:
  assumes "NUL \<notin> set s" shows "cb_string (cb_term \<lparr>held = s, stale = r\<rparr>) = Some s"
proof -
  have "\<forall>c \<in> set s. c \<noteq> NUL" using assms by auto
  then show ?thesis by (simp add: cb_string_def cb_term_def cstr_def takeWhile_all_append)
qed

text \<open>Two characters next to each other.\<close>

fun adjacent :: "char \<Rightarrow> char \<Rightarrow> string \<Rightarrow> bool" where
  "adjacent a b (x # y # s) = (x = a \<and> y = b \<or> adjacent a b (y # s))"
| "adjacent a b s = False"

lemma adjacent_snoc: "s \<noteq> [] \<Longrightarrow> adjacent a b (s @ [x]) \<longleftrightarrow> adjacent a b s \<or> last s = a \<and> x = b"
  by (induction a b s rule: adjacent.induct) auto

lemma adjacent_prefix: "adjacent a b s \<Longrightarrow> adjacent a b (s @ t)"
  by (induction a b s rule: adjacent.induct) auto

section \<open>The whole state\<close>

text \<open>
  The local variables of \<open>main\<close> that live from token to token.
\<close>

record main_vars =
  dec_ind :: int
  di_stack :: "nat \<Rightarrow> int"
  force_nl :: bool
  hd_type :: code
  scase :: bool
  sp_sw :: bool
  squest :: int
  tabs_to_var :: bool
  type_code :: code
  last_else :: bool
  comment_buffered :: bool

text \<open>
  \<open>infile\<close> is the part of the input file that is not read yet, \<open>outp\<close> and \<open>errp\<close> the text
  written so far, \<open>to_stdout\<close> whether the output file is standard output and \<open>sout\<close> what goes
  to standard output when it is not.  \<open>in_buffer\<close> holds
  the bytes of the input buffer that have been written, \<open>in_limit\<close> is \<open>in_buffer_limit\<close>.  The
  input comes from \<open>in_buffer\<close> or, when \<open>from_save\<close> holds, from the save buffer \<open>sc_buf\<close>;
  \<open>buf_ptr\<close> and \<open>buf_end\<close> are positions in the one in use, and \<open>bp_save\<close> holds \<open>bp_save\<close> and
  \<open>be_save\<close> with the buffer they point to.  \<open>com_pre\<close> is the text between the start of the
  comment buffer and \<open>s_com\<close>, \<open>com_room\<close> the distance from the start to \<open>l_com\<close>.  \<open>tstate\<close> is
  the copy of \<open>ps\<close> that \<open>main\<close> gives to \<open>lexi\<close> for a look ahead.
\<close>

record ist =
  ps :: parser_state
  opt :: indent_options
  labb :: cbuf
  codeb :: cbuf
  comb :: cbuf
  com_pre :: string
  com_room :: nat
  token :: string
  in_buffer :: string
  in_limit :: nat
  sc_buf :: "nat \<Rightarrow> char"
  save_com :: nat
  sc_end :: "nat option"
  from_save :: bool
  buf_ptr :: nat
  buf_end :: nat
  bp_save :: "(bool \<times> nat \<times> nat) option"
  found_err :: bool
  n_real_blanklines :: int
  prefix_blankline_requested :: int
  postfix_blankline_requested :: int
  break_comma :: bool
  case_ind :: rat
  code_lines :: int
  had_eof :: bool
  line_no :: int
  inhibit_formatting :: bool
  suppress_blanklines :: int
  comment_open :: bool
  paren_target :: int
  not_first_line :: bool
  typenames :: typetab
  tstate :: parser_state
  ifdef_stack :: "parser_state list"
  mv :: main_vars
  infile :: string
  outp :: string
  errp :: string
  sout :: string
  to_stdout :: bool

definition upd_ps :: "(parser_state \<Rightarrow> parser_state) \<Rightarrow> ist \<Rightarrow> ist" where
  "upd_ps f st = st\<lparr>ps := f (ps st)\<rparr>"

definition emit :: "string \<Rightarrow> ist \<Rightarrow> ist" where
  "emit s st = st\<lparr>outp := outp st @ s\<rparr>"

text \<open>\<open>printf\<close>.\<close>

definition print_out :: "string \<Rightarrow> ist \<Rightarrow> ist" where
  "print_out s st = (if to_stdout st then emit s st else st\<lparr>sout := sout st @ s\<rparr>)"

text \<open>\<open>diag2(level, msg)\<close> of \<^verbatim>\<open>io.c\<close>; \<open>diag3\<close> and \<open>diag4\<close> differ in the arguments they format.\<close>

definition diag2 :: "bool \<Rightarrow> string \<Rightarrow> ist \<Rightarrow> ist" where
  "diag2 level msg st =
     (let st1 = (if level then st\<lparr>found_err := True\<rparr> else st);
          head = (if level then ''Error@'' else ''Warning@'') @ show_int (line_no st) @ '': ''
      in if to_stdout st then emit (''/**INDENT** '' @ head @ msg @ '' */'' @ [NL]) st1
         else st1\<lparr>errp := errp st @ head @ msg @ [NL]\<rparr>)"

section \<open>Runs\<close>

text \<open>
  The routines of the formatter keep what they write in the state; an exit reports the text of
  the output file and what went to standard error.  \<open>None\<close> means that the loops have not ended
  within the fuel given.
\<close>

type_synonym 'a irun = "'a run option"

definition go :: "'a \<Rightarrow> 'a irun" where
  "go a = Some (ret a)"

definition quit :: "ist \<Rightarrow> string \<Rightarrow> int \<Rightarrow> 'a irun" where
  "quit st msg n = Some (Exit (outp st) (errp st @ msg) n)"

definition wild :: "ist \<Rightarrow> 'a irun" where
  "wild st = Some (Undef (outp st))"

definition andthen :: "'a irun \<Rightarrow> ('a \<Rightarrow> 'b irun) \<Rightarrow> 'b irun" where
  "andthen r f =
     (case r of
        Some (Ret out a) \<Rightarrow> f a
      | Some (Exit out err n) \<Rightarrow> Some (Exit out err n)
      | Some (Undef out) \<Rightarrow> Some (Undef out)
      | None \<Rightarrow> None)"

lemma andthen_simps [simp, run_simps]:
  "andthen (go a) f = f a" "andthen (quit st msg n) f = quit st msg n"
  "andthen (wild st) f = wild st" "andthen None f = None"
  by (simp_all add: andthen_def go_def quit_def wild_def)

lemma andthen_go [simp]: "andthen r go = go b \<longleftrightarrow> (\<exists>out. r = Some (Ret out b))"
  by (auto simp: andthen_def go_def split: option.splits run.splits)

lemma go_inject [simp]: "go a = go b \<longleftrightarrow> a = b"
  by (simp add: go_def)

lemma go_distinct [simp]: "go a \<noteq> quit st msg n" "go a \<noteq> wild st" "go a \<noteq> None"
  "quit st msg n \<noteq> go a" "wild st \<noteq> go a" "None \<noteq> go a"
  by (simp_all add: go_def quit_def wild_def)

lemma andthen_eq_go: "andthen r f = go b \<longleftrightarrow> (\<exists>out a. r = Some (Ret out a) \<and> f a = go b)"
  by (auto simp: andthen_def go_def split: option.splits run.splits)

end
