(* ===== verification/Indent_Parse.thy ===== *)
theory Indent_Parse
  imports Indent_Globs
begin

text \<open>
  The statement parser of \<open>indent\<close> (\<^verbatim>\<open>src/bsd_additions/indent/parse.c\<close>): a shift-reduce parser
  on the fixed-size stacks \<open>p_stack\<close>, \<open>il\<close> and \<open>cstk\<close> that keeps the indentation levels.  An access
  outside the stacks is undefined behaviour (\<open>None\<close> here, \<open>Undef\<close> in \<open>parse\<close>).
\<close>

section \<open>reduce\<close>

text \<open>The search below \<open>if\<close> for the statement or brace that encloses it, from index \<open>n - 1\<close> down.\<close>

fun find_enclosing :: "(nat \<Rightarrow> code) \<Rightarrow> nat \<Rightarrow> nat option" where
  "find_enclosing stk 0 = None"
| "find_enclosing stk (Suc i) =
     (if stk i \<in> {stmt, stmtl, lbrace} then Some i else find_enclosing stk i)"

text \<open>The top two entries become \<open>c\<close>; the indentation that follows is the one saved below.\<close>

definition pop_to :: "code \<Rightarrow> parser_state \<Rightarrow> parser_state" where
  "pop_to c p = p\<lparr>tos := tos p - 1, p_stack := (p_stack p)(tos p - 1 := c)\<rparr>"

definition pop_indent :: "code \<Rightarrow> parser_state \<Rightarrow> parser_state" where
  "pop_indent c p = (pop_to c p)\<lparr>i_l_follow := il p (tos p - 1)\<rparr>"

text \<open>One round of the loop: \<open>Some None\<close> returns, \<open>Some (Some st)\<close> goes on.\<close>

definition reduce_step :: "ist \<Rightarrow> ist option option" where
  "reduce_step st =
     (let p = ps st; t = tos p; c = p_stack p (t - 1)
      in if p_stack p t = stmt
         then (if t = 0 then None
               else if c = stmt \<or> c = stmtl then Some (Some (upd_ps (pop_to stmtl) st))
               else if c = dolit then Some (Some (upd_ps (pop_indent dohead) st))
               else if c = ifstmt
               then (case find_enclosing (p_stack p) (t - 1) of
                       None \<Rightarrow> None
                     | Some i \<Rightarrow>
                         Some (Some (upd_ps (\<lambda>p. (pop_to ifhead p)\<lparr>i_l_follow := il p i\<rparr>) st)))
               else if c = swstmt
               then Some (Some (upd_ps (pop_indent stmt) (st\<lparr>case_ind := cstk p (t - 1)\<rparr>)))
               else if c = decl \<or> c = elsehead \<or> c = forstmt \<or> c = whilestmt
               then Some (Some (upd_ps (pop_indent stmt) st))
               else Some None)
         else if p_stack p t = whilestmt
         then (if t = 0 then None
               else if c = dohead
               then (if t < 2 then None else Some (Some (upd_ps (\<lambda>p. p\<lparr>tos := t - 2\<rparr>) st)))
               else Some None)
         else Some None)"

lemma reduce_step_tos:
  "reduce_step st = Some (Some st') \<Longrightarrow> tos (ps st') < tos (ps st)"
  by (auto simp: reduce_step_def Let_def upd_ps_def pop_to_def pop_indent_def
      split: if_splits option.splits)

function reduce :: "ist \<Rightarrow> ist option" where
  "reduce st =
     (case reduce_step st of
        None \<Rightarrow> None
      | Some None \<Rightarrow> Some st
      | Some (Some st') \<Rightarrow> reduce st')"
  by pat_completeness auto
termination
  by (relation "measure (\<lambda>st. tos (ps st))") (auto dest: reduce_step_tos)

declare reduce.simps [simp del]

lemma reduce_tos:
  "reduce st = Some st' \<Longrightarrow> st' = st \<or> tos (ps st') < tos (ps st)"
proof (induction st rule: reduce.induct)
  case (1 st)
  then show ?case
    by (subst (asm) (2) reduce.simps)
       (auto split: option.splits dest: reduce_step_tos)
qed

section \<open>parse\<close>

text \<open>An \<open>if\<close> on top that no \<open>else\<close> follows becomes a statement.\<close>

function resolve_ifs :: "code \<Rightarrow> ist \<Rightarrow> ist option" where
  "resolve_ifs tk st =
     (if p_stack (ps st) (tos (ps st)) = ifhead \<and> tk \<noteq> elselit
      then (case reduce (upd_ps (\<lambda>p. p\<lparr>p_stack := (p_stack p)(tos p := stmt)\<rparr>) st) of
              None \<Rightarrow> None
            | Some st' \<Rightarrow> resolve_ifs tk st')
      else Some st)"
  by pat_completeness auto
termination
proof (relation "measure (\<lambda>(tk, st). 2 * tos (ps st) +
    (if p_stack (ps st) (tos (ps st)) = ifhead then 1 else 0))", goal_cases)
  case (2 tk st st')
  then show ?case
    using reduce_tos [of "upd_ps (\<lambda>p. p\<lparr>p_stack := (p_stack p)(tos p := stmt)\<rparr>) st" st']
    by (auto simp: upd_ps_def)
qed simp

declare resolve_ifs.simps [simp del]

text \<open>Pushing a code and the indentation level saved with it.\<close>

definition push :: "code \<Rightarrow> int \<Rightarrow> ist \<Rightarrow> ist option" where
  "push c l st =
     (let t = tos (ps st) + 1
      in if STACKSIZE \<le> t then None
         else Some (upd_ps (\<lambda>p. p\<lparr>tos := t, p_stack := (p_stack p)(t := c),
                                 il := (il p)(t := l)\<rparr>) st))"

definition set_search_brace :: "bool \<Rightarrow> ist \<Rightarrow> ist" where
  "set_search_brace b = upd_ps (\<lambda>p. p\<lparr>search_brace := b\<rparr>)"

definition shift_decl :: "ist \<Rightarrow> ist option" where
  "shift_decl st0 =
     (let st = set_search_brace (btype_2 (opt st0)) st0; p = ps st
      in if p_stack p (tos p) = decl then Some st
         else case push decl (i_l_follow p) (st\<lparr>break_comma := True\<rparr>) of
                None \<Rightarrow> None
              | Some st1 \<Rightarrow>
                  Some (if ljust_decl (opt st)
                        then upd_ps (\<lambda>p. let n = int (length (filter (\<lambda>i. p_stack p i = decl) [1..<tos p]))
                                         in p\<lparr>ind_level := n, i_l_follow := n\<rparr>) st1
                        else st1))"

text \<open>\<open>do\<close>, \<open>for\<close> and the common part of \<open>if\<close>.\<close>

definition shift_head :: "code \<Rightarrow> ist \<Rightarrow> ist option" where
  "shift_head tk st =
     (let l = i_l_follow (ps st)
      in case push tk l st of
           None \<Rightarrow> None
         | Some st1 \<Rightarrow>
             Some (set_search_brace (btype_2 (opt st))
               (upd_ps (\<lambda>p. p\<lparr>ind_level := l, i_l_follow := l + 1\<rparr>) st1)))"

definition shift_if :: "ist \<Rightarrow> ist option" where
  "shift_if st =
     (let p = ps st
      in if p_stack p (tos p) = elsehead \<and> else_if (opt st)
         then (if tos p = 0 then None
               else shift_head ifstmt
                      (upd_ps (\<lambda>p. p\<lparr>i_l_follow := il p (tos p), tos := tos p - 1\<rparr>) st))
         else shift_head ifstmt st)"

definition shift_lbrace :: "ist \<Rightarrow> ist option" where
  "shift_lbrace st =
     (let p = ps st; c = p_stack p (tos p);
          p1 = (if c = stmt \<or> c = decl \<or> c = stmtl then p\<lparr>i_l_follow := i_l_follow p + 1\<rparr>
                else if held (codeb st) = []
                then p\<lparr>ind_level := ind_level p - 1
                         - (if c = swstmt \<and> 1 \<le> case_indent (opt st) then 1 else 0)\<rparr>
                else p);
          st1 = st\<lparr>break_comma := False, ps := p1\<rparr>
      in case push lbrace (ind_level p1) st1 of
           None \<Rightarrow> None
         | Some st2 \<Rightarrow> push stmt (i_l_follow p1) st2)"

definition shift_while :: "ist \<Rightarrow> ist option" where
  "shift_while st =
     (let p = ps st
      in if p_stack p (tos p) = dohead
         then (let l = il p (tos p)
               in push whilestmt l (upd_ps (\<lambda>p. p\<lparr>ind_level := l, i_l_follow := l\<rparr>) st))
         else case push whilestmt (i_l_follow p) st of
                None \<Rightarrow> None
              | Some st1 \<Rightarrow>
                  Some (set_search_brace (btype_2 (opt st))
                    (upd_ps (\<lambda>q. q\<lparr>i_l_follow := i_l_follow p + 1\<rparr>) st1)))"

definition shift_else :: "ist \<Rightarrow> ist" where
  "shift_else st =
     (let p = ps st
      in if p_stack p (tos p) \<noteq> ifhead then diag2 True (''Unmatched '' @ [CHR 0x27] @ ''else'' @ [CHR 0x27]) st
         else set_search_brace (btype_2 (opt st) \<or> else_if (opt st))
                (upd_ps (\<lambda>p. p\<lparr>p_stack := (p_stack p)(tos p := elsehead),
                              ind_level := il p (tos p), i_l_follow := il p (tos p) + 1\<rparr>) st))"

definition shift_rbrace :: "ist \<Rightarrow> ist" where
  "shift_rbrace st =
     (let p = ps st; t = tos p - 1
      in if 0 < tos p \<and> p_stack p t = lbrace
         then upd_ps (\<lambda>p. p\<lparr>tos := t, ind_level := il p t, i_l_follow := il p t,
                           p_stack := (p_stack p)(t := stmt)\<rparr>) st
         else diag2 True ''Statement nesting error'' st)"

text \<open>The sums are single precision; the new level drops the fraction.\<close>

definition shift_switch :: "ist \<Rightarrow> ist option" where
  "shift_switch st =
     (let l = i_l_follow (ps st); ci = case_indent (opt st)
      in case push swstmt l st of
           None \<Rightarrow> None
         | Some st1 \<Rightarrow>
             Some (set_search_brace (btype_2 (opt st))
               (upd_ps (\<lambda>p. p\<lparr>cstk := (cstk p)(tos p := case_ind st),
                             i_l_follow := trunc (flt (of_int l + flt (ci + 1)))\<rparr>)
                 (st1\<lparr>case_ind := flt (of_int l + ci)\<rparr>))))"

definition shift :: "code \<Rightarrow> ist \<Rightarrow> ist option" where
  "shift tk st =
     (case tk of
        decl \<Rightarrow> shift_decl st
      | ifstmt \<Rightarrow> shift_if st
      | dolit \<Rightarrow> shift_head dolit st
      | forstmt \<Rightarrow> shift_head forstmt st
      | lbrace \<Rightarrow> shift_lbrace st
      | whilestmt \<Rightarrow> shift_while st
      | elselit \<Rightarrow> Some (shift_else st)
      | rbrace \<Rightarrow> Some (shift_rbrace st)
      | swstmt \<Rightarrow> shift_switch st
      | semicolon \<Rightarrow> push stmt (ind_level (ps st)) (st\<lparr>break_comma := False\<rparr>)
      | _ \<Rightarrow> Some st)"

definition parser_token :: "code \<Rightarrow> bool" where
  "parser_token tk \<longleftrightarrow>
     tk \<in> {decl, ifstmt, dolit, forstmt, lbrace, whilestmt, elselit, rbrace, swstmt, semicolon}"

definition parse :: "code \<Rightarrow> ist \<Rightarrow> ist run" where
  "parse tk st =
     (case resolve_ifs tk st of
        None \<Rightarrow> Undef (outp st)
      | Some st1 \<Rightarrow>
          if \<not> parser_token tk then ret (diag2 True ''Unknown code to parser'' st1)
          else case shift tk st1 of
                 None \<Rightarrow> Undef (outp st1)
               | Some st2 \<Rightarrow>
                   if STACKSIZE - 1 \<le> tos (ps st2)
                   then Exit (outp st2) (errp st2 @ ''Parser stack overflow'') 1
                   else case reduce st2 of
                          None \<Rightarrow> Undef (outp st2)
                        | Some st3 \<Rightarrow> ret st3)"

section \<open>The parser as a machine on an unbounded stack\<close>

text \<open>
  The specification: a stack of codes with the indentation saved at each (and the saved case
  indentation at a \<open>switch\<close>), top first, and the three quantities the parser computes.
\<close>

type_synonym pentry = "code \<times> int \<times> rat"

record apst =
  stk :: "pentry list"
  ilf :: int
  indl :: int
  cind :: rat

text \<open>The options that matter, and whether the code buffer is empty.\<close>

record apopt =
  a_else_if :: bool
  a_ljust :: bool
  a_case :: rat
  a_empty :: bool

fun a_enclosing :: "pentry list \<Rightarrow> int" where
  "a_enclosing [] = 0"
| "a_enclosing ((c, l, x) # r) = (if c \<in> {stmt, stmtl, lbrace} then l else a_enclosing r)"

definition a_step :: "apst \<Rightarrow> apst option" where
  "a_step s =
     (case stk s of
        (c0, l0, x0) # (c, l, x) # r \<Rightarrow>
          (if c0 = stmt
           then (if c = stmt \<or> c = stmtl then Some (s\<lparr>stk := (stmtl, l, 0) # r\<rparr>)
                 else if c = dolit then Some (s\<lparr>stk := (dohead, l, 0) # r, ilf := l\<rparr>)
                 else if c = ifstmt then Some (s\<lparr>stk := (ifhead, l, 0) # r, ilf := a_enclosing r\<rparr>)
                 else if c = swstmt then Some (s\<lparr>stk := (stmt, l, 0) # r, ilf := l, cind := x\<rparr>)
                 else if c = decl \<or> c = elsehead \<or> c = forstmt \<or> c = whilestmt
                 then Some (s\<lparr>stk := (stmt, l, 0) # r, ilf := l\<rparr>)
                 else None)
           else if c0 = whilestmt \<and> c = dohead then Some (s\<lparr>stk := r\<rparr>)
           else None)
      | _ \<Rightarrow> None)"

lemma a_step_length: "a_step s = Some s' \<Longrightarrow> length (stk s') < length (stk s)"
  by (auto simp: a_step_def split: list.splits if_splits)

function a_reduce :: "apst \<Rightarrow> apst" where
  "a_reduce s = (case a_step s of None \<Rightarrow> s | Some s' \<Rightarrow> a_reduce s')"
  by pat_completeness auto
termination
  by (relation "measure (\<lambda>s. length (stk s))") (auto dest: a_step_length)

declare a_reduce.simps [simp del]

lemma a_reduce_same: "a_reduce s = s \<or> length (stk (a_reduce s)) < length (stk s)"
proof (induction s rule: a_reduce.induct)
  case (1 s)
  show ?case
  proof (cases "a_step s")
    case None
    then show ?thesis by (simp add: a_reduce.simps [of s])
  next
    case (Some s')
    then show ?thesis
      using 1 [OF Some] a_step_length [OF Some] by (auto simp: a_reduce.simps [of s])
  qed
qed

definition top_code :: "apst \<Rightarrow> code" where
  "top_code s = (case stk s of [] \<Rightarrow> eofcode | (c, _, _) # _ \<Rightarrow> c)"

definition a_set_top :: "code \<Rightarrow> apst \<Rightarrow> apst" where
  "a_set_top c s = (case stk s of [] \<Rightarrow> s | (_, l, _) # r \<Rightarrow> s\<lparr>stk := (c, l, 0) # r\<rparr>)"

function a_resolve :: "apst \<Rightarrow> apst" where
  "a_resolve s = (if top_code s = ifhead then a_resolve (a_reduce (a_set_top stmt s)) else s)"
  by pat_completeness auto
termination
proof (relation "measure (\<lambda>s. 2 * length (stk s) + (if top_code s = ifhead then 1 else 0))", goal_cases)
  case (2 s)
  then have "length (stk (a_set_top stmt s)) = length (stk s)" "top_code (a_set_top stmt s) = stmt"
    by (auto simp: top_code_def a_set_top_def split: list.splits)
  with 2 a_reduce_same [of "a_set_top stmt s"] show ?case by auto
qed simp

declare a_resolve.simps [simp del]

definition a_push :: "code \<Rightarrow> int \<Rightarrow> apst \<Rightarrow> apst" where
  "a_push c l s = s\<lparr>stk := (c, l, 0) # stk s\<rparr>"

definition a_shift :: "apopt \<Rightarrow> code \<Rightarrow> apst \<Rightarrow> apst" where
  "a_shift opts tk s =
     (if tk = decl
      then (if top_code s = decl then s
            else let s1 = a_push decl (ilf s) s;
                     n = int (length (filter (\<lambda>e. fst e = decl) (butlast (stk s))))
                 in if a_ljust opts then s1\<lparr>indl := n, ilf := n\<rparr> else s1)
      else if tk = ifstmt \<or> tk = dolit \<or> tk = forstmt
      then (let s0 = (if tk = ifstmt \<and> top_code s = elsehead \<and> a_else_if opts
                      then s\<lparr>stk := tl (stk s), ilf := fst (snd (hd (stk s)))\<rparr> else s)
            in (a_push tk (ilf s0) s0)\<lparr>indl := ilf s0, ilf := ilf s0 + 1\<rparr>)
      else if tk = lbrace
      then (let c = top_code s;
                s1 = (if c = stmt \<or> c = decl \<or> c = stmtl then s\<lparr>ilf := ilf s + 1\<rparr>
                      else if a_empty opts
                      then s\<lparr>indl := indl s - 1 - (if c = swstmt \<and> 1 \<le> a_case opts then 1 else 0)\<rparr>
                      else s)
            in a_push stmt (ilf s1) (a_push lbrace (indl s1) s1))
      else if tk = whilestmt
      then (if top_code s = dohead
            then (let l = fst (snd (hd (stk s))) in (a_push whilestmt l s)\<lparr>indl := l, ilf := l\<rparr>)
            else (a_push whilestmt (ilf s) s)\<lparr>ilf := ilf s + 1\<rparr>)
      else if tk = elselit
      then (if top_code s \<noteq> ifhead then s
            else let l = fst (snd (hd (stk s)))
                 in (a_set_top elsehead s)\<lparr>indl := l, ilf := l + 1\<rparr>)
      else if tk = rbrace
      then (case stk s of
              _ # (c, l, x) # r \<Rightarrow>
                (if c = lbrace then s\<lparr>stk := (stmt, l, 0) # r, indl := l, ilf := l\<rparr> else s)
            | _ \<Rightarrow> s)
      else if tk = swstmt
      then s\<lparr>stk := (swstmt, ilf s, cind s) # stk s,
             cind := flt (of_int (ilf s) + a_case opts),
             ilf := trunc (flt (of_int (ilf s) + flt (a_case opts + 1)))\<rparr>
      else if tk = semicolon then a_push stmt (indl s) s
      else s)"

definition a_parse :: "apopt \<Rightarrow> code \<Rightarrow> apst \<Rightarrow> apst" where
  "a_parse opts tk s =
     a_reduce (a_shift opts tk (if tk = elselit then s else a_resolve s))"

section \<open>The arrays implement the machine\<close>

definition entry :: "parser_state \<Rightarrow> nat \<Rightarrow> pentry" where
  "entry p i = (p_stack p i, il p i, if p_stack p i = swstmt then cstk p i else 0)"

fun below :: "parser_state \<Rightarrow> nat \<Rightarrow> pentry list" where
  "below p 0 = []"
| "below p (Suc i) = entry p i # below p i"

definition abs_ps :: "ist \<Rightarrow> apst" where
  "abs_ps st =
     \<lparr>stk = below (ps st) (Suc (tos (ps st))), ilf = i_l_follow (ps st),
      indl = ind_level (ps st), cind = case_ind st\<rparr>"

definition abs_opt :: "ist \<Rightarrow> apopt" where
  "abs_opt st =
     \<lparr>a_else_if = else_if (opt st), a_ljust = ljust_decl (opt st),
      a_case = case_indent (opt st), a_empty = (held (codeb st) = [])\<rparr>"

text \<open>The invariant between calls: a list of statements at the bottom, and room for one entry.\<close>

definition base_ok :: "ist \<Rightarrow> bool" where
  "base_ok st \<longleftrightarrow> p_stack (ps st) 0 = stmtl"

definition parser_ok :: "ist \<Rightarrow> bool" where
  "parser_ok st \<longleftrightarrow> base_ok st \<and> tos (ps st) < STACKSIZE - 1"

text \<open>What the parser leaves alone.\<close>

definition same_rest :: "ist \<Rightarrow> ist \<Rightarrow> bool" where
  "same_rest st st' \<longleftrightarrow> opt st' = opt st \<and> codeb st' = codeb st"

lemma same_rest_refl [simp]: "same_rest st st"
  by (simp add: same_rest_def)

lemma same_rest_trans: "same_rest a b \<Longrightarrow> same_rest b c \<Longrightarrow> same_rest a c"
  by (simp add: same_rest_def)

lemma abs_opt_same: "same_rest st st' \<Longrightarrow> abs_opt st' = abs_opt st"
  by (simp add: same_rest_def abs_opt_def)

lemma below_cong:
  "(\<And>i. i < n \<Longrightarrow> entry p i = entry q i) \<Longrightarrow> below p n = below q n"
  by (induction n) auto

lemma length_below [simp]: "length (below p n) = n"
  by (induction n) auto

lemma enclosing_refines:
  assumes "p_stack p 0 = stmtl" "0 < n"
  shows "\<exists>i. find_enclosing (p_stack p) n = Some i \<and> a_enclosing (below p n) = il p i"
  using assms(2)
proof (induction n)
  case (Suc n)
  then show ?case using assms(1) by (cases n) (auto simp: entry_def)
qed simp

text \<open>Replacing the top two entries by one.\<close>

lemma abs_pop:
  assumes "tos (ps st) = Suc t" "c \<noteq> swstmt"
  shows "abs_ps (st\<lparr>case_ind := x, ps := (pop_to c (ps st))\<lparr>i_l_follow := l\<rparr>\<rparr>) =
           \<lparr>stk = (c, il (ps st) t, 0) # below (ps st) t, ilf = l, indl = ind_level (ps st), cind = x\<rparr>"
proof -
  have "below ((pop_to c (ps st))\<lparr>i_l_follow := l\<rparr>) t = below (ps st) t"
    using assms by (intro below_cong) (auto simp: pop_to_def entry_def)
  then show ?thesis using assms by (simp add: abs_ps_def pop_to_def entry_def)
qed

lemma reduce_step_refines:
  assumes "base_ok st"
  shows "case a_step (abs_ps st) of
           None \<Rightarrow> reduce_step st = Some None
         | Some s \<Rightarrow> \<exists>st'. reduce_step st = Some (Some st') \<and> abs_ps st' = s \<and> base_ok st' \<and>
                           same_rest st st'"
proof (cases "tos (ps st)")
  case 0
  then show ?thesis using assms
    by (simp add: a_step_def abs_ps_def reduce_step_def base_ok_def entry_def)
next
  case (Suc t)
  let ?p = "ps st" and ?c = "p_stack (ps st) t"
  let ?st = "\<lambda>c l x. st\<lparr>case_ind := x, ps := (pop_to c ?p)\<lparr>i_l_follow := l\<rparr>\<rparr>"
  have b: "p_stack ?p 0 = stmtl" using assms by (simp add: base_ok_def)
  have stk: "abs_ps st = \<lparr>stk = entry ?p (Suc t) # entry ?p t # below ?p t, ilf = i_l_follow ?p,
      indl = ind_level ?p, cind = case_ind st\<rparr>" by (simp add: abs_ps_def Suc)
  have res: "abs_ps (?st c l x) = \<lparr>stk = (c, il ?p t, 0) # below ?p t, ilf = l, indl = ind_level ?p, cind = x\<rparr> \<and>
      base_ok (?st c l x) \<and> same_rest st (?st c l x)"
    if "c \<noteq> swstmt" "?c \<noteq> stmtl \<or> c = stmtl" for c l x
    using that b Suc abs_pop [OF Suc that(1)] by (auto simp: base_ok_def pop_to_def same_rest_def)
  consider "p_stack ?p (Suc t) = stmt" "?c = ifstmt"
    | "p_stack ?p (Suc t) = stmt" "?c \<noteq> ifstmt" | "p_stack ?p (Suc t) = whilestmt" "?c = dohead"
    | "p_stack ?p (Suc t) \<noteq> stmt" "p_stack ?p (Suc t) \<noteq> whilestmt \<or> ?c \<noteq> dohead" by blast
  then show ?thesis
  proof cases
    case 1
    then have "0 < t" using b by (cases t) auto
    from enclosing_refines [OF b this] obtain i where
      i: "find_enclosing (p_stack ?p) t = Some i" "a_enclosing (below ?p t) = il ?p i" by blast
    with 1 Suc stk show ?thesis using res [of ifhead "il ?p i" "case_ind st"]
      by (auto simp: a_step_def reduce_step_def Let_def entry_def upd_ps_def)
  next
    case 2
    have keep: "(pop_to c ?p)\<lparr>i_l_follow := i_l_follow ?p\<rparr> = pop_to c ?p" for c
      by (simp add: pop_to_def)
    from 2 show ?thesis
      using Suc stk res [of stmtl "i_l_follow ?p" "case_ind st"] res [of dohead "il ?p t" "case_ind st"]
        res [of stmt "il ?p t" "cstk ?p t"] res [of stmt "il ?p t" "case_ind st"]
      by (auto simp: a_step_def reduce_step_def Let_def entry_def upd_ps_def pop_indent_def keep)
  next
    case 3
    then have "0 < t" using b by (cases t) auto
    then obtain u where u: "t = Suc u" by (cases t) auto
    have "below (?p\<lparr>tos := u\<rparr>) u = below ?p u" by (intro below_cong) (simp add: entry_def)
    with 3 Suc u stk b show ?thesis
      by (auto simp: a_step_def reduce_step_def Let_def entry_def upd_ps_def abs_ps_def base_ok_def same_rest_def)
  next
    case 4
    with Suc stk show ?thesis by (auto simp: a_step_def reduce_step_def Let_def entry_def)
  qed
qed

lemma reduce_refines:
  assumes "base_ok st"
  shows "\<exists>st'. reduce st = Some st' \<and> abs_ps st' = a_reduce (abs_ps st) \<and> base_ok st' \<and>
           same_rest st st' \<and> tos (ps st') \<le> tos (ps st)"
  using assms
proof (induction st rule: reduce.induct)
  case (1 st)
  note step = reduce_step_refines [OF "1.prems"]
  show ?case
  proof (cases "a_step (abs_ps st)")
    case None
    with step show ?thesis
      by (simp add: reduce.simps [of st] a_reduce.simps [of "abs_ps st"] "1.prems")
  next
    case (Some s)
    with step obtain st1 where st1: "reduce_step st = Some (Some st1)" "abs_ps st1 = s" "base_ok st1"
      "same_rest st st1" by auto
    with "1.IH" obtain st' where "reduce st1 = Some st'" "abs_ps st' = a_reduce s" "base_ok st'"
      "same_rest st1 st'" "tos (ps st') \<le> tos (ps st1)" by blast
    with st1 Some reduce_step_tos [OF st1(1)] show ?thesis
      by (auto simp: reduce.simps [of st] a_reduce.simps [of "abs_ps st"] intro: same_rest_trans)
  qed
qed

lemma top_code_abs [simp]: "top_code (abs_ps st) = p_stack (ps st) (tos (ps st))"
  by (simp add: top_code_def abs_ps_def entry_def)

lemma abs_set_top:
  assumes "c \<noteq> swstmt"
  shows "abs_ps (upd_ps (\<lambda>p. p\<lparr>p_stack := (p_stack p)(tos p := c)\<rparr>) st) = a_set_top c (abs_ps st)"
proof -
  have "below (ps st\<lparr>p_stack := (p_stack (ps st))(tos (ps st) := c)\<rparr>) (tos (ps st)) =
        below (ps st) (tos (ps st))" by (intro below_cong) (simp add: entry_def)
  with assms show ?thesis by (simp add: abs_ps_def a_set_top_def upd_ps_def entry_def)
qed

lemma resolve_refines:
  assumes "base_ok st" "tk \<noteq> elselit"
  shows "\<exists>st'. resolve_ifs tk st = Some st' \<and> abs_ps st' = a_resolve (abs_ps st) \<and> base_ok st' \<and>
           same_rest st st' \<and> tos (ps st') \<le> tos (ps st)"
  using assms
proof (induction tk st rule: resolve_ifs.induct)
  case (1 tk st)
  let ?st = "upd_ps (\<lambda>p. p\<lparr>p_stack := (p_stack p)(tos p := stmt)\<rparr>) st"
  show ?case
  proof (cases "p_stack (ps st) (tos (ps st)) = ifhead")
    case False
    then show ?thesis using "1.prems"
      by (simp add: resolve_ifs.simps [of tk st] a_resolve.simps [of "abs_ps st"])
  next
    case True
    then have "tos (ps st) \<noteq> 0" using "1.prems"(1) by (intro notI) (simp add: base_ok_def)
    then have "base_ok ?st" using "1.prems"(1) by (simp add: base_ok_def upd_ps_def)
    from reduce_refines [OF this] obtain st1 where st1: "reduce ?st = Some st1"
      "abs_ps st1 = a_reduce (abs_ps ?st)" "base_ok st1" "same_rest ?st st1"
      "tos (ps st1) \<le> tos (ps ?st)" by blast
    with "1.IH" [OF _ st1(1,3)] True "1.prems"(2) obtain st' where "resolve_ifs tk st1 = Some st'"
      "abs_ps st' = a_resolve (abs_ps st1)" "base_ok st'" "same_rest st1 st'"
      "tos (ps st') \<le> tos (ps st1)" by blast
    with st1 True "1.prems"(2) show ?thesis
      by (auto simp: resolve_ifs.simps [of tk st] a_resolve.simps [of "abs_ps st"] abs_set_top
          same_rest_def) (auto simp: upd_ps_def)
  qed
qed

lemma abs_push:
  assumes "tos (ps st) + 1 < STACKSIZE" "c \<noteq> swstmt"
  shows "\<exists>st'. push c l st = Some st' \<and> abs_ps st' = a_push c l (abs_ps st) \<and> same_rest st st' \<and>
     tos (ps st') = tos (ps st) + 1 \<and> (base_ok st \<longrightarrow> base_ok st')"
proof -
  let ?p = "ps st" and ?q = "ps st\<lparr>tos := Suc (tos (ps st)), p_stack := (p_stack (ps st))(Suc (tos (ps st)) := c),
    il := (il (ps st))(Suc (tos (ps st)) := l)\<rparr>"
  have "below ?q (Suc (tos ?p)) = below ?p (Suc (tos ?p))"
    by (intro below_cong) (auto simp: entry_def)
  with assms show ?thesis
    by (auto simp: push_def Let_def upd_ps_def abs_ps_def a_push_def entry_def same_rest_def base_ok_def)
qed

text \<open>Fields of the parser's state outside the stacks.\<close>

lemma below_frame [simp]:
  "below (p\<lparr>ind_level := a\<rparr>) n = below p n" "below (p\<lparr>i_l_follow := a\<rparr>) n = below p n"
  "below (p\<lparr>search_brace := b\<rparr>) n = below p n" "below (p\<lparr>tos := t\<rparr>) n = below p n"
  by (auto intro: below_cong simp: entry_def)

lemma entry_frame [simp]:
  "entry (p\<lparr>ind_level := a\<rparr>) n = entry p n" "entry (p\<lparr>i_l_follow := a\<rparr>) n = entry p n"
  "entry (p\<lparr>search_brace := b\<rparr>) n = entry p n" "entry (p\<lparr>tos := t\<rparr>) n = entry p n"
  by (simp_all add: entry_def)

lemma abs_ps_frame [simp]:
  "abs_ps (st\<lparr>break_comma := b\<rparr>) = abs_ps st"
  "abs_ps (set_search_brace b st) = abs_ps st"
  "abs_ps (diag2 l m st) = abs_ps st"
  "base_ok (st\<lparr>break_comma := b\<rparr>) = base_ok st"
  "base_ok (set_search_brace b st) = base_ok st"
  "base_ok (diag2 l m st) = base_ok st"
  "same_rest st (diag2 l m st)"
  "same_rest st (st'\<lparr>break_comma := b\<rparr>) = same_rest st st'"
  "same_rest st (set_search_brace b st') = same_rest st st'"
  "same_rest (st\<lparr>break_comma := b\<rparr>) st' = same_rest st st'"
  "same_rest (set_search_brace b st) st' = same_rest st st'"
  by (simp_all add: abs_ps_def set_search_brace_def upd_ps_def diag2_def emit_def Let_def base_ok_def
      same_rest_def)

definition set_levels :: "int \<Rightarrow> int \<Rightarrow> ist \<Rightarrow> ist" where
  "set_levels i f st = upd_ps (\<lambda>p. p\<lparr>ind_level := i, i_l_follow := f\<rparr>) st"

lemma set_levels_frame [simp]:
  "abs_ps (set_levels i f st) = (abs_ps st)\<lparr>indl := i, ilf := f\<rparr>"
  "base_ok (set_levels i f st) = base_ok st"
  "same_rest st (set_levels i f st') = same_rest st st'"
  "same_rest (set_levels i f st) st' = same_rest st st'"
  "tos (ps (set_levels i f st)) = tos (ps st)"
  by (simp_all add: set_levels_def upd_ps_def abs_ps_def base_ok_def same_rest_def)

lemma abs_ps_sel:
  "ilf (abs_ps st) = i_l_follow (ps st)" "indl (abs_ps st) = ind_level (ps st)"
  "fst (snd (hd (stk (abs_ps st)))) = il (ps st) (tos (ps st))"
  "tl (stk (abs_ps st)) = below (ps st) (tos (ps st))"
  by (simp_all add: abs_ps_def entry_def)

text \<open>\<open>shift\<close> on states with room.\<close>

definition shifts :: "ist \<Rightarrow> code \<Rightarrow> ist option \<Rightarrow> bool" where
  "shifts st tk r \<longleftrightarrow>
     (\<exists>st'. r = Some st' \<and> abs_ps st' = a_shift (abs_opt st) tk (abs_ps st) \<and> base_ok st' \<and> same_rest st st')"

lemma shift_head_refines:
  assumes "base_ok st" "tos (ps st) + 1 < STACKSIZE" "tk \<in> {ifstmt, dolit, forstmt}"
  shows "\<exists>st'. shift_head tk st = Some st' \<and> base_ok st' \<and> same_rest st st' \<and>
     abs_ps st' = (a_push tk (ilf (abs_ps st)) (abs_ps st))\<lparr>indl := ilf (abs_ps st), ilf := ilf (abs_ps st) + 1\<rparr>"
proof -
  have "tk \<noteq> swstmt" using assms(3) by auto
  from abs_push [OF assms(2) this, of "i_l_follow (ps st)"] obtain st1 where
    "push tk (i_l_follow (ps st)) st = Some st1" "same_rest st st1" "base_ok st1"
    "abs_ps st1 = a_push tk (i_l_follow (ps st)) (abs_ps st)" using assms(1) by blast
  then show ?thesis
    by (simp add: shift_head_def Let_def abs_ps_sel flip: set_levels_def)
qed

lemma count_below:
  "length (filter (\<lambda>e. fst e = c) (butlast (below p (Suc t)))) =
   length (filter (\<lambda>i. p_stack p i = c) [1..<Suc t])"
proof (induction t)
  case (Suc t)
  then show ?case by (simp add: entry_def)
qed simp

lemma shift_decl_refines:
  assumes "base_ok st" "tos (ps st) + 1 < STACKSIZE"
  shows "shifts st decl (shift_decl st)"
proof (cases "p_stack (ps st) (tos (ps st)) = decl")
  case True
  then show ?thesis using assms
    by (simp add: shifts_def shift_decl_def Let_def a_shift_def set_search_brace_def upd_ps_def
        abs_ps_def base_ok_def same_rest_def top_code_def entry_def)
next
  case False
  let ?st = "(set_search_brace (btype_2 (opt st)) st)\<lparr>break_comma := True\<rparr>"
  have b: "base_ok ?st" using assms(1) by simp
  have t: "tos (ps ?st) + 1 < STACKSIZE" "tos (ps ?st) = tos (ps st)" "i_l_follow (ps ?st) = i_l_follow (ps st)"
    using assms(2) by (simp_all add: set_search_brace_def upd_ps_def)
  from abs_push [OF t(1), of decl "i_l_follow (ps st)"] b obtain st1 where
    p: "push decl (i_l_follow (ps st)) ?st = Some st1" and st1: "same_rest ?st st1" "base_ok st1"
    "abs_ps st1 = a_push decl (i_l_follow (ps st)) (abs_ps ?st)" "tos (ps st1) = tos (ps ?st) + 1"
    by auto
  have same: "p_stack (ps st1) i = p_stack (ps st) i" if "i < Suc (tos (ps st))" for i
    using p that by (auto simp: push_def Let_def upd_ps_def set_search_brace_def split: if_splits)
  let ?n = "length (filter (\<lambda>i. p_stack (ps st) i = decl) [1..<Suc (tos (ps st))])"
  have "filter (\<lambda>i. p_stack (ps st1) i = decl) [1..<Suc (tos (ps st))] =
        filter (\<lambda>i. p_stack (ps st) i = decl) [1..<Suc (tos (ps st))]"
    using same by (intro filter_cong) auto
  then have n: "length (filter (\<lambda>i. p_stack (ps st1) i = decl) [1..<tos (ps st1)]) = ?n"
    using st1(4) t(2) by simp
  have an: "length (filter (\<lambda>e. fst e = decl) (butlast (stk (abs_ps st)))) = ?n"
    using count_below [of decl "ps st" "tos (ps st)"] by (simp only: abs_ps_def apst.simps)
  have "shift_decl st = Some (if ljust_decl (opt st) then set_levels (int ?n) (int ?n) st1 else st1)"
    using False p n by (simp add: shift_decl_def Let_def set_search_brace_def set_levels_def upd_ps_def)
  moreover have "a_shift (abs_opt st) decl (abs_ps st) =
      (let s1 = a_push decl (i_l_follow (ps st)) (abs_ps st)
       in if ljust_decl (opt st) then s1\<lparr>indl := int ?n, ilf := int ?n\<rparr> else s1)"
    using False an by (simp only: a_shift_def top_code_abs abs_ps_sel Let_def) (simp add: abs_opt_def)
  ultimately show ?thesis using st1 by (simp add: shifts_def Let_def)
qed

lemma shift_if_refines:
  assumes "base_ok st" "tos (ps st) + 1 < STACKSIZE"
  shows "shifts st ifstmt (shift_if st)"
proof (cases "p_stack (ps st) (tos (ps st)) = elsehead \<and> else_if (opt st)")
  case False
  then show ?thesis using shift_head_refines [OF assms, of ifstmt]
    by (auto simp: shifts_def shift_if_def Let_def a_shift_def abs_opt_def)
next
  case True
  define st0 where "st0 = upd_ps (\<lambda>p. p\<lparr>i_l_follow := il p (tos p), tos := tos p - 1\<rparr>) st"
  have nz: "tos (ps st) \<noteq> 0" using True assms(1) by (intro notI) (simp add: base_ok_def)
  then obtain t where t: "tos (ps st) = Suc t" by (cases "tos (ps st)") auto
  have b: "base_ok st0" "tos (ps st0) + 1 < STACKSIZE"
    using assms by (simp_all add: base_ok_def upd_ps_def st0_def)
  have a: "abs_ps st0 = (abs_ps st)\<lparr>stk := tl (stk (abs_ps st)), ilf := fst (snd (hd (stk (abs_ps st))))\<rparr>"
    using t by (simp add: abs_ps_def upd_ps_def entry_def st0_def)
  have "same_rest st st0" by (simp add: same_rest_def upd_ps_def st0_def)
  moreover obtain st' where "shift_head ifstmt st0 = Some st'" "base_ok st'" "same_rest st0 st'"
    "abs_ps st' = (a_push ifstmt (ilf (abs_ps st0)) (abs_ps st0))\<lparr>indl := ilf (abs_ps st0), ilf := ilf (abs_ps st0) + 1\<rparr>"
    using shift_head_refines [OF b, of ifstmt] by auto
  moreover have "shift_if st = shift_head ifstmt st0"
    using True nz by (simp only: shift_if_def Let_def st0_def) simp
  ultimately show ?thesis using True same_rest_trans
    by (auto simp: shifts_def a_shift_def abs_opt_def a Let_def)
qed

lemma shift_lbrace_refines:
  assumes "base_ok st" "tos (ps st) + 2 < STACKSIZE"
  shows "shifts st lbrace (shift_lbrace st)"
proof -
  let ?c = "p_stack (ps st) (tos (ps st))"
  define f where "f = (if ?c = stmt \<or> ?c = decl \<or> ?c = stmtl then i_l_follow (ps st) + 1 else i_l_follow (ps st))"
  define i where "i = (if ?c = stmt \<or> ?c = decl \<or> ?c = stmtl \<or> held (codeb st) \<noteq> [] then ind_level (ps st)
    else ind_level (ps st) - 1 - (if ?c = swstmt \<and> 1 \<le> case_indent (opt st) then 1 else 0))"
  let ?st = "set_levels i f (st\<lparr>break_comma := False\<rparr>)"
  have b: "base_ok ?st" "tos (ps ?st) + 1 < STACKSIZE" using assms by simp_all
  from abs_push [OF b(2), of lbrace i] b(1) obtain st1 where st1: "push lbrace i ?st = Some st1"
    "abs_ps st1 = a_push lbrace i (abs_ps ?st)" "same_rest ?st st1" "base_ok st1"
    "tos (ps st1) = tos (ps ?st) + 1" by auto
  have "tos (ps st1) + 1 < STACKSIZE" using st1(5) assms(2) by simp
  from abs_push [OF this, of stmt f] st1(4) obtain st2 where st2: "push stmt f st1 = Some st2"
    "abs_ps st2 = a_push stmt f (abs_ps st1)" "same_rest st1 st2" "base_ok st2" by auto
  have "shift_lbrace st = Some st2"
    using st1(1) st2(1)
    by (auto simp: shift_lbrace_def Let_def f_def i_def set_levels_def upd_ps_def split: if_splits)
  moreover have "a_shift (abs_opt st) lbrace (abs_ps st) = a_push stmt f (a_push lbrace i (abs_ps ?st))"
    by (auto simp: a_shift_def Let_def f_def i_def abs_opt_def abs_ps_sel a_push_def)
  ultimately show ?thesis using st1 st2 same_rest_trans by (auto simp: shifts_def)
qed

lemma shift_while_refines:
  assumes "base_ok st" "tos (ps st) + 1 < STACKSIZE"
  shows "shifts st whilestmt (shift_while st)"
proof (cases "p_stack (ps st) (tos (ps st)) = dohead")
  case True
  define l where "l = il (ps st) (tos (ps st))"
  have "base_ok (set_levels l l st)" "tos (ps (set_levels l l st)) + 1 < STACKSIZE"
    using assms by simp_all
  with abs_push [of "set_levels l l st" whilestmt l] obtain st1 where
    "push whilestmt l (set_levels l l st) = Some st1" "same_rest st st1" "base_ok st1"
    "abs_ps st1 = a_push whilestmt l (abs_ps (set_levels l l st))" by auto
  then show ?thesis using True
    by (simp add: shifts_def shift_while_def Let_def a_shift_def abs_ps_sel a_push_def
        flip: l_def set_levels_def)
next
  case False
  obtain st1 where st1: "push whilestmt (i_l_follow (ps st)) st = Some st1" "same_rest st st1" "base_ok st1"
    "abs_ps st1 = a_push whilestmt (i_l_follow (ps st)) (abs_ps st)"
    using abs_push [OF assms(2), of whilestmt "i_l_follow (ps st)"] assms(1) by auto
  have "abs_ps (upd_ps (\<lambda>q. q\<lparr>i_l_follow := l\<rparr>) st1) = (abs_ps st1)\<lparr>ilf := l\<rparr>"
    "base_ok (upd_ps (\<lambda>q. q\<lparr>i_l_follow := l\<rparr>) st1) = base_ok st1"
    "same_rest st (upd_ps (\<lambda>q. q\<lparr>i_l_follow := l\<rparr>) st1) = same_rest st st1" for l
    by (simp_all add: abs_ps_def upd_ps_def base_ok_def same_rest_def)
  with False st1 show ?thesis
    by (simp add: shifts_def shift_while_def Let_def a_shift_def abs_ps_sel)
qed

lemma shift_else_refines:
  assumes "base_ok st" shows "shifts st elselit (Some (shift_else st))"
proof (cases "p_stack (ps st) (tos (ps st)) = ifhead")
  case True
  let ?l = "il (ps st) (tos (ps st))"
  let ?s1 = "upd_ps (\<lambda>p. p\<lparr>p_stack := (p_stack p)(tos p := elsehead)\<rparr>) st"
  have "tos (ps st) \<noteq> 0" using True assms by (intro notI) (simp add: base_ok_def)
  then have b: "base_ok ?s1" using assms by (simp add: base_ok_def upd_ps_def)
  have "shift_else st = set_search_brace (btype_2 (opt st) \<or> else_if (opt st)) (set_levels ?l (?l + 1) ?s1)"
    using True by (simp add: shift_else_def Let_def set_levels_def upd_ps_def)
  moreover have "same_rest st ?s1" by (simp add: same_rest_def upd_ps_def)
  ultimately show ?thesis using True b
    by (simp add: shifts_def a_shift_def abs_set_top abs_ps_sel Let_def)
next
  case False
  then show ?thesis using assms by (simp add: shifts_def shift_else_def Let_def a_shift_def)
qed

lemma shift_rbrace_refines:
  assumes "base_ok st" shows "shifts st rbrace (Some (shift_rbrace st))"
proof (cases "tos (ps st)")
  case 0
  then show ?thesis using assms
    by (simp add: shifts_def shift_rbrace_def a_shift_def Let_def) (simp add: abs_ps_def)
next
  case (Suc t)
  show ?thesis
  proof (cases "p_stack (ps st) t = lbrace")
    case True
    have "t \<noteq> 0" using True assms by (intro notI) (simp add: base_ok_def)
    moreover have "below (ps st\<lparr>tos := t, ind_level := l, i_l_follow := f, p_stack := (p_stack (ps st))(t := stmt)\<rparr>) t =
          below (ps st) t" for l f by (intro below_cong) (simp add: entry_def)
    ultimately show ?thesis using True Suc assms
      by (simp add: shifts_def shift_rbrace_def a_shift_def Let_def abs_ps_def upd_ps_def entry_def
          base_ok_def same_rest_def)
  next
    case False
    then show ?thesis using Suc assms
      by (simp add: shifts_def shift_rbrace_def a_shift_def Let_def) (simp add: abs_ps_def entry_def)
  qed
qed

lemma shift_switch_refines:
  assumes "base_ok st" "tos (ps st) + 1 < STACKSIZE"
  shows "shifts st swstmt (shift_switch st)"
proof -
  let ?t = "Suc (tos (ps st))"
  have "below (ps st\<lparr>tos := ?t, p_stack := (p_stack (ps st))(?t := swstmt), il := (il (ps st))(?t := l),
      cstk := (cstk (ps st))(?t := x), i_l_follow := f, search_brace := b\<rparr>) ?t = below (ps st) ?t" for l x f b
    by (intro below_cong) (auto simp: entry_def)
  then show ?thesis using assms
    by (simp add: shifts_def shift_switch_def push_def Let_def a_shift_def abs_ps_def upd_ps_def
        set_search_brace_def base_ok_def same_rest_def abs_opt_def del: below.simps)
       (simp add: entry_def)
qed

lemma shift_semicolon_refines:
  assumes "base_ok st" "tos (ps st) + 1 < STACKSIZE"
  shows "shifts st semicolon (push stmt (ind_level (ps st)) (st\<lparr>break_comma := False\<rparr>))"
  using abs_push [of "st\<lparr>break_comma := False\<rparr>" stmt "ind_level (ps st)"] assms
  by (auto simp: shifts_def a_shift_def abs_ps_sel)

lemma shift_refines:
  assumes "base_ok st" "tos (ps st) + 1 < STACKSIZE" "parser_token tk"
    "tk = lbrace \<Longrightarrow> tos (ps st) + 2 < STACKSIZE"
  shows "shifts st tk (shift tk st)"
proof -
  note r = shift_decl_refines shift_if_refines shift_while_refines shift_switch_refines
    shift_semicolon_refines
  have "shifts st tk (shift_head tk st)" if "tk = dolit \<or> tk = forstmt"
    using that shift_head_refines [OF assms(1,2), of tk]
    by (auto simp: shifts_def a_shift_def Let_def)
  with assms(3) show ?thesis
    using r [OF assms(1,2)] shift_lbrace_refines [OF assms(1)] shift_else_refines [OF assms(1)]
      shift_rbrace_refines [OF assms(1)] assms(4)
    by (auto simp: parser_token_def shift_def)
qed

lemma length_stk: "length (stk (abs_ps st)) = Suc (tos (ps st))"
  by (simp add: abs_ps_def)

definition a_ready :: "code \<Rightarrow> apst \<Rightarrow> apst" where
  "a_ready tk s = (if tk = elselit then s else a_resolve s)"

lemma ready_refines:
  assumes "base_ok st"
  shows "\<exists>st1. resolve_ifs tk st = Some st1 \<and> abs_ps st1 = a_ready tk (abs_ps st) \<and> base_ok st1 \<and>
           same_rest st st1 \<and> tos (ps st1) \<le> tos (ps st)"
proof (cases "tk = elselit")
  case True
  then show ?thesis using assms by (simp add: resolve_ifs.simps [of elselit st] a_ready_def)
next
  case False
  then show ?thesis using resolve_refines [OF assms] by (simp add: a_ready_def)
qed

text \<open>One token on the arrays: the three ways it can go, decided by the abstract depth.\<close>

lemma parse_outcome:
  assumes "parser_ok st" "parser_token tk"
  shows "(if tk = lbrace \<and> length (stk (a_ready tk (abs_ps st))) = STACKSIZE - 1
          then \<exists>out. parse tk st = Undef out
          else if STACKSIZE \<le> length (stk (a_shift (abs_opt st) tk (a_ready tk (abs_ps st))))
          then \<exists>out err. parse tk st = Exit out (err @ ''Parser stack overflow'') 1
          else \<exists>st'. parse tk st = ret st' \<and> abs_ps st' = a_parse (abs_opt st) tk (abs_ps st) \<and>
                 parser_ok st' \<and> same_rest st st')"
proof -
  obtain st1 where st1: "resolve_ifs tk st = Some st1" "abs_ps st1 = a_ready tk (abs_ps st)"
    "base_ok st1" "same_rest st st1" "tos (ps st1) \<le> tos (ps st)"
    using ready_refines assms(1) unfolding parser_ok_def by blast
  have room: "tos (ps st1) + 1 < STACKSIZE" using st1(5) assms(1) by (auto simp: parser_ok_def)
  have len: "length (stk (a_ready tk (abs_ps st))) = Suc (tos (ps st1))"
    using length_stk [of st1] st1(2) by simp
  show ?thesis
  proof (cases "tk = lbrace \<and> tos (ps st1) + 2 = STACKSIZE")
    case True
    have "shift tk st1 = None"
    proof -
      have "push c l st2 = None" if "push c' l' st3 = Some st2" "tos (ps st3) = tos (ps st1)" for c l c' l' st2 st3
        using that True by (auto simp: push_def Let_def upd_ps_def split: if_splits)
      then show ?thesis using True
        by (simp add: shift_def shift_lbrace_def Let_def split: option.splits)
    qed
    with True st1(1) assms(2) len show ?thesis by (auto simp: parse_def)
  next
    case False
    then have "tk = lbrace \<Longrightarrow> tos (ps st1) + 2 < STACKSIZE" using room by auto
    from shift_refines [OF st1(3) room assms(2) this] obtain st2 where st2: "shift tk st1 = Some st2"
      "abs_ps st2 = a_shift (abs_opt st) tk (a_ready tk (abs_ps st))" "base_ok st2" "same_rest st1 st2"
      using abs_opt_same [OF st1(4)] st1(2) by (auto simp: shifts_def)
    have len2: "length (stk (a_shift (abs_opt st) tk (a_ready tk (abs_ps st)))) = Suc (tos (ps st2))"
      using length_stk [of st2] st2(2) by simp
    obtain st3 where st3: "reduce st2 = Some st3" "abs_ps st3 = a_reduce (abs_ps st2)" "base_ok st3"
      "same_rest st2 st3" "tos (ps st3) \<le> tos (ps st2)" using reduce_refines [OF st2(3)] by blast
    have "same_rest st st3" using st1(4) st2(4) st3(4) same_rest_trans by blast
    then show ?thesis using False st1(1) st2 st3 assms(2) len len2
      by (auto simp: parse_def a_parse_def a_ready_def parser_ok_def)
  qed
qed

end
