(* ===== verification/Indent_Args.thy ===== *)
theory Indent_Args
  imports Indent_Globs Indent_Names "HOL-Library.Sublist"
begin

text \<open>
  \<^verbatim>\<open>src/bsd_additions/indent/args.c\<close>: the table of options and their defaults, one
  option of the command line or of a profile, the profile scanner, and the argument loop of
  \<open>main\<close> (\<^verbatim>\<open>indent.c\<close>).  Files are a parameter: the text of a readable file.
\<close>

section \<open>The table\<close>

datatype p_type = PRO_SPECIAL | PRO_BOOL | PRO_INT

abbreviation ON :: nat where "ON \<equiv> 1"
abbreviation OFF :: nat where "OFF \<equiv> 0"
abbreviation IGN :: nat where "IGN \<equiv> 1"
abbreviation CLI :: nat where "CLI \<equiv> 2"
abbreviation STDIN :: nat where "STDIN \<equiv> 3"
abbreviation KEY :: nat where "KEY \<equiv> 4"
abbreviation KEY_FILE :: nat where "KEY_FILE \<equiv> 5"
abbreviation VERSION :: nat where "VERSION \<equiv> 6"

text \<open>The members of \<open>struct options\<close> that the table points to.\<close>

datatype opt_obj =
    O_blanklines_around_conditional_compilation | O_blanklines_after_declarations_at_proctop |
    O_blanklines_after_declarations | O_blanklines_after_procs | O_blanklines_before_blockcomments |
    O_leave_comma | O_btype_2 | O_Bill_Shannon | O_comment_delimiter_on_blankline | O_decl_com_ind |
    O_cuddle_else | O_continuation_indent | O_space_after_cast | O_com_ind | O_decl_indent |
    O_ljust_decl | O_unindent_displace | O_extra_expression_indent | O_else_if |
    O_function_brace_split | O_format_col1_comments | O_format_block_comments |
    O_indent_parameters | O_ind_size | O_block_comment_max_col | O_local_decl_indent |
    O_lineup_to_parens_always | O_lineup_to_parens | O_max_col | O_proc_calls_space |
    O_procnames_start_line | O_pointer_as_binop | O_star_comment_cont |
    O_swallow_optional_blanklines | O_use_tabs | O_verbose | O_auto_typedefs | O_tabsize

record pro =
  p_name :: string
  p_kind :: p_type
  p_default :: int
  p_special :: nat
  p_obj :: "opt_obj option"

definition mk_pro :: "string \<Rightarrow> p_type \<Rightarrow> int \<Rightarrow> nat \<Rightarrow> opt_obj option \<Rightarrow> pro" where
  "mk_pro n t d s ob = \<lparr>p_name = n, p_kind = t, p_default = d, p_special = s, p_obj = ob\<rparr>"

definition pro_table :: "pro list" where
  "pro_table =
     [mk_pro ''T'' PRO_SPECIAL 0 KEY None,
      mk_pro ''U'' PRO_SPECIAL 0 KEY_FILE None,
      mk_pro ''-version'' PRO_SPECIAL 0 VERSION None,
      mk_pro ''P'' PRO_SPECIAL 0 IGN None,
      mk_pro ''bacc'' PRO_BOOL 0 ON (Some O_blanklines_around_conditional_compilation),
      mk_pro ''badp'' PRO_BOOL 0 ON (Some O_blanklines_after_declarations_at_proctop),
      mk_pro ''bad'' PRO_BOOL 0 ON (Some O_blanklines_after_declarations),
      mk_pro ''bap'' PRO_BOOL 0 ON (Some O_blanklines_after_procs),
      mk_pro ''bbb'' PRO_BOOL 0 ON (Some O_blanklines_before_blockcomments),
      mk_pro ''bc'' PRO_BOOL 1 OFF (Some O_leave_comma),
      mk_pro ''bl'' PRO_BOOL 1 OFF (Some O_btype_2),
      mk_pro ''br'' PRO_BOOL 1 ON (Some O_btype_2),
      mk_pro ''bs'' PRO_BOOL 0 ON (Some O_Bill_Shannon),
      mk_pro ''cdb'' PRO_BOOL 1 ON (Some O_comment_delimiter_on_blankline),
      mk_pro ''cd'' PRO_INT 0 0 (Some O_decl_com_ind),
      mk_pro ''ce'' PRO_BOOL 1 ON (Some O_cuddle_else),
      mk_pro ''ci'' PRO_INT 0 0 (Some O_continuation_indent),
      mk_pro ''cli'' PRO_SPECIAL 0 CLI None,
      mk_pro ''cs'' PRO_BOOL 0 ON (Some O_space_after_cast),
      mk_pro ''c'' PRO_INT 33 0 (Some O_com_ind),
      mk_pro ''di'' PRO_INT 16 0 (Some O_decl_indent),
      mk_pro ''dj'' PRO_BOOL 0 ON (Some O_ljust_decl),
      mk_pro ''d'' PRO_INT 0 0 (Some O_unindent_displace),
      mk_pro ''eei'' PRO_BOOL 0 ON (Some O_extra_expression_indent),
      mk_pro ''ei'' PRO_BOOL 1 ON (Some O_else_if),
      mk_pro ''fbs'' PRO_BOOL 1 ON (Some O_function_brace_split),
      mk_pro ''fc1'' PRO_BOOL 1 ON (Some O_format_col1_comments),
      mk_pro ''fcb'' PRO_BOOL 1 ON (Some O_format_block_comments),
      mk_pro ''ip'' PRO_BOOL 1 ON (Some O_indent_parameters),
      mk_pro ''i'' PRO_INT 8 0 (Some O_ind_size),
      mk_pro ''lc'' PRO_INT 0 0 (Some O_block_comment_max_col),
      mk_pro ''ldi'' PRO_INT (-1) 0 (Some O_local_decl_indent),
      mk_pro ''lpl'' PRO_BOOL 0 ON (Some O_lineup_to_parens_always),
      mk_pro ''lp'' PRO_BOOL 1 ON (Some O_lineup_to_parens),
      mk_pro ''l'' PRO_INT 78 0 (Some O_max_col),
      mk_pro ''nbacc'' PRO_BOOL 0 OFF (Some O_blanklines_around_conditional_compilation),
      mk_pro ''nbadp'' PRO_BOOL 0 OFF (Some O_blanklines_after_declarations_at_proctop),
      mk_pro ''nbad'' PRO_BOOL 0 OFF (Some O_blanklines_after_declarations),
      mk_pro ''nbap'' PRO_BOOL 0 OFF (Some O_blanklines_after_procs),
      mk_pro ''nbbb'' PRO_BOOL 0 OFF (Some O_blanklines_before_blockcomments),
      mk_pro ''nbc'' PRO_BOOL 1 ON (Some O_leave_comma),
      mk_pro ''nbs'' PRO_BOOL 0 OFF (Some O_Bill_Shannon),
      mk_pro ''ncdb'' PRO_BOOL 1 OFF (Some O_comment_delimiter_on_blankline),
      mk_pro ''nce'' PRO_BOOL 1 OFF (Some O_cuddle_else),
      mk_pro ''ncs'' PRO_BOOL 0 OFF (Some O_space_after_cast),
      mk_pro ''ndj'' PRO_BOOL 0 OFF (Some O_ljust_decl),
      mk_pro ''neei'' PRO_BOOL 0 OFF (Some O_extra_expression_indent),
      mk_pro ''nei'' PRO_BOOL 1 OFF (Some O_else_if),
      mk_pro ''nfbs'' PRO_BOOL 1 OFF (Some O_function_brace_split),
      mk_pro ''nfc1'' PRO_BOOL 1 OFF (Some O_format_col1_comments),
      mk_pro ''nfcb'' PRO_BOOL 1 OFF (Some O_format_block_comments),
      mk_pro ''nip'' PRO_BOOL 1 OFF (Some O_indent_parameters),
      mk_pro ''nlpl'' PRO_BOOL 0 OFF (Some O_lineup_to_parens_always),
      mk_pro ''nlp'' PRO_BOOL 1 OFF (Some O_lineup_to_parens),
      mk_pro ''npcs'' PRO_BOOL 0 OFF (Some O_proc_calls_space),
      mk_pro ''npro'' PRO_SPECIAL 0 IGN None,
      mk_pro ''npsl'' PRO_BOOL 1 OFF (Some O_procnames_start_line),
      mk_pro ''nps'' PRO_BOOL 0 OFF (Some O_pointer_as_binop),
      mk_pro ''nsc'' PRO_BOOL 1 OFF (Some O_star_comment_cont),
      mk_pro ''nsob'' PRO_BOOL 0 OFF (Some O_swallow_optional_blanklines),
      mk_pro ''nut'' PRO_BOOL 1 OFF (Some O_use_tabs),
      mk_pro ''nv'' PRO_BOOL 0 OFF (Some O_verbose),
      mk_pro ''pcs'' PRO_BOOL 0 ON (Some O_proc_calls_space),
      mk_pro ''psl'' PRO_BOOL 1 ON (Some O_procnames_start_line),
      mk_pro ''ps'' PRO_BOOL 0 ON (Some O_pointer_as_binop),
      mk_pro ''sc'' PRO_BOOL 1 ON (Some O_star_comment_cont),
      mk_pro ''sob'' PRO_BOOL 0 ON (Some O_swallow_optional_blanklines),
      mk_pro ''st'' PRO_SPECIAL 0 STDIN None,
      mk_pro ''ta'' PRO_BOOL 0 ON (Some O_auto_typedefs),
      mk_pro ''ts'' PRO_INT 8 0 (Some O_tabsize),
      mk_pro ''ut'' PRO_BOOL 1 ON (Some O_use_tabs),
      mk_pro ''v'' PRO_BOOL 0 ON (Some O_verbose)]"

text \<open>Writing and reading the \<open>int\<close> an entry points to.\<close>

fun store :: "opt_obj \<Rightarrow> int \<Rightarrow> indent_options \<Rightarrow> indent_options" where
   "store O_blanklines_around_conditional_compilation v os = os\<lparr>blanklines_around_conditional_compilation := v \<noteq> 0\<rparr>"
| "store O_blanklines_after_declarations_at_proctop v os = os\<lparr>blanklines_after_declarations_at_proctop := v \<noteq> 0\<rparr>"
| "store O_blanklines_after_declarations v os = os\<lparr>blanklines_after_declarations := v \<noteq> 0\<rparr>"
| "store O_blanklines_after_procs v os = os\<lparr>blanklines_after_procs := v \<noteq> 0\<rparr>"
| "store O_blanklines_before_blockcomments v os = os\<lparr>blanklines_before_blockcomments := v \<noteq> 0\<rparr>"
| "store O_leave_comma v os = os\<lparr>leave_comma := v \<noteq> 0\<rparr>"
| "store O_btype_2 v os = os\<lparr>btype_2 := v \<noteq> 0\<rparr>"
| "store O_Bill_Shannon v os = os\<lparr>Bill_Shannon := v \<noteq> 0\<rparr>"
| "store O_comment_delimiter_on_blankline v os = os\<lparr>comment_delimiter_on_blankline := v \<noteq> 0\<rparr>"
| "store O_decl_com_ind v os = os\<lparr>decl_com_ind := v\<rparr>"
| "store O_cuddle_else v os = os\<lparr>cuddle_else := v \<noteq> 0\<rparr>"
| "store O_continuation_indent v os = os\<lparr>continuation_indent := v\<rparr>"
| "store O_space_after_cast v os = os\<lparr>space_after_cast := v \<noteq> 0\<rparr>"
| "store O_com_ind v os = os\<lparr>com_ind := v\<rparr>"
| "store O_decl_indent v os = os\<lparr>decl_indent := v\<rparr>"
| "store O_ljust_decl v os = os\<lparr>ljust_decl := v \<noteq> 0\<rparr>"
| "store O_unindent_displace v os = os\<lparr>unindent_displace := v\<rparr>"
| "store O_extra_expression_indent v os = os\<lparr>extra_expression_indent := v \<noteq> 0\<rparr>"
| "store O_else_if v os = os\<lparr>else_if := v \<noteq> 0\<rparr>"
| "store O_function_brace_split v os = os\<lparr>function_brace_split := v \<noteq> 0\<rparr>"
| "store O_format_col1_comments v os = os\<lparr>format_col1_comments := v \<noteq> 0\<rparr>"
| "store O_format_block_comments v os = os\<lparr>format_block_comments := v \<noteq> 0\<rparr>"
| "store O_indent_parameters v os = os\<lparr>indent_parameters := v \<noteq> 0\<rparr>"
| "store O_ind_size v os = os\<lparr>ind_size := v\<rparr>"
| "store O_block_comment_max_col v os = os\<lparr>block_comment_max_col := v\<rparr>"
| "store O_local_decl_indent v os = os\<lparr>local_decl_indent := v\<rparr>"
| "store O_lineup_to_parens_always v os = os\<lparr>lineup_to_parens_always := v \<noteq> 0\<rparr>"
| "store O_lineup_to_parens v os = os\<lparr>lineup_to_parens := v \<noteq> 0\<rparr>"
| "store O_max_col v os = os\<lparr>max_col := v\<rparr>"
| "store O_proc_calls_space v os = os\<lparr>proc_calls_space := v \<noteq> 0\<rparr>"
| "store O_procnames_start_line v os = os\<lparr>procnames_start_line := v \<noteq> 0\<rparr>"
| "store O_pointer_as_binop v os = os\<lparr>pointer_as_binop := v \<noteq> 0\<rparr>"
| "store O_star_comment_cont v os = os\<lparr>star_comment_cont := v \<noteq> 0\<rparr>"
| "store O_swallow_optional_blanklines v os = os\<lparr>swallow_optional_blanklines := v \<noteq> 0\<rparr>"
| "store O_use_tabs v os = os\<lparr>use_tabs := v \<noteq> 0\<rparr>"
| "store O_verbose v os = os\<lparr>verbose := v \<noteq> 0\<rparr>"
| "store O_auto_typedefs v os = os\<lparr>auto_typedefs := v \<noteq> 0\<rparr>"
| "store O_tabsize v os = os\<lparr>tabsize := v\<rparr>"

fun load :: "opt_obj \<Rightarrow> indent_options \<Rightarrow> int" where
   "load O_blanklines_around_conditional_compilation os = of_bool (blanklines_around_conditional_compilation os)"
| "load O_blanklines_after_declarations_at_proctop os = of_bool (blanklines_after_declarations_at_proctop os)"
| "load O_blanklines_after_declarations os = of_bool (blanklines_after_declarations os)"
| "load O_blanklines_after_procs os = of_bool (blanklines_after_procs os)"
| "load O_blanklines_before_blockcomments os = of_bool (blanklines_before_blockcomments os)"
| "load O_leave_comma os = of_bool (leave_comma os)"
| "load O_btype_2 os = of_bool (btype_2 os)"
| "load O_Bill_Shannon os = of_bool (Bill_Shannon os)"
| "load O_comment_delimiter_on_blankline os = of_bool (comment_delimiter_on_blankline os)"
| "load O_decl_com_ind os = decl_com_ind os"
| "load O_cuddle_else os = of_bool (cuddle_else os)"
| "load O_continuation_indent os = continuation_indent os"
| "load O_space_after_cast os = of_bool (space_after_cast os)"
| "load O_com_ind os = com_ind os"
| "load O_decl_indent os = decl_indent os"
| "load O_ljust_decl os = of_bool (ljust_decl os)"
| "load O_unindent_displace os = unindent_displace os"
| "load O_extra_expression_indent os = of_bool (extra_expression_indent os)"
| "load O_else_if os = of_bool (else_if os)"
| "load O_function_brace_split os = of_bool (function_brace_split os)"
| "load O_format_col1_comments os = of_bool (format_col1_comments os)"
| "load O_format_block_comments os = of_bool (format_block_comments os)"
| "load O_indent_parameters os = of_bool (indent_parameters os)"
| "load O_ind_size os = ind_size os"
| "load O_block_comment_max_col os = block_comment_max_col os"
| "load O_local_decl_indent os = local_decl_indent os"
| "load O_lineup_to_parens_always os = of_bool (lineup_to_parens_always os)"
| "load O_lineup_to_parens os = of_bool (lineup_to_parens os)"
| "load O_max_col os = max_col os"
| "load O_proc_calls_space os = of_bool (proc_calls_space os)"
| "load O_procnames_start_line os = of_bool (procnames_start_line os)"
| "load O_pointer_as_binop os = of_bool (pointer_as_binop os)"
| "load O_star_comment_cont os = of_bool (star_comment_cont os)"
| "load O_swallow_optional_blanklines os = of_bool (swallow_optional_blanklines os)"
| "load O_use_tabs os = of_bool (use_tabs os)"
| "load O_verbose os = of_bool (verbose os)"
| "load O_auto_typedefs os = of_bool (auto_typedefs os)"
| "load O_tabsize os = tabsize os"

section \<open>Defaults\<close>

definition default_entry :: "pro \<Rightarrow> indent_options \<Rightarrow> indent_options" where
  "default_entry p os =
     (if p_kind p = PRO_SPECIAL then os
      else case p_obj p of None \<Rightarrow> os | Some ob \<Rightarrow> store ob (p_default p) os)"

definition set_defaults :: "indent_options \<Rightarrow> indent_options" where
  "set_defaults os = fold default_entry pro_table (os\<lparr>case_indent := 0\<rparr>)"

section \<open>One option\<close>

datatype stream = Stdin | Stdout | File string

record argst =
  a_opt :: indent_options
  a_names :: typetab
  a_input :: "stream option"
  a_output :: "stream option"

fun eqin :: "string \<Rightarrow> string \<Rightarrow> string option" where
  "eqin [] s2 = Some s2"
| "eqin (c # s1) s2 = (if c \<noteq> deref s2 then None else eqin s1 (tl s2))"

fun find_pro :: "pro list \<Rightarrow> string \<Rightarrow> (pro \<times> string) option" where
  "find_pro [] arg = None"
| "find_pro (p # rest) arg =
     (case (if deref (p_name p) = deref arg then eqin (p_name p) arg else None) of
        Some param_start \<Rightarrow> Some (p, param_start)
      | None \<Rightarrow> find_pro rest arg)"

text \<open>
  \<open>opt.case_indent = atof(s)\<close>.  A value that is not a number or that \<open>float\<close> cannot hold is
  outside the model and ends the run as undefined.
\<close>

definition float_of :: "double \<Rightarrow> rat option" where
  "float_of d = (case d of Fin q \<Rightarrow> (if \<bar>flt q\<bar> < scale 128 then Some (flt q) else None) | _ \<Rightarrow> None)"

definition BUFSIZ :: nat where "BUFSIZ = 1024"
definition PATH_MAX :: nat where "PATH_MAX = 1024"

text \<open>\<open>fgets(line, BUFSIZ, file)\<close> until the end of the file: the lines it returns.\<close>

function fgets_lines :: "string \<Rightarrow> string list" where
  "fgets_lines f =
     (if f = [] then []
      else let n = min (BUFSIZ - 1) (Suc (length (takeWhile (\<lambda>c. c \<noteq> NL) f)))
           in take n f # fgets_lines (drop n f))"
  by pat_completeness auto
termination by (relation "measure length") (auto simp: BUFSIZ_def min_def)

declare fgets_lines.simps [simp del]

definition chomp_typename :: "string \<Rightarrow> string" where
  "chomp_typename line = takeWhile (\<lambda>c. c \<notin> set [CHR '' '', TAB, NL, CR]) (cstr line)"

fun add_typedefs :: "string list \<Rightarrow> argst \<Rightarrow> argst run" where
  "add_typedefs [] st = ret st"
| "add_typedefs (l # ls) st =
     (case add_typename (chomp_typename l) (a_names st) of
        None \<Rightarrow> Undef []
      | Some tab \<Rightarrow> add_typedefs ls (st\<lparr>a_names := tab\<rparr>))"

definition add_typedefs_from_file :: "(string \<Rightarrow> string option) \<Rightarrow> string \<Rightarrow> argst \<Rightarrow> argst run" where
  "add_typedefs_from_file files str st =
     (case files str of
        None \<Rightarrow> Exit [] (''indent: cannot open file '' @ str @ [NL]) 1
      | Some f \<Rightarrow> add_typedefs (fgets_lines f) st)"

definition need_param :: "string \<Rightarrow> pro \<Rightarrow> argst run" where
  "need_param option_source p =
     Exit [] (option_source @ '': ``'' @ p_name p @ [CHR 0x27, CHR 0x27] @ '' requires a parameter'') 1"

definition set_special ::
  "(string \<Rightarrow> string option) \<Rightarrow> string \<Rightarrow> pro \<Rightarrow> string \<Rightarrow> argst \<Rightarrow> argst run" where
  "set_special files option_source p param_start st =
     (if p_special p = IGN then ret st
      else if p_special p = CLI
      then (if param_start = [] then need_param option_source p
            else case float_of (fst (strtod param_start)) of
                   None \<Rightarrow> Undef []
                 | Some q \<Rightarrow> ret (st\<lparr>a_opt := (a_opt st)\<lparr>case_indent := q\<rparr>\<rparr>))
      else if p_special p = STDIN
      then ret (st\<lparr>a_input := (if a_input st = None then Some Stdin else a_input st),
                   a_output := (if a_output st = None then Some Stdout else a_output st)\<rparr>)
      else if p_special p = KEY
      then (if param_start = [] then need_param option_source p
            else case add_typename param_start (a_names st) of
                   None \<Rightarrow> Undef []
                 | Some tab \<Rightarrow> ret (st\<lparr>a_names := tab\<rparr>))
      else if p_special p = KEY_FILE
      then (if param_start = [] then need_param option_source p
            else add_typedefs_from_file files param_start st)
      else if p_special p = VERSION then Exit (''FreeBSD indent 2.0'' @ [NL]) [] 0
      else Exit [] (''set_option: internal error: p_special '' @ show_nat (p_special p)) 1)"

definition set_obj :: "pro \<Rightarrow> int \<Rightarrow> argst \<Rightarrow> argst run" where
  "set_obj p v st =
     (case p_obj p of
        None \<Rightarrow> Undef []
      | Some ob \<Rightarrow> ret (st\<lparr>a_opt := store ob v (a_opt st)\<rparr>))"

text \<open>\<open>arg\<close> is the whole word; its first character is skipped whatever it is.\<close>

definition set_option ::
  "(string \<Rightarrow> string option) \<Rightarrow> string \<Rightarrow> string \<Rightarrow> argst \<Rightarrow> argst run" where
  "set_option files option_source arg st =
     (case find_pro pro_table (tl arg) of
        None \<Rightarrow> Exit [] (option_source @ '': unknown parameter '' @ [CHR 0x22] @ arg @ [CHR 0x22]) 1
      | Some (p, param_start) \<Rightarrow>
          (case p_kind p of
             PRO_SPECIAL \<Rightarrow> set_special files option_source p param_start st
           | PRO_BOOL \<Rightarrow> set_obj p (if p_special p = OFF then 0 else 1) st
           | PRO_INT \<Rightarrow>
               if \<not> isdigit (deref param_start) then need_param option_source p
               else case atoi param_start of
                      None \<Rightarrow> Undef []
                    | Some v \<Rightarrow> set_obj p v st))"

section \<open>Profiles\<close>

text \<open>
  The inner loop of \<open>scan_profile\<close>: \<open>buf\<close> holds the characters stored so far, \<open>cmt\<close> (the source's \<open>comment\<close>) the index
  of the star that opened a comment (0 outside one).  The result is the word and the rest of the
  file; \<open>None\<close> is a write past \<open>buf\<close>.
\<close>

fun scan_word :: "string \<Rightarrow> nat \<Rightarrow> string \<Rightarrow> (string \<times> string) option" where
  "scan_word buf cmt [] = Some (buf, [])"
| "scan_word buf cmt (i # f) =
     (if i = CHR ''*'' \<and> cmt = 0 \<and> buf \<noteq> [] \<and> last buf = CHR ''/''
      then (if length buf < BUFSIZ then scan_word (buf @ [i]) (length buf) f else None)
      else if i = CHR ''/'' \<and> cmt \<noteq> 0 \<and> buf \<noteq> [] \<and> last buf = CHR ''*''
      then scan_word (take (cmt - 1) buf) 0 f
      else if isspace i
      then (if buf \<noteq> [] \<and> cmt = 0 then Some (buf, f) else scan_word buf cmt f)
      else if length buf < BUFSIZ then scan_word (buf @ [i]) cmt f else None)"

lemma scan_word_shorter: "scan_word buf cmt f = Some (w, r) \<Longrightarrow> length r \<le> length f \<and> (f \<noteq> [] \<longrightarrow> length r < length f)"
  by (induction buf cmt f rule: scan_word.induct) (auto split: if_splits)

function scan_profile :: "(string \<Rightarrow> string option) \<Rightarrow> string \<Rightarrow> string \<Rightarrow> argst \<Rightarrow> argst run" where
  "scan_profile files option_source f st =
     (case scan_word [] 0 f of
        None \<Rightarrow> Undef []
      | Some (buf, f') \<Rightarrow>
          if buf \<noteq> []
          then (if BUFSIZ \<le> length buf then Undef []
                else bind_run (if verbose (a_opt st) then put (''profile: '' @ cstr buf @ [NL]) else put [])
                       (\<lambda>_. bind_run (set_option files option_source (cstr buf) st)
                       (scan_profile files option_source f')))
          else ret st)"
  by pat_completeness auto
termination
proof (relation "measure (\<lambda>(files, src, f, st). length f)", goal_cases)
  case (2 files src f st x2 buf f')
  then have "f \<noteq> []" by auto
  with 2 scan_word_shorter [of "[]" 0 f buf f'] show ?case by simp
qed simp

declare scan_profile.simps [simp del]

definition profile_at ::
  "(string \<Rightarrow> string option) \<Rightarrow> string \<Rightarrow> argst \<Rightarrow> argst run" where
  "profile_at files fname st =
     (case files fname of None \<Rightarrow> ret st | Some f \<Rightarrow> scan_profile files fname f st)"

text \<open>\<open>home\<close> is \<open>$HOME\<close>; printing an unset one is undefined.\<close>

definition set_profile ::
  "(string \<Rightarrow> string option) \<Rightarrow> string option \<Rightarrow> string option \<Rightarrow> argst \<Rightarrow> argst run" where
  "set_profile files home profile_name st =
     (let prof = ''.indent.pro'';
          fname = (case profile_name of
                     None \<Rightarrow> map_option (\<lambda>h. take (PATH_MAX - 1) (h @ ''/'' @ prof)) home
                   | Some n \<Rightarrow> Some (take (PATH_MAX - 1) (drop 2 n)))
      in case fname of
           None \<Rightarrow> Undef []
         | Some fn \<Rightarrow> bind_run (profile_at files fn st) (profile_at files prof))"

section \<open>The command line\<close>

text \<open>The first loop of \<open>main\<close>: whether \<open>-npro\<close> stops it, and the last \<open>-P\<close> before that.\<close>

fun find_profile :: "string option \<Rightarrow> string list \<Rightarrow> bool \<times> string option" where
  "find_profile name [] = (False, name)"
| "find_profile name (a # argv) =
     (if a = ''-npro'' then (True, name)
      else find_profile
             (if deref a = CHR ''-'' \<and> deref (tl a) = CHR ''P'' \<and> tl (tl a) \<noteq> [] then Some a else name) argv)"

text \<open>One argument; \<open>readable\<close> and \<open>writable\<close> say whether \<open>fopen\<close> succeeds.\<close>

definition main_arg ::
  "(string \<Rightarrow> string option) \<Rightarrow> (string \<Rightarrow> bool) \<Rightarrow> string \<Rightarrow> argst \<Rightarrow> argst run" where
  "main_arg files writable a st =
     (if deref a = CHR ''-'' then set_option files ''Command line'' a st
      else case a_input st of
             None \<Rightarrow>
               (case files a of
                  None \<Rightarrow> Exit [] a 1
                | Some _ \<Rightarrow> ret (st\<lparr>a_input := Some (File a)\<rparr>))
           | Some i \<Rightarrow>
               if a_output st = None
               then (if (case i of File n \<Rightarrow> n | _ \<Rightarrow> ''Standard Input'') = a
                     then Exit [] ''input and output files must be different'' 1
                     else if writable a then ret (st\<lparr>a_output := Some (File a)\<rparr>)
                     else Exit [] a 1)
               else Exit [] (''unknown parameter: '' @ a) 1)"

fun main_args ::
  "(string \<Rightarrow> string option) \<Rightarrow> (string \<Rightarrow> bool) \<Rightarrow> string list \<Rightarrow> argst \<Rightarrow> argst run" where
  "main_args files writable [] st = ret st"
| "main_args files writable (a # argv) st =
     bind_run (main_arg files writable a st) (main_args files writable argv)"

text \<open>The adjustments after the scan.\<close>

definition settle_options :: "indent_options \<Rightarrow> indent_options" where
  "settle_options o0 =
     (let o1 = (if com_ind o0 \<le> 1 then o0\<lparr>com_ind := 2\<rparr> else o0);
          o2 = (if block_comment_max_col o1 \<le> 0 then o1\<lparr>block_comment_max_col := max_col o1\<rparr> else o1);
          o3 = (if local_decl_indent o2 < 0 then o2\<lparr>local_decl_indent := decl_indent o2\<rparr> else o2);
          o4 = (if decl_com_ind o3 \<le> 0
                then o3\<lparr>decl_com_ind := (if ljust_decl o3
                                         then (if com_ind o3 \<le> 10 then 2 else com_ind o3 - 8)
                                         else com_ind o3)\<rparr>
                else o3)
      in if continuation_indent o4 = 0 then o4\<lparr>continuation_indent := ind_size o4\<rparr> else o4)"

definition main_options ::
  "(string \<Rightarrow> string option) \<Rightarrow> (string \<Rightarrow> bool) \<Rightarrow> string option \<Rightarrow> string list \<Rightarrow>
   indent_options \<Rightarrow> argst run" where
  "main_options files writable home argv zero =
     (let (npro, profile_name) = find_profile None argv;
          st0 = \<lparr>a_opt = set_defaults (zero\<lparr>else_if := True\<rparr>), a_names = alloc_typenames,
                 a_input = None, a_output = None\<rparr>
      in bind_run (if npro then ret st0 else set_profile files home profile_name st0)
           (\<lambda>st1. bind_run (main_args files writable argv st1)
           (\<lambda>st2. ret (st2\<lparr>a_opt := settle_options (a_opt st2),
                           a_input := (if a_input st2 = None then Some Stdin else a_input st2)\<rparr>))))"

section \<open>The state after the options\<close>

text \<open>The state in which \<open>main\<close> begins to read: static storage is zero.\<close>

definition ps_start :: parser_state where
  "ps_start =
     \<lparr>last_token = semicolon, p_stack = (\<lambda>_. eofcode)(0 := stmt), il = (\<lambda>_. 0), cstk = (\<lambda>_. 0), box_com = False,
      comment_delta = 0, n_comment_delta = 0, cast_mask = 0, not_cast_mask = 0, block_init = False,
      block_init_level = 0, last_nl = True, in_or_st = False, bl_line = True, col_1 = False, com_col = 0,
      com_lines = 0, dec_nest = 0, decl_on_line = False, i_l_follow = 0, in_decl = False, in_stmt = False,
      ind_level = 0, ind_stmt = False, last_u_d = False, out_coms = 0, out_lines = 0, p_l_follow = 0,
      paren_level = 0, paren_indents = (\<lambda>_. 0), pcase = False, search_brace = False, use_ff = False,
      want_blank = False, keyword = 0, dumped_decl_indent = False, in_parameter_declaration = False,
      tos = 0, procname = [], just_saw_decl = 0\<rparr>"

definition mv_start :: main_vars where
  "mv_start =
     \<lparr>dec_ind = 0, di_stack = (\<lambda>_. 0), force_nl = False, hd_type = eofcode, scase = False, sp_sw = False,
      squest = 0, tabs_to_var = False, type_code = eofcode, last_else = False, comment_buffered = False\<rparr>"

definition start_state :: "indent_options \<Rightarrow> typetab \<Rightarrow> string \<Rightarrow> bool \<Rightarrow> ist" where
  "start_state os tab file out =
     (let b = \<lparr>held = [], stale = [NUL]\<rparr>
      in \<lparr>ps = ps_start, opt = os, labb = b, codeb = b, comb = b, com_pre = [], com_room = 194, token = [],
          in_buffer = [], in_limit = 8, sc_buf = (\<lambda>_. NUL), save_com = 0, sc_end = None, from_save = False,
          buf_ptr = 0, buf_end = 0, bp_save = None, found_err = False, n_real_blanklines = 0,
          prefix_blankline_requested = 0, postfix_blankline_requested = 0, break_comma = False, case_ind = 0,
          code_lines = 0, had_eof = False, line_no = 1, inhibit_formatting = False, suppress_blanklines = 0,
          comment_open = False, paren_target = 0, not_first_line = False, typenames = tab, tstate = ps_start,
          ifdef_stack = [], mv = mv_start, infile = file, outp = [], errp = [], sout = [], to_stdout = out\<rparr>)"

section \<open>The table is consistent\<close>

text \<open>The defaults of \<^verbatim>\<open>indent.1\<close>.\<close>

definition documented_defaults :: indent_options where
  "documented_defaults =
     \<lparr>blanklines_around_conditional_compilation = False,
      blanklines_after_declarations_at_proctop = False, blanklines_after_declarations = False,
      blanklines_after_procs = False, blanklines_before_blockcomments = False, leave_comma = True,
      btype_2 = True, Bill_Shannon = False, comment_delimiter_on_blankline = True,
      decl_com_ind = 0, cuddle_else = True, continuation_indent = 0, case_indent = 0, com_ind = 33,
      decl_indent = 16, ljust_decl = False, unindent_displace = 0, extra_expression_indent = False,
      else_if = True, function_brace_split = True, format_col1_comments = True,
      format_block_comments = True, indent_parameters = True, ind_size = 8,
      block_comment_max_col = 0, local_decl_indent = -1, lineup_to_parens_always = False,
      lineup_to_parens = True, pointer_as_binop = False, proc_calls_space = False,
      procnames_start_line = True, space_after_cast = False, star_comment_cont = True,
      swallow_optional_blanklines = False, auto_typedefs = False, tabsize = 8, max_col = 78,
      use_tabs = True, verbose = False\<rparr>"

lemma set_defaults_eq: "set_defaults os = documented_defaults"
  by (cases os) (simp add: set_defaults_def pro_table_def mk_pro_def default_entry_def documented_defaults_def)

text \<open>No entry hides a later one, whatever number follows the name.\<close>

lemma eqin_eq:
  assumes "NUL \<notin> set s1"
  shows "eqin s1 s2 = (if prefix s1 s2 then Some (drop (length s1) s2) else None)"
  using assms
proof (induction s1 s2 rule: eqin.induct)
  case (2 c s1 s2)
  then show ?case by (cases s2) auto
qed simp

definition clashes :: "pro \<Rightarrow> pro \<Rightarrow> bool" where
  "clashes p q \<longleftrightarrow> prefix (p_name p) (p_name q) \<or>
     prefix (p_name q) (p_name p) \<and> list_all isdigit (drop (length (p_name q)) (p_name p))"

fun table_ok :: "pro list \<Rightarrow> bool" where
  "table_ok [] = True"
| "table_ok (p # rest) = (p_name p \<noteq> [] \<and> NUL \<notin> set (p_name p) \<and> list_all (\<lambda>q. \<not> clashes p q) rest \<and> table_ok rest)"

lemma find_pro_own:
  assumes "table_ok t" "p \<in> set t" "list_all isdigit ds"
  shows "find_pro t (p_name p @ ds) = Some (p, ds)"
  using assms(1,2)
proof (induction t)
  case (Cons q t)
  have head: "find_pro (q # t) arg = (if prefix (p_name q) arg then Some (q, drop (length (p_name q)) arg) else find_pro t arg)" for arg
    using Cons.prems(1) by (cases "p_name q"; cases arg) (auto simp: eqin_eq)
  show ?case
  proof (cases "p = q")
    case True
    then show ?thesis unfolding head by simp
  next
    case False
    then have p: "p \<in> set t" using Cons.prems(2) by simp
    then have "\<not> clashes q p" using Cons.prems(1) by (auto simp: list_all_iff)
    then have "\<not> prefix (p_name q) (p_name p @ ds)"
      using assms(3) by (auto simp: clashes_def prefix_append list_all_iff dest: set_mono_prefix [THEN subsetD])
    with Cons.IH Cons.prems(1) p show ?thesis unfolding head by simp
  qed
qed simp

lemma pro_table_ok: "table_ok pro_table"
  by code_simp

section \<open>What a profile does\<close>

text \<open>A profile written as words and comments, and the options its words are.\<close>

datatype pitem = PWord string | PComment string

fun item_text :: "pitem \<Rightarrow> string" where
  "item_text (PWord w) = w @ [NL]"
| "item_text (PComment c) = ''/*'' @ c @ ''*/'' @ [NL]"

definition profile_text :: "pitem list \<Rightarrow> string" where
  "profile_text its = concat (map item_text its)"

fun item_words :: "pitem list \<Rightarrow> string list" where
  "item_words [] = []"
| "item_words (PWord w # its) = w # item_words its"
| "item_words (PComment c # its) = item_words its"

text \<open>Spaces inside a comment are not stored, so \<open>* /\<close> closes one; so does the star that opens it.\<close>

fun item_ok :: "pitem \<Rightarrow> bool" where
  "item_ok (PWord w) = (w \<noteq> [] \<and> list_all (\<lambda>c. \<not> isspace c \<and> c \<noteq> NUL) w \<and> \<not> adjacent (CHR ''/'') (CHR ''*'') w \<and>
     length w < BUFSIZ)"
| "item_ok (PComment c) =
     (let d = filter (\<lambda>x. \<not> isspace x) c
      in \<not> adjacent (CHR ''*'') (CHR ''/'') (CHR ''*'' # d) \<and> length d + 2 < BUFSIZ)"

fun run_words :: "(string \<Rightarrow> string option) \<Rightarrow> string \<Rightarrow> string list \<Rightarrow> argst \<Rightarrow> argst run" where
  "run_words files src [] st = ret st"
| "run_words files src (w # ws) st =
     bind_run (if verbose (a_opt st) then put (''profile: '' @ w @ [NL]) else put [])
       (\<lambda>_. bind_run (set_option files src w st) (run_words files src ws))"

lemma scan_word_word:
  assumes "list_all (\<lambda>c. \<not> isspace c) w" "buf @ w \<noteq> []" "\<not> adjacent (CHR ''/'') (CHR ''*'') (buf @ w)"
    "length (buf @ w) \<le> BUFSIZ"
  shows "scan_word buf 0 (w @ NL # f) = Some (buf @ w, f)"
  using assms
proof (induction w arbitrary: buf)
  case Nil
  then show ?case by (simp add: isspace_def)
next
  case (Cons c w)
  have "\<not> (c = CHR ''*'' \<and> buf \<noteq> [] \<and> last buf = CHR ''/'')"
    using Cons.prems(3) adjacent_prefix [of "CHR ''/''" "CHR ''*''" "buf @ [c]" w]
    by (auto simp: adjacent_snoc)
  with Cons.prems Cons.IH [of "buf @ [c]"] show ?case by auto
qed

lemma scan_word_comment:
  assumes "buf \<noteq> []" "\<not> adjacent (CHR ''*'') (CHR ''/'') (last buf # filter (\<lambda>x. \<not> isspace x) c)"
    "length buf + length (filter (\<lambda>x. \<not> isspace x) c) < BUFSIZ"
  shows "scan_word buf 1 (c @ ''*/'' @ f) = scan_word [] 0 f"
  using assms
proof (induction c arbitrary: buf)
  case Nil
  then show ?case by (simp add: isspace_def)
next
  case (Cons x c)
  show ?case
  proof (cases "isspace x")
    case True
    then have "x \<noteq> CHR ''/''" "x \<noteq> CHR ''*''" by (auto simp: isspace_def)
    with True Cons.prems Cons.IH [of buf] show ?thesis by simp
  next
    case False
    with Cons.prems Cons.IH [of "buf @ [x]"] show ?thesis by auto
  qed
qed

lemma scan_profile_items:
  assumes "list_all item_ok its"
  shows "scan_profile files src (profile_text its) st = run_words files src (item_words its) st"
  using assms
proof (induction its arbitrary: st)
  case Nil
  then show ?case by (simp add: profile_text_def scan_profile.simps)
next
  case (Cons it its)
  show ?case
  proof (cases it)
    case (PWord w)
    have ok: "w \<noteq> []" "list_all (\<lambda>c. \<not> isspace c) w" "\<not> adjacent (CHR ''/'') (CHR ''*'') w" "length w < BUFSIZ"
      "cstr w = w" using Cons.prems by (auto simp: PWord list_all_iff cstr_def takeWhile_eq_all_conv)
    have "scan_word [] 0 (profile_text (it # its)) = Some (w, profile_text its)"
      using scan_word_word [of w "[]" "profile_text its"] ok by (simp add: PWord profile_text_def)
    moreover have "item_words (it # its) = w # item_words its" by (simp add: PWord)
    moreover have "scan_profile files src (profile_text its) = run_words files src (item_words its)"
      using Cons by (intro ext) simp
    ultimately show ?thesis using ok by (simp add: scan_profile.simps [of _ _ "profile_text (it # its)"])
  next
    case (PComment c)
    let ?r = "[NL] @ profile_text its"
    have "scan_word [] 0 (profile_text (it # its)) = scan_word ''/*'' 1 (c @ ''*/'' @ ?r)"
      by (simp add: PComment profile_text_def isspace_def BUFSIZ_def)
    also have "\<dots> = scan_word [] 0 ?r"
      using Cons.prems by (intro scan_word_comment) (auto simp: PComment Let_def)
    also have "\<dots> = scan_word [] 0 (profile_text its)" by (simp add: isspace_def)
    finally have "scan_profile files src (profile_text (it # its)) st = scan_profile files src (profile_text its) st"
      by (simp add: scan_profile.simps [of _ _ "profile_text (it # its)"] scan_profile.simps [of _ _ "profile_text its"])
    moreover have "item_words (it # its) = item_words its" by (simp add: PComment)
    ultimately show ?thesis using Cons by simp
  qed
qed

section \<open>What the options can be\<close>

text \<open>
  The numbers an option can leave: never negative, but for the default of \<open>-ldi\<close>.
\<close>

definition int_objs :: "opt_obj list" where
  "int_objs = [O_decl_com_ind, O_continuation_indent, O_com_ind, O_decl_indent, O_unindent_displace,
     O_ind_size, O_block_comment_max_col, O_max_col, O_tabsize]"

definition opts_ok :: "indent_options \<Rightarrow> bool" where
  "opts_ok os \<longleftrightarrow> list_all (\<lambda>ob. 0 \<le> load ob os) int_objs \<and> -1 \<le> local_decl_indent os"

definition arg_ok :: "argst \<Rightarrow> bool" where
  "arg_ok st \<longleftrightarrow> opts_ok (a_opt st) \<and> tab_ok (a_names st)"

lemma opts_ok_eq:
  "opts_ok os \<longleftrightarrow> 0 \<le> decl_com_ind os \<and> 0 \<le> continuation_indent os \<and> 0 \<le> com_ind os \<and>
     0 \<le> decl_indent os \<and> 0 \<le> unindent_displace os \<and> 0 \<le> ind_size os \<and>
     0 \<le> block_comment_max_col os \<and> 0 \<le> max_col os \<and> 0 \<le> tabsize os \<and> -1 \<le> local_decl_indent os"
  by (auto simp: opts_ok_def int_objs_def)

lemma opts_ok_store: "opts_ok os \<Longrightarrow> 0 \<le> v \<Longrightarrow> opts_ok (store ob v os)"
  by (cases ob) (simp_all add: opts_ok_eq)

lemma atoi_nonneg:
  assumes "isdigit (deref s)" "atoi s = Some v"
  shows "0 \<le> v"
proof -
  obtain c t where s: "s = c # t" "isdigit c" using assms(1) by (cases s) (auto simp: isdigit_def)
  then have "\<not> isspace c" "c \<noteq> CHR ''-''" by (auto simp: isdigit_def isspace_def)
  with s assms(2) show ?thesis by (auto simp: atoi_def Let_def split: if_splits)
qed

lemma arg_ok_add_typedefs: "add_typedefs ls st = Ret out st' \<Longrightarrow> arg_ok st \<Longrightarrow> arg_ok st'"
proof (induction ls arbitrary: st)
  case (Cons l ls)
  from add_typename_ok [of "a_names st" "chomp_typename l"] Cons show ?case
    by (auto simp: arg_ok_def split: option.splits)
qed (simp add: arg_ok_def)

lemma arg_ok_special:
  assumes "set_special files src p param st = Ret out st'" "arg_ok st" shows "arg_ok st'"
  using assms add_typename_ok [of "a_names st" param]
  by (auto simp: set_special_def need_param_def add_typedefs_from_file_def arg_ok_def opts_ok_eq
      split: if_splits option.splits dest: arg_ok_add_typedefs [unfolded arg_ok_def opts_ok_eq])

lemma arg_ok_obj: "set_obj p v st = Ret out st' \<Longrightarrow> 0 \<le> v \<Longrightarrow> arg_ok st \<Longrightarrow> arg_ok st'"
  by (auto simp: set_obj_def arg_ok_def opts_ok_store split: option.splits)

lemma arg_ok_option:
  assumes "set_option files src arg st = Ret out st'" "arg_ok st" shows "arg_ok st'"
  using assms
  by (auto simp: set_option_def need_param_def split: option.splits p_type.splits if_splits)
     (erule (1) arg_ok_special | erule arg_ok_obj, simp_all add: atoi_nonneg)+

lemma arg_ok_scan: "scan_profile files src f st = Ret out st' \<Longrightarrow> arg_ok st \<Longrightarrow> arg_ok st'"
proof (induction files src f st arbitrary: out st' rule: scan_profile.induct)
  case (1 files src f st)
  obtain buf f' where w: "scan_word [] 0 f = Some (buf, f')"
    using "1.prems"(1) by (cases "scan_word [] 0 f") (auto simp: scan_profile.simps [of files src f st])
  show ?case
  proof (cases "buf = []")
    case True
    with w "1.prems" show ?thesis by (simp add: scan_profile.simps [of files src f st])
  next
    case False
    with w "1.prems"(1) have l: "\<not> BUFSIZ \<le> length buf" by (auto simp: scan_profile.simps [of files src f st])
    with False w "1.prems"(1) obtain st1 o1 o2 where
      "set_option files src (cstr buf) st = Ret o1 st1" "scan_profile files src f' st1 = Ret o2 st'"
      unfolding scan_profile.simps [of files src f st]
      by (auto simp add: bind_run_eq_Ret simp del: bind_run.simps split: if_splits)
    with "1.IH" [OF w refl False l] "1.prems"(2) arg_ok_option show ?thesis by blast
  qed
qed

lemma arg_ok_profile: "profile_at files fn st = Ret out st' \<Longrightarrow> arg_ok st \<Longrightarrow> arg_ok st'"
  by (auto simp: profile_at_def split: option.splits dest: arg_ok_scan)

lemma arg_ok_args: "main_args files writable argv st = Ret out st' \<Longrightarrow> arg_ok st \<Longrightarrow> arg_ok st'"
proof (induction argv arbitrary: st out st')
  case (Cons a argv)
  have "arg_ok st1" if "main_arg files writable a st = Ret o1 st1" for o1 st1
    using that Cons.prems(2)
    by (auto simp: main_arg_def arg_ok_def split: if_splits option.splits dest: arg_ok_option [unfolded arg_ok_def])
  with Cons show ?case by (auto simp: bind_run_eq_Ret)
qed simp

text \<open>What the formatter relies on.\<close>

definition settled :: "indent_options \<Rightarrow> bool" where
  "settled os \<longleftrightarrow> opts_ok os \<and> 2 \<le> com_ind os \<and> 1 \<le> decl_com_ind os \<and> 0 \<le> local_decl_indent os \<and>
     (block_comment_max_col os = 0 \<longrightarrow> max_col os = 0) \<and> (continuation_indent os = 0 \<longrightarrow> ind_size os = 0)"

lemma settle_settled: "opts_ok os \<Longrightarrow> settled (settle_options os)"
  by (auto simp: settled_def settle_options_def opts_ok_eq Let_def)

section \<open>Properties\<close>


text \<open> C21: the order of the option table is right.  The name of an entry followed by a number selects
  that entry and passes it the number: no entry whose name is the beginning of another's comes
  before it.\<close>

theorem option_selects_its_entry:
  assumes "p \<in> set pro_table" "list_all isdigit ds"
  shows "find_pro pro_table (p_name p @ ds) = Some (p, ds)"
  using find_pro_own [OF pro_table_ok assms] .

theorem option_selects_its_entry_witness:
  "find_pro pro_table ''l78'' = Some (mk_pro ''l'' PRO_INT 78 0 (Some O_max_col), ''78'')"
proof -
  have "mk_pro ''l'' PRO_INT 78 0 (Some O_max_col) \<in> set pro_table" by (simp add: pro_table_def)
  moreover have "list_all isdigit ''78''" by code_simp
  ultimately show ?thesis
    using option_selects_its_entry [of "mk_pro ''l'' PRO_INT 78 0 (Some O_max_col)" "''78''"]
    by (simp add: mk_pro_def)
qed

text \<open> C22: a profile made of words and comments, each on a line, acts as its words do one after the
  other as options; the comments have no effect.\<close>

theorem scan_profile_words:
  assumes "list_all item_ok its"
  shows "scan_profile files src (profile_text its) st = run_words files src (item_words its) st"
  using scan_profile_items [OF assms] .

theorem scan_profile_words_witness:
  "scan_profile (\<lambda>_. None) ''.indent.pro''
     (profile_text [PWord ''-bl'', PComment ('' columns'' @ [NL] @ '' of a level ''), PWord ''-i4''])
     \<lparr>a_opt = documented_defaults, a_names = alloc_typenames, a_input = None, a_output = None\<rparr> =
   ret \<lparr>a_opt = documented_defaults\<lparr>btype_2 := False, ind_size := 4\<rparr>, a_names = alloc_typenames,
        a_input = None, a_output = None\<rparr>"
proof -
  let ?its = "[PWord ''-bl'', PComment ('' columns'' @ [NL] @ '' of a level ''), PWord ''-i4'']"
  have "list_all item_ok ?its" by code_simp
  from scan_profile_words [OF this] show ?thesis
    by (simp only:) (code_simp)
qed



end
