(* ===== verification/Indent_Io.thy ===== *)
theory Indent_Io
  imports Indent_Args
begin

text \<open>
  \<^verbatim>\<open>src/bsd_additions/indent/io.c\<close>: columns and padding, printing a line (\<open>dump_line\<close>) and
  reading one (\<open>fill_buffer\<close>).  The definitions are for a tab size of at least 1; with 0 the
  program divides by zero at the first tab stop it computes.
\<close>

named_theorems io_simps \<open>the output routines, unfolded\<close>

section \<open>Columns\<close>

text \<open>The tab stop after column \<open>cur\<close>; the division truncates.\<close>

definition tabstop :: "int \<Rightarrow> int \<Rightarrow> int" where
  "tabstop ts cur = ts * (1 + (cur - 1) sdiv ts) + 1"

fun count_spaces_until :: "int \<Rightarrow> int \<Rightarrow> string \<Rightarrow> int" where
  "count_spaces_until ts cur [] = cur"
| "count_spaces_until ts cur (c # buf) =
     (if c = NUL then cur
      else count_spaces_until ts
             (if c = NL \<or> c = FF then 1
              else if c = TAB then tabstop ts cur
              else if c = BS then cur - 1
              else cur + 1) buf)"

lemma tabstop_bounds:
  assumes "0 < ts" shows "cur < tabstop ts cur" "tabstop ts cur \<le> cur + 2 * ts - 1"
proof -
  have e: "(cur - 1) sdiv ts * ts + (cur - 1) smod ts = cur - 1" by (rule sdiv_mult_smod_eq)
  have "\<bar>(cur - 1) smod ts\<bar> < ts" using assms smod_int_range [of ts "cur - 1"] by auto
  moreover have "tabstop ts cur = ts + ((cur - 1) sdiv ts * ts) + 1" by (simp add: tabstop_def algebra_simps)
  ultimately show "cur < tabstop ts cur" "tabstop ts cur \<le> cur + 2 * ts - 1" using e by linarith+
qed

text \<open>The loop of \<open>pad_output\<close> that writes tabs: their number and the column reached.\<close>

function pad_tabs :: "int \<Rightarrow> int \<Rightarrow> int \<Rightarrow> nat \<times> int" where
  "pad_tabs ts cur target =
     (if 0 < ts \<and> tabstop ts cur \<le> target
      then (case pad_tabs ts (tabstop ts cur) target of (n, c) \<Rightarrow> (Suc n, c))
      else (0, cur))"
  by pat_completeness auto
termination
  by (relation "measure (\<lambda>(ts, cur, target). nat (target - cur))")
     (auto simp: tabstop_bounds intro: order.strict_trans2 [OF tabstop_bounds(1)])

declare pad_tabs.simps [simp del]

text \<open>The text written and the column returned.\<close>

definition pad_output :: "indent_options \<Rightarrow> int \<Rightarrow> int \<Rightarrow> string \<times> int" where
  "pad_output os current target =
     (if target \<le> current then ([], current)
      else let (n, cur) = (if use_tabs os then pad_tabs (tabsize os) current target else (0, current))
           in (replicate n TAB @ replicate (nat (target - cur)) (CHR '' ''), target))"


section \<open>Where code and labels go\<close>

definition compute_code_target :: "ist \<Rightarrow> int option" where
  "compute_code_target st =
     (let os = opt st; p = ps st;
          target_col = ind_size os * ind_level p + 1
      in if paren_level p \<noteq> 0
         then (if \<not> lineup_to_parens os
               then Some (target_col + continuation_indent os *
                      (if 2 * continuation_indent os = ind_size os then 1 else paren_level p))
               else if lineup_to_parens_always os then Some (paren_target st)
               else map_option
                      (\<lambda>s_code.
                         let t = paren_target st;
                             w = count_spaces_until (tabsize os) t s_code - max_col os
                         in if 0 < w \<and> count_spaces_until (tabsize os) target_col s_code \<le> max_col os
                            then max target_col (t - (w + 1))
                            else t)
                      (cb_string (codeb st)))
         else Some (if ind_stmt p then target_col + continuation_indent os else target_col))"

text \<open>\<open>label_offset\<close> is 2; the product is single precision.\<close>

definition compute_label_target :: "ist \<Rightarrow> int" where
  "compute_label_target st =
     (if pcase (ps st) then trunc (flt (case_ind st * flt (of_int (ind_size (opt st))))) + 1
      else if deref (held (labb st)) = CHR ''#'' then 1
      else ind_size (opt st) * (ind_level (ps st) - 2) + 1)"

section \<open>dump_line\<close>

text \<open>The text \<open>*/\<close> that closes an error comment left open.\<close>

definition close_comment :: "ist \<Rightarrow> ist" where
  "close_comment st = (if comment_open st then emit (''.*/'' @ [NL]) (st\<lparr>comment_open := False\<rparr>) else st)"

text \<open>How \<open>#else\<close> and \<open>#endif\<close> lines are printed: what follows the word becomes a comment.\<close>

definition endif_text :: "string \<Rightarrow> string" where
  "endif_text lab =
     (let l = (if last lab = NL then butlast lab else lab);
          w = take 1 l @ takeWhile islower (drop 1 l);
          r = dropWhile isblank (drop (length w) l)
      in w @ (if r = [] then []
              else if take 2 r = ''/*'' then TAB # r else TAB # ''/* '' @ r @ '' */''))"

definition rstrip :: "(char \<Rightarrow> bool) \<Rightarrow> string \<Rightarrow> string" where
  "rstrip P s = rev (dropWhile P (rev s))"

text \<open>The label section: the column it ends in.\<close>

definition dump_label :: "ist \<Rightarrow> int \<times> ist" where
  "dump_label st0 =
     (if held (labb st0) = [] then (1, st0)
      else let st1 = close_comment st0;
               lab = rstrip isblank (held (labb st1));
               st2 = st1\<lparr>labb := cb_term (cb_back (length (held (labb st1)) - length lab) (labb st1))\<rparr>;
               (pad, cur) = pad_output (opt st2) 1 (compute_label_target st2);
               body = (if take 5 lab = ''#else'' \<or> take 6 lab = ''#endif'' then endif_text lab else cstr lab)
           in (count_spaces_until (tabsize (opt st2)) cur lab, emit (pad @ body) st2))"

definition to_short :: "int \<Rightarrow> int" where
  "to_short n = (n + 2 ^ 15) mod 2 ^ 16 - 2 ^ 15"

text \<open>A column of an open parenthesis is made absolute, and marked as such by its sign.\<close>

definition fix_parens :: "int \<Rightarrow> parser_state \<Rightarrow> parser_state" where
  "fix_parens target_col p =
     p\<lparr>paren_indents := (\<lambda>i. if int i < p_l_follow p \<and> 0 \<le> paren_indents p i
                             then to_short (- (paren_indents p i + target_col)) else paren_indents p i)\<rparr>"

definition code_char :: "int \<Rightarrow> char \<Rightarrow> string" where
  "code_char target_col c = (if c = CHR 0x80 then show_int (target_col * 7) else [c])"

definition dump_code :: "int \<times> ist \<Rightarrow> (int \<times> ist) irun" where
  "dump_code = (\<lambda>(cur, st0).
     if held (codeb st0) = [] then go (cur, st0)
     else let st1 = close_comment st0
          in case (compute_code_target st1, cb_string (codeb st1)) of
               (Some target_col, Some s_code) \<Rightarrow>
                 (let (pad, cur1) = pad_output (opt st1) cur target_col
                  in go (count_spaces_until (tabsize (opt st1)) cur1 s_code,
                         emit (pad @ concat (map (code_char target_col) (held (codeb st1))))
                           (upd_ps (fix_parens target_col) st1)))
             | _ \<Rightarrow> wild st1)"

text \<open>
  The start of a comment line: leading tabs, then what brings a target left of column 1 back.
  The text is what memory holds from \<open>s_com\<close> on; \<open>None\<close> is a read past what was written.
\<close>

fun com_start :: "int \<Rightarrow> int \<Rightarrow> string \<Rightarrow> nat \<Rightarrow> (int \<times> nat) option" where
  "com_start ts target [] n = None"
| "com_start ts target (c # mem) n =
     (if c = TAB then com_start ts (target + ts) mem (Suc n) else Some (target, n))"

fun com_shift :: "int \<Rightarrow> int \<Rightarrow> string \<Rightarrow> nat \<Rightarrow> (int \<times> nat) option" where
  "com_shift ts target mem n =
     (if 0 < target then Some (target, n)
      else case mem of
             [] \<Rightarrow> None
           | c # r \<Rightarrow>
               if c = CHR '' '' then com_shift ts (target + 1) r (Suc n)
               else if c = TAB then com_shift ts (tabstop ts target) r (Suc n)
               else Some (1, n))"

declare com_shift.simps [simp del]

definition dump_comment :: "int \<times> ist \<Rightarrow> ist irun" where
  "dump_comment = (\<lambda>(cur, st).
     let h = held (comb st); mem = h @ stale (comb st); ts = tabsize (opt st)
     in if h = [] then go st
        else case com_start ts (com_col (ps st) + comment_delta (ps st)) mem 0 of
               None \<Rightarrow> wild st
             | Some (target0, n0) \<Rightarrow>
                 (case com_shift ts target0 (drop n0 mem) n0 of
                    None \<Rightarrow> wild st
                  | Some (target, com_st) \<Rightarrow>
                      if length h < com_st then wild st
                      else let st1 = (if target < cur
                                      then emit [NL] (upd_ps (\<lambda>p. p\<lparr>out_lines := out_lines p + 1\<rparr>) st) else st);
                               cur1 = (if target < cur then 1 else cur);
                               body = rstrip isspace (drop com_st h)
                           in go (upd_ps (\<lambda>p. p\<lparr>comment_delta := n_comment_delta p, com_lines := com_lines p + 1\<rparr>)
                                   (emit (fst (pad_output (opt st) cur1 target) @ body) st1))))"

text \<open>Before the text: blank lines.\<close>

definition dump_blanklines :: "ist \<Rightarrow> ist" where
  "dump_blanklines st =
     (let n = (if prefix_blankline_requested st \<noteq> 0 \<and> not_first_line st
               then (if swallow_optional_blanklines (opt st)
                     then (if n_real_blanklines st = 1 then 0 else n_real_blanklines st)
                     else (if n_real_blanklines st = 0 then 1 else n_real_blanklines st))
               else n_real_blanklines st)
      in (emit (replicate (nat n) NL) st)
           \<lparr>suppress_blanklines := 0, n_real_blanklines := 0,
            ps := (ps st)\<lparr>bl_line := False,
                          ind_stmt := (if ind_level (ps st) = 0 then False else ind_stmt (ps st))\<rparr>\<rparr>)"

text \<open>After the text: the end of the line and the blank lines asked for.\<close>

definition dump_newline :: "ist \<Rightarrow> ist" where
  "dump_newline st0 =
     (let st = emit [if use_ff (ps st0) then FF else NL] (upd_ps (\<lambda>p. p\<lparr>out_lines := out_lines p + 1\<rparr>) st0)
      in if just_saw_decl (ps st) = 1 \<and> blanklines_after_declarations (opt st)
         then upd_ps (\<lambda>p. p\<lparr>just_saw_decl := 0\<rparr>)
                (st\<lparr>prefix_blankline_requested := 1, postfix_blankline_requested := 0\<rparr>)
         else st\<lparr>prefix_blankline_requested := postfix_blankline_requested st,
                 postfix_blankline_requested := 0\<rparr>)"

text \<open>The end of \<open>dump_line\<close>: empty buffers and the levels of the next line.\<close>

definition dump_reset :: "ist \<Rightarrow> ist" where
  "dump_reset st =
     (let p = ps st
      in st\<lparr>labb := cb_reset (labb st), codeb := cb_reset (codeb st),
            comb := cb_reset \<lparr>held = com_pre st @ held (comb st), stale = stale (comb st)\<rparr>, com_pre := [],
            paren_target := (if 0 < p_l_follow p then - paren_indents p (nat (p_l_follow p - 1)) else paren_target st),
            not_first_line := True,
            ps := p\<lparr>decl_on_line := in_decl p, ind_stmt := in_stmt p \<and> \<not> in_decl p, use_ff := False,
                    dumped_decl_indent := False, ind_level := i_l_follow p, paren_level := p_l_follow p\<rparr>\<rparr>)"

definition empty_line :: "ist \<Rightarrow> bool" where
  "empty_line st \<longleftrightarrow> held (codeb st) = [] \<and> held (labb st) = [] \<and> held (comb st) = []"

definition dump_line :: "ist \<Rightarrow> ist irun" where
  "dump_line st0 =
     (let st = (if procname (ps st0) \<noteq> [] then upd_ps (\<lambda>p. p\<lparr>ind_level := 0, procname := []\<rparr>) st0 else st0)
      in if empty_line st
         then go (dump_reset
                (if 0 < suppress_blanklines st then st\<lparr>suppress_blanklines := suppress_blanklines st - 1\<rparr>
                 else upd_ps (\<lambda>p. p\<lparr>bl_line := True\<rparr>)
                        (st\<lparr>n_real_blanklines := n_real_blanklines st + 1\<rparr>)))
         else if inhibit_formatting st then go (dump_reset st)
         else let st1 = dump_blanklines st;
                  st2 = (if held (labb st1) \<noteq> [] \<or> held (codeb st1) \<noteq> []
                         then st1\<lparr>code_lines := code_lines st1 + 1\<rparr> else st1);
                  (cur, st3) = dump_label st2
              in andthen (dump_code (cur, upd_ps (\<lambda>p. p\<lparr>pcase := False\<rparr>) st3))
                   (\<lambda>cs. andthen (dump_comment cs) (\<lambda>st4. go (dump_reset (dump_newline st4)))))"


section \<open>fill_buffer\<close>

text \<open>A line as \<open>fill_buffer\<close> stores it, what is left of the file, and whether the file ended.\<close>

fun read_line :: "string \<Rightarrow> string \<times> string \<times> bool" where
  "read_line [] = ('' '' @ [NL], [], True)"
| "read_line (c # f) =
     (if c = NL then ([NL], f, False)
      else case read_line f of (l, r, e) \<Rightarrow> (if c = NUL then l else c # l, r, e))"

text \<open>The limit of the input buffer once \<open>p\<close> lies below it.\<close>

function grow_limit :: "nat \<Rightarrow> nat \<Rightarrow> nat" where
  "grow_limit limit p = (if limit \<le> p then grow_limit (limit * 2 + 8) p else limit)"
  by pat_completeness auto
termination by (relation "measure (\<lambda>(limit, p). Suc p - limit)") auto

declare grow_limit.simps [simp del]

text \<open>1 for a comment that turns formatting on, 2 for one that turns it off, 0 otherwise.\<close>

definition indent_control :: "string \<Rightarrow> nat" where
  "indent_control lin =
     (let p0 = dropWhile isblank lin; p1 = dropWhile isblank (drop 2 p0); p2 = dropWhile isblank (drop 6 p1)
      in if take 2 p0 = ''/*'' \<and> take 6 p1 = ''INDENT''
         then (let (com, p3) =
                     (if deref p2 = CHR ''*'' then (1, p2)
                      else if deref p2 = CHR ''O''
                      then (if deref (tl p2) = CHR ''N'' then (1, drop 2 p2)
                            else if deref (tl p2) = CHR ''F''
                            then (if deref (drop 2 p2) = CHR ''F'' then (2, drop 3 p2) else (0, drop 2 p2))
                            else (0, tl p2))
                      else (0, p2))
               in if take 3 (dropWhile isblank p3) = ''*/'' @ [NL] then com else 0)
         else 0)"

definition formatting_switch :: "nat \<Rightarrow> ist \<Rightarrow> ist irun" where
  "formatting_switch com st =
     (if com = 0 then go st
      else andthen (if empty_line st then go st else dump_line st)
             (\<lambda>st1. go (if com = 2 then st1\<lparr>inhibit_formatting := True\<rparr>
                        else st1\<lparr>inhibit_formatting := False, n_real_blanklines := 0,
                                 postfix_blankline_requested := 0, prefix_blankline_requested := 0,
                                 suppress_blanklines := 1\<rparr>)))"

definition ends_comment :: "string \<Rightarrow> bool" where
  "ends_comment lin \<longleftrightarrow> 2 < length lin \<and> lin ! (length lin - 2) = CHR ''/'' \<and> lin ! (length lin - 3) = CHR ''*''"

definition echo_line :: "ist \<Rightarrow> ist" where
  "echo_line st =
     (if inhibit_formatting st then emit (takeWhile (\<lambda>c. c \<noteq> NL) (in_buffer st) @ [NL]) st else st)"

text \<open>Storing a line that was read.\<close>

definition load_line :: "string \<Rightarrow> string \<Rightarrow> bool \<Rightarrow> ist \<Rightarrow> ist" where
  "load_line lin rest eof st =
     st\<lparr>in_buffer := lin @ drop (length lin) (in_buffer st),
        in_limit := grow_limit (in_limit st) (length lin - (if eof then 2 else 1)),
        from_save := False, buf_ptr := 0, buf_end := length lin,
        had_eof := had_eof st \<or> eof, infile := rest\<rparr>"

lemma read_line_shorter: "read_line f = (l, r, e) \<Longrightarrow> (f \<noteq> [] \<longrightarrow> length r < length f) \<and> length r \<le> length f"
  by (induction f arbitrary: l r e) (auto split: if_splits prod.splits)

lemma read_line_eof: "read_line f = (l, r, True) \<Longrightarrow> r = [] \<and> (\<exists>s. l = s @ '' '' @ [NL])"
proof (induction f arbitrary: l)
  case (Cons c f)
  obtain l1 r1 e1 where r: "read_line f = (l1, r1, e1)" by (cases "read_line f") auto
  with Cons show ?case by (auto split: if_splits intro: exI [of _ "c # _"])
qed simp

function fill_line :: "ist \<Rightarrow> ist irun" where
  "fill_line st =
     (case read_line (infile st) of
        (lin, rest, eof) \<Rightarrow>
          andthen
            (if ends_comment lin
             then (if take 11 lin = ''/**INDENT**'' then fill_line (load_line lin rest eof st)
                   else formatting_switch (indent_control lin) (load_line lin rest eof st))
             else go (load_line lin rest eof st))
            (\<lambda>st1. go (echo_line st1)))"
  by pat_completeness auto
termination
proof (relation "measure (\<lambda>st. length (infile st))", goal_cases)
  case (2 st lin p2 rest eof)
  then have r: "read_line (infile st) = (lin, rest, eof)" by simp
  have "infile st \<noteq> []"
  proof
    assume "infile st = []"
    with r have "lin = '' '' @ [NL]" by simp
    with 2 show False by (simp add: ends_comment_def)
  qed
  with read_line_shorter [OF r] show ?case by (simp add: load_line_def)
qed simp

declare fill_line.simps [simp del]

definition fill_buffer :: "ist \<Rightarrow> ist irun" where
  "fill_buffer st =
     (case bp_save st of
        None \<Rightarrow> fill_line st
      | Some (b, p, e) \<Rightarrow>
          (let st1 = st\<lparr>from_save := b, buf_ptr := p, buf_end := e, bp_save := None\<rparr>
           in if p < e then go st1 else fill_line st1))"

section \<open>Facts about columns\<close>

lemma count_append:
  "NUL \<notin> set s \<Longrightarrow> count_spaces_until ts cur (s @ t) = count_spaces_until ts (count_spaces_until ts cur s) t"
  by (induction ts cur s rule: count_spaces_until.induct) auto

lemma count_blanks: "count_spaces_until ts cur (replicate n (CHR '' '')) = cur + int n"
  by (induction n arbitrary: cur) auto

lemma count_tabs:
  "0 < ts \<Longrightarrow> pad_tabs ts cur target = (n, c) \<Longrightarrow>
     count_spaces_until ts cur (replicate n TAB) = c \<and> (cur \<le> target \<longrightarrow> c \<le> target)"
proof (induction ts cur target arbitrary: n c rule: pad_tabs.induct)
  case (1 ts cur target)
  show ?case
  proof (cases "tabstop ts cur \<le> target")
    case True
    obtain m d where md: "pad_tabs ts (tabstop ts cur) target = (m, d)" by fastforce
    with True "1.prems" have "n = Suc m" "c = d" by (simp_all add: pad_tabs.simps [of ts cur])
    with "1.IH" [OF _ "1.prems"(1) md] True "1.prems"(1) show ?thesis by simp
  next
    case False
    with "1.prems" show ?thesis by (simp add: pad_tabs.simps [of ts cur])
  qed
qed

lemma pad_count:
  assumes "0 < tabsize os"
  shows "count_spaces_until (tabsize os) current (fst (pad_output os current target)) = max current target"
proof (cases "target \<le> current")
  case True
  then show ?thesis by (simp add: pad_output_def)
next
  case False
  obtain n c where nc: "(if use_tabs os then pad_tabs (tabsize os) current target else (0, current)) = (n, c)"
    by fastforce
  have "count_spaces_until (tabsize os) current (replicate n TAB) = c \<and> c \<le> target"
    using nc count_tabs [OF assms, of current target n c] False by (auto split: if_splits)
  with False nc show ?thesis
    by (simp add: pad_output_def count_append count_blanks)
qed

lemma pad_snd: "snd (pad_output os current target) = max current target"
  by (auto simp: pad_output_def split: prod.splits)

section \<open>What dump_line keeps\<close>

text \<open>The parts of the state that the parser and the input routines own.\<close>

definition keeps :: "ist \<Rightarrow> ist \<Rightarrow> bool" where
  "keeps st st' \<longleftrightarrow>
     opt st' = opt st \<and> p_stack (ps st') = p_stack (ps st) \<and> il (ps st') = il (ps st) \<and>
     cstk (ps st') = cstk (ps st) \<and> tos (ps st') = tos (ps st) \<and> i_l_follow (ps st') = i_l_follow (ps st) \<and>
     case_ind st' = case_ind st \<and> infile st' = infile st \<and> in_buffer st' = in_buffer st \<and>
     buf_ptr st' = buf_ptr st \<and> buf_end st' = buf_end st \<and> from_save st' = from_save st \<and> bp_save st' = bp_save st \<and>
     had_eof st' = had_eof st \<and> in_limit st' = in_limit st \<and> sc_buf st' = sc_buf st \<and> inhibit_formatting st' = inhibit_formatting st"

lemma keeps_refl [simp]: "keeps st st"
  by (simp add: keeps_def)

lemma keeps_trans: "keeps a b \<Longrightarrow> keeps b c \<Longrightarrow> keeps a c"
  by (simp add: keeps_def)

lemma keeps_emit [simp]: "keeps st (emit s st') = keeps st st'"
  by (simp add: keeps_def emit_def)

lemma keeps_close [simp]: "keeps st (close_comment st') = keeps st st'"
  by (simp add: close_comment_def keeps_def emit_def)

lemma keeps_label: "dump_label st = (c, st') \<Longrightarrow> keeps st st'"
  by (auto simp: dump_label_def Let_def keeps_def emit_def close_comment_def split: prod.splits if_splits)

lemma keeps_code: "dump_code (c, st) = Some (Ret out (c', st')) \<Longrightarrow> keeps st st'"
  by (auto simp: dump_code_def go_def wild_def Let_def keeps_def emit_def close_comment_def upd_ps_def fix_parens_def
      split: prod.splits if_splits option.splits)

lemma keeps_comment: "dump_comment (c, st) = Some (Ret out st') \<Longrightarrow> keeps st st'"
  by (auto simp: dump_comment_def go_def wild_def Let_def keeps_def emit_def upd_ps_def split: prod.splits if_splits option.splits)

lemma keeps_blanklines: "keeps st (dump_blanklines st)"
  by (simp add: dump_blanklines_def Let_def keeps_def emit_def)

lemma keeps_newline: "keeps st (dump_newline st)"
  by (simp add: dump_newline_def Let_def keeps_def emit_def upd_ps_def)

lemma keeps_reset: "keeps st (dump_reset st)"
  by (simp add: dump_reset_def Let_def keeps_def)

lemma keeps_upd:
  "keeps st (upd_ps (\<lambda>p. p\<lparr>pcase := b\<rparr>) st)" "keeps st (upd_ps (\<lambda>p. p\<lparr>ind_level := i, procname := q\<rparr>) st)"
  "keeps st (upd_ps (\<lambda>p. p\<lparr>bl_line := b\<rparr>) st)"
  "keeps st (st\<lparr>code_lines := i\<rparr>)" "keeps st (st\<lparr>suppress_blanklines := i\<rparr>)" "keeps st (st\<lparr>n_real_blanklines := i\<rparr>)"
  by (simp_all add: keeps_def upd_ps_def)

text \<open>The line just dumped ends in a state that \<open>dump_reset\<close> makes ready for the next.\<close>

lemma dump_line_ends:
  assumes "dump_line st = Some (Ret out st')"
  shows "\<exists>st1. st' = dump_reset st1 \<and> keeps st st1"
proof -
  define st0 where "st0 = (if procname (ps st) \<noteq> [] then upd_ps (\<lambda>p. p\<lparr>ind_level := 0, procname := []\<rparr>) st else st)"
  have k0: "keeps st st0" using keeps_upd(2) [of st "[]" 0] by (simp add: st0_def)
  show ?thesis
  proof (cases "empty_line st0 \<or> inhibit_formatting st0")
    case True
    have "st' = dump_reset st0 \<or> st' = dump_reset (st0\<lparr>suppress_blanklines := suppress_blanklines st0 - 1\<rparr>) \<or>
      st' = dump_reset (upd_ps (\<lambda>p. p\<lparr>bl_line := True\<rparr>) (st0\<lparr>n_real_blanklines := n_real_blanklines st0 + 1\<rparr>))"
      using assms True by (auto simp: dump_line_def st0_def [symmetric] Let_def go_def split: if_splits)
    then show ?thesis
      using k0 keeps_trans [OF k0 keeps_upd(5)]
        keeps_trans [OF keeps_trans [OF k0 keeps_upd(6)] keeps_upd(3)] by blast
  next
    case False
    define st2 where "st2 = (let st1 = dump_blanklines st0 in if held (labb st1) \<noteq> [] \<or> held (codeb st1) \<noteq> []
                         then st1\<lparr>code_lines := code_lines st1 + 1\<rparr> else st1)"
    have k2: "keeps st0 st2"
      using keeps_blanklines [of st0] keeps_trans [OF keeps_blanklines keeps_upd(4)] by (simp add: st2_def Let_def)
    obtain c st3 where l: "dump_label st2 = (c, st3)" by fastforce
    have eq: "dump_line st = (case dump_label st2 of (cur, st3) \<Rightarrow>
        andthen (dump_code (cur, upd_ps (\<lambda>p. p\<lparr>pcase := False\<rparr>) st3))
          (\<lambda>cs. andthen (dump_comment cs) (\<lambda>st4. go (dump_reset (dump_newline st4)))))"
      using False unfolding dump_line_def st0_def [symmetric] st2_def Let_def by simp
    obtain o1 c' st4 o2 st5 where d: "dump_code (c, upd_ps (\<lambda>p. p\<lparr>pcase := False\<rparr>) st3) = Some (Ret o1 (c', st4))"
      "dump_comment (c', st4) = Some (Ret o2 st5)" "st' = dump_reset (dump_newline st5)"
      using assms eq l by (auto simp: andthen_def go_def split: option.splits run.splits)
    have "keeps st2 (dump_newline st5)"
      using keeps_label [OF l] keeps_upd(1) [of st3] keeps_code [OF d(1)] keeps_comment [OF d(2)] keeps_newline [of st5]
      by (meson keeps_trans)
    then show ?thesis using d(3) k0 k2 keeps_trans by blast
  qed
qed

lemma dump_line_keeps: "dump_line st = Some (Ret out st') \<Longrightarrow> keeps st st'"
  using dump_line_ends keeps_reset keeps_trans by blast

section \<open>dump_line loses nothing\<close>

text \<open>The visible characters of a text, and those on the way: written, in the label, in the code.\<close>

definition ink :: "string \<Rightarrow> string" where
  "ink s = filter (\<lambda>c. \<not> isspace c) s"

definition on_way :: "ist \<Rightarrow> string" where
  "on_way st = ink (outp st @ held (labb st) @ held (codeb st))"

text \<open>A state with no comment, no directive and no byte that \<open>dump_line\<close> treats specially.\<close>

definition plain_text :: "string \<Rightarrow> bool" where
  "plain_text s \<longleftrightarrow> NUL \<notin> set s \<and> CHR 0x80 \<notin> set s \<and> deref s \<noteq> CHR ''#''"

definition plain :: "ist \<Rightarrow> bool" where
  "plain st \<longleftrightarrow> held (comb st) = [] \<and> \<not> comment_open st \<and> \<not> inhibit_formatting st \<and> \<not> to_stdout st \<and>
     plain_text (held (labb st)) \<and> plain_text (held (codeb st))"

lemma ink_simps [simp]:
  "ink [] = []" "ink (s @ t) = ink s @ ink t" "ink (c # s) = (if isspace c then ink s else c # ink s)"
  by (simp_all add: ink_def)

lemma isspace_blanks [simp]: "isspace NL" "isspace TAB" "isspace FF" "isspace (CHR '' '')"
  by (simp_all add: isspace_def)

lemma ink_replicate [simp]: "isspace c \<Longrightarrow> ink (replicate n c) = []"
  by (induction n) auto

lemma plain_text_Nil [simp]: "plain_text []"
  by (simp add: plain_text_def)

lemma ink_pad [simp]: "ink (fst (pad_output os a b)) = []"
  by (simp add: pad_output_def split: prod.splits)

lemma ink_pad_eq: "pad_output os a b = (x, y) \<Longrightarrow> ink x = []"
  using ink_pad [of os a b] by simp

lemma ink_rstrip:
  assumes "\<And>c. P c \<Longrightarrow> isspace c" shows "ink (rstrip P s) = ink s"
  unfolding rstrip_def by (induction s rule: rev_induct) (use assms in auto)

lemma isblank_isspace: "isblank c \<Longrightarrow> isspace c"
  by (auto simp: isblank_def)

lemma plain_text_append: "plain_text (s @ t) \<Longrightarrow> plain_text s"
  by (cases s) (auto simp: plain_text_def)

lemma plain_text_rstrip: "plain_text s \<Longrightarrow> plain_text (rstrip P s)"
proof -
  have "s = rstrip P s @ rev (takeWhile P (rev s))"
    by (metis rstrip_def rev_append rev_rev_ident takeWhile_dropWhile_id)
  then show "plain_text s \<Longrightarrow> plain_text (rstrip P s)" using plain_text_append by metis
qed

lemma code_chars: "CHR 0x80 \<notin> set s \<Longrightarrow> concat (map (code_char t) s) = s"
  by (induction s) (auto simp: code_char_def)

lemma cstr_plain: "plain_text s \<Longrightarrow> cstr s = s"
  by (auto simp: cstr_def plain_text_def takeWhile_eq_all_conv)

lemma plain_not_cond: "plain_text s \<Longrightarrow> take 5 s \<noteq> ''#else'' \<and> take 6 s \<noteq> ''#endif''"
  by (cases s) (auto simp: plain_text_def)

lemma dump_label_ink:
  assumes "dump_label st = (c, st')" "plain st"
  shows "ink (outp st') = ink (outp st) @ ink (held (labb st)) \<and> codeb st' = codeb st \<and> comb st' = comb st \<and>
    comment_open st' = comment_open st \<and> to_stdout st' = to_stdout st"
proof (cases "held (labb st) = []")
  case True
  with assms show ?thesis by (simp add: dump_label_def)
next
  case False
  have p: "plain_text (rstrip isblank (held (labb st)))" using assms(2) by (simp add: plain_def plain_text_rstrip)
  from assms False plain_not_cond [OF p] cstr_plain [OF p] show ?thesis
    by (auto simp: dump_label_def Let_def close_comment_def plain_def emit_def ink_rstrip [OF isblank_isspace] split: prod.splits
        dest: ink_pad_eq)
qed

lemma dump_code_ink:
  assumes "dump_code (c, st) = Some (Ret out (c', st'))" "plain_text (held (codeb st))" "\<not> comment_open st"
  shows "ink (outp st') = ink (outp st) @ ink (held (codeb st)) \<and> comb st' = comb st \<and> to_stdout st' = to_stdout st \<and>
    \<not> comment_open st'"
proof (cases "held (codeb st) = []")
  case True
  with assms show ?thesis by (simp add: dump_code_def go_def)
next
  case False
  have "CHR 0x80 \<notin> set (held (codeb st))" using assms(2) by (simp add: plain_text_def)
  from code_chars [OF this] assms False show ?thesis
    by (auto simp: dump_code_def Let_def close_comment_def emit_def upd_ps_def go_def wild_def
        split: prod.splits option.splits dest: ink_pad_eq)
qed

lemma dump_reset_plain:
  "\<not> comment_open s \<Longrightarrow> \<not> inhibit_formatting s \<Longrightarrow> \<not> to_stdout s \<Longrightarrow>
     plain (dump_reset s) \<and> on_way (dump_reset s) = ink (outp s) \<and> held (codeb (dump_reset s)) = [] \<and> held (labb (dump_reset s)) = []"
  by (simp add: dump_reset_def plain_def on_way_def cb_reset_def Let_def plain_text_def)

lemma dump_line_ink:
  assumes "dump_line st = Some (Ret out st')" "plain st"
  shows "plain st' \<and> on_way st' = on_way st \<and> held (codeb st') = [] \<and> held (labb st') = []"
proof -
  define st0 where "st0 = (if procname (ps st) \<noteq> [] then upd_ps (\<lambda>p. p\<lparr>ind_level := 0, procname := []\<rparr>) st else st)"
  have p0: "plain st0" "on_way st0 = on_way st" using assms(2) by (simp_all add: st0_def plain_def on_way_def upd_ps_def)
  show ?thesis
  proof (cases "empty_line st0")
    case True
    then have "on_way st0 = ink (outp st0)" by (simp add: on_way_def empty_line_def)
    moreover obtain s where s: "st' = dump_reset s" "outp s = outp st0" "\<not> comment_open s" "\<not> inhibit_formatting s" "\<not> to_stdout s"
    proof (cases "0 < suppress_blanklines st0")
      case True
      then show thesis
        using assms(1) \<open>empty_line st0\<close> p0(1) that [of "st0\<lparr>suppress_blanklines := suppress_blanklines st0 - 1\<rparr>"]
        by (simp add: dump_line_def st0_def [symmetric] Let_def go_def plain_def)
    next
      case False
      then show thesis
        using assms(1) \<open>empty_line st0\<close> p0(1)
          that [of "upd_ps (\<lambda>p. p\<lparr>bl_line := True\<rparr>) (st0\<lparr>n_real_blanklines := n_real_blanklines st0 + 1\<rparr>)"]
        by (simp add: dump_line_def st0_def [symmetric] Let_def go_def plain_def upd_ps_def)
    qed
    ultimately show ?thesis using p0(2) dump_reset_plain [OF s(3-5)] by simp
  next
    case False
    define st2 where "st2 = (let st1 = dump_blanklines st0 in if held (labb st1) \<noteq> [] \<or> held (codeb st1) \<noteq> []
                         then st1\<lparr>code_lines := code_lines st1 + 1\<rparr> else st1)"
    have p2: "plain st2" "ink (outp st2) = ink (outp st0)" "labb st2 = labb st0" "codeb st2 = codeb st0" "comb st2 = comb st0"
      using p0(1) by (auto simp: st2_def dump_blanklines_def plain_def emit_def Let_def)
    obtain c st3 where l: "dump_label st2 = (c, st3)" by fastforce
    have eq: "dump_line st = (case dump_label st2 of (cur, st3) \<Rightarrow>
        andthen (dump_code (cur, upd_ps (\<lambda>p. p\<lparr>pcase := False\<rparr>) st3))
          (\<lambda>cs. andthen (dump_comment cs) (\<lambda>st4. go (dump_reset (dump_newline st4)))))"
      using False p0(1) unfolding dump_line_def st0_def [symmetric] st2_def Let_def by (simp add: plain_def)
    obtain o1 c' st4 o2 st5 where d: "dump_code (c, upd_ps (\<lambda>p. p\<lparr>pcase := False\<rparr>) st3) = Some (Ret o1 (c', st4))"
      "dump_comment (c', st4) = Some (Ret o2 st5)" "st' = dump_reset (dump_newline st5)"
      using assms eq l by (auto simp: andthen_def go_def split: option.splits run.splits)
    note li = dump_label_ink [OF l p2(1)]
    have ci: "ink (outp st4) = ink (outp st3) @ ink (held (codeb st3)) \<and> comb st4 = comb st3 \<and> to_stdout st4 = to_stdout st3 \<and>
        \<not> comment_open st4"
      using dump_code_ink [OF d(1)] li p2(1) by (simp add: plain_def upd_ps_def)
    have "st5 = st4" using d(2) ci li p2(1) by (simp add: dump_comment_def plain_def go_def Let_def)
    moreover have "inhibit_formatting st4 = inhibit_formatting st0"
      using keeps_code [OF d(1)] keeps_label [OF l] by (simp add: keeps_def upd_ps_def st2_def dump_blanklines_def Let_def emit_def)
    moreover have "ink (outp (dump_newline st4)) = ink (outp st4)" "comment_open (dump_newline st4) = comment_open st4"
      "to_stdout (dump_newline st4) = to_stdout st4" "inhibit_formatting (dump_newline st4) = inhibit_formatting st4"
      by (simp_all add: dump_newline_def Let_def emit_def upd_ps_def)
    ultimately show ?thesis using d(3) ci li p0 p2 dump_reset_plain [of "dump_newline st4"]
      by (auto simp: plain_def on_way_def)
  qed
qed

section \<open>Reading line by line\<close>

text \<open>The lines that successive calls of \<open>fill_buffer\<close> store, up to the end of the file.\<close>

function lines_of :: "string \<Rightarrow> string list" where
  "lines_of f = (case read_line f of (l, r, e) \<Rightarrow> l # (if e then [] else lines_of r))"
  by pat_completeness auto
termination
proof (relation "measure length", goal_cases)
  case (2 f l q r e)
  then have r: "read_line f = (l, r, e)" by simp
  have "f \<noteq> []" using 2 by auto
  with read_line_shorter [OF r] show ?case by simp
qed simp

declare lines_of.simps [simp del]

fun fill_times :: "nat \<Rightarrow> ist \<Rightarrow> ist irun" where
  "fill_times 0 st = go st"
| "fill_times (Suc k) st = andthen (fill_buffer st) (fill_times k)"

lemma read_line_text:
  "read_line f = (l, r, e) \<Longrightarrow>
     filter (\<lambda>c. c \<noteq> NUL) f @ (if e then '' '' @ [NL] else []) = l @ filter (\<lambda>c. c \<noteq> NUL) r"
  by (induction f arbitrary: l r e) (auto split: if_splits prod.splits)

lemma read_line_nl: "read_line f = (l, r, e) \<Longrightarrow> \<exists>s. l = s @ [NL] \<and> NL \<notin> set s"
proof (induction f arbitrary: l r e)
  case Nil
  then show ?case by (intro exI [of _ "'' ''"]) simp
next
  case (Cons c f)
  obtain l1 r1 e1 where r: "read_line f = (l1, r1, e1)" by (cases "read_line f") auto
  with Cons.IH obtain s where s: "l1 = s @ [NL]" "NL \<notin> set s" by blast
  consider "c = NL" | "c = NUL" | "c \<noteq> NL" "c \<noteq> NUL" by blast
  then show ?case
  proof cases
    case 1 then show ?thesis using Cons.prems by auto
  next
    case 2 then show ?thesis using Cons.prems r s by auto
  next
    case 3 then show ?thesis using Cons.prems r s by (intro exI [of _ "c # s"]) auto
  qed
qed

lemma read_line_append: "NL \<notin> set l \<Longrightarrow> NUL \<notin> set l \<Longrightarrow> read_line (l @ NL # r) = (l @ [NL], r, False)"
  by (induction l) auto

lemma lines_of_concat: "concat (lines_of f) = filter (\<lambda>c. c \<noteq> NUL) f @ '' '' @ [NL]"
proof (induction f rule: lines_of.induct)
  case (1 f)
  obtain l r e where r: "read_line f = (l, r, e)" by (cases "read_line f") auto
  have "e \<Longrightarrow> r = []" using read_line_eof [of f l r] r by simp
  with read_line_text [OF r] "1.IH" [OF r [symmetric] refl] r show ?case
    by (cases e) (auto simp: lines_of.simps [of f])
qed

lemma fill_buffer_plain:
  assumes "bp_save st = None" "\<not> inhibit_formatting st" "read_line (infile st) = (l, r, e)" "\<not> ends_comment l"
  shows "fill_buffer st = go (load_line l r e st)"
proof -
  have "echo_line (load_line l r e st) = load_line l r e st" using assms(2) by (simp add: echo_line_def load_line_def)
  with assms show ?thesis by (simp add: fill_buffer_def fill_line.simps [of st])
qed

section \<open>Properties\<close>




text \<open>A state to try things on, writing to a file.\<close>

definition trial :: "string \<Rightarrow> ist" where
  "trial file = start_state documented_defaults alloc_typenames file False"




text \<open> C27: with formatting off, an error message that an earlier run left in the file makes the next
  line appear twice in the output: both the call that skips the message and the one it makes
  echo the line.\<close>

theorem indent_off_echoes_twice:
  assumes "bp_save st = None" "inhibit_formatting st" "NL \<notin> set m \<union> set l" "NUL \<notin> set m \<union> set l"
    "take 11 m = ''/**INDENT**''" "ends_comment (m @ [NL])" "\<not> ends_comment (l @ [NL])"
    "infile st = m @ [NL] @ l @ [NL] @ rest"
  shows "\<exists>st'. fill_buffer st = go st' \<and> outp st' = outp st @ l @ [NL] @ l @ [NL]"
proof -
  define st1 where "st1 = load_line (m @ [NL]) (l @ [NL] @ rest) False st"
  define st2 where "st2 = load_line (l @ [NL]) rest False st1"
  have "read_line (infile st) = (m @ [NL], l @ [NL] @ rest, False)"
    using read_line_append [of m "l @ [NL] @ rest"] assms(3,4,8) by simp
  moreover have "length m \<ge> 11" using arg_cong [OF assms(5), of length] by simp
  ultimately have 1: "fill_buffer st = andthen (fill_line st1) (\<lambda>s. go (echo_line s))"
    using assms(1,5,6) by (simp add: fill_buffer_def fill_line.simps [of st] st1_def)
  have i: "infile st1 = l @ NL # rest" by (simp add: st1_def load_line_def)
  have 2: "fill_line st1 = go (echo_line st2)"
    using read_line_append [of l rest] assms(3,4,7) by (simp add: fill_line.simps [of st1] st2_def i)
  have s2: "inhibit_formatting st2" "\<exists>r. in_buffer st2 = l @ NL # r" "outp st2 = outp st"
    using assms(2) by (auto simp: st2_def st1_def load_line_def)
  have e: "echo_line s = emit (l @ [NL]) s" if a: "inhibit_formatting s" and b: "\<exists>r. in_buffer s = l @ NL # r" for s
  proof -
    obtain r where r: "in_buffer s = l @ NL # r" using b by blast
    have "takeWhile (\<lambda>c. c \<noteq> NL) (l @ NL # r) = l @ takeWhile (\<lambda>c. c \<noteq> NL) (NL # r)"
      using assms(3) by (intro takeWhile_append2) auto
    with a r show ?thesis by (simp add: echo_line_def)
  qed
  have e2: "echo_line (emit (l @ [NL]) st2) = emit (l @ [NL]) (emit (l @ [NL]) st2)"
  proof (rule e)
    show "inhibit_formatting (emit (l @ [NL]) st2)" using s2(1) by (simp add: emit_def)
    show "\<exists>r. in_buffer (emit (l @ [NL]) st2) = l @ NL # r" using s2(2) unfolding emit_def by simp
  qed
  have "fill_buffer st = go (emit (l @ [NL]) (emit (l @ [NL]) st2))"
    unfolding 1 2 e [OF s2(1,2)] andthen_simps e2 ..
  then show ?thesis using s2(3) by (auto simp: emit_def)
qed

theorem indent_off_echoes_twice_witness:
  "\<exists>st'. fill_buffer ((trial (''/**INDENT** Error@3: Unbalanced parens */'' @ [NL] @ ''f();'' @ [NL]))\<lparr>inhibit_formatting := True\<rparr>) = go st' \<and>
     outp st' = ''f();'' @ [NL] @ ''f();'' @ [NL]"
proof -
  let ?m = "''/**INDENT** Error@3: Unbalanced parens */''" and ?l = "''f();''"
  let ?st = "(trial (?m @ [NL] @ ?l @ [NL]))\<lparr>inhibit_formatting := True\<rparr>"
  have 1: "bp_save ?st = None" "inhibit_formatting ?st" "infile ?st = ?m @ [NL] @ ?l @ [NL] @ []" "outp ?st = []"
    by (simp_all add: trial_def start_state_def Let_def)
  have 2: "NL \<notin> set ?m \<union> set ?l" "NUL \<notin> set ?m \<union> set ?l" "take 11 ?m = ''/**INDENT**''" by simp_all
  have 3: "ends_comment (?m @ [NL])" "\<not> ends_comment (?l @ [NL])" by code_simp+
  from indent_off_echoes_twice [OF 1(1,2) 2 3 1(3)] 1(4) show ?thesis by simp
qed

end
