(* ===== verification/Indent_Grammar.thy ===== *)
theory Indent_Grammar
  imports Indent_Parse Indent_Io
begin

text \<open>
  The token sequences of C statements, as \<open>indent\<close>'s lexer hands them to \<open>parse\<close>, and what the
  parser does with a whole statement: it comes back to the stack, the indentation and the
  \<open>switch\<close> level it started from, wherever the input breaks its lines.
\<close>

section \<open>Statements\<close>

text \<open>
  A token comes with whether it is the first of an output line.  The flag of \<open>stmt_toks\<close> says
  whether the statement ends in an \<open>if\<close> that an \<open>else\<close> could still join.  In a list, a block
  begins a line.
\<close>

type_synonym tok = "code \<times> bool"

inductive stmt_toks :: "bool \<Rightarrow> tok list \<Rightarrow> bool" and list_toks :: "tok list \<Rightarrow> bool" where
  Semi: "stmt_toks False [(semicolon, b)]"
| Block: "list_toks ts \<Longrightarrow> stmt_toks False ((lbrace, b) # ts @ [(rbrace, b')])"
| Decl: "stmt_toks p ts \<Longrightarrow> stmt_toks p ((decl, b) # ts)"
| If: "stmt_toks p ts \<Longrightarrow> stmt_toks True ((ifstmt, b) # ts)"
| IfElse: "stmt_toks False ts \<Longrightarrow> stmt_toks p us \<Longrightarrow>
    stmt_toks p ((ifstmt, b) # ts @ (elselit, b') # us)"
| While: "stmt_toks p ts \<Longrightarrow> stmt_toks p ((whilestmt, b) # ts)"
| For: "stmt_toks p ts \<Longrightarrow> stmt_toks p ((forstmt, b) # ts)"
| Switch: "stmt_toks p ts \<Longrightarrow> stmt_toks p ((swstmt, b) # ts)"
| DoWhile: "stmt_toks p ts \<Longrightarrow>
    stmt_toks False ((dolit, b) # ts @ [(whilestmt, b'), (semicolon, b'')])"
| Nil: "list_toks []"
| Cons: "stmt_toks p ts \<Longrightarrow> (fst (hd ts) = lbrace \<longrightarrow> snd (hd ts)) \<Longrightarrow> list_toks us \<Longrightarrow>
    list_toks (ts @ us)"

text \<open>A token on the machine: a new line brings the indentation up to date.\<close>

definition sync :: "bool \<Rightarrow> apst \<Rightarrow> apst" where
  "sync b s = (if b then s\<lparr>indl := ilf s\<rparr> else s)"

definition a_feed :: "apopt \<Rightarrow> tok \<Rightarrow> apst \<Rightarrow> apst" where
  "a_feed opts t s =
     a_parse (opts\<lparr>a_empty := snd t\<rparr>) (fst t) (sync (snd t) s)"

section \<open>The indentation is an input of reduce only\<close>

lemma a_step_indl: "a_step (s\<lparr>indl := j\<rparr>) = map_option (\<lambda>s'. s'\<lparr>indl := j\<rparr>) (a_step s)"
  by (cases s) (simp add: a_step_def split: list.splits)

lemma a_reduce_indl: "a_reduce (s\<lparr>indl := j\<rparr>) = (a_reduce s)\<lparr>indl := j\<rparr>"
proof (induction s rule: a_reduce.induct)
  case (1 s)
  then show ?case
    by (cases "a_step s") (simp_all add: a_reduce.simps [of s] a_reduce.simps [of "s\<lparr>indl := j\<rparr>"] a_step_indl)
qed

lemma a_set_top_indl: "a_set_top c (s\<lparr>indl := j\<rparr>) = (a_set_top c s)\<lparr>indl := j\<rparr>"
  by (cases s) (simp add: a_set_top_def split: list.splits)

lemma a_resolve_indl: "a_resolve (s\<lparr>indl := j\<rparr>) = (a_resolve s)\<lparr>indl := j\<rparr>"
proof (induction s rule: a_resolve.induct)
  case (1 s)
  then show ?case
    by (cases "top_code s = ifhead")
       (simp_all add: a_resolve.simps [of s] a_resolve.simps [of "s\<lparr>indl := j\<rparr>"] a_set_top_indl
          a_reduce_indl top_code_def)
qed

lemma a_resolve_top: "top_code (a_resolve s) \<noteq> ifhead"
proof (induction s rule: a_resolve.induct)
  case (1 s)
  then show ?case by (cases "top_code s = ifhead") (simp_all add: a_resolve.simps [of s])
qed

lemma a_resolve_done: "top_code s \<noteq> ifhead \<Longrightarrow> a_resolve s = s"
  by (simp add: a_resolve.simps [of s])

lemma a_resolve_indl_sel [simp]: "indl (a_resolve s) = indl s"
proof -
  have "a_resolve (s\<lparr>indl := indl s\<rparr>) = (a_resolve s)\<lparr>indl := indl s\<rparr>" by (rule a_resolve_indl)
  then have "a_resolve s = (a_resolve s)\<lparr>indl := indl s\<rparr>" by simp
  then show ?thesis by (metis apst.select_convs(3) apst.surjective apst.update_convs(3))
qed

text \<open>A token other than \<open>else\<close> sees the resolved stack.\<close>

lemma a_feed_resolve:
  assumes "fst t \<noteq> elselit" "ilf (a_resolve s) = ilf s"
  shows "a_feed opts t s = a_feed opts t (a_resolve s)"
proof -
  have "a_resolve (a_resolve s) = a_resolve s" by (simp add: a_resolve_done a_resolve_top)
  then show ?thesis using assms
    by (simp add: a_feed_def a_parse_def sync_def a_resolve_indl)
qed

section \<open>Where a statement may stand\<close>

definition heads :: "code set" where
  "heads = {ifstmt, elsehead, forstmt, whilestmt, dolit, swstmt, decl}"

definition in_list :: "pentry list \<Rightarrow> bool" where
  "in_list K = (case K of [] \<Rightarrow> False | (c, _, _) # _ \<Rightarrow> c = stmt \<or> c = stmtl)"

definition top_il :: "pentry list \<Rightarrow> int" where
  "top_il K = fst (snd (hd K))"

fun hole :: "pentry list \<Rightarrow> bool" where
  "hole [] = False"
| "hole ((c, l, x) # r) =
     (c = stmtl \<or> c = stmt \<and> (r = [] \<or> fst (hd r) = lbrace) \<or>
      c \<in> heads \<and> hole r \<and> (in_list r \<longrightarrow> l = top_il r))"

text \<open>The state a complete statement above \<open>K\<close> leaves.\<close>

definition fin :: "pentry list \<Rightarrow> int \<Rightarrow> rat \<Rightarrow> apst" where
  "fin K j c = a_reduce \<lparr>stk = (stmt, 0, 0) # K, ilf = a_enclosing K, indl = j, cind = c\<rparr>"

lemma in_list_enclosing: "in_list K \<Longrightarrow> a_enclosing K = top_il K"
  by (auto simp: in_list_def top_il_def split: list.splits)

lemma in_list_simps [simp]:
  "in_list ((c, l, x) # r) = (c = stmt \<or> c = stmtl)" "top_il ((c, l, x) # r) = l"
  by (simp_all add: in_list_def top_il_def)

lemma hole_cases:
  assumes "hole K"
  obtains (lst) c l x r where "K = (c, l, x) # r" "c = stmt \<or> c = stmtl"
    | (hd) c l x r where "K = (c, l, x) # r" "c \<in> heads" "hole r" "in_list r \<longrightarrow> l = a_enclosing r"
  using assms in_list_enclosing by (cases K rule: hole.cases) (auto simp: heads_def)

lemma a_reduce_none: "a_step s = None \<Longrightarrow> a_reduce s = s"
  by (simp add: a_reduce.simps [of s])

lemma a_reduce_some: "a_step s = Some s' \<Longrightarrow> a_reduce s = a_reduce s'"
  by (simp add: a_reduce.simps [of s])

lemma a_step_top: "c \<noteq> stmt \<Longrightarrow> c \<noteq> whilestmt \<Longrightarrow> a_step \<lparr>stk = (c, l, x) # r, ilf = f, indl = j, cind = y\<rparr> = None"
  by (auto simp: a_step_def split: list.splits)

lemma a_reduce_top:
  "c \<noteq> stmt \<Longrightarrow> c \<noteq> whilestmt \<Longrightarrow>
     a_reduce \<lparr>stk = (c, l, x) # r, ilf = f, indl = j, cind = y\<rparr> = \<lparr>stk = (c, l, x) # r, ilf = f, indl = j, cind = y\<rparr>"
  by (intro a_reduce_none a_step_top)

text \<open>The level of the statement does not matter, and the one that follows only in a list.\<close>

lemma fin_norm:
  assumes "hole K" "in_list K \<longrightarrow> f = a_enclosing K"
  shows "a_reduce \<lparr>stk = (stmt, l, 0) # K, ilf = f, indl = j, cind = c\<rparr> = fin K j c"
  using assms(1)
proof (cases rule: hole_cases)
  case (lst d m x r)
  then show ?thesis using assms(2)
    by (auto simp: fin_def a_reduce_some [of "\<lparr>stk = (stmt, _, 0) # _, ilf = _, indl = _, cind = _\<rparr>"] a_step_def)
next
  case (hd d m x r)
  then show ?thesis
    by (auto simp: fin_def heads_def a_reduce_some [of "\<lparr>stk = (stmt, _, 0) # _, ilf = _, indl = _, cind = _\<rparr>"] a_step_def)
qed

lemma fin_list: "c = stmt \<or> c = stmtl \<Longrightarrow> fin ((c, l, x) # r) j y = \<lparr>stk = (stmtl, l, 0) # r, ilf = l, indl = j, cind = y\<rparr>"
  by (auto simp: fin_def a_reduce_some [of "\<lparr>stk = (stmt, _, 0) # _, ilf = _, indl = _, cind = _\<rparr>"] a_step_def
      intro!: a_reduce_top)

lemma fin_head:
  assumes "hole K" "in_list K \<longrightarrow> l = a_enclosing K"
  shows "c \<in> {elsehead, forstmt, whilestmt, decl} \<Longrightarrow> fin ((c, l, x) # K) j y = fin K j y"
    and "fin ((swstmt, l, x) # K) j y = fin K j x"
    and "fin ((dolit, l, x) # K) j y = \<lparr>stk = (dohead, l, 0) # K, ilf = l, indl = j, cind = y\<rparr>"
    and "fin ((ifstmt, l, x) # K) j y = \<lparr>stk = (ifhead, l, 0) # K, ilf = a_enclosing K, indl = j, cind = y\<rparr>"
proof -
  have s: "a_reduce \<lparr>stk = (stmt, 0, 0) # (c, l, x) # K, ilf = f, indl = j, cind = y\<rparr> =
     a_reduce (the (a_step \<lparr>stk = (stmt, 0, 0) # (c, l, x) # K, ilf = f, indl = j, cind = y\<rparr>))"
    if "c \<in> heads" for c f
    using that by (intro a_reduce_some) (auto simp: a_step_def heads_def)
  show "fin ((c, l, x) # K) j y = fin K j y" if "c \<in> {elsehead, forstmt, whilestmt, decl}"
    using that fin_norm [OF assms, of l j y] s [of c] by (auto simp: fin_def heads_def a_step_def)
  show "fin ((swstmt, l, x) # K) j y = fin K j x"
    using fin_norm [OF assms, of l j x] s [of swstmt] by (auto simp: fin_def heads_def a_step_def)
  show "fin ((dolit, l, x) # K) j y = \<lparr>stk = (dohead, l, 0) # K, ilf = l, indl = j, cind = y\<rparr>"
    using s [of dolit] by (simp add: fin_def heads_def a_step_def a_reduce_top)
  show "fin ((ifstmt, l, x) # K) j y = \<lparr>stk = (ifhead, l, 0) # K, ilf = a_enclosing K, indl = j, cind = y\<rparr>"
    using s [of ifstmt] by (simp add: fin_def heads_def a_step_def a_reduce_top)
qed

lemma indl_fin [simp]: "indl (fin K j c) = j"
proof -
  let ?s = "\<lparr>stk = (stmt, 0, 0) # K, ilf = a_enclosing K, indl = j, cind = c\<rparr>"
  have "a_reduce (?s\<lparr>indl := j\<rparr>) = (a_reduce ?s)\<lparr>indl := j\<rparr>" by (rule a_reduce_indl)
  then show ?thesis unfolding fin_def by (metis apst.select_convs(3) apst.surjective apst.update_convs(3))
qed

section \<open>One token\<close>

definition ready :: "apst \<Rightarrow> bool" where
  "ready s \<longleftrightarrow> hole (stk s) \<and> (in_list (stk s) \<longrightarrow> ilf s = a_enclosing (stk s))"

lemma hole_top: "hole (stk s) \<Longrightarrow> top_code s \<noteq> ifhead \<and> top_code s \<noteq> dohead \<and> stk s \<noteq> []"
  by (cases "stk s" rule: hole.cases) (auto simp: top_code_def heads_def)

lemma ready_resolve: "ready s \<Longrightarrow> a_resolve s = s"
  using hole_top by (auto simp: ready_def intro: a_resolve_done)

lemma hole_reduce: "hole (stk s) \<Longrightarrow> a_reduce s = s"
  by (rule a_reduce_none, cases "stk s" rule: hole.cases)
     (auto simp: a_step_def heads_def split: list.splits)

text \<open>Pushing a head over a place for a statement gives another.\<close>

lemma ready_head:
  assumes "hole K" "in_list K \<longrightarrow> l = a_enclosing K" "c \<in> heads"
  shows "ready \<lparr>stk = (c, l, x) # K, ilf = f, indl = j, cind = y\<rparr>"
  using assms in_list_enclosing [of K] by (auto simp: ready_def heads_def)

lemma sync_simps [simp]:
  "stk (sync b s) = stk s" "ilf (sync b s) = ilf s" "cind (sync b s) = cind s"
  "top_code (sync b s) = top_code s" "indl (sync True s) = ilf s"
  by (simp_all add: sync_def top_code_def)

lemma ready_sync: "ready s \<Longrightarrow> ready (sync b s)"
  by (simp add: ready_def)

lemma a_feed_ready:
  assumes "ready s" "t = (tk, b)"
  shows "a_feed opts t s = a_reduce (a_shift (opts\<lparr>a_empty := b\<rparr>) tk (sync b s))"
  using assms ready_resolve [OF ready_sync [OF assms(1)], of b] by (auto simp: a_feed_def a_parse_def split: if_splits)

lemma a_shift_for: "a_shift opts forstmt s = \<lparr>stk = (forstmt, ilf s, 0) # stk s, ilf = ilf s + 1, indl = ilf s, cind = cind s\<rparr>"
  by (simp add: a_shift_def a_push_def)

lemma a_shift_do: "a_shift opts dolit s = \<lparr>stk = (dolit, ilf s, 0) # stk s, ilf = ilf s + 1, indl = ilf s, cind = cind s\<rparr>"
  by (simp add: a_shift_def a_push_def)

lemma a_shift_while:
  "top_code s \<noteq> dohead \<Longrightarrow>
     a_shift opts whilestmt s = \<lparr>stk = (whilestmt, ilf s, 0) # stk s, ilf = ilf s + 1, indl = indl s, cind = cind s\<rparr>"
  by (simp add: a_shift_def a_push_def)

lemma a_shift_decl:
  "top_code s \<noteq> decl \<Longrightarrow>
     \<exists>f j. a_shift opts decl s = \<lparr>stk = (decl, ilf s, 0) # stk s, ilf = f, indl = j, cind = cind s\<rparr>"
  by (cases s) (simp add: a_shift_def a_push_def Let_def top_code_def)

lemma a_shift_switch:
  "\<exists>f y. a_shift opts swstmt s = \<lparr>stk = (swstmt, ilf s, cind s) # stk s, ilf = f, indl = indl s, cind = y\<rparr>"
  by (cases s) (simp add: a_shift_def)

lemma a_shift_if:
  "stk s = (elsehead, l, x) # K \<Longrightarrow> a_else_if opts \<Longrightarrow>
     a_shift opts ifstmt s = \<lparr>stk = (ifstmt, l, 0) # K, ilf = l + 1, indl = l, cind = cind s\<rparr>"
  "\<not> (top_code s = elsehead \<and> a_else_if opts) \<Longrightarrow>
     a_shift opts ifstmt s = \<lparr>stk = (ifstmt, ilf s, 0) # stk s, ilf = ilf s + 1, indl = ilf s, cind = cind s\<rparr>"
  by (simp add: a_shift_def a_push_def Let_def top_code_def) (auto simp: a_shift_def a_push_def Let_def)

lemma feed_head:
  assumes "ready s" "c \<in> {forstmt, whilestmt, dolit} \<or> c = decl \<and> top_code s \<noteq> decl"
  shows "\<exists>f j. a_feed opts (c, b) s = \<lparr>stk = (c, ilf s, 0) # stk s, ilf = f, indl = j, cind = cind s\<rparr>"
proof -
  let ?s = "sync b s"
  have h: "hole (stk ?s)" using assms(1) by (simp add: ready_def)
  have "\<exists>f j. a_shift (opts\<lparr>a_empty := b\<rparr>) c ?s = \<lparr>stk = (c, ilf s, 0) # stk s, ilf = f, indl = j, cind = cind s\<rparr>"
    using assms(2) hole_top [OF h] a_shift_decl [of ?s "opts\<lparr>a_empty := b\<rparr>"]
    by (elim disjE insertE conjE emptyE) (simp_all add: a_shift_for a_shift_do a_shift_while)
  then obtain f j where fj: "a_shift (opts\<lparr>a_empty := b\<rparr>) c ?s = \<lparr>stk = (c, ilf s, 0) # stk s, ilf = f, indl = j, cind = cind s\<rparr>"
    by blast
  have "ready \<lparr>stk = (c, ilf s, 0) # stk s, ilf = f, indl = j, cind = cind s\<rparr>"
    using assms by (intro ready_head) (auto simp: ready_def heads_def)
  then have "hole (stk \<lparr>stk = (c, ilf s, 0) # stk s, ilf = f, indl = j, cind = cind s\<rparr>)" by (simp add: ready_def)
  from hole_reduce [OF this] show ?thesis using fj by (simp add: a_feed_ready [OF assms(1) refl])
qed

lemma feed_decl:
  assumes "ready s" "top_code s = decl"
  shows "a_feed opts (decl, b) s = (sync b s)"
  using assms hole_reduce [of "sync b s"]
  by (simp add: a_feed_ready [OF assms(1) refl] a_shift_def ready_def)

lemma feed_switch:
  assumes "ready s"
  shows "\<exists>f j y. a_feed opts (swstmt, b) s = \<lparr>stk = (swstmt, ilf s, cind s) # stk s, ilf = f, indl = j, cind = y\<rparr>"
proof -
  let ?s = "sync b s"
  have "\<exists>f j y. a_shift (opts\<lparr>a_empty := b\<rparr>) swstmt ?s = \<lparr>stk = (swstmt, ilf s, cind s) # stk s, ilf = f, indl = j, cind = y\<rparr>"
    using a_shift_switch [of "opts\<lparr>a_empty := b\<rparr>" ?s] by auto
  then obtain f j y where fj: "a_shift (opts\<lparr>a_empty := b\<rparr>) swstmt ?s =
      \<lparr>stk = (swstmt, ilf s, cind s) # stk s, ilf = f, indl = j, cind = y\<rparr>" by blast
  show ?thesis using fj
    by (auto simp: a_feed_ready [OF assms refl] a_reduce_top)
qed

lemma feed_if:
  assumes "ready s"
  shows "\<exists>K l f j. a_feed opts (ifstmt, b) s = \<lparr>stk = (ifstmt, l, 0) # K, ilf = f, indl = j, cind = cind s\<rparr> \<and>
      hole K \<and> (in_list K \<longrightarrow> l = a_enclosing K) \<and> a_enclosing K = a_enclosing (stk s) \<and>
      (\<forall>i c. fin K i c = fin (stk s) i c)"
proof -
  let ?s = "sync b s"
  have h: "hole (stk s)" "in_list (stk s) \<longrightarrow> ilf s = a_enclosing (stk s)" using assms by (simp_all add: ready_def)
  show ?thesis
  proof (cases "top_code s = elsehead \<and> a_else_if opts")
    case True
    then obtain l x K where K: "stk s = (elsehead, l, x) # K" by (auto simp: top_code_def split: list.splits)
    with h have k: "hole K" "in_list K \<longrightarrow> l = a_enclosing K"
      by (auto simp: heads_def in_list_enclosing)
    have "a_feed opts (ifstmt, b) s = \<lparr>stk = (ifstmt, l, 0) # K, ilf = l + 1, indl = l, cind = cind s\<rparr>"
      using a_shift_if(1) [of ?s l x K "opts\<lparr>a_empty := b\<rparr>"] True K
      by (simp add: a_feed_ready [OF assms refl] a_reduce_top)
    with K k fin_head(1) [OF k, of elsehead] show ?thesis by auto
  next
    case False
    have "a_feed opts (ifstmt, b) s = \<lparr>stk = (ifstmt, ilf s, 0) # stk s, ilf = ilf s + 1, indl = ilf s, cind = cind s\<rparr>"
      using a_shift_if(2) [of ?s "opts\<lparr>a_empty := b\<rparr>"] False
      by (simp add: a_feed_ready [OF assms refl] a_reduce_top)
    with h show ?thesis by auto
  qed
qed

lemma a_shift_lbrace:
  "\<exists>f j. a_shift opts lbrace s =
     \<lparr>stk = (stmt, f, 0) # (lbrace, j, 0) # stk s, ilf = f, indl = j, cind = cind s\<rparr> \<and>
     (in_list (stk s) \<longrightarrow> j = indl s)"
  by (cases s) (auto simp: a_shift_def a_push_def Let_def top_code_def in_list_def split: list.splits)

lemma feed_lbrace:
  assumes "ready s" "in_list (stk s) \<longrightarrow> b"
  shows "\<exists>f j. a_feed opts (lbrace, b) s =
     \<lparr>stk = (stmt, f, 0) # (lbrace, j, 0) # stk s, ilf = f, indl = j, cind = cind s\<rparr> \<and>
     (in_list (stk s) \<longrightarrow> j = a_enclosing (stk s))"
proof -
  obtain f j where fj: "a_shift (opts\<lparr>a_empty := b\<rparr>) lbrace (sync b s) =
     \<lparr>stk = (stmt, f, 0) # (lbrace, j, 0) # stk s, ilf = f, indl = j, cind = cind s\<rparr>"
     "in_list (stk s) \<longrightarrow> j = indl (sync b s)"
    using a_shift_lbrace [of "opts\<lparr>a_empty := b\<rparr>" "sync b s"] by auto
  have "a_reduce \<lparr>stk = (stmt, f, 0) # (lbrace, j, 0) # stk s, ilf = f, indl = j, cind = cind s\<rparr> =
      \<lparr>stk = (stmt, f, 0) # (lbrace, j, 0) # stk s, ilf = f, indl = j, cind = cind s\<rparr>"
    by (rule hole_reduce) simp
  with fj assms show ?thesis by (auto simp: a_feed_ready [OF assms(1) refl] ready_def)
qed

section \<open>A statement, a list of statements\<close>

definition a_run :: "apopt \<Rightarrow> tok list \<Rightarrow> apst \<Rightarrow> apst" where
  "a_run opts = fold (a_feed opts)"

lemma a_run_simps [simp]:
  "a_run opts [] s = s" "a_run opts (t # ts) s = a_run opts ts (a_feed opts t s)"
  "a_run opts (ts @ us) s = a_run opts us (a_run opts ts s)"
  by (simp_all add: a_run_def)

definition post :: "bool \<Rightarrow> pentry list \<Rightarrow> rat \<Rightarrow> apst \<Rightarrow> bool" where
  "post p K y s \<longleftrightarrow>
     (if p then a_resolve s = a_resolve (fin K (indl s) y) \<and> ilf s = a_enclosing K
      else s = fin K (indl s) y)"

lemma post_head:
  assumes "hole K" "in_list K \<longrightarrow> l = a_enclosing K" "post p ((c, l, x) # K) y s"
  shows "c \<in> {elsehead, forstmt, whilestmt, decl} \<Longrightarrow> post p K y s"
    and "c = swstmt \<Longrightarrow> post p K x s"
    and "c = ifstmt \<Longrightarrow> post True K y s"
proof -
  note f = fin_head [OF assms(1,2)]
  show "post p K y s" if "c \<in> {elsehead, forstmt, whilestmt, decl}"
    using f(1) [OF that] that assms(3) unfolding post_def by (cases p) auto
  show "post p K x s" if "c = swstmt" using f(2) that assms(3) unfolding post_def by (cases p) auto
  show "post True K y s" if "c = ifstmt"
  proof -
    let ?s = "\<lparr>stk = (ifhead, l, 0) # K, ilf = a_enclosing K, indl = indl s, cind = y\<rparr>"
    have "a_resolve ?s = a_resolve (fin K (indl s) y)"
      using fin_norm [OF assms(1), of "a_enclosing K" l "indl s" y]
      by (simp add: a_resolve.simps [of ?s] top_code_def a_set_top_def)
    moreover have "s = ?s \<or> a_resolve s = a_resolve ?s \<and> ilf s = a_enclosing K"
      using f(4) [of x "indl s" y] that assms(3) unfolding post_def by (cases p) auto
    then have "a_resolve s = a_resolve ?s \<and> ilf s = a_enclosing K"
      by (metis apst.select_convs(2))
    ultimately show ?thesis by (simp add: post_def)
  qed
qed

lemma post_resolve: "post p K y s \<Longrightarrow> a_resolve s = a_resolve (fin K (indl s) y)"
  by (auto simp: post_def split: if_splits)

text \<open>In a list of statements of level \<open>L\<close>, up to \<open>if\<close>s that no \<open>else\<close> has joined.\<close>

definition at_list :: "int \<Rightarrow> pentry list \<Rightarrow> rat \<Rightarrow> apst \<Rightarrow> bool" where
  "at_list L r y s \<longleftrightarrow>
     (\<exists>c x. stk (a_resolve s) = (c, L, x) # r \<and> (c = stmtl \<or> c = stmt \<and> (r = [] \<or> fst (hd r) = lbrace))) \<and>
     ilf s = L \<and> ilf (a_resolve s) = L \<and> cind (a_resolve s) = y"

lemma at_list_ready: "at_list L r y s \<Longrightarrow> ready (a_resolve s)"
  by (auto simp: at_list_def ready_def)

lemma post_at_list:
  assumes "post p ((c, L, x) # r) y s" "c = stmt \<or> c = stmtl"
  shows "at_list L r y s"
proof -
  have f: "fin ((c, L, x) # r) (indl s) y = \<lparr>stk = (stmtl, L, 0) # r, ilf = L, indl = indl s, cind = y\<rparr>"
    by (rule fin_list [OF assms(2)])
  then have "a_resolve s = \<lparr>stk = (stmtl, L, 0) # r, ilf = L, indl = indl s, cind = y\<rparr>"
    using post_resolve [OF assms(1)] by (simp add: a_resolve_done top_code_def)
  moreover have "ilf s = L" using assms f unfolding post_def by (cases p) (auto, (metis apst.select_convs(2))+)
  ultimately show ?thesis by (simp add: at_list_def)
qed

lemma a_shift_rbrace:
  "stk s = e # (lbrace, j, x) # K \<Longrightarrow>
     a_shift opts rbrace s = \<lparr>stk = (stmt, j, 0) # K, ilf = j, indl = j, cind = cind s\<rparr>"
  by (simp add: a_shift_def)

lemma feed_rbrace:
  assumes "at_list L ((lbrace, j, x) # K) y s" "hole K" "in_list K \<longrightarrow> j = a_enclosing K"
  shows "a_feed opts (rbrace, b) s = fin K j y"
proof -
  have r: "ready (a_resolve s)" by (rule at_list_ready [OF assms(1)])
  have "a_feed opts (rbrace, b) s = a_feed opts (rbrace, b) (a_resolve s)"
    using assms(1) by (intro a_feed_resolve) (simp_all add: at_list_def)
  also have "\<dots> = a_reduce (a_shift (opts\<lparr>a_empty := b\<rparr>) rbrace (sync b (a_resolve s)))"
    by (rule a_feed_ready [OF r refl])
  also have "a_shift (opts\<lparr>a_empty := b\<rparr>) rbrace (sync b (a_resolve s)) = \<lparr>stk = (stmt, j, 0) # K, ilf = j, indl = j, cind = y\<rparr>"
    using assms(1) by (auto simp: a_shift_rbrace at_list_def)
  also have "a_reduce \<dots> = fin K j y" by (rule fin_norm [OF assms(2,3)])
  finally show ?thesis .
qed

definition stmt_ok :: "apopt \<Rightarrow> bool \<Rightarrow> tok list \<Rightarrow> bool" where
  "stmt_ok opts p ts \<longleftrightarrow>
     (\<forall>s. ready s \<longrightarrow> (in_list (stk s) \<and> fst (hd ts) = lbrace \<longrightarrow> snd (hd ts)) \<longrightarrow>
        post p (stk s) (cind s) (a_run opts ts s))"

definition list_ok :: "apopt \<Rightarrow> tok list \<Rightarrow> bool" where
  "list_ok opts ts \<longleftrightarrow> (\<forall>s L r y. at_list L r y s \<longrightarrow> at_list L r y (a_run opts ts s))"

lemma stmt_first: "stmt_toks p ts \<Longrightarrow> ts \<noteq> [] \<and> fst (hd ts) \<noteq> elselit"
  by (erule stmt_toks.cases) auto

text \<open>A statement whose first token pushes a head.\<close>

lemma stmt_ok_head:
  assumes "stmt_ok opts p ts"
    "a_feed opts t s = \<lparr>stk = (c, l, x) # K, ilf = f, indl = j, cind = y\<rparr>" "c \<in> heads"
    "hole K" "in_list K \<longrightarrow> l = a_enclosing K"
  shows "post p ((c, l, x) # K) y (a_run opts (t # ts) s)"
proof -
  have "ready (a_feed opts t s)" unfolding assms(2) by (rule ready_head [OF assms(4,5,3)])
  moreover have "\<not> in_list (stk (a_feed opts t s))" using assms(3) by (auto simp: assms(2) heads_def)
  ultimately show ?thesis using assms(1,2) by (auto simp: stmt_ok_def)
qed

lemma stmt_ok_simple_head:
  assumes "stmt_ok opts p ts" "c \<in> {forstmt, whilestmt}"
  shows "stmt_ok opts p ((c, b) # ts)"
  unfolding stmt_ok_def
proof (intro allI impI)
  fix s assume r: "ready s"
  then have h: "hole (stk s)" "in_list (stk s) \<longrightarrow> ilf s = a_enclosing (stk s)" by (simp_all add: ready_def)
  obtain f j where "a_feed opts (c, b) s = \<lparr>stk = (c, ilf s, 0) # stk s, ilf = f, indl = j, cind = cind s\<rparr>"
    using feed_head [OF r, of c opts b] assms(2) by auto
  from post_head(1) [OF h stmt_ok_head [OF assms(1) this _ h]] assms(2)
  show "post p (stk s) (cind s) (a_run opts ((c, b) # ts) s)" by (auto simp: heads_def)
qed

lemma stmt_ok_decl:
  assumes "stmt_ok opts p ts"
  shows "stmt_ok opts p ((decl, b) # ts)"
  unfolding stmt_ok_def
proof (intro allI impI)
  fix s assume r: "ready s"
  then have h: "hole (stk s)" "in_list (stk s) \<longrightarrow> ilf s = a_enclosing (stk s)" by (simp_all add: ready_def)
  show "post p (stk s) (cind s) (a_run opts ((decl, b) # ts) s)"
  proof (cases "top_code s = decl")
    case True
    then have "\<not> in_list (stk s)" by (auto simp: top_code_def in_list_def split: list.splits)
    with assms ready_sync [OF r, of b] have "post p (stk (sync b s)) (cind (sync b s)) (a_run opts ts (sync b s))"
      unfolding stmt_ok_def by (metis sync_simps(1))
    then show ?thesis by (simp add: feed_decl [OF r True])
  next
    case False
    then obtain f j where "a_feed opts (decl, b) s = \<lparr>stk = (decl, ilf s, 0) # stk s, ilf = f, indl = j, cind = cind s\<rparr>"
      using feed_head [OF r, of decl opts b] by auto
    from post_head(1) [OF h stmt_ok_head [OF assms(1) this _ h]] show ?thesis by (auto simp: heads_def)
  qed
qed

lemma stmt_ok_switch:
  assumes "stmt_ok opts p ts"
  shows "stmt_ok opts p ((swstmt, b) # ts)"
  unfolding stmt_ok_def
proof (intro allI impI)
  fix s assume r: "ready s"
  then have h: "hole (stk s)" "in_list (stk s) \<longrightarrow> ilf s = a_enclosing (stk s)" by (simp_all add: ready_def)
  obtain f j y where "a_feed opts (swstmt, b) s = \<lparr>stk = (swstmt, ilf s, cind s) # stk s, ilf = f, indl = j, cind = y\<rparr>"
    using feed_switch [OF r] by blast
  from post_head(2) [OF h stmt_ok_head [OF assms(1) this _ h]]
  show "post p (stk s) (cind s) (a_run opts ((swstmt, b) # ts) s)" by (auto simp: heads_def)
qed

lemma post_fin: "post p K y s \<Longrightarrow> (\<forall>i c. fin K i c = fin K' i c) \<Longrightarrow> a_enclosing K = a_enclosing K' \<Longrightarrow> post p K' y s"
  unfolding post_def by (cases p) auto

lemma stmt_ok_if:
  assumes "stmt_ok opts p ts"
  shows "stmt_ok opts True ((ifstmt, b) # ts)"
  unfolding stmt_ok_def
proof (intro allI impI)
  fix s assume r: "ready s"
  obtain K l f j where k: "a_feed opts (ifstmt, b) s = \<lparr>stk = (ifstmt, l, 0) # K, ilf = f, indl = j, cind = cind s\<rparr>"
    "hole K" "in_list K \<longrightarrow> l = a_enclosing K" "a_enclosing K = a_enclosing (stk s)"
    "\<forall>i c. fin K i c = fin (stk s) i c" using feed_if [OF r] by blast
  from post_head(3) [OF k(2,3) stmt_ok_head [OF assms(1) k(1) _ k(2,3)]]
  have "post True K (cind s) (a_run opts ((ifstmt, b) # ts) s)" by (simp add: heads_def)
  then show "post True (stk s) (cind s) (a_run opts ((ifstmt, b) # ts) s)" by (rule post_fin [OF _ k(5,4)])
qed

lemma feed_else:
  "a_feed opts (elselit, b) \<lparr>stk = (ifhead, l, 0) # K, ilf = f, indl = j, cind = y\<rparr> =
     \<lparr>stk = (elsehead, l, 0) # K, ilf = l + 1, indl = l, cind = y\<rparr>"
  by (simp add: a_feed_def a_parse_def a_shift_def top_code_def sync_def a_set_top_def a_reduce_top)

lemma stmt_ok_ifelse:
  assumes "stmt_ok opts False ts" "stmt_ok opts p us"
  shows "stmt_ok opts p ((ifstmt, b) # ts @ (elselit, b') # us)"
  unfolding stmt_ok_def
proof (intro allI impI)
  fix s assume r: "ready s"
  obtain K l f j where k: "a_feed opts (ifstmt, b) s = \<lparr>stk = (ifstmt, l, 0) # K, ilf = f, indl = j, cind = cind s\<rparr>"
    "hole K" "in_list K \<longrightarrow> l = a_enclosing K" "a_enclosing K = a_enclosing (stk s)"
    "\<forall>i c. fin K i c = fin (stk s) i c" using feed_if [OF r] by blast
  let ?s1 = "a_run opts ((ifstmt, b) # ts) s"
  have "post False ((ifstmt, l, 0) # K) (cind s) ?s1"
    by (rule stmt_ok_head [OF assms(1) k(1) _ k(2,3)]) (simp add: heads_def)
  then have "?s1 = \<lparr>stk = (ifhead, l, 0) # K, ilf = a_enclosing K, indl = indl ?s1, cind = cind s\<rparr>"
    unfolding post_def fin_head(4) [OF k(2,3)] by simp
  with feed_else have "a_feed opts (elselit, b') ?s1 = \<lparr>stk = (elsehead, l, 0) # K, ilf = l + 1, indl = l, cind = cind s\<rparr>"
    by metis
  from post_head(1) [OF k(2,3) stmt_ok_head [OF assms(2) this _ k(2,3)]]
  have "post p K (cind s) (a_run opts ((elselit, b') # us) ?s1)" by (simp add: heads_def)
  then show "post p (stk s) (cind s) (a_run opts ((ifstmt, b) # ts @ (elselit, b') # us) s)"
    using post_fin [OF _ k(5,4)] by simp
qed

lemma feed_semicolon:
  assumes "ready s"
  shows "\<exists>j. a_feed opts (semicolon, b) s = fin (stk s) j (cind s)"
proof -
  have "a_shift (opts\<lparr>a_empty := b\<rparr>) semicolon (sync b s) =
     \<lparr>stk = (stmt, indl (sync b s), 0) # stk s, ilf = ilf s, indl = indl (sync b s), cind = cind s\<rparr>"
    by (simp add: a_shift_def a_push_def sync_def)
  then show ?thesis using assms fin_norm
    by (auto simp: a_feed_ready [OF assms refl] ready_def)
qed

lemma stmt_ok_semi: "stmt_ok opts False [(semicolon, b)]"
  unfolding stmt_ok_def
proof (intro allI impI)
  fix s assume "ready s"
  from feed_semicolon [OF this, of opts b] show "post False (stk s) (cind s) (a_run opts [(semicolon, b)] s)"
    by (auto simp: post_def)
qed

lemma feed_do_while:
  assumes "hole K" "a_resolve s = \<lparr>stk = (dohead, l, 0) # K, ilf = l, indl = j, cind = y\<rparr>"
  shows "a_feed opts (whilestmt, b) s = \<lparr>stk = K, ilf = l, indl = l, cind = y\<rparr>"
proof -
  let ?s = "\<lparr>stk = (whilestmt, l, 0) # (dohead, l, 0) # K, ilf = l, indl = l, cind = y\<rparr>"
  have "a_resolve (sync b s) = \<lparr>stk = (dohead, l, 0) # K, ilf = l, indl = if b then ilf s else j, cind = y\<rparr>"
    by (simp add: sync_def a_resolve_indl assms(2))
  then have "a_feed opts (whilestmt, b) s = a_reduce ?s"
    by (simp add: a_feed_def a_parse_def a_shift_def a_push_def top_code_def)
  also have "\<dots> = a_reduce \<lparr>stk = K, ilf = l, indl = l, cind = y\<rparr>"
    by (rule a_reduce_some) (simp add: a_step_def)
  also have "\<dots> = \<lparr>stk = K, ilf = l, indl = l, cind = y\<rparr>" by (rule hole_reduce) (simp add: assms(1))
  finally show ?thesis .
qed

lemma stmt_ok_do:
  assumes "stmt_ok opts p ts"
  shows "stmt_ok opts False ((dolit, b) # ts @ [(whilestmt, b'), (semicolon, b'')])"
  unfolding stmt_ok_def
proof (intro allI impI)
  fix s assume r: "ready s"
  then have h: "hole (stk s)" "in_list (stk s) \<longrightarrow> ilf s = a_enclosing (stk s)" by (simp_all add: ready_def)
  let ?s1 = "a_run opts ((dolit, b) # ts) s"
  obtain f j where "a_feed opts (dolit, b) s = \<lparr>stk = (dolit, ilf s, 0) # stk s, ilf = f, indl = j, cind = cind s\<rparr>"
    using feed_head [OF r, of dolit opts b] by auto
  from post_resolve [OF stmt_ok_head [OF assms(1) this _ h]]
  have "a_resolve ?s1 = \<lparr>stk = (dohead, ilf s, 0) # stk s, ilf = ilf s, indl = indl ?s1, cind = cind s\<rparr>"
    by (simp add: heads_def fin_head(3) [OF h] a_resolve_done top_code_def)
  from feed_do_while [OF h(1) this]
  have w: "a_feed opts (whilestmt, b') ?s1 = \<lparr>stk = stk s, ilf = ilf s, indl = ilf s, cind = cind s\<rparr>" .
  have "ready \<lparr>stk = stk s, ilf = ilf s, indl = ilf s, cind = cind s\<rparr>" using r by (simp add: ready_def)
  from feed_semicolon [OF this, of opts b'']
  show "post False (stk s) (cind s) (a_run opts ((dolit, b) # ts @ [(whilestmt, b'), (semicolon, b'')]) s)"
    using w by (auto simp: post_def)
qed

lemma stmt_ok_block:
  assumes "list_ok opts ts"
  shows "stmt_ok opts False ((lbrace, b) # ts @ [(rbrace, b')])"
  unfolding stmt_ok_def
proof (intro allI impI)
  fix s assume r: "ready s" and b: "in_list (stk s) \<and> fst (hd ((lbrace, b) # ts @ [(rbrace, b')])) = lbrace \<longrightarrow>
    snd (hd ((lbrace, b) # ts @ [(rbrace, b')]))"
  have h: "hole (stk s)" using r by (simp add: ready_def)
  obtain f j where fj: "a_feed opts (lbrace, b) s =
     \<lparr>stk = (stmt, f, 0) # (lbrace, j, 0) # stk s, ilf = f, indl = j, cind = cind s\<rparr>"
     "in_list (stk s) \<longrightarrow> j = a_enclosing (stk s)" using feed_lbrace [OF r, of b opts] b by auto
  have "at_list f ((lbrace, j, 0) # stk s) (cind s) (a_feed opts (lbrace, b) s)"
    unfolding fj(1) by (simp add: at_list_def a_resolve_done top_code_def)
  with assms have "at_list f ((lbrace, j, 0) # stk s) (cind s) (a_run opts ((lbrace, b) # ts) s)"
    by (simp add: list_ok_def)
  from feed_rbrace [OF this h fj(2)]
  show "post False (stk s) (cind s) (a_run opts ((lbrace, b) # ts @ [(rbrace, b')]) s)"
    by (simp add: post_def)
qed

lemma list_ok_append:
  assumes "stmt_toks p ts" "stmt_ok opts p ts" "fst (hd ts) = lbrace \<longrightarrow> snd (hd ts)" "list_ok opts us"
  shows "list_ok opts (ts @ us)"
  unfolding list_ok_def
proof (intro allI impI)
  fix s L r y assume a: "at_list L r y s"
  then obtain c x where c: "stk (a_resolve s) = (c, L, x) # r" "c = stmt \<or> c = stmtl" "cind (a_resolve s) = y"
    "ilf (a_resolve s) = ilf s" by (auto simp: at_list_def)
  obtain t ts' where t: "ts = t # ts'" "fst t \<noteq> elselit" using stmt_first [OF assms(1)] by (cases ts) auto
  have "a_run opts ts s = a_run opts ts (a_resolve s)"
    using a_feed_resolve [OF t(2) c(4)] t(1) by simp
  moreover have "post p ((c, L, x) # r) y (a_run opts ts (a_resolve s))"
    using assms(2,3) at_list_ready [OF a] c(1,3) by (auto simp: stmt_ok_def)
  ultimately have "at_list L r y (a_run opts ts s)" using post_at_list c(2) by simp
  with assms(4) show "at_list L r y (a_run opts (ts @ us) s)" by (simp add: list_ok_def)
qed

lemma statements_ok:
  shows "stmt_toks p ts \<Longrightarrow> stmt_ok opts p ts" and "list_toks us \<Longrightarrow> list_ok opts us"
proof (induction rule: stmt_toks_list_toks.inducts)
  case (Cons p ts us)
  then show ?case by (intro list_ok_append)
qed (auto intro: stmt_ok_semi stmt_ok_block stmt_ok_decl stmt_ok_if stmt_ok_ifelse stmt_ok_simple_head
    stmt_ok_switch stmt_ok_do simp: list_ok_def)

section \<open>On the arrays\<close>

text \<open>
  What may happen between two calls of \<open>parse\<close>: the stack stays, a new line brings the
  indentation up to date and empties the code buffer, and without one the buffer has text.
\<close>

definition between :: "bool \<Rightarrow> ist \<Rightarrow> ist \<Rightarrow> bool" where
  "between nl st st1 \<longleftrightarrow>
     opt st1 = opt st \<and> abs_ps st1 = sync nl (abs_ps st) \<and> (held (codeb st1) = []) = nl"

inductive feeds :: "tok list \<Rightarrow> ist \<Rightarrow> ist \<Rightarrow> bool" where
  feeds_end: "feeds [] st st"
| feeds_token: "between nl st st1 \<Longrightarrow> parse tk st1 = Ret out st2 \<Longrightarrow> feeds ts st2 st' \<Longrightarrow> feeds ((tk, nl) # ts) st st'"

inductive_cases feeds_Nil: "feeds [] st st'"
inductive_cases feeds_Cons: "feeds (t # ts) st st'"

lemma stmt_tokens:
  shows "stmt_toks p ts \<Longrightarrow> list_all (\<lambda>t. parser_token (fst t)) ts"
    and "list_toks us \<Longrightarrow> list_all (\<lambda>t. parser_token (fst t)) us"
  by (induction rule: stmt_toks_list_toks.inducts) (auto simp: parser_token_def)

lemma abs_ps_parser_ok:
  assumes "abs_ps st1 = sync nl (abs_ps st)" "parser_ok st"
  shows "parser_ok st1"
proof -
  have s: "below (ps st1) (Suc (tos (ps st1))) = below (ps st) (Suc (tos (ps st)))"
    using arg_cong [OF assms(1), of stk] unfolding sync_simps by (simp add: abs_ps_def)
  from arg_cong [OF s, of length] have t: "tos (ps st1) = tos (ps st)" by simp
  have l: "last (below p (Suc n)) = entry p 0" for p n by (induction n) auto
  from arg_cong [OF s, of last] have "entry (ps st1) 0 = entry (ps st) 0" by (simp only: l)
  with t assms(2) show ?thesis by (simp add: parser_ok_def base_ok_def entry_def)
qed

lemma feeds_run:
  assumes "feeds ts st st'" "parser_ok st" "list_all (\<lambda>t. parser_token (fst t)) ts"
  shows "abs_ps st' = a_run (abs_opt st) ts (abs_ps st) \<and> parser_ok st'"
  using assms
proof (induction rule: feeds.induct)
  case (feeds_token nl st st1 tk out st2 ts st')
  have ok1: "parser_ok st1" using feeds_token.hyps(1) feeds_token.prems(1) abs_ps_parser_ok by (auto simp: between_def)
  have tk: "parser_token tk" using feeds_token.prems(2) by simp
  from parse_outcome [OF ok1 tk] feeds_token.hyps(2)
  have p: "abs_ps st2 = a_parse (abs_opt st1) tk (abs_ps st1)" "parser_ok st2" "same_rest st1 st2"
    by (auto split: if_splits)
  have o1: "abs_opt st1 = (abs_opt st)\<lparr>a_empty := nl\<rparr>"
    using feeds_token.hyps(1) by (simp add: between_def abs_opt_def)
  have o2: "a_run (abs_opt st2) ts = a_run (abs_opt st) ts"
  proof -
    have "a_feed (abs_opt st2) t = a_feed (abs_opt st) t" for t
      using feeds_token.hyps(1) p(3) by (simp add: a_feed_def abs_opt_def between_def same_rest_def fun_eq_iff)
    then have "a_feed (abs_opt st2) = a_feed (abs_opt st)" by (intro ext) simp
    then show ?thesis by (simp add: a_run_def)
  qed
  show ?case
    using feeds_token.IH [OF p(2)] feeds_token.prems(2) p(1) o1 o2 feeds_token.hyps(1) by (simp add: a_feed_def between_def)
qed simp

text \<open>In a list of statements of level \<open>i_l_follow\<close>, on the arrays.\<close>

definition in_stmts :: "ist \<Rightarrow> bool" where
  "in_stmts st \<longleftrightarrow> parser_ok st \<and>
     (let p = ps st; t = tos p
      in il p t = i_l_follow p \<and> (p_stack p t = stmtl \<or> p_stack p t = stmt \<and> (t = 0 \<or> p_stack p (t - 1) = lbrace)))"

lemma in_stmts_at_list:
  assumes "in_stmts st"
  shows "at_list (i_l_follow (ps st)) (below (ps st) (tos (ps st))) (case_ind st) (abs_ps st)"
proof -
  have n: "top_code (abs_ps st) \<noteq> ifhead" using assms by (auto simp: in_stmts_def Let_def)
  have "below (ps st) (tos (ps st)) = [] \<or> fst (hd (below (ps st) (tos (ps st)))) = lbrace"
    if "tos (ps st) = 0 \<or> p_stack (ps st) (tos (ps st) - 1) = lbrace"
    using that by (cases "tos (ps st)") (auto simp: entry_def)
  with assms show ?thesis
    unfolding at_list_def a_resolve_done [OF n] by (auto simp: in_stmts_def Let_def abs_ps_def entry_def)
qed

lemma dump_line_between:
  assumes "dump_line st = Some (Ret out st')"
  shows "between True st st'"
proof -
  obtain st1 where st1: "st' = dump_reset st1" "keeps st st1" using dump_line_ends [OF assms] by blast
  have "below (ps st') n = below (ps st) n" for n
    using st1 by (intro below_cong) (simp add: dump_reset_def keeps_def entry_def Let_def)
  with st1 show ?thesis
    by (simp add: between_def abs_ps_def entry_def sync_def dump_reset_def keeps_def cb_reset_def Let_def)
qed

section \<open>Properties\<close>

text \<open> C28: the parser implements a machine on an unbounded stack.  From a state with a list of statements at
  the bottom of the stack, every token of the parser has one of three outcomes, and which one is
  decided by the depth of the machine's stack: the machine's step, with all that the parser does
  not own left alone; the exit with \<open>Parser stack overflow\<close>; or, for an opening brace on a stack
  that has room for one entry, a write past the end of the arrays.\<close>

theorem parse_refines_machine:
  assumes "parser_ok st" "parser_token tk"
  shows "(if tk = lbrace \<and> length (stk (a_ready tk (abs_ps st))) = STACKSIZE - 1
          then \<exists>out. parse tk st = Undef out
          else if STACKSIZE \<le> length (stk (a_shift (abs_opt st) tk (a_ready tk (abs_ps st))))
          then \<exists>out err. parse tk st = Exit out (err @ ''Parser stack overflow'') 1
          else \<exists>st'. parse tk st = ret st' \<and> abs_ps st' = a_parse (abs_opt st) tk (abs_ps st) \<and>
                 parser_ok st' \<and> opt st' = opt st \<and> codeb st' = codeb st)"
  using parse_outcome [OF assms] unfolding same_rest_def .

text \<open>The state after the first \<open>parse(semicolon)\<close> of \<open>main\<close>.\<close>

definition ready_state :: ist where
  "ready_state =
     (trial [])\<lparr>ps := ps_start\<lparr>p_stack := (p_stack ps_start)(0 := stmtl)\<rparr>\<rparr>"

lemma ready_state_facts:
  "parser_ok ready_state" "in_stmts ready_state" "held (codeb ready_state) = []"
  "tos (ps ready_state) = 0" "i_l_follow (ps ready_state) = 0"
  "abs_ps ready_state = \<lparr>stk = [(stmtl, 0, 0)], ilf = 0, indl = 0, cind = 0\<rparr>"
  by (simp_all add: in_stmts_def parser_ok_def base_ok_def ready_state_def trial_def start_state_def STACKSIZE_def
      ps_start_def Let_def abs_ps_def entry_def cb_reset_def)

lemma ready_state_if:
  "a_ready ifstmt (abs_ps ready_state) = abs_ps ready_state"
  "a_shift opts ifstmt (abs_ps ready_state) = \<lparr>stk = [(ifstmt, 0, 0), (stmtl, 0, 0)], ilf = 1, indl = 0, cind = 0\<rparr>"
  "a_parse opts ifstmt (abs_ps ready_state) = \<lparr>stk = [(ifstmt, 0, 0), (stmtl, 0, 0)], ilf = 1, indl = 0, cind = 0\<rparr>"
proof -
  show r: "a_ready ifstmt (abs_ps ready_state) = abs_ps ready_state"
    unfolding a_ready_def by (simp add: a_resolve_done top_code_def ready_state_facts)
  show s: "a_shift opts ifstmt (abs_ps ready_state) =
      \<lparr>stk = [(ifstmt, 0, 0), (stmtl, 0, 0)], ilf = 1, indl = 0, cind = 0\<rparr>" for opts
    by (simp add: a_shift_def a_push_def top_code_def ready_state_facts)
  show "a_parse opts ifstmt (abs_ps ready_state) =
      \<lparr>stk = [(ifstmt, 0, 0), (stmtl, 0, 0)], ilf = 1, indl = 0, cind = 0\<rparr>"
    using r unfolding a_parse_def a_ready_def by (simp add: s a_reduce_top)
qed

theorem parse_refines_machine_witness:
  "\<exists>st'. parse ifstmt ready_state = ret st' \<and>
     abs_ps st' = \<lparr>stk = [(ifstmt, 0, 0), (stmtl, 0, 0)], ilf = 1, indl = 0, cind = 0\<rparr>"
  using parse_refines_machine [OF ready_state_facts(1), of ifstmt]
  by (auto simp: ready_state_if STACKSIZE_def parser_token_def)

text \<open> C29: a sequence of complete statements leaves the indentation where it was.  Whatever statements of C
  are fed to the parser in a list of statements, nested to any depth that fits and broken into
  lines in any way that starts a block of the list on a line of its own, the stack below is
  untouched, the level for the next line is the one before, and so is the level for case labels;
  an \<open>if\<close> whose \<open>else\<close> may still come is settled by the next token.\<close>

theorem statements_restore_level:
  assumes "feeds ts st st'" "list_toks ts" "in_stmts st"
  shows "i_l_follow (ps st') = i_l_follow (ps st) \<and>
    (\<exists>st''. resolve_ifs semicolon st' = Some st'' \<and> in_stmts st'' \<and> tos (ps st'') = tos (ps st) \<and>
      i_l_follow (ps st'') = i_l_follow (ps st) \<and> case_ind st'' = case_ind st \<and>
      below (ps st'') (tos (ps st)) = below (ps st) (tos (ps st)))"
proof -
  let ?L = "i_l_follow (ps st)" and ?r = "below (ps st) (tos (ps st))"
  have ok: "parser_ok st" using assms(3) by (simp add: in_stmts_def)
  from feeds_run [OF assms(1) ok stmt_tokens(2) [OF assms(2)]]
  have run: "abs_ps st' = a_run (abs_opt st) ts (abs_ps st)" and ok': "parser_ok st'" by auto
  have at: "at_list ?L ?r (case_ind st) (abs_ps st')"
    using statements_ok(2) [OF assms(2), of "abs_opt st"] in_stmts_at_list [OF assms(3)]
    by (simp add: run list_ok_def)
  obtain st'' where st'': "resolve_ifs semicolon st' = Some st''" "abs_ps st'' = a_resolve (abs_ps st')" "base_ok st''"
    using resolve_refines [of st' semicolon] ok' by (auto simp: parser_ok_def)
  from at obtain c x where c: "stk (abs_ps st'') = (c, ?L, x) # ?r" "c = stmtl \<or> c = stmt \<and> (?r = [] \<or> fst (hd ?r) = lbrace)"
    "ilf (abs_ps st'') = ?L" "cind (abs_ps st'') = case_ind st" "ilf (abs_ps st') = ?L"
    unfolding st''(2) by (auto simp: at_list_def)
  have t: "tos (ps st'') = tos (ps st)" using arg_cong [OF c(1), of length] by (simp add: abs_ps_def)
  have e: "entry (ps st'') (tos (ps st)) = (c, ?L, x)" "below (ps st'') (tos (ps st)) = ?r"
    using c(1) t by (simp_all add: abs_ps_def)
  have "tos (ps st) = 0 \<or> p_stack (ps st'') (tos (ps st) - 1) = lbrace" if "c = stmt"
    using that c(2) e(2) [symmetric] by (cases "tos (ps st)") (auto simp: entry_def)
  then have "in_stmts st''" using e(1) c st''(3) ok t by (auto simp: in_stmts_def parser_ok_def abs_ps_def entry_def Let_def)
  with st''(1) t e(2) c(3-5) show ?thesis by (simp add: abs_ps_sel abs_ps_def)
qed

lemma between_sync: "held (codeb st) = [] \<Longrightarrow> between True st (upd_ps (\<lambda>p. p\<lparr>ind_level := i_l_follow p\<rparr>) st)"
proof -
  have "below ((ps st)\<lparr>ind_level := i_l_follow (ps st)\<rparr>) n = below (ps st) n" for n
    by (rule below_cong) (simp add: entry_def)
  then show "held (codeb st) = [] \<Longrightarrow> ?thesis" by (simp add: between_def upd_ps_def abs_ps_def sync_def entry_def)
qed

lemma if_statement_feeds: "\<exists>st'. feeds [(ifstmt, True), (semicolon, True)] ready_state st'"
proof -
  have b: "between True ready_state ready_state"
    using between_sync [of ready_state] ready_state_facts by (simp add: between_def sync_def)
  obtain s1 where s1: "parse ifstmt ready_state = ret s1" "parser_ok s1" "same_rest ready_state s1"
    "abs_ps s1 = \<lparr>stk = [(ifstmt, 0, 0), (stmtl, 0, 0)], ilf = 1, indl = 0, cind = 0\<rparr>"
    using parse_outcome [OF ready_state_facts(1), of ifstmt]
    by (auto simp: ready_state_if STACKSIZE_def parser_token_def)
  define s2 where "s2 = upd_ps (\<lambda>p. p\<lparr>ind_level := i_l_follow p\<rparr>) s1"
  have s2: "between True s1 s2" using between_sync s1(3) ready_state_facts unfolding s2_def by (simp add: same_rest_def)
  then have ok: "parser_ok s2" using abs_ps_parser_ok s1(2) unfolding between_def by blast
  have a2: "abs_ps s2 = \<lparr>stk = [(ifstmt, 0, 0), (stmtl, 0, 0)], ilf = 1, indl = 1, cind = 0\<rparr>"
    using s2 s1(4) by (simp add: between_def sync_def)
  have r: "a_ready semicolon (abs_ps s2) = abs_ps s2" unfolding a_ready_def by (simp add: a_resolve_done top_code_def a2)
  have "length (stk (a_shift (abs_opt s2) semicolon (abs_ps s2))) = 3"
    by (simp add: a_shift_def a_push_def top_code_def a2)
  then obtain s3 where "parse semicolon s2 = ret s3"
    using parse_outcome [OF ok, of semicolon] by (auto simp: r parser_token_def STACKSIZE_def)
  then have "feeds [(ifstmt, True), (semicolon, True)] ready_state s3"
    using b s1(1) s2 by (auto intro: feeds.intros)
  then show ?thesis ..
qed

theorem statements_restore_level_witness:
  "\<exists>st'. feeds [(ifstmt, True), (semicolon, True)] ready_state st' \<and> i_l_follow (ps st') = 0 \<and>
     (\<exists>st''. resolve_ifs semicolon st' = Some st'' \<and> in_stmts st'' \<and> tos (ps st'') = 0)"
proof -
  obtain st' where f: "feeds [(ifstmt, True), (semicolon, True)] ready_state st'" using if_statement_feeds ..
  have "list_toks [(ifstmt, True), (semicolon, True)]"
    using Cons [OF If [OF Semi] _ Nil, of True True] by simp
  from statements_restore_level [OF f this ready_state_facts(2)] f ready_state_facts(4,5) show ?thesis by auto
qed

text \<open> C30: \<open>dump_line\<close> is the new line that the statement theorem allows between tokens: it leaves the
  parser's stack alone, brings the indentation level up to date and empties the code section.\<close>

theorem dump_line_starts_line:
  assumes "dump_line st = Some (Ret out st')"
  shows "between True st st'"
  using dump_line_between [OF assms] .

definition one_token :: ist where
  "one_token = ready_state\<lparr>codeb := \<lparr>held = ''x = 1;'', stale = [NUL]\<rparr>\<rparr>"

theorem dump_line_starts_line_witness:
  "\<exists>out st'. dump_line one_token = Some (Ret out st') \<and> between True one_token st'"
proof -
  have "case dump_line one_token of Some (Ret out st') \<Rightarrow> True | _ \<Rightarrow> False" by code_simp
  then obtain out st' where "dump_line one_token = Some (Ret out st')"
    by (auto split: option.splits run.splits)
  with dump_line_starts_line [OF this] show ?thesis by blast
qed

end
