(* ===== verification/Indent_Lexi.thy ===== *)
theory Indent_Lexi
  imports Indent_Io
begin

text \<open>
  \<^verbatim>\<open>src/bsd_additions/indent/lexi.c\<close>: the lexer.  Loops over the input take fuel, because at
  the end of the file \<open>fill_buffer\<close> supplies a blank line for ever.
\<close>

section \<open>Reading the input\<close>

definition sc_size :: nat where "sc_size = 5000"

text \<open>A byte of the input buffer or of the save buffer; \<open>None\<close> outside what is there.\<close>

definition mem_at :: "bool \<Rightarrow> nat \<Rightarrow> ist \<Rightarrow> char option" where
  "mem_at b i st =
     (if b then (if i < sc_size then Some (sc_buf st i) else None)
      else if i < length (in_buffer st) then Some (in_buffer st ! i) else None)"

definition char_at :: "nat \<Rightarrow> ist \<Rightarrow> char option" where
  "char_at k st = mem_at (from_save st) (buf_ptr st + k) st"

text \<open>Reading \<open>buf_ptr[k]\<close>.\<close>

definition rd :: "nat \<Rightarrow> ist \<Rightarrow> (char \<Rightarrow> 'a irun) \<Rightarrow> 'a irun" where
  "rd k st f = (case char_at k st of None \<Rightarrow> wild st | Some c \<Rightarrow> f c)"

text \<open>\<open>if (buf_ptr >= buf_end) fill_buffer();\<close> and \<open>if (++buf_ptr >= buf_end) fill_buffer();\<close>\<close>

definition check_buf :: "ist \<Rightarrow> ist irun" where
  "check_buf st = (if buf_end st \<le> buf_ptr st then fill_buffer st else go st)"

definition adv :: "ist \<Rightarrow> ist irun" where
  "adv st = check_buf (st\<lparr>buf_ptr := buf_ptr st + 1\<rparr>)"

definition push_tok :: "char \<Rightarrow> ist \<Rightarrow> ist" where
  "push_tok c st = st\<lparr>token := token st @ [c]\<rparr>"

text \<open>The state \<open>lexi\<close> works on: \<open>ps\<close>, or the copy for a look ahead.\<close>

definition st_of :: "bool \<Rightarrow> ist \<Rightarrow> parser_state" where
  "st_of tr st = (if tr then tstate st else ps st)"

definition upd_st :: "bool \<Rightarrow> (parser_state \<Rightarrow> parser_state) \<Rightarrow> ist \<Rightarrow> ist" where
  "upd_st tr f st = (if tr then st\<lparr>tstate := f (tstate st)\<rparr> else upd_ps f st)"

definition set_last_u_d :: "bool \<Rightarrow> bool \<Rightarrow> ist \<Rightarrow> ist" where
  "set_last_u_d tr b = upd_st tr (\<lambda>p. p\<lparr>last_u_d := b\<rparr>)"

definition set_keyword :: "bool \<Rightarrow> int \<Rightarrow> ist \<Rightarrow> ist" where
  "set_keyword tr k = upd_st tr (\<lambda>p. p\<lparr>keyword := k\<rparr>)"

text \<open>Skipping blanks; \<open>f\<close> is what the loop also does.\<close>

fun skip_blanks :: "(ist \<Rightarrow> ist) \<Rightarrow> nat \<Rightarrow> ist \<Rightarrow> ist irun" where
  "skip_blanks f 0 st = None"
| "skip_blanks f (Suc n) st =
     rd 0 st (\<lambda>c. if isblank c then andthen (adv (f st)) (skip_blanks f n) else go st)"

section \<open>Numbers\<close>

type_synonym ttable = "char \<Rightarrow> string option"

text \<open>The transition table as it is initialized; the columns are the states A to Z.\<close>

definition table0 :: ttable where
  "table0 = Map.empty
     (CHR ''0'' \<mapsto> ''CEIDEHHHIJQ  U  Q  VUVVZZZ'',
      CHR ''1'' \<mapsto> ''DEIDEHHHIJQ  U  Q  VUVVZZZ'',
      CHR ''7'' \<mapsto> ''DEIDEHHHIJ   U     VUVVZZZ'',
      CHR ''9'' \<mapsto> ''DEJDEHHHJJ   U     VUVVZZZ'',
      CHR ''a'' \<mapsto> ''             U     VUVV   '',
      CHR ''b'' \<mapsto> ''  K          U     VUVV   '',
      CHR ''e'' \<mapsto> ''  FFF   FF   U     VUVV   '',
      CHR ''f'' \<mapsto> ''    f  f     U     VUVV  f'',
      CHR ''u'' \<mapsto> ''  MM    M  i  iiM   M     '',
      CHR ''x'' \<mapsto> ''  N                       '',
      CHR ''p'' \<mapsto> ''                    FFX   '',
      CHR ''L'' \<mapsto> ''  LLf  fL  PR   Li  L    f'',
      CHR ''l'' \<mapsto> ''  OOf  fO   S P O i O    f'',
      CHR ''+'' \<mapsto> ''     G                 Y  '',
      CHR ''.'' \<mapsto> ''B EE    EE   T      W     '',
      NUL \<mapsto> ''uuiifuufiuuiiuiiiiiuiuuuuu'')"

definition init_constant_tt :: "ttable \<Rightarrow> ttable" where
  "init_constant_tt t =
     (let t1 = t(CHR ''-'' := t (CHR ''+''));
          t2 = t1(CHR ''8'' := t1 (CHR ''9''));
          d = t2 (CHR ''7'');
          t3 = t2(CHR ''6'' := d, CHR ''5'' := d, CHR ''4'' := d, CHR ''3'' := d, CHR ''2'' := d);
          a = t3 (CHR ''a'');
          t4 = t3(CHR ''d'' := a, CHR ''c'' := a, CHR ''D'' := a, CHR ''C'' := a, CHR ''A'' := a)
      in t4(CHR ''B'' := t4 (CHR ''b''), CHR ''E'' := t4 (CHR ''e''), CHR ''U'' := t4 (CHR ''u''),
            CHR ''X'' := t4 (CHR ''x''), CHR ''P'' := t4 (CHR ''p''), CHR ''F'' := t4 (CHR ''f'')))"

definition table :: ttable where
  "table = init_constant_tt table0"

text \<open>One step: the next state, or \<open>None\<close> when the character does not continue the number.\<close>

definition num_step :: "char \<Rightarrow> char \<Rightarrow> char option" where
  "num_step s c =
     (case table c of
        None \<Rightarrow> None
      | Some row \<Rightarrow> (if row ! (code s - 65) = CHR '' '' then None else Some (row ! (code s - 65))))"

definition num_final :: "char \<Rightarrow> bool" where
  "num_final s \<longleftrightarrow> s = CHR ''f'' \<or> s = CHR ''i'' \<or> s = CHR ''u''"

fun scan_number :: "nat \<Rightarrow> char \<Rightarrow> ist \<Rightarrow> ist irun" where
  "scan_number 0 s st = None"
| "scan_number (Suc n) s st =
     (if num_final s then go st
      else rd 0 st (\<lambda>c. case num_step s c of
                          None \<Rightarrow> go st
                        | Some s' \<Rightarrow> andthen (adv (push_tok c st)) (scan_number n s')))"

section \<open>Words\<close>

definition is_word_char :: "char \<Rightarrow> bool" where
  "is_word_char c \<longleftrightarrow> isalnum c \<or> c = CHR ''_'' \<or> c = CHR ''$''"

text \<open>A backslash before a newline continues the word on the next line.\<close>

fun scan_ident :: "nat \<Rightarrow> ist \<Rightarrow> ist irun" where
  "scan_ident 0 st = None"
| "scan_ident (Suc n) st =
     rd 0 st (\<lambda>c.
       if is_word_char c then andthen (adv (push_tok c st)) (scan_ident n)
       else if c = CHR 0x5C
       then rd 1 st (\<lambda>d.
              if d = NL
              then andthen (check_buf (st\<lparr>buf_ptr := buf_ptr st + 2\<rparr>))
                     (\<lambda>st1. rd 0 st1 (\<lambda>e. andthen (adv (push_tok e st1)) (scan_ident n)))
              else go st)
       else go st)"

text \<open>\<open>*buf_ptr == '.' && isdigit(buf_ptr[1])\<close>, read only as far as the test goes.\<close>

definition starts_number :: "ist \<Rightarrow> bool" where
  "starts_number st =
     (case char_at 0 st of
        None \<Rightarrow> False
      | Some c \<Rightarrow> isdigit c \<or> c = CHR ''.'' \<and> (case char_at 1 st of None \<Rightarrow> False | Some d \<Rightarrow> isdigit d))"

text \<open>The name is followed, on its line, by a parenthesis that closes before a semicolon or comma.\<close>

definition buf_text :: "ist \<Rightarrow> string" where
  "buf_text st =
     map (\<lambda>i. if from_save st then sc_buf st i else in_buffer st ! i) [buf_ptr st ..< buf_end st]"

definition not_proc :: "ist \<Rightarrow> bool" where
  "not_proc st \<longleftrightarrow> adjacent (CHR '')'') (CHR '';'') (buf_text st) \<or> adjacent (CHR '')'') (CHR '','') (buf_text st)"

definition is_type_name :: "ist \<Rightarrow> bool" where
  "is_type_name st \<longleftrightarrow>
     auto_typedefs (opt st) \<and> 2 \<le> length (token st) \<and> drop (length (token st) - 2) (token st) = ''_t'' \<or>
     find_typename (token st) (typenames st)"

text \<open>The end of the word case: a procedure name, a guessed type name, or an identifier.\<close>

definition word_tail :: "bool \<Rightarrow> ist \<Rightarrow> (code \<times> ist) irun" where
  "word_tail tr st =
     (let p = st_of tr st;
          as_ident = (\<lambda>st. (ident, if last_token (st_of tr st) = decl then set_last_u_d tr True st else st))
      in rd 0 st (\<lambda>c.
           if c = CHR ''('' \<and> tos p \<le> 1 \<and> ind_level p = 0 \<and> \<not> in_parameter_declaration p \<and> \<not> block_init p
           then go (if not_proc st then as_ident st
                    else (funcname,
                      upd_st tr (\<lambda>p. p\<lparr>procname := take 99 (token st),
                                       in_parameter_declaration := in_parameter_declaration p \<or> in_decl p\<rparr>) st))
           else if p_l_follow p = 0 \<and> \<not> block_init p \<and> \<not> in_stmt p \<and> (c = CHR ''*'' \<or> isalpha c) \<and>
                   last_token p \<in> {semicolon, lbrace, rbrace}
           then (let guessed = (decl, set_last_u_d tr True (set_keyword tr 4 st))
                 in if c = CHR ''*'' then rd 1 st (\<lambda>d. go (if d = CHR ''='' then as_ident st else guessed))
                    else go guessed)
           else go (as_ident st)))"

text \<open>\<open>found_typename:\<close>, for a word of the table (\<open>cls\<close> its class) or a type name (class 0).\<close>

definition found_typename :: "bool \<Rightarrow> nat \<Rightarrow> ist \<Rightarrow> (code \<times> ist) irun" where
  "found_typename tr cls st0 =
     (let p0 = st_of tr st0;
          st = (if p_l_follow p0 \<noteq> 0
                then upd_st tr (\<lambda>p. p\<lparr>cast_mask :=
                       or (cast_mask p) (and (push_bit (nat (p_l_follow p)) 1) (not (not_cast_mask p)))\<rparr>) st0
                else st0)
      in if last_token p0 = period \<or> last_token p0 = unary_op then word_tail tr (set_keyword tr 0 st)
         else if cls = 3 then go (structure_tok, st)
         else if p_l_follow p0 \<noteq> 0 then word_tail tr st
         else go (decl, st))"

definition classify :: "bool \<Rightarrow> ist \<Rightarrow> (code \<times> ist) irun" where
  "classify tr st =
     (case find_special (token st) of
        None \<Rightarrow>
          (if is_type_name st then found_typename tr 0 (set_last_u_d tr True (set_keyword tr 4 st))
           else word_tail tr st)
      | Some (_, cls) \<Rightarrow>
          (let st1 = set_last_u_d tr True (set_keyword tr (int cls) st)
           in if cls = 7 then go (swstmt, st1)
              else if cls = 8 then go (casestmt, st1)
              else if cls = 3 \<or> cls = 4 then found_typename tr cls st1
              else if cls = 5 then go (sp_paren, st1)
              else if cls = 6 then go (sp_nparen, st1)
              else if cls = 10 then go (storage, st1)
              else if cls = 11 then go (type_def, st1)
              else go (ident, st1)))"

definition lexi_word :: "nat \<Rightarrow> bool \<Rightarrow> ist \<Rightarrow> (code \<times> ist) irun" where
  "lexi_word n tr st0 =
     andthen (if starts_number st0 then scan_number n (CHR ''A'') st0 else scan_ident n st0)
       (\<lambda>st1. rd 0 st1 (\<lambda>c.
          if token st1 = ''L'' \<and> (c = CHR 0x22 \<or> c = CHR 0x27) then go (strpfx, st1)
          else andthen (skip_blanks id n st1)
                 (\<lambda>st2. let st3 = set_keyword tr 0 st2; p = st_of tr st3
                        in if last_token p = structure_tok \<and> p_l_follow p = 0
                           then go (decl, set_last_u_d tr True st3)
                           else classify tr (set_last_u_d tr (last_token p = structure_tok) st3))))"

section \<open>Everything else\<close>

text \<open>A character or string literal, up to the quote \<open>q\<close>.\<close>

fun scan_lit :: "nat \<Rightarrow> char \<Rightarrow> ist \<Rightarrow> ist irun" where
  "scan_lit 0 q st = None"
| "scan_lit (Suc n) q st =
     rd 0 st (\<lambda>c.
       if c = NL then go (diag2 True ''Unterminated literal'' st)
       else andthen (adv (push_tok c st)) (\<lambda>st1.
              if c = CHR 0x5C
              then rd 0 st1 (\<lambda>d.
                     andthen (adv (push_tok d (if d = NL then st1\<lparr>line_no := line_no st1 + 1\<rparr> else st1)))
                       (scan_lit n q))
              else if c = q then go st1 else scan_lit n q st1))"

text \<open>The stars of a pointer declaration, with the space between them.\<close>

fun scan_stars :: "nat \<Rightarrow> ist \<Rightarrow> ist irun" where
  "scan_stars 0 st = None"
| "scan_stars (Suc n) st =
     rd 0 st (\<lambda>c. if c = CHR ''*'' then andthen (adv (push_tok c st)) (scan_stars n)
                  else if isspace c then andthen (adv st) (scan_stars n)
                  else go st)"

text \<open>
  The look ahead for a parenthesis after such stars, with a pointer \<open>tp\<close> of its own into the
  buffer \<open>b\<close>.  When it reaches the end of the buffer it calls \<open>fill_buffer\<close>, which moves
  \<open>buf_ptr\<close> and not \<open>tp\<close>; if that reallocates the buffer, \<open>tp\<close> dangles.
\<close>

fun scan_tp :: "nat \<Rightarrow> bool \<Rightarrow> nat \<Rightarrow> ist \<Rightarrow> (char \<times> ist) irun" where
  "scan_tp 0 b tp st = None"
| "scan_tp (Suc n) b tp st =
     (case mem_at b tp st of
        None \<Rightarrow> wild st
      | Some c \<Rightarrow>
          if \<not> (isalpha c \<or> isspace c) then go (c, st)
          else if b \<noteq> from_save st then wild st
          else if tp + 1 < buf_end st then scan_tp n b (tp + 1) st
          else andthen (fill_buffer st)
                 (\<lambda>st1. if \<not> b \<and> in_limit st1 \<noteq> in_limit st then wild st1 else scan_tp n b (tp + 1) st1))"

text \<open>Operators such as \<open>||\<close> and \<open>&&=\<close>.\<close>

fun scan_same :: "nat \<Rightarrow> ist \<Rightarrow> ist irun" where
  "scan_same 0 st = None"
| "scan_same (Suc n) st =
     rd 0 st (\<lambda>c. if c = last (token st) \<or> c = CHR ''='' then andthen (adv (push_tok c st)) (scan_same n)
                  else go st)"

definition bump :: "char \<Rightarrow> ist \<Rightarrow> ist" where
  "bump c st = (push_tok c st)\<lparr>buf_ptr := buf_ptr st + 1\<rparr>"

definition finish :: "bool \<Rightarrow> code \<Rightarrow> bool \<Rightarrow> ist \<Rightarrow> (code \<times> ist) irun" where
  "finish tr c unary_delim st = andthen (check_buf st) (\<lambda>st1. go (c, set_last_u_d tr unary_delim st1))"

definition op_code :: "parser_state \<Rightarrow> code" where
  "op_code p = (if last_u_d p then unary_op else binary_op)"

definition lexi_sign :: "bool \<Rightarrow> char \<Rightarrow> ist \<Rightarrow> (code \<times> ist) irun" where
  "lexi_sign tr c st =
     (let p = st_of tr st
      in rd 0 st (\<lambda>d.
           if d = c
           then (if last_token p = ident \<or> last_token p = rparen
                 then finish tr (if last_u_d p then unary_op else postop) False (bump d st)
                 else finish tr (op_code p) True (bump d st))
           else if d = CHR ''='' then finish tr (op_code p) True (bump d st)
           else if d = CHR ''>''
           then (if pointer_as_binop (opt st) then finish tr (op_code p) True (bump d st)
                 else finish tr unary_op False (upd_st tr (\<lambda>p. p\<lparr>want_blank := False\<rparr>) (bump d st)))
           else finish tr (op_code p) True st))"

definition lexi_star :: "nat \<Rightarrow> bool \<Rightarrow> ist \<Rightarrow> (code \<times> ist) irun" where
  "lexi_star n tr st =
     (if \<not> last_u_d (st_of tr st)
      then rd 0 st (\<lambda>d. finish tr binary_op True (if d = CHR ''='' then bump d st else st))
      else andthen (scan_stars n st) (\<lambda>st1.
             if in_decl (ps st1)
             then andthen (scan_tp n (from_save st1) (buf_ptr st1) st1)
                    (\<lambda>(c, st2). finish tr unary_op True
                       (if c = CHR ''('' then upd_ps (\<lambda>p. p\<lparr>procname := CHR '' '' # tl (procname p)\<rparr>) st2 else st2))
             else finish tr unary_op True st1))"

text \<open>The switch on the first character of a token that is not a word.\<close>

definition lexi_op :: "nat \<Rightarrow> bool \<Rightarrow> char \<Rightarrow> ist \<Rightarrow> (code \<times> ist) irun" where
  "lexi_op n tr c st =
     (let p = st_of tr st; set_nl = upd_st tr (\<lambda>p. p\<lparr>last_nl := True\<rparr>)
      in if c = NL then finish tr (if had_eof st then eofcode else newline) (last_u_d p) (set_nl st)
         else if c = CHR 0x27 \<or> c = CHR 0x22
         then andthen (scan_lit n c st) (finish tr ident False)
         else if c = CHR ''('' \<or> c = CHR ''['' then finish tr lparen True st
         else if c = CHR '')'' \<or> c = CHR '']'' then finish tr rparen False st
         else if c = CHR ''#'' then finish tr preesc (last_u_d p) st
         else if c = CHR ''?'' then finish tr question True st
         else if c = CHR '':'' then finish tr colon True st
         else if c = CHR '';'' then finish tr semicolon True st
         else if c = CHR ''{'' then finish tr lbrace True st
         else if c = CHR ''}'' then finish tr rbrace True st
         else if c = FF then finish tr form_feed (last_u_d p) (set_nl st)
         else if c = CHR '','' then finish tr comma True st
         else if c = CHR ''.'' then finish tr period False st
         else if c = CHR ''-'' \<or> c = CHR ''+'' then lexi_sign tr c st
         else if c = CHR ''=''
         then (let st1 = (if in_or_st p then upd_st tr (\<lambda>p. p\<lparr>block_init := True\<rparr>) st else st)
               in rd 0 st1 (\<lambda>d. finish tr binary_op True (if d = CHR ''='' then bump d st1 else st1)))
         else if c = CHR ''>'' \<or> c = CHR ''<'' \<or> c = CHR ''!''
         then rd 0 st (\<lambda>d.
                andthen (if d = CHR ''>'' \<or> d = CHR ''<'' \<or> d = CHR ''='' then adv (push_tok d st) else go st)
                  (\<lambda>st1. rd 0 st1 (\<lambda>e. finish tr (op_code p) True (if e = CHR ''='' then bump e st1 else st1))))
         else if c = CHR ''*'' then lexi_star n tr st
         else rd 0 st (\<lambda>d.
                if c = CHR ''/'' \<and> d = CHR ''*''
                then andthen (adv (push_tok d st)) (finish tr comment (last_u_d p))
                else andthen (scan_same n st) (finish tr (op_code p) True)))"

definition lexi :: "nat \<Rightarrow> bool \<Rightarrow> ist \<Rightarrow> (code \<times> ist) irun" where
  "lexi n tr st0 =
     andthen
       (skip_blanks (upd_st tr (\<lambda>p. p\<lparr>col_1 := False\<rparr>)) n
         (upd_st tr (\<lambda>p. p\<lparr>col_1 := last_nl p, last_nl := False\<rparr>) (st0\<lparr>token := []\<rparr>)))
       (\<lambda>st. rd 0 st (\<lambda>c.
          if is_word_char c \<or> starts_number st then lexi_word n tr st
          else andthen (adv (push_tok c st)) (lexi_op n tr c)))"

end
