(* ===== verification/Indent_Reading.thy ===== *)
theory Indent_Reading
  imports Indent_Lexi
begin

text \<open>
  What the lexer reads is one text.  The line in \<open>in_buffer\<close>, the save buffer in front of it and
  the rest of the file behind it are put together to the text that is still unread; the steps of
  the buffers read this text character by character.
\<close>

section \<open>The unread text\<close>

definition save_rest :: "ist \<Rightarrow> string" where
  "save_rest st = (if from_save st then map (sc_buf st) [buf_ptr st ..< buf_end st] else [])"

fun saved_part :: "string \<Rightarrow> (bool \<times> nat \<times> nat) option \<Rightarrow> string" where
  "saved_part buf None = []"
| "saved_part buf (Some (b, p, e)) = drop p (take e buf)"

definition main_rest :: "ist \<Rightarrow> string" where
  "main_rest st =
     (if from_save st then saved_part (in_buffer st) (bp_save st)
      else drop (buf_ptr st) (take (buf_end st) (in_buffer st)))"

definition file_rest :: "ist \<Rightarrow> string" where
  "file_rest st = (if had_eof st then [] else infile st @ '' '' @ [NL])"

definition unread :: "ist \<Rightarrow> string" where
  "unread st = save_rest st @ main_rest st @ file_rest st"

text \<open>At the end of the file there is always one more blank line.\<close>

definition topped :: "string \<Rightarrow> string" where
  "topped t = (if t = [] then '' '' @ [NL] else t)"

lemma topped_simps [simp]: "topped (c # t) = c # t" "topped t \<noteq> []" "topped (topped t) = topped t" "t \<noteq> [] \<Longrightarrow> topped t = t"
  by (auto simp: topped_def)

text \<open>A line, or what is left of one.\<close>

definition lined :: "string \<Rightarrow> bool" where
  "lined s \<longleftrightarrow> s = [] \<or> last s = NL \<and> NL \<notin> set (butlast s)"

text \<open>A file of whole lines without NUL bytes and without the end of a comment.\<close>

definition quiet :: "string \<Rightarrow> bool" where
  "quiet f \<longleftrightarrow> NUL \<notin> set f \<and> \<not> adjacent (CHR ''*'') (CHR ''/'') f \<and> (f \<noteq> [] \<longrightarrow> last f = NL)"

text \<open>The buffers are in order: with something to read, or (\<open>src_ok\<close>) possibly at an end.\<close>

definition src_ok :: "ist \<Rightarrow> bool" where
  "src_ok st \<longleftrightarrow>
     buf_ptr st \<le> buf_end st \<and> \<not> inhibit_formatting st \<and> lined (main_rest st) \<and> quiet (infile st) \<and>
     (had_eof st \<longrightarrow> infile st = [] \<and> list_all isspace (unread st)) \<and>
     (if from_save st
      then buf_end st \<le> sc_size \<and> (\<exists>p e. bp_save st = Some (False, p, e) \<and> p < e \<and> e \<le> length (in_buffer st))
      else bp_save st = None \<and> buf_end st \<le> length (in_buffer st))"

definition reading :: "ist \<Rightarrow> bool" where
  "reading st \<longleftrightarrow> src_ok st \<and> buf_ptr st < buf_end st"

text \<open>All of the state that reading does not touch.\<close>

definition core :: "ist \<Rightarrow> ist" where
  "core st = st\<lparr>in_buffer := [], in_limit := 0, from_save := False, buf_ptr := 0, buf_end := 0,
                bp_save := None, had_eof := False, infile := []\<rparr>"

lemma core_sel:
  assumes "core st' = core st"
  shows "ps st' = ps st" "opt st' = opt st" "labb st' = labb st" "codeb st' = codeb st" "comb st' = comb st"
    "token st' = token st" "sc_buf st' = sc_buf st" "save_com st' = save_com st" "sc_end st' = sc_end st"
    "tstate st' = tstate st" "mv st' = mv st" "outp st' = outp st" "to_stdout st' = to_stdout st"
    "comment_open st' = comment_open st" "inhibit_formatting st' = inhibit_formatting st" "typenames st' = typenames st"
  using arg_cong [OF assms, of ps] arg_cong [OF assms, of opt] arg_cong [OF assms, of labb]
    arg_cong [OF assms, of codeb] arg_cong [OF assms, of comb] arg_cong [OF assms, of token]
    arg_cong [OF assms, of sc_buf] arg_cong [OF assms, of save_com] arg_cong [OF assms, of sc_end]
    arg_cong [OF assms, of tstate] arg_cong [OF assms, of mv] arg_cong [OF assms, of outp]
    arg_cong [OF assms, of to_stdout] arg_cong [OF assms, of comment_open]
    arg_cong [OF assms, of inhibit_formatting] arg_cong [OF assms, of typenames]
  by (simp_all add: core_def)

section \<open>Filling the buffer\<close>

lemma ex_Suc: "(\<exists>i. P i) \<longleftrightarrow> P 0 \<or> (\<exists>i. P (Suc i))"
  by (metis old.nat.exhaust)

lemma adjacent_nth: "adjacent a b s \<longleftrightarrow> (\<exists>i. Suc i < length s \<and> s ! i = a \<and> s ! Suc i = b)"
proof (induction a b s rule: adjacent.induct)
  case (1 a b x y s)
  then show ?case by (subst ex_Suc) simp
qed auto

lemma adjacent_Cons: "adjacent a b s \<Longrightarrow> adjacent a b (x # s)"
  by (cases s) auto

lemma adjacent_suffix: "adjacent a b s \<Longrightarrow> adjacent a b (t @ s)"
  by (induction t) (simp_all add: adjacent_Cons)

lemma quiet_append: "quiet (l @ [NL] @ r) \<Longrightarrow> quiet r"
  using adjacent_suffix [of "CHR ''*''" "CHR ''/''" r "l @ [NL]"] by (auto simp: quiet_def)

lemma read_line_split:
  "NUL \<notin> set f \<Longrightarrow> f \<noteq> [] \<Longrightarrow> last f = NL \<Longrightarrow>
     \<exists>u r. NL \<notin> set u \<and> f = u @ NL # r \<and> read_line f = (u @ [NL], r, False)"
proof -
  assume f: "NUL \<notin> set f" "f \<noteq> []" "last f = NL"
  then have "NL \<in> set f" using last_in_set [of f] by simp
  then obtain u r where u: "f = u @ NL # r" "NL \<notin> set u" by (meson split_list_first)
  with f have "read_line f = (u @ [NL], r, False)" by (simp add: read_line_append)
  with u show ?thesis by blast
qed

lemma quiet_read_line:
  assumes "quiet f" "f \<noteq> []"
  shows "\<exists>u r. NL \<notin> set u \<and> f = u @ NL # r \<and> read_line f = (u @ [NL], r, False) \<and> quiet r \<and> \<not> ends_comment (u @ [NL])"
proof -
  obtain u r where u: "NL \<notin> set u" "f = u @ NL # r" "read_line f = (u @ [NL], r, False)"
    using read_line_split [of f] assms by (auto simp: quiet_def)
  have "quiet r" using quiet_append [of u r] assms u by simp
  moreover have "\<not> ends_comment (u @ [NL])"
  proof
    assume "ends_comment (u @ [NL])"
    then have "adjacent (CHR ''*'') (CHR ''/'') f" unfolding adjacent_nth ends_comment_def u(2)
      by (intro exI [of _ "length u - 2"]) (auto simp: nth_append Suc_diff_Suc numeral_2_eq_2 numeral_3_eq_3 split: if_splits)
    with assms show False by (simp add: quiet_def)
  qed
  ultimately show ?thesis using u by blast
qed

lemma fill_line_unread:
  assumes "src_ok st" "bp_save st = None" "main_rest st = []" "save_rest st = []"
  shows "\<exists>st'. fill_line st = go st' \<and> reading st' \<and> unread st' = topped (unread st) \<and> core st' = core st \<and> save_rest st' = []"
proof -
  have i: "\<not> inhibit_formatting st" "quiet (infile st)" "had_eof st \<Longrightarrow> infile st = []" using assms(1) by (auto simp: src_ok_def)
  have f: "fill_line st = fill_buffer st" by (simp add: fill_buffer_def assms(2))
  show ?thesis
  proof (cases "infile st = []")
    case True
    have r: "read_line (infile st) = ('' '' @ [NL], [], True)" using True by simp
    have "\<not> ends_comment ('' '' @ [NL])" by (simp add: ends_comment_def)
    from fill_buffer_plain [OF assms(2) i(1) r this]
    have "fill_line st = go (load_line ('' '' @ [NL]) [] True st)" using f by simp
    moreover have "reading (load_line ('' '' @ [NL]) [] True st)"
      using i assms(2) by (simp add: reading_def src_ok_def load_line_def main_rest_def lined_def quiet_def unread_def save_rest_def file_rest_def)
    moreover have "unread (load_line ('' '' @ [NL]) [] True st) = topped (unread st)"
      using assms(3,4) True by (simp add: unread_def load_line_def main_rest_def save_rest_def file_rest_def topped_def)
    ultimately show ?thesis by (simp add: core_def load_line_def save_rest_def)
  next
    case False
    then obtain u r where u: "NL \<notin> set u" "infile st = u @ NL # r" "read_line (infile st) = (u @ [NL], r, False)" "quiet r"
      "\<not> ends_comment (u @ [NL])" using quiet_read_line [OF i(2)] by blast
    from fill_buffer_plain [OF assms(2) i(1) u(3,5)] have "fill_line st = go (load_line (u @ [NL]) r False st)" using f by simp
    moreover have "reading (load_line (u @ [NL]) r False st)"
      using i assms(2) u False by (auto simp: reading_def src_ok_def load_line_def main_rest_def lined_def)
    moreover have "unread (load_line (u @ [NL]) r False st) = topped (unread st)"
      using assms(3,4) u i(3) False by (auto simp: unread_def load_line_def main_rest_def save_rest_def file_rest_def)
    ultimately show ?thesis by (simp add: core_def load_line_def save_rest_def)
  qed
qed

lemma fill_buffer_unread:
  assumes "src_ok st" "buf_ptr st = buf_end st"
  shows "\<exists>st'. fill_buffer st = go st' \<and> reading st' \<and> unread st' = topped (unread st) \<and> core st' = core st \<and> save_rest st' = []"
proof (cases "from_save st")
  case False
  with assms have "bp_save st = None" "main_rest st = []" "save_rest st = []"
    by (auto simp: src_ok_def main_rest_def save_rest_def)
  with fill_line_unread [OF assms(1)] show ?thesis by (simp add: fill_buffer_def)
next
  case True
  with assms(1) obtain p e where p: "bp_save st = Some (False, p, e)" "p < e" "e \<le> length (in_buffer st)"
    by (auto simp: src_ok_def)
  define st1 where "st1 = st\<lparr>from_save := False, buf_ptr := p, buf_end := e, bp_save := None\<rparr>"
  have u: "unread st1 = unread st" "save_rest st1 = []" "bp_save st1 = None" "core st1 = core st" "main_rest st1 = main_rest st"
    using True p assms(2) by (simp_all add: st1_def unread_def save_rest_def main_rest_def file_rest_def core_def)
  have ok: "src_ok st1" using assms(1) True p u unfolding src_ok_def u(1,5) by (simp add: st1_def)
  have "unread st1 \<noteq> []" using p by (simp add: st1_def unread_def main_rest_def save_rest_def)
  moreover have "reading st1" using ok p by (simp add: reading_def) (simp add: st1_def)
  ultimately show ?thesis using p u by (auto simp: fill_buffer_def st1_def [symmetric])
qed

section \<open>Reading character by character\<close>

lemma reading_unread: "reading st \<Longrightarrow> unread st \<noteq> []"
  by (auto simp: reading_def src_ok_def unread_def save_rest_def main_rest_def)

text \<open>The part of the current buffer that is left.\<close>

definition here :: "ist \<Rightarrow> string" where
  "here st = (if from_save st then save_rest st else main_rest st)"

lemma here_unread: "\<exists>t. unread st = here st @ t"
  by (auto simp: here_def unread_def save_rest_def)

lemma src_okD:
  "src_ok st \<Longrightarrow> buf_ptr st \<le> buf_end st"
  "src_ok st \<Longrightarrow> from_save st \<Longrightarrow> buf_end st \<le> sc_size"
  "src_ok st \<Longrightarrow> \<not> from_save st \<Longrightarrow> buf_end st \<le> length (in_buffer st)"
  "src_ok st \<Longrightarrow> lined (main_rest st)"
  by (auto simp: src_ok_def)

lemma here_length: "src_ok st \<Longrightarrow> length (here st) = buf_end st - buf_ptr st"
  using src_okD [of st] by (cases "from_save st") (auto simp: here_def save_rest_def main_rest_def min_def)

lemma char_at_here: "src_ok st \<Longrightarrow> k < length (here st) \<Longrightarrow> char_at k st = Some (here st ! k)"
  using src_okD [of st] by (cases "from_save st") (auto simp: char_at_def mem_at_def here_def save_rest_def main_rest_def)

lemma char_at_unread: "src_ok st \<Longrightarrow> k < length (here st) \<Longrightarrow> char_at k st = Some (unread st ! k)"
  using here_unread [of st] char_at_here [of st k] by (auto simp: nth_append)

lemma reading_here: "reading st \<Longrightarrow> \<exists>h. here st = hd (unread st) # h"
  using here_unread [of st] here_length [of st] by (cases "here st") (auto simp: reading_def)

lemma rd_unread: "reading st \<Longrightarrow> unread st = c # t \<Longrightarrow> rd 0 st f = f c"
  using char_at_unread [of st 0] here_length [of st] by (auto simp: rd_def reading_def)

lemma check_buf_unread:
  assumes "src_ok st"
  shows "\<exists>st'. check_buf st = go st' \<and> reading st' \<and> unread st' = topped (unread st) \<and> core st' = core st \<and>
      save_rest st' = save_rest st"
proof (cases "buf_ptr st < buf_end st")
  case True
  then have "reading st" using assms by (simp add: reading_def)
  with True reading_unread [of st] show ?thesis by (auto simp: check_buf_def)
next
  case False
  then have "buf_ptr st = buf_end st" using assms by (auto simp: src_ok_def)
  with fill_buffer_unread [OF assms] show ?thesis by (simp add: check_buf_def save_rest_def)
qed

lemma step_unread:
  assumes "reading st"
  shows "src_ok (st\<lparr>buf_ptr := buf_ptr st + 1\<rparr>)" "unread (st\<lparr>buf_ptr := buf_ptr st + 1\<rparr>) = tl (unread st)"
    "core (st\<lparr>buf_ptr := buf_ptr st + 1\<rparr>) = core st" "save_rest (st\<lparr>buf_ptr := buf_ptr st + 1\<rparr>) = tl (save_rest st)"
proof -
  show u: "unread (st\<lparr>buf_ptr := buf_ptr st + 1\<rparr>) = tl (unread st)"
    using assms by (auto simp: unread_def save_rest_def main_rest_def file_rest_def reading_def src_ok_def upt_conv_Cons drop_Suc tl_drop)
  have "lined (tl s)" if "lined s" for s using that by (cases s) (auto simp: lined_def)
  moreover have "main_rest (st\<lparr>buf_ptr := buf_ptr st + 1\<rparr>) = (if from_save st then main_rest st else tl (main_rest st))"
    by (simp add: main_rest_def drop_Suc tl_drop)
  moreover have "list_all isspace (tl (unread st))" if "list_all isspace (unread st)" using that by (cases "unread st") auto
  ultimately show "src_ok (st\<lparr>buf_ptr := buf_ptr st + 1\<rparr>)"
    using assms unfolding src_ok_def reading_def u by (auto split: if_splits)
  show "core (st\<lparr>buf_ptr := buf_ptr st + 1\<rparr>) = core st" by (simp add: core_def)
  show "save_rest (st\<lparr>buf_ptr := buf_ptr st + 1\<rparr>) = tl (save_rest st)"
    using assms by (simp add: save_rest_def reading_def upt_conv_Cons)
qed

lemma adv_unread:
  assumes "reading st"
  shows "\<exists>st'. adv st = go st' \<and> reading st' \<and> unread st' = topped (tl (unread st)) \<and> core st' = core st \<and>
      save_rest st' = tl (save_rest st)"
  using check_buf_unread [OF step_unread(1) [OF assms]] step_unread(2-4) [OF assms] by (auto simp: adv_def)

lemma save_rest_Nil: "reading st \<Longrightarrow> save_rest st = [] \<longleftrightarrow> \<not> from_save st"
  by (auto simp: reading_def save_rest_def)

text \<open>The unread text ends in a newline.\<close>

lemma unread_last: "reading st \<Longrightarrow> last (unread st) = NL"
proof -
  assume r: "reading st"
  then have "main_rest st \<noteq> []" by (auto simp: reading_def src_ok_def main_rest_def split: if_splits)
  with r show ?thesis by (auto simp: reading_def src_ok_def unread_def file_rest_def lined_def)
qed

lemma here_last:
  assumes "reading st" "\<not> from_save st"
  shows "last (here st) = NL" "NL \<notin> set (butlast (here st))"
proof -
  have "main_rest st \<noteq> []" using assms by (auto simp: reading_def src_ok_def main_rest_def)
  then show "last (here st) = NL" "NL \<notin> set (butlast (here st))"
    using assms by (auto simp: reading_def src_ok_def here_def lined_def)
qed

end
