(* ===== verification/Indent_Scan.thy ===== *)
theory Indent_Scan
  imports Indent_Reading
begin

text \<open>
  A lexer on texts, and that \<open>lexi\<close> on the buffers takes from the unread text what this lexer
  takes, for texts that \<open>lexi\<close> can read: with no backslash before a newline, and with a character
  that ends the look ahead on the line of every declared pointer.
\<close>

section \<open>A lexer on texts\<close>

definition starsp :: "char \<Rightarrow> bool" where
  "starsp c \<longleftrightarrow> c = CHR ''*'' \<or> isspace c"

definition quote :: "char \<Rightarrow> bool" where
  "quote c \<longleftrightarrow> c = CHR 0x22 \<or> c = CHR 0x27"

fun num_text :: "char \<Rightarrow> string \<Rightarrow> string \<times> string" where
  "num_text s [] = ([], [])"
| "num_text s (c # t) =
     (if num_final s then ([], c # t)
      else case num_step s c of None \<Rightarrow> ([], c # t) | Some s' \<Rightarrow> apfst ((#) c) (num_text s' t))"

fun lit_text :: "char \<Rightarrow> string \<Rightarrow> string \<times> string" where
  "lit_text q [] = ([], [])"
| "lit_text q (c # t) =
     (if c = NL then ([], c # t)
      else if c = CHR 0x5C then (case t of [] \<Rightarrow> ([c], []) | d # t' \<Rightarrow> apfst (\<lambda>a. c # d # a) (lit_text q t'))
      else if c = q then ([c], t)
      else apfst ((#) c) (lit_text q t))"

fun same_text :: "char \<Rightarrow> string \<Rightarrow> string \<times> string" where
  "same_text p [] = ([], [])"
| "same_text p (c # t) = (if c = p \<or> c = CHR ''='' then apfst ((#) c) (same_text c t) else ([], c # t))"

text \<open>A second character that joins the first.\<close>

definition join :: "(char \<Rightarrow> bool) \<Rightarrow> string \<Rightarrow> string \<times> string" where
  "join P t = (case t of [] \<Rightarrow> ([], []) | c # r \<Rightarrow> if P c then ([c], r) else ([], c # r))"

definition number_start :: "string \<Rightarrow> bool" where
  "number_start t \<longleftrightarrow> isdigit (deref t) \<or> deref t = CHR ''.'' \<and> isdigit (deref (tl t))"

definition lex_word :: "string \<Rightarrow> string \<times> string" where
  "lex_word t =
     (case (if number_start t then num_text (CHR ''A'') t else (takeWhile is_word_char t, dropWhile is_word_char t)) of
        (a, r) \<Rightarrow> (a, if a = ''L'' \<and> quote (deref r) then r else dropWhile isblank r))"

text \<open>What follows the first character \<open>c\<close>; \<open>u\<close> says that an operator here is unary.\<close>

definition lex_op :: "bool \<Rightarrow> char \<Rightarrow> string \<Rightarrow> string \<times> string" where
  "lex_op u c t =
     (if quote c then lit_text c t
      else if c \<in> {NL, CHR ''('', CHR ''['', CHR '')'', CHR '']'', CHR ''#'', CHR ''?'', CHR '':'', CHR '';'', CHR ''{'',
                   CHR ''}'', FF, CHR '','', CHR ''.''} then ([], t)
      else if c = CHR ''-'' \<or> c = CHR ''+'' then join (\<lambda>d. d = c \<or> d = CHR ''='' \<or> d = CHR ''>'') t
      else if c = CHR ''='' then join (\<lambda>d. d = CHR ''='') t
      else if c = CHR ''>'' \<or> c = CHR ''<'' \<or> c = CHR ''!''
      then (case join (\<lambda>d. d = CHR ''>'' \<or> d = CHR ''<'' \<or> d = CHR ''='') t of
              (a, r) \<Rightarrow> apfst ((@) a) (join (\<lambda>d. d = CHR ''='') r))
      else if c = CHR ''*''
      then (if u then (filter (\<lambda>d. d = CHR ''*'') (takeWhile starsp t), dropWhile starsp t)
            else join (\<lambda>d. d = CHR ''='') t)
      else if c = CHR ''/'' \<and> deref t = CHR ''*'' then (''*'', tl t)
      else same_text c t)"

text \<open>The token and what is left.\<close>

definition lex_text :: "bool \<Rightarrow> string \<Rightarrow> string \<times> string" where
  "lex_text u t0 =
     (let t = dropWhile isblank t0
      in if is_word_char (deref t) \<or> number_start t then lex_word t
         else apfst ((#) (deref t)) (lex_op u (deref t) (tl t)))"

section \<open>The loops of the lexer\<close>

lemma reading_frame [simp]:
  "reading (push_tok c st) = reading st" "unread (push_tok c st) = unread st" "core (push_tok c st) = push_tok c (core st)"
  "here (push_tok c st) = here st" "from_save (push_tok c st) = from_save st"
  "reading (upd_st tr f st) = reading st" "unread (upd_st tr f st) = unread st" "core (upd_st tr f st) = upd_st tr f (core st)"
  "here (upd_st tr f st) = here st" "from_save (upd_st tr f st) = from_save st"
  "src_ok (push_tok c st) = src_ok st" "src_ok (upd_st tr f st) = src_ok st"
  by (simp_all add: reading_def src_ok_def unread_def save_rest_def main_rest_def file_rest_def core_def here_def push_tok_def
      upd_st_def upd_ps_def)

lemma token_core [simp]: "token (core st) = token st" "ps (core st) = ps st" "tstate (core st) = tstate st"
  by (simp_all add: core_def)

lemma save_rest_frame [simp]: "save_rest (push_tok c st) = save_rest st" "save_rest (upd_st tr f st) = save_rest st"
  by (simp_all add: save_rest_def push_tok_def upd_st_def upd_ps_def)

text \<open>A state whose unread text is \<open>t\<close>, of which \<open>s\<close> lies in the save buffer and ends in a blank.\<close>

definition at_text :: "string \<Rightarrow> string \<Rightarrow> ist \<Rightarrow> bool" where
  "at_text s t st \<longleftrightarrow> reading st \<and> unread st = t \<and> save_rest st = s \<and> (s \<noteq> [] \<longrightarrow> isblank (last s))"

lemma at_text_frame [simp]:
  "at_text s t (push_tok c st) = at_text s t st" "at_text s t (upd_st tr f st) = at_text s t st"
  by (simp_all add: at_text_def)

lemma rd_at: "at_text s (c # t) st \<Longrightarrow> rd 0 st f = f c"
  by (simp add: at_text_def rd_unread)

lemma adv_at: "at_text s (c # t) st \<Longrightarrow> \<exists>st'. adv st = go st' \<and> at_text (tl s) (topped t) st' \<and> core st' = core st"
  using adv_unread [of st] by (cases s) (auto simp: at_text_def split: if_splits)

lemma at_text_last: "at_text s t st \<Longrightarrow> t \<noteq> [] \<and> last t = NL"
  using unread_last reading_unread by (auto simp: at_text_def)

text \<open>A character that is not the final newline has another one behind it.\<close>

lemma at_text_next: "at_text s (c # t) st \<Longrightarrow> c \<noteq> NL \<Longrightarrow> t \<noteq> [] \<and> topped t = t"
  using at_text_last [of s "c # t" st] by (cases t) auto

text \<open>A visible character has the next one in the same buffer.\<close>

lemma rd_next:
  assumes "at_text s (c # d # t) st" "\<not> isspace c"
  shows "rd (Suc 0) st f = f d" "char_at (Suc 0) st = Some d"
proof -
  have r: "reading st" "src_ok st" "unread st = c # d # t" using assms(1) by (auto simp: at_text_def reading_def)
  obtain h where h: "here st = c # h" using reading_here [OF r(1)] r(3) by auto
  have "h \<noteq> []"
  proof
    assume "h = []"
    then have "here st = [c]" using h by simp
    moreover have "from_save st \<Longrightarrow> isblank (last (here st))" using assms(1) save_rest_Nil [OF r(1)] by (auto simp: here_def at_text_def)
    moreover have "\<not> from_save st \<Longrightarrow> last (here st) = NL" using here_last [OF r(1)] by blast
    ultimately show False using assms(2) by (cases "from_save st") (auto dest: isblank_isspace)
  qed
  then have "1 < length (here st)" using h by (cases h) auto
  from char_at_unread [OF r(2) this] r(3) show "char_at (Suc 0) st = Some d" by simp
  then show "rd (Suc 0) st f = f d" by (simp add: rd_def)
qed

lemma skip_blanks_text:
  assumes "at_text s t st" "length t < n"
    "\<And>s. core (f s) = f (core s)" "\<And>s. f (f s) = f s" "\<And>s t st. at_text s t (f st) = at_text s t st"
  shows "\<exists>st'. skip_blanks f n st = go st' \<and> at_text (drop (length (takeWhile isblank t)) s) (dropWhile isblank t) st' \<and>
      (core st' = core st \<or> core st' = core (f st))"
  using assms(1,2)
proof (induction n arbitrary: s t st)
  case (Suc n)
  then obtain c t' where t: "t = c # t'" using at_text_last [of s t st] by (cases t) auto
  show ?case
  proof (cases "isblank c")
    case False
    then show ?thesis using Suc.prems t by (auto simp: rd_at)
  next
    case True
    then have n: "topped t' = t'" using at_text_next [of s c t' st] Suc.prems t by (auto simp: isblank_def)
    from Suc.prems t obtain st1 where st1: "adv (f st) = go st1" "at_text (tl s) t' st1" "core st1 = core (f st)"
      using adv_at [of s c t' "f st"] assms(5) n by auto
    have "length t' < n" using Suc.prems t by simp
    from Suc.IH [OF st1(2) this] obtain st' where st': "skip_blanks f n st1 = go st'"
      "at_text (drop (length (takeWhile isblank t')) (tl s)) (dropWhile isblank t') st'"
      "core st' = core st1 \<or> core st' = core (f st1)" by blast
    moreover have "core (f st1) = core (f st)" using st1(3) assms(3,4) by metis
    ultimately show ?thesis using Suc.prems t True st1 by (auto simp: rd_at drop_Suc)
  qed
qed simp

text \<open>What the lexer leaves alone.\<close>

definition lex_frame :: "ist \<Rightarrow> ist \<Rightarrow> bool" where
  "lex_frame st st' \<longleftrightarrow>
     opt st' = opt st \<and> labb st' = labb st \<and> codeb st' = codeb st \<and> comb st' = comb st \<and> sc_buf st' = sc_buf st \<and>
     save_com st' = save_com st \<and> sc_end st' = sc_end st \<and> mv st' = mv st \<and> to_stdout st' = to_stdout st \<and>
     comment_open st' = comment_open st \<and> typenames st' = typenames st \<and>
     (to_stdout st \<or> outp st' = outp st) \<and> search_brace (ps st') = search_brace (ps st) \<and>
     search_brace (tstate st') = search_brace (tstate st)"

lemma lex_frame_refl [simp]: "lex_frame st st"
  by (simp add: lex_frame_def)

lemma lex_frame_trans [trans]: "lex_frame a b \<Longrightarrow> lex_frame b c \<Longrightarrow> lex_frame a c"
  by (auto simp: lex_frame_def)

lemma lex_frame_core:
  assumes "core st' = core st"
  shows "lex_frame st st'"
  using core_sel [OF assms] by (simp add: lex_frame_def)

lemma lex_frame_upd [simp]:
  "lex_frame st (push_tok c st') = lex_frame st st'" "lex_frame st (diag2 l m st') = lex_frame st st'"
  "lex_frame st (st'\<lparr>line_no := k\<rparr>) = lex_frame st st'"
  "(\<And>p. search_brace (f p) = search_brace p) \<Longrightarrow> lex_frame st (upd_st tr f st') = lex_frame st st'"
  by (auto simp: lex_frame_def push_tok_def diag2_def Let_def emit_def upd_st_def upd_ps_def)

text \<open>A scan that takes \<open>a\<close> for the token, reading \<open>k\<close> characters.\<close>

definition takes :: "string \<Rightarrow> nat \<Rightarrow> string \<Rightarrow> string \<Rightarrow> ist \<Rightarrow> ist irun \<Rightarrow> bool" where
  "takes a k s r st run \<longleftrightarrow>
     (\<exists>st'. run = go st' \<and> at_text (drop k s) r st' \<and> token st' = token st @ a \<and> lex_frame st st')"

lemma takes_nothing: "at_text s t st \<Longrightarrow> takes [] 0 s t st (go st)"
  by (simp add: takes_def)

text \<open>One more character for the token.\<close>

lemma push_at:
  assumes "at_text s (c # t) st" "c \<noteq> NL"
  shows "\<exists>st'. adv (push_tok c st) = go st' \<and> at_text (tl s) t st' \<and> token st' = token st @ [c] \<and> lex_frame st st'"
proof -
  have "at_text s (c # t) (push_tok c st)" using assms(1) by simp
  from adv_at [OF this] obtain st' where st': "adv (push_tok c st) = go st'" "at_text (tl s) t st'" "core st' = core (push_tok c st)"
    using at_text_next [OF assms] by auto
  have "token st' = token st @ [c]" using core_sel(6) [OF st'(3)] by (simp add: push_tok_def)
  moreover have "lex_frame st st'"
    using lex_frame_trans [OF _ lex_frame_core [OF st'(3)], of st] by simp
  ultimately show ?thesis using st' by blast
qed

lemma takes_push:
  assumes "at_text s (c # t) st" "c \<noteq> NL"
    "\<And>st1. at_text (tl s) t st1 \<Longrightarrow> token st1 = token st @ [c] \<Longrightarrow> takes a k (tl s) r st1 (f st1)"
  shows "takes (c # a) (Suc k) s r st (andthen (adv (push_tok c st)) f)"
proof -
  obtain st1 where st1: "adv (push_tok c st) = go st1" "at_text (tl s) t st1" "token st1 = token st @ [c]" "lex_frame st st1"
    using push_at [OF assms(1,2)] by blast
  from assms(3) [OF st1(2,3)] obtain st' where "f st1 = go st'" "at_text (drop k (tl s)) r st'" "token st' = token st1 @ a" "lex_frame st1 st'"
    by (auto simp: takes_def)
  with st1 lex_frame_trans [OF st1(4)] show ?thesis by (simp add: takes_def drop_Suc)
qed

lemma scan_number_text:
  assumes "at_text s t st" "length t < n"
  shows "takes (fst (num_text q t)) (length (fst (num_text q t))) s (snd (num_text q t)) st (scan_number n q st)"
  using assms
proof (induction n arbitrary: q s t st)
  case (Suc n)
  then obtain c t' where t: "t = c # t'" using at_text_last [of s t st] by (cases t) auto
  show ?case
  proof (cases "num_final q \<or> num_step q c = None")
    case True
    then show ?thesis using Suc.prems t takes_nothing by (auto simp: rd_at)
  next
    case False
    then obtain q' where q': "num_step q c = Some q'" "\<not> num_final q" by auto
    have "num_step q NL = None" by (simp add: num_step_def table_def init_constant_tt_def table0_def Let_def)
    then have "c \<noteq> NL" using q'(1) by auto
    then show ?thesis using Suc.prems Suc.IH [of _ t'] t q' takes_push [of s c t' st]
      by (auto simp: rd_at split: prod.splits)
  qed
qed simp

lemma word_char_not_nl: "\<not> is_word_char NL"
  by (simp add: is_word_char_def ctype_simps)

lemma adjacent_tl: "\<not> adjacent a b (c # t) \<Longrightarrow> \<not> adjacent a b t"
  using adjacent_Cons by blast

lemma scan_ident_text:
  assumes "at_text s t st" "length t < n" "\<not> adjacent (CHR 0x5C) NL t"
  shows "takes (takeWhile is_word_char t) (length (takeWhile is_word_char t)) s (dropWhile is_word_char t) st (scan_ident n st)"
  using assms
proof (induction n arbitrary: s t st)
  case (Suc n)
  then obtain c t' where t: "t = c # t'" using at_text_last [of s t st] by (cases t) auto
  consider "is_word_char c" | "\<not> is_word_char c" "c = CHR 0x5C" | "\<not> is_word_char c" "c \<noteq> CHR 0x5C" by blast
  then show ?case
  proof cases
    case 1
    then have "c \<noteq> NL" using word_char_not_nl by auto
    then show ?thesis using 1 Suc.prems Suc.IH [of _ t'] t takes_push [of s c t' st] adjacent_tl [of _ _ c t']
      by (auto simp: rd_at)
  next
    case 2
    then obtain d r where d: "t' = d # r" using at_text_next [of s c t' st] Suc.prems t by (cases t') auto
    have "\<not> isspace c" using 2 by (simp add: isspace_def)
    then show ?thesis
      using 2 Suc.prems t d takes_nothing by (auto simp: rd_at rd_next(1) [of s c d r st])
  next
    case 3
    then show ?thesis using Suc.prems t takes_nothing by (auto simp: rd_at)
  qed
qed simp

lemma scan_same_text:
  assumes "at_text s t st" "length t < n" "token st \<noteq> []" "last (token st) \<noteq> NL"
  shows "takes (fst (same_text (last (token st)) t)) (length (fst (same_text (last (token st)) t))) s
    (snd (same_text (last (token st)) t)) st (scan_same n st)"
  using assms
proof (induction n arbitrary: s t st)
  case (Suc n)
  then obtain c t' where t: "t = c # t'" using at_text_last [of s t st] by (cases t) auto
  show ?case
  proof (cases "c = last (token st) \<or> c = CHR ''=''")
    case True
    then have c: "c \<noteq> NL" using Suc.prems(4) by auto
    have "takes (fst (same_text c t')) (length (fst (same_text c t'))) (tl s) (snd (same_text c t')) st1 (scan_same n st1)"
      if "at_text (tl s) t' st1" "token st1 = token st @ [c]" for st1
      using Suc.IH [OF that(1)] Suc.prems(2) t that(2) c by simp
    then show ?thesis using True Suc.prems t takes_push [of s c t' st] c by (auto simp: rd_at)
  next
    case False
    then show ?thesis using Suc.prems t takes_nothing by (auto simp: rd_at)
  qed
qed simp

lemma scan_stars_text:
  assumes "at_text s t st" "length t < n" "\<exists>c \<in> set t. \<not> starsp c"
  shows "takes (filter (\<lambda>d. d = CHR ''*'') (takeWhile starsp t)) (length (takeWhile starsp t)) s (dropWhile starsp t) st (scan_stars n st)"
  using assms
proof (induction n arbitrary: s t st)
  case (Suc n)
  then obtain c t' where t: "t = c # t'" using at_text_last [of s t st] by (cases t) auto
  consider "c = CHR ''*''" | "c \<noteq> CHR ''*''" "isspace c" | "\<not> starsp c" by (auto simp: starsp_def)
  then show ?case
  proof cases
    case 1
    then show ?thesis using Suc.prems Suc.IH [of _ t'] t takes_push [of s c t' st]
      by (auto simp: rd_at starsp_def)
  next
    case 2
    have "t' \<noteq> []" using Suc.prems t 2 by (auto simp: starsp_def)
    then obtain st1 where st1: "adv st = go st1" "at_text (tl s) t' st1" "core st1 = core st"
      using adv_at [of s c t' st] Suc.prems t by auto
    have "length t' < n" "\<exists>c \<in> set t'. \<not> starsp c" using Suc.prems t 2 by (auto simp: starsp_def)
    from Suc.IH [OF st1(2) this] 2 t Suc.prems st1 core_sel(6) [OF st1(3)] lex_frame_trans [OF lex_frame_core [OF st1(3)]]
    show ?thesis by (auto simp: rd_at takes_def starsp_def drop_Suc)
  next
    case 3
    then show ?thesis using Suc.prems t takes_nothing by (auto simp: rd_at starsp_def)
  qed
qed simp

lemma at_text_diag [simp]:
  "at_text s t (diag2 l m st) = at_text s t st" "at_text s t (st\<lparr>line_no := k\<rparr>) = at_text s t st"
  "token (diag2 l m st) = token st"
  by (simp_all add: at_text_def reading_def src_ok_def unread_def save_rest_def main_rest_def file_rest_def diag2_def emit_def Let_def)

lemma scan_lit_text:
  assumes "at_text s t st" "length t < n" "\<not> adjacent (CHR 0x5C) NL t" "q \<noteq> CHR 0x5C"
  shows "takes (fst (lit_text q t)) (length (fst (lit_text q t))) s (snd (lit_text q t)) st (scan_lit n q st)"
  using assms(1-3)
proof (induction n arbitrary: s t st)
  case (Suc n)
  then obtain c t' where t: "t = c # t'" using at_text_last [of s t st] by (cases t) auto
  consider "c = NL" | "c = CHR 0x5C" | "c \<noteq> NL" "c \<noteq> CHR 0x5C" by blast
  then show ?case
  proof cases
    case 1
    then show ?thesis using Suc.prems t by (simp add: rd_at takes_def)
  next
    case 2
    then obtain d r where d: "t' = d # r" "d \<noteq> NL" using at_text_next [of s c t' st] Suc.prems t by (cases t') auto
    have "takes (d # fst (lit_text q r)) (Suc (length (fst (lit_text q r)))) (tl s) (snd (lit_text q r)) st1
        (andthen (adv (push_tok d st1)) (scan_lit n q))" if "at_text (tl s) t' st1" for st1
      using takes_push [of "tl s" d r st1] that d Suc.IH [of _ r] Suc.prems(2,3) t 2 adjacent_tl by auto
    then have "takes (d # fst (lit_text q r)) (Suc (length (fst (lit_text q r)))) (tl s) (snd (lit_text q r)) st1
        (rd 0 st1 (\<lambda>d. andthen (adv (push_tok d (if d = NL then st1\<lparr>line_no := line_no st1 + 1\<rparr> else st1))) (scan_lit n q)))"
      if "at_text (tl s) t' st1" for st1 using that d by (auto simp: rd_at)
    from takes_push [of s c t' st, OF _ _ this] Suc.prems t 2 d assms(4) show ?thesis by (auto simp: rd_at)
  next
    case 3
    have "takes (fst (lit_text q t')) (length (fst (lit_text q t'))) (tl s) (snd (lit_text q t')) st1 (scan_lit n q st1)"
      if "at_text (tl s) t' st1" for st1 using Suc.IH [OF that] Suc.prems t adjacent_tl by auto
    from takes_push [of s c t' st, OF _ _ this] takes_push [of s c t' st "[]" 0 t' go, OF _ _ takes_nothing] 3 Suc.prems t
    show ?thesis by (auto simp: rd_at)
  qed
qed simp

text \<open>The look ahead stops in the current buffer when there is something to stop it.\<close>

definition stopper :: "char \<Rightarrow> bool" where
  "stopper c \<longleftrightarrow> \<not> isalpha c \<and> \<not> isspace c"

lemma scan_tp_stops:
  assumes "src_ok st" "list_ex stopper (drop j (here st))" "length (here st) - j < n"
  shows "\<exists>c. scan_tp n (from_save st) (buf_ptr st + j) st = go (c, st)"
  using assms(2,3)
proof (induction n arbitrary: j)
  case (Suc n)
  have j: "j < length (here st)" using Suc.prems(1) by (cases "j < length (here st)") auto
  then have m: "mem_at (from_save st) (buf_ptr st + j) st = Some (here st ! j)"
    using char_at_here [OF assms(1)] by (simp add: char_at_def)
  show ?case
  proof (cases "stopper (here st ! j)")
    case True
    then show ?thesis using m by (simp add: stopper_def)
  next
    case False
    then have ex: "list_ex stopper (drop (Suc j) (here st))" using Suc.prems(1) j by (simp add: Cons_nth_drop_Suc [symmetric])
    then have "Suc j < length (here st)" by (cases "Suc j < length (here st)") auto
    then have "buf_ptr st + j + 1 < buf_end st" using here_length [OF assms(1)] by simp
    moreover have "\<exists>c. scan_tp n (from_save st) (buf_ptr st + Suc j) st = go (c, st)"
      using Suc.IH [OF ex] Suc.prems(2) j by simp
    ultimately show ?thesis using m False by (auto simp: stopper_def)
  qed
qed simp

section \<open>lexi\<close>

text \<open>A run of the lexer with a code and a state of the kind \<open>K\<close>.\<close>

definition lexes :: "(code \<Rightarrow> ist \<Rightarrow> bool) \<Rightarrow> string \<Rightarrow> nat \<Rightarrow> string \<Rightarrow> string \<Rightarrow> ist \<Rightarrow> (code \<times> ist) irun \<Rightarrow> bool" where
  "lexes K a k s r st run \<longleftrightarrow>
     (\<exists>tk st'. run = go (tk, st') \<and> K tk st' \<and> at_text (drop k s) r st' \<and> token st' = token st @ a \<and> lex_frame st st')"

lemma lexes_from:
  assumes "lexes K a k s r st1 run" "token st1 = token st" "lex_frame st st1"
  shows "lexes K a k s r st run"
  using assms lex_frame_trans [OF assms(3)] by (auto simp: lexes_def)

lemma lexes_after:
  assumes "lexes K b j (drop k s) r st1 run" "lex_frame st st1" "token st1 = token st @ a"
  shows "lexes K (a @ b) (k + j) s r st run"
  using assms lex_frame_trans [OF assms(2)] by (auto simp: lexes_def add.commute)

lemma check_buf_reading: "reading st \<Longrightarrow> check_buf st = go st"
  by (simp add: check_buf_def reading_def)

lemma had_eof_upd [simp]: "had_eof (set_last_u_d tr u st) = had_eof st" "had_eof (upd_st tr f st) = had_eof st"
  "token (set_last_u_d tr u st) = token st" "token (upd_st tr f st) = token st" "at_text s t (set_last_u_d tr u st) = at_text s t st"
  "lex_frame st0 (set_last_u_d tr u st) = lex_frame st0 st"
  "token (set_keyword tr k st) = token st" "at_text s t (set_keyword tr k st) = at_text s t st"
  "lex_frame st0 (set_keyword tr k st) = lex_frame st0 st" "had_eof (set_keyword tr k st) = had_eof st"
  by (simp_all add: set_last_u_d_def set_keyword_def) (simp_all add: upd_st_def upd_ps_def)

lemma lexes_finish:
  assumes "takes a k s r st run" "\<And>st'. token st' = token st @ a \<Longrightarrow> K tk st'"
  shows "lexes K a k s r st (andthen run (finish tr tk u))"
proof -
  obtain st' where st': "run = go st'" "at_text (drop k s) r st'" "token st' = token st @ a" "lex_frame st st'"
    using assms(1) by (auto simp: takes_def)
  then have "reading st'" by (auto simp: at_text_def)
  with st' assms(2) show ?thesis by (simp add: lexes_def finish_def check_buf_reading)
qed

lemma finish_here:
  assumes "at_text s t st" "K tk (set_last_u_d tr u st)"
  shows "lexes K [] 0 s t st (finish tr tk u st)"
proof -
  have "reading st" using assms(1) by (simp add: at_text_def)
  with assms show ?thesis by (simp add: lexes_def finish_def check_buf_reading)
qed

lemma bump_adv: "check_buf (bump c st) = adv (push_tok c st)"
  by (simp add: bump_def adv_def push_tok_def)

lemma finish_bump:
  assumes "at_text s (c # t) st" "c \<noteq> NL" "\<And>st'. token st' = token st @ [c] \<Longrightarrow> K tk st'"
  shows "lexes K [c] (Suc 0) s t st (finish tr tk u (bump c st))"
proof -
  obtain st' where st': "adv (push_tok c st) = go st'" "at_text (tl s) t st'" "token st' = token st @ [c]" "lex_frame st st'"
    using push_at [OF assms(1,2)] by blast
  then have "reading st'" by (auto simp: at_text_def)
  with st' assms(3) show ?thesis by (simp add: lexes_def finish_def bump_adv drop_Suc)
qed

text \<open>The kinds of tokens.\<close>

definition word_kinds :: "code set" where
  "word_kinds = {ident, decl, funcname, structure_tok, sp_paren, sp_nparen, swstmt, casestmt, storage, type_def, strpfx}"

definition kind_ok :: "code \<Rightarrow> string \<Rightarrow> bool" where
  "kind_ok tk tok \<longleftrightarrow>
     tk \<in> {newline, eofcode} \<and> tok = [NL] \<or> tk = form_feed \<and> tok = [FF] \<or> tk = lparen \<and> tok \<in> {''('', ''[''} \<or>
     tk = rparen \<and> tok \<in> {'')'', '']''} \<or> tk = postop \<and> length tok = 2 \<or> tk = question \<and> tok = ''?'' \<or>
     tk = colon \<and> tok = '':'' \<or> tk = semicolon \<and> tok = '';'' \<or> tk = lbrace \<and> tok = ''{'' \<or> tk = rbrace \<and> tok = ''}'' \<or>
     tk = period \<and> tok = ''.'' \<or> tk = comma \<and> tok = '','' \<or> tk = preesc \<and> tok = ''#'' \<or> tk = comment \<and> tok = ''/*'' \<or>
     tk \<in> {unary_op, binary_op} \<or>
     tk \<in> word_kinds \<and> tok \<noteq> [] \<and> (is_word_char (hd tok) \<or> hd tok = CHR ''.'' \<or> tk = ident \<and> quote (hd tok))"

definition lexed_as :: "code \<Rightarrow> ist \<Rightarrow> bool" where
  "lexed_as tk st \<longleftrightarrow> kind_ok tk (token st) \<and> (tk = eofcode \<longrightarrow> had_eof st)"

lemma kind_ok_op: "tk \<in> {unary_op, binary_op} \<Longrightarrow> lexed_as tk st"
  by (auto simp: lexed_as_def kind_ok_def)

lemma op_code_kind [simp]: "op_code p \<in> {unary_op, binary_op}"
  by (simp add: op_code_def)

lemma lexi_sign_text:
  assumes "at_text s t st" "token st = [c]" "c = CHR ''-'' \<or> c = CHR ''+''"
  shows "case join (\<lambda>d. d = c \<or> d = CHR ''='' \<or> d = CHR ''>'') t of (a, r) \<Rightarrow> lexes lexed_as a (length a) s r st (lexi_sign tr c st)"
proof -
  obtain d t' where t: "t = d # t'" using at_text_last [OF assms(1)] by (cases t) auto
  have b: "lexes lexed_as [e] (Suc 0) s t' st (finish tr tk u (bump e st))"
    if "at_text s (e # t') st" "e = c \<or> e = CHR ''='' \<or> e = CHR ''>''" "tk \<in> {unary_op, binary_op, postop}" for e tk u
    using finish_bump [of s e t' st lexed_as tk tr u] that assms(2,3) by (auto simp: lexed_as_def kind_ok_def)
  have b': "lexes lexed_as [e] (Suc 0) s t' st (finish tr unary_op False (upd_st tr (\<lambda>p. p\<lparr>want_blank := False\<rparr>) (bump e st)))"
    if "at_text s (e # t') st" "e = CHR ''>''" for e
  proof -
    let ?f = "upd_st tr (\<lambda>p. p\<lparr>want_blank := False\<rparr>)"
    have "?f (bump e st) = bump e (?f st)" by (simp add: bump_def push_tok_def upd_st_def upd_ps_def)
    moreover have "lexes lexed_as [e] (Suc 0) s t' (?f st) (finish tr unary_op False (bump e (?f st)))"
      using finish_bump [of s e t' "?f st" lexed_as unary_op tr False] that by (auto intro: kind_ok_op)
    ultimately show ?thesis using lexes_from [of lexed_as "[e]" "Suc 0" s t' "?f st" _ st] by simp
  qed
  have h: "lexes lexed_as [] 0 s t st (finish tr (op_code p) True st)" for p
    by (rule finish_here [OF assms(1)]) (rule kind_ok_op, rule op_code_kind)
  have at: "at_text s (d # t') st" using assms(1) t by simp
  show ?thesis
  proof (cases "d = c \<or> d = CHR ''='' \<or> d = CHR ''>''")
    case True
    then have "lexes lexed_as [d] (Suc 0) s t' st (lexi_sign tr c st)"
      unfolding lexi_sign_def Let_def rd_at [OF at] using at by (auto intro!: b b' simp: op_code_def)
    with True show ?thesis by (simp add: join_def t)
  next
    case False
    then have "lexes lexed_as [] 0 s t st (lexi_sign tr c st)"
      unfolding lexi_sign_def Let_def rd_at [OF at] using h by simp
    with False show ?thesis by (simp add: join_def t)
  qed
qed

text \<open>
  What must hold for the stars of a declaration: behind them something stops the look ahead, in
  the save buffer or on the line.
\<close>

definition stars_closed :: "string \<Rightarrow> bool" where
  "stars_closed t \<longleftrightarrow>
     (\<forall>u r. t = u @ CHR ''*'' # r \<longrightarrow> list_ex stopper (takeWhile (\<lambda>c. c \<noteq> NL) (dropWhile starsp r)))"

definition save_stars :: "string \<Rightarrow> bool" where
  "save_stars s \<longleftrightarrow> (\<forall>r. dropWhile isblank s = CHR ''*'' # r \<longrightarrow> \<not> list_ex isalpha r)"

lemma length_takeWhile: "length (takeWhile P t) = length t - length (dropWhile P t)"
  by (metis add_diff_cancel_right' length_append takeWhile_dropWhile_id)

lemma here_split: "reading st \<Longrightarrow> \<exists>t. unread st = here st @ t"
  using here_unread by blast

lemma line_prefix:
  assumes "last h = NL" "h \<noteq> []"
  shows "\<exists>u. h = takeWhile (\<lambda>c. c \<noteq> NL) (h @ t) @ u"
proof -
  have "NL \<in> set h" using assms last_in_set [of h] by simp
  then have "takeWhile (\<lambda>c. c \<noteq> NL) (h @ t) = takeWhile (\<lambda>c. c \<noteq> NL) h" by (intro takeWhile_append1) auto
  then show ?thesis using takeWhile_dropWhile_id [of "\<lambda>c. c \<noteq> NL" h] by metis
qed

lemma tp_stops:
  assumes "at_text s t st" "t = c # t'" "\<not> starsp c" "list_ex stopper (takeWhile (\<lambda>c. c \<noteq> NL) t)"
    "s \<noteq> [] \<Longrightarrow> \<not> list_ex isalpha s"
  shows "list_ex stopper (here st)"
proof -
  have r: "reading st" "unread st = t" "save_rest st = s" using assms(1) by (auto simp: at_text_def)
  obtain h where h: "here st = c # h" using reading_here [OF r(1)] r(2) assms(2) by auto
  show ?thesis
  proof (cases "from_save st")
    case True
    then have s: "s = c # h" using h r(3) by (simp add: here_def)
    then have "stopper c" using assms(3,5) by (auto simp: stopper_def starsp_def)
    then show ?thesis using h by simp
  next
    case False
    obtain w where "unread st = here st @ w" using here_unread by blast
    then obtain u where "here st = takeWhile (\<lambda>c. c \<noteq> NL) t @ u"
      using line_prefix [of "here st" w] here_last(1) [OF r(1) False] h r(2) by auto
    with assms(4) show ?thesis by simp
  qed
qed

lemma lexi_star_text:
  assumes "at_text s t st" "length t < n" "last_u_d (st_of tr st) \<Longrightarrow> list_ex stopper (takeWhile (\<lambda>c. c \<noteq> NL) (dropWhile starsp t))"
    "\<not> list_ex isalpha s"
  shows "case (if last_u_d (st_of tr st) then (filter (\<lambda>d. d = CHR ''*'') (takeWhile starsp t), dropWhile starsp t)
            else join (\<lambda>d. d = CHR ''='') t) of (a, r) \<Rightarrow> lexes lexed_as a (length t - length r) s r st (lexi_star n tr st)"
proof (cases "last_u_d (st_of tr st)")
  case False
  obtain d t' where t: "t = d # t'" using at_text_last [OF assms(1)] by (cases t) auto
  have "lexi_star n tr st = finish tr binary_op True (if d = CHR ''='' then bump d st else st)"
    using False unfolding lexi_star_def rd_at [OF assms(1) [unfolded t]] by simp
  moreover have "lexes lexed_as [d] (Suc 0) s t' st (finish tr binary_op True (bump d st))" if "d = CHR ''=''"
    using finish_bump [of s d t' st] assms(1) t that kind_ok_op by auto
  moreover have "lexes lexed_as [] 0 s t st (finish tr binary_op True st)"
    using finish_here [OF assms(1)] kind_ok_op by auto
  ultimately show ?thesis using False t by (simp add: join_def)
next
  case True
  let ?r = "dropWhile starsp t" and ?k = "length (takeWhile starsp t)"
  have ex: "list_ex stopper (takeWhile (\<lambda>c. c \<noteq> NL) ?r)" using assms(3) True by blast
  then obtain c r' where r: "?r = c # r'" by (cases ?r) auto
  have c: "\<not> starsp c" using r hd_dropWhile [of starsp t] by simp
  have "\<exists>c \<in> set t. \<not> starsp c" using c r by (metis list.set_intros(1) set_dropWhileD)
  from scan_stars_text [OF assms(1,2) this] obtain st1 where st1: "scan_stars n st = go st1" "at_text (drop ?k s) ?r st1"
    "token st1 = token st @ filter (\<lambda>d. d = CHR ''*'') (takeWhile starsp t)" "lex_frame st st1" by (auto simp: takes_def)
  have rd: "reading st1" "src_ok st1" "here st1 \<noteq> []" using st1(2) reading_here [of st1] by (auto simp: at_text_def reading_def)
  have "\<not> list_ex isalpha (drop ?k s)" using assms(4) by (metis append_take_drop_id list_ex_append)
  then have "list_ex stopper (here st1)" using tp_stops [OF st1(2) r c ex] by blast
  moreover have "length (here st1) \<le> length t"
    using here_unread [of st1] st1(2) length_dropWhile_le [of starsp t] by (auto simp: at_text_def)
  ultimately obtain x where x: "scan_tp n (from_save st1) (buf_ptr st1) st1 = go (x, st1)"
    using scan_tp_stops [OF rd(2), of 0 n] assms(2) by auto
  have k: "?k = length t - length ?r" by (rule length_takeWhile)
  define f where "f = (\<lambda>st2. if x = CHR ''('' then upd_ps (\<lambda>p. p\<lparr>procname := CHR '' '' # tl (procname p)\<rparr>) st2 else st2)"
  have f: "at_text s t (f st) = at_text s t st" "token (f st) = token st" "lex_frame st0 (f st) = lex_frame st0 st" for s t st0 st
    by (simp_all add: f_def at_text_def reading_def src_ok_def unread_def save_rest_def main_rest_def file_rest_def upd_ps_def lex_frame_def)
  define st2 where "st2 = (if in_decl (ps st1) then f st1 else st1)"
  have st2: "at_text (drop ?k s) ?r st2" "token st2 = token st1" "lex_frame st st2" using f st1(2,4) by (auto simp: st2_def)
  have "lexi_star n tr st = finish tr unary_op True st2"
    using True st1(1) x by (simp add: lexi_star_def f_def st2_def)
  then have "lexes lexed_as [] 0 (drop ?k s) ?r st2 (lexi_star n tr st)"
    using finish_here [OF st2(1)] kind_ok_op by auto
  from lexes_after [OF this st2(3)] st2(2) st1(3) True k show ?thesis by simp
qed

lemma finish_upd:
  assumes "at_text s t st" "K tk (set_last_u_d tr u (upd_st tr f st))" "\<And>p. search_brace (f p) = search_brace p"
  shows "lexes K [] 0 s t st (finish tr tk u (upd_st tr f st))"
proof -
  have "at_text s t (upd_st tr f st)" using assms(1) by simp
  from lexes_from [OF finish_here [OF this, of K tk, OF assms(2)], of st] assms(3) show ?thesis by simp
qed

lemma quote_facts: "quote c \<Longrightarrow> c \<noteq> CHR 0x5C \<and> c \<noteq> NL"
  by (auto simp: quote_def)

definition single :: "char set" where
  "single = {NL, CHR ''('', CHR ''['', CHR '')'', CHR '']'', CHR ''#'', CHR ''?'', CHR '':'', CHR '';'', CHR ''{'',
             CHR ''}'', FF, CHR '','', CHR ''.''}"

lemma lexi_op_single:
  assumes "at_text s t st" "token st = [c]" "c \<in> single"
  shows "lexes lexed_as [] 0 s t st (lexi_op n tr c st)"
  using assms(3,2) finish_here [OF assms(1)] finish_upd [OF assms(1)] unfolding single_def
  by (elim insertE emptyE) (simp_all add: lexi_op_def lexed_as_def kind_ok_def)

lemma lexi_op_quote:
  assumes "at_text s t st" "token st = [c]" "quote c" "length t < n" "\<not> adjacent (CHR 0x5C) NL t"
  shows "lexes lexed_as (fst (lit_text c t)) (length (fst (lit_text c t))) s (snd (lit_text c t)) st (lexi_op n tr c st)"
proof -
  have "lexi_op n tr c st = andthen (scan_lit n c st) (finish tr ident False)"
    using assms(3) by (auto simp: lexi_op_def quote_def)
  moreover have "lexed_as ident st'" if "token st' = token st @ a" for st' a
    using that assms(2,3) by (simp add: lexed_as_def kind_ok_def word_kinds_def)
  ultimately show ?thesis
    using lexes_finish [OF scan_lit_text [OF assms(1,4,5)]] quote_facts [OF assms(3)] by simp
qed

lemma lexi_op_compare:
  assumes "at_text s t st" "c = CHR ''>'' \<or> c = CHR ''<'' \<or> c = CHR ''!''"
  shows "case (case join (\<lambda>d. d = CHR ''>'' \<or> d = CHR ''<'' \<or> d = CHR ''='') t of
              (a, r) \<Rightarrow> apfst ((@) a) (join (\<lambda>d. d = CHR ''='') r)) of (a, r) \<Rightarrow> lexes lexed_as a (length a) s r st (lexi_op n tr c st)"
proof -
  obtain d t' where t: "t = d # t'" using at_text_last [OF assms(1)] by (cases t) auto
  have at: "at_text s (d # t') st" using assms(1) t by simp
  define p where "p = op_code (st_of tr st)"
  define run where "run = (\<lambda>st1. rd 0 st1 (\<lambda>e. finish tr p True (if e = CHR ''='' then bump e st1 else st1)))"
  have eq: "lexi_op n tr c st = andthen (if d = CHR ''>'' \<or> d = CHR ''<'' \<or> d = CHR ''='' then adv (push_tok d st) else go st) run"
  proof -
    have "lexi_op n tr c st = rd 0 st (\<lambda>d.
        andthen (if d = CHR ''>'' \<or> d = CHR ''<'' \<or> d = CHR ''='' then adv (push_tok d st) else go st) run)"
      using assms(2) unfolding run_def p_def lexi_op_def Let_def by (elim disjE) simp_all
    then show ?thesis unfolding rd_at [OF at] .
  qed
  have run: "lexes lexed_as (fst (join (\<lambda>d. d = CHR ''='') r)) (length (fst (join (\<lambda>d. d = CHR ''='') r))) s'
      (snd (join (\<lambda>d. d = CHR ''='') r)) st1 (run st1)" if at1: "at_text s' r st1" for s' r st1
  proof -
    obtain e r' where r: "r = e # r'" using at_text_last [OF at1] by (cases r) auto
    have "\<And>st'. lexed_as p st'" using kind_ok_op unfolding p_def by (metis op_code_kind)
    then show ?thesis
      using finish_here [OF at1] finish_bump [of s' e r' st1] at1 unfolding run_def r rd_at [OF at1 [unfolded r]]
      by (auto simp: join_def)
  qed
  show ?thesis
  proof (cases "d = CHR ''>'' \<or> d = CHR ''<'' \<or> d = CHR ''=''")
    case True
    then obtain st1 where st1: "adv (push_tok d st) = go st1" "at_text (tl s) t' st1" "token st1 = token st @ [d]" "lex_frame st st1"
      using push_at [OF at] by auto
    have "lexi_op n tr c st = run st1" using eq True st1(1) by simp
    moreover obtain a r where j: "join (\<lambda>d. d = CHR ''='') t' = (a, r)" by (cases "join (\<lambda>d. d = CHR ''='') t'")
    moreover have "join (\<lambda>d. d = CHR ''>'' \<or> d = CHR ''<'' \<or> d = CHR ''='') t = ([d], t')" using True by (simp add: join_def t)
    moreover have "lexes lexed_as ([d] @ a) (1 + length a) s r st (run st1)"
      using lexes_after [of lexed_as a "length a" 1 s r st1 "run st1" st "[d]"] st1(3,4) run [OF st1(2)] j by (simp add: drop_Suc)
    ultimately show ?thesis by simp
  next
    case False
    obtain a r where j: "join (\<lambda>d. d = CHR ''='') t = (a, r)" by (cases "join (\<lambda>d. d = CHR ''='') t")
    moreover have "join (\<lambda>d. d = CHR ''>'' \<or> d = CHR ''<'' \<or> d = CHR ''='') t = ([], t)" using False by (simp add: join_def t)
    moreover have "lexi_op n tr c st = run st" using eq False by simp
    ultimately show ?thesis using run [OF assms(1)] by simp
  qed
qed

lemma lexi_op_assign:
  assumes "at_text s t st" 
  shows "case join (\<lambda>d. d = CHR ''='') t of (a, r) \<Rightarrow> lexes lexed_as a (length a) s r st (lexi_op n tr (CHR ''='') st)"
proof -
  obtain d t' where t: "t = d # t'" using at_text_last [OF assms] by (cases t) auto
  define st1 where "st1 = (if in_or_st (st_of tr st) then upd_st tr (\<lambda>p. p\<lparr>block_init := True\<rparr>) st else st)"
  have at: "at_text s (d # t') st1" "token st1 = token st" "lex_frame st st1" using assms t by (auto simp: st1_def)
  have "lexi_op n tr (CHR ''='') st = rd 0 st1 (\<lambda>d. finish tr binary_op True (if d = CHR ''='' then bump d st1 else st1))"
    unfolding lexi_op_def Let_def st1_def by simp
  then have "lexi_op n tr (CHR ''='') st = finish tr binary_op True (if d = CHR ''='' then bump d st1 else st1)"
    unfolding rd_at [OF at(1)] .
  then have "case join (\<lambda>d. d = CHR ''='') t of (a, r) \<Rightarrow> lexes lexed_as a (length a) s r st1 (lexi_op n tr (CHR ''='') st)"
    using finish_here [OF at(1)] finish_bump [OF at(1)] kind_ok_op by (auto simp: join_def t)
  then show ?thesis using lexes_from [OF _ at(2,3)] by (auto split: prod.splits)
qed

lemma lexi_op_comment:
  assumes "at_text s (CHR ''*'' # t) st" "token st = ''/''"
  shows "lexes lexed_as ''*'' 1 s t st (lexi_op n tr (CHR ''/'') st)"
proof -
  define p where "p = last_u_d (st_of tr st)"
  have "lexi_op n tr (CHR ''/'') st =
      rd 0 st (\<lambda>d. if d = CHR ''*'' then andthen (adv (push_tok d st)) (finish tr comment p)
                   else andthen (scan_same n st) (finish tr (op_code (st_of tr st)) True))"
    unfolding lexi_op_def Let_def p_def by simp
  then have "lexi_op n tr (CHR ''/'') st = andthen (adv (push_tok (CHR ''*'') st)) (finish tr comment p)"
    unfolding rd_at [OF assms(1)] by simp
  moreover have "andthen (adv (push_tok (CHR ''*'') st)) (finish tr comment p) = finish tr comment p (bump (CHR ''*'') st)"
    using push_at [OF assms(1)] by (auto simp: finish_def bump_adv check_buf_reading at_text_def)
  moreover have "lexes lexed_as ''*'' (Suc 0) s t st (finish tr comment p (bump (CHR ''*'') st))"
    using finish_bump [OF assms(1)] assms(2) by (auto simp: lexed_as_def kind_ok_def)
  ultimately show ?thesis by simp
qed

definition plain_op :: "char \<Rightarrow> bool" where
  "plain_op c \<longleftrightarrow> \<not> quote c \<and> c \<notin> single \<and> c \<notin> {CHR ''-'', CHR ''+'', CHR ''='', CHR ''>'', CHR ''<'', CHR ''!'', CHR ''*''}"

lemma lexi_op_same:
  assumes "at_text s t st" "token st = [c]" "plain_op c" "\<not> (c = CHR ''/'' \<and> deref t = CHR ''*'')" "length t < n"
  shows "lexes lexed_as (fst (same_text c t)) (length (fst (same_text c t))) s (snd (same_text c t)) st (lexi_op n tr c st)"
proof -
  obtain d t' where t: "t = d # t'" using at_text_last [OF assms(1)] by (cases t) auto
  define p where "p = op_code (st_of tr st)"
  have "lexi_op n tr c st =
      rd 0 st (\<lambda>d. if c = CHR ''/'' \<and> d = CHR ''*''
                   then andthen (adv (push_tok d st)) (finish tr comment (last_u_d (st_of tr st)))
                   else andthen (scan_same n st) (finish tr p True))"
    using assms(3) unfolding lexi_op_def Let_def p_def plain_op_def single_def quote_def by simp
  then have "lexi_op n tr c st = andthen (scan_same n st) (finish tr p True)"
    unfolding rd_at [OF assms(1) [unfolded t]] using assms(4) t by auto
  moreover have "\<And>st'. lexed_as p st'" using kind_ok_op unfolding p_def by (metis op_code_kind)
  moreover have "c \<noteq> NL" using assms(3) by (auto simp: plain_op_def single_def)
  ultimately show ?thesis
    using lexes_finish [OF scan_same_text [OF assms(1,5)]] assms(2) by simp
qed

lemma num_text_append: "fst (num_text q t) @ snd (num_text q t) = t"
  by (induction q t rule: num_text.induct) (auto split: option.splits)

lemma lit_text_append: "fst (lit_text q t) @ snd (lit_text q t) = t"
  by (induction q t rule: lit_text.induct) (auto split: list.splits)

lemma same_text_append: "fst (same_text p t) @ snd (same_text p t) = t"
  by (induction p t rule: same_text.induct) auto

lemma join_append: "join P t = (a, r) \<Longrightarrow> a @ r = t"
  by (auto simp: join_def split: list.splits if_splits)

lemmas taken = num_text_append lit_text_append same_text_append

lemma length_taken: "a @ r = t \<Longrightarrow> length t - length r = length a"
  by auto

lemma lexi_op_text:
  assumes "at_text s t st" "token st = [c]" "length t < n" "\<not> adjacent (CHR 0x5C) NL t"
    "c = CHR ''*'' \<Longrightarrow> last_u_d (st_of tr st) \<Longrightarrow> list_ex stopper (takeWhile (\<lambda>c. c \<noteq> NL) (dropWhile starsp t))"
    "c = CHR ''*'' \<Longrightarrow> \<not> list_ex isalpha s" "lex_op (last_u_d (st_of tr st)) c t = (a, r)"
  shows "lexes lexed_as a (length t - length r) s r st (lexi_op n tr c st)"
proof -
  consider "quote c" | "c \<in> single" | "c = CHR ''-'' \<or> c = CHR ''+''" | "c = CHR ''=''" |
    "c = CHR ''>'' \<or> c = CHR ''<'' \<or> c = CHR ''!''" | "c = CHR ''*''" | "plain_op c" by (auto simp: plain_op_def)
  then show ?thesis
  proof cases
    case 1
    with lexi_op_quote [OF assms(1,2) 1 assms(3,4)] lit_text_append [of c t] assms(7) show ?thesis
      by (auto simp: lex_op_def length_taken)
  next
    case 2
    then have "\<not> quote c" by (auto simp: single_def quote_def)
    with 2 lexi_op_single [OF assms(1,2) 2] assms(7) show ?thesis by (simp add: lex_op_def single_def)
  next
    case 3
    have "lexi_op n tr c st = lexi_sign tr c st" using 3 by (auto simp: lexi_op_def)
    moreover have j: "join (\<lambda>d. d = c \<or> d = CHR ''='' \<or> d = CHR ''>'') t = (a, r)"
      using 3 assms(7) by (auto simp: lex_op_def quote_def)
    ultimately show ?thesis using lexi_sign_text [OF assms(1,2) 3, of tr] length_taken [OF join_append [OF j]] by simp
  next
    case 4
    then have j: "join (\<lambda>d. d = CHR ''='') t = (a, r)" using assms(7) by (simp add: lex_op_def quote_def)
    then show ?thesis using lexi_op_assign [OF assms(1), of n tr] 4 length_taken [OF join_append [OF j]] by simp
  next
    case 5
    then have e: "lex_op (last_u_d (st_of tr st)) c t =
        (case join (\<lambda>d. d = CHR ''>'' \<or> d = CHR ''<'' \<or> d = CHR ''='') t of (a, r) \<Rightarrow> apfst ((@) a) (join (\<lambda>d. d = CHR ''='') r))"
      by (auto simp: lex_op_def quote_def)
    obtain b q where b: "join (\<lambda>d. d = CHR ''>'' \<or> d = CHR ''<'' \<or> d = CHR ''='') t = (b, q)" by fastforce
    obtain b' q' where b': "join (\<lambda>d. d = CHR ''='') q = (b', q')" by fastforce
    have "a @ r = t" using join_append [OF b] join_append [OF b'] e b b' assms(7) by auto
    with length_taken [OF this] show ?thesis using lexi_op_compare [OF assms(1) 5, of n tr] assms(7) e by simp
  next
    case 6
    have "lexi_op n tr c st = lexi_star n tr st" using 6 by (simp add: lexi_op_def)
    moreover have "lex_op (last_u_d (st_of tr st)) c t =
       (if last_u_d (st_of tr st) then (filter (\<lambda>d. d = CHR ''*'') (takeWhile starsp t), dropWhile starsp t)
            else join (\<lambda>d. d = CHR ''='') t)" using 6 by (simp add: lex_op_def quote_def)
    ultimately show ?thesis
      using lexi_star_text [of s t st n tr, OF assms(1,3) assms(5) [OF 6] assms(6) [OF 6]] assms(7) by (cases "last_u_d (st_of tr st)") simp_all
  next
    case 7
    show ?thesis
    proof (cases "c = CHR ''/'' \<and> deref t = CHR ''*''")
      case True
      then obtain t' where "t = CHR ''*'' # t'" by (cases t) auto
      with True lexi_op_comment [of s t' st] assms(1,2,7) show ?thesis by (auto simp: lex_op_def quote_def)
    next
      case False
      then have "lex_op (last_u_d (st_of tr st)) c t = same_text c t" using 7 by (auto simp: lex_op_def plain_op_def single_def)
      with lexi_op_same [OF assms(1,2) 7 False assms(3)] assms(7) same_text_append [of c t] show ?thesis
        by (auto simp: length_taken)
    qed
  qed
qed

text \<open>Words: the state may change, the text does not.\<close>

definition as_word :: "ist \<Rightarrow> (code \<times> ist) irun \<Rightarrow> bool" where
  "as_word st run \<longleftrightarrow>
     (\<exists>tk st'. run = go (tk, st') \<and> tk \<in> word_kinds \<and> token st' = token st \<and> lex_frame st st' \<and>
        (\<forall>s t. at_text s t st' = at_text s t st))"

lemma as_word_go: "tk \<in> word_kinds \<Longrightarrow> token st' = token st \<Longrightarrow> lex_frame st st' \<Longrightarrow>
    (\<And>s t. at_text s t st' = at_text s t st) \<Longrightarrow> as_word st (go (tk, st'))"
  by (auto simp: as_word_def)

lemma as_word_from: "as_word st1 run \<Longrightarrow> token st1 = token st \<Longrightarrow> lex_frame st st1 \<Longrightarrow>
    (\<And>s t. at_text s t st1 = at_text s t st) \<Longrightarrow> as_word st run"
  by (auto simp: as_word_def intro: lex_frame_trans)

lemma word_tail_word:
  assumes "at_text s t st"
  shows "as_word st (word_tail tr st)"
proof -
  obtain c t' where t: "t = c # t'" using at_text_last [OF assms(1)] by (cases t) auto
  have at: "at_text s (c # t') st" using assms t by simp
  have nx: "rd (Suc 0) st f = f (hd t')" if "c = CHR ''*''" for f :: "char \<Rightarrow> (code \<times> ist) irun"
  proof -
    obtain d r where "t' = d # r" using at_text_next [OF at] \<open>c = CHR ''*''\<close> by (cases t') auto
    then show ?thesis using rd_next(1) [of s c d r st f] at \<open>c = CHR ''*''\<close> by (simp add: isspace_def)
  qed
  show ?thesis
    unfolding word_tail_def Let_def rd_at [OF at]
    by (auto simp: nx word_kinds_def intro!: as_word_go)
qed

lemma found_typename_word:
  assumes "at_text s t st"
  shows "as_word st (found_typename tr cls st)"
proof -
  define st1 where "st1 = (if p_l_follow (st_of tr st) \<noteq> 0
                then upd_st tr (\<lambda>p. p\<lparr>cast_mask :=
                       or (cast_mask p) (and (push_bit (nat (p_l_follow p)) 1) (not (not_cast_mask p)))\<rparr>) st
                else st)"
  have st1: "at_text s t st1" "token st1 = token st" "lex_frame st st1" "\<And>s t. at_text s t st1 = at_text s t st"
    using assms by (auto simp: st1_def)
  have "at_text s t (set_keyword tr 0 st1)" using st1(1) by simp
  from word_tail_word [OF this] word_tail_word [OF st1(1)]
  have "as_word st1 (found_typename tr cls st)"
    unfolding found_typename_def Let_def st1_def [symmetric]
    by (auto simp: word_kinds_def intro!: as_word_go intro: as_word_from [of "set_keyword tr 0 st1"])
  then show ?thesis using as_word_from st1 by blast
qed

lemma classify_word:
  assumes "at_text s t st"
  shows "as_word st (classify tr st)"
proof -
  have "at_text s t (set_last_u_d tr True (set_keyword tr k st))" for k using assms by simp
  then have "as_word (set_last_u_d tr True (set_keyword tr k st)) (found_typename tr cls (set_last_u_d tr True (set_keyword tr k st)))" for k cls
    using found_typename_word by blast
  then have f: "as_word st (found_typename tr cls (set_last_u_d tr True (set_keyword tr k st)))" for k cls
    by (rule as_word_from) simp_all
  show ?thesis
    unfolding classify_def using f word_tail_word [OF assms]
    by (auto simp: word_kinds_def Let_def intro!: as_word_go split: option.splits)
qed

lemma starts_number_text:
  assumes "at_text s t st"
  shows "starts_number st \<longleftrightarrow> number_start t"
proof -
  obtain c t' where t: "t = c # t'" using at_text_last [OF assms(1)] by (cases t) auto
  have c: "char_at 0 st = Some c" using rd_at [of s c t' st "\<lambda>c. go c"] assms t
    by (cases "char_at 0 st") (simp_all add: rd_def)
  show ?thesis
  proof (cases "c = CHR ''.''")
    case True
    then obtain d r where d: "t' = d # r" using at_text_next [of s c t' st] assms t by (cases t') auto
    have "\<not> isspace c" using True by (simp add: isspace_def)
    then show ?thesis using rd_next(2) [of s c d r st] assms t d c by (simp add: starts_number_def number_start_def)
  qed (use c t in \<open>simp add: starts_number_def number_start_def\<close>)
qed

lemma digit_cases:
  assumes "isdigit c"
  shows "c \<in> set ''0123456789''"
proof -
  have "n \<in> {48, 49, 50, 51, 52, 53, 54, 55, 56, 57}" if "48 \<le> n" "n \<le> 57" for n :: nat
  proof -
    have "n = 48 \<or> n = 49 \<or> n = 50 \<or> n = 51 \<or> n = 52 \<or> n = 53 \<or> n = 54 \<or> n = 55 \<or> n = 56 \<or> n = 57"
      using that by presburger
    then show ?thesis by simp
  qed
  then have "code c \<in> {48, 49, 50, 51, 52, 53, 54, 55, 56, 57}" using assms by (simp add: isdigit_def)
  then have "code c \<in> code ` set ''0123456789''" by simp
  then obtain d where "d \<in> set ''0123456789''" "code c = code d" by blast
  then show ?thesis by (simp add: code_inj)
qed

lemma num_step_start: "c \<in> set ''.0123456789'' \<Longrightarrow> \<exists>q. num_step (CHR ''A'') c = Some q"
proof -
  have "list_all (\<lambda>c. num_step (CHR ''A'') c \<noteq> None) ''.0123456789''" by code_simp
  then show "c \<in> set ''.0123456789'' \<Longrightarrow> ?thesis" unfolding list_all_iff by blast
qed

lemma num_text_nonempty:
  assumes "number_start t"
  shows "\<exists>c a. fst (num_text (CHR ''A'') t) = c # a \<and> (is_word_char c \<or> c = CHR ''.'')"
proof -
  obtain c t' where t: "t = c # t'" "isdigit c \<or> c = CHR ''.''" using assms by (cases t) (auto simp: number_start_def isdigit_def)
  then have "c \<in> set ''.0123456789''" using digit_cases [of c] by auto
  with num_step_start obtain q where "num_step (CHR ''A'') c = Some q" by blast
  then show ?thesis using t by (auto simp: num_final_def is_word_char_def isalnum_def)
qed

lemma lexed_word:
  assumes "tk \<in> word_kinds" "token st \<noteq> []" "is_word_char (hd (token st)) \<or> hd (token st) = CHR ''.''"
  shows "lexed_as tk st"
proof -
  have "tk \<noteq> eofcode" using assms(1) by (auto simp: word_kinds_def)
  moreover have "kind_ok tk (token st)" unfolding kind_ok_def by (intro disjI2) (use assms in auto)
  ultimately show ?thesis by (simp add: lexed_as_def)
qed

lemma lexi_word_text:
  assumes "at_text s t st" "token st = []" "length t < n" "\<not> adjacent (CHR 0x5C) NL t" "is_word_char (deref t) \<or> number_start t"
    "lex_word t = (a, r)"
  shows "lexes lexed_as a (length t - length r) s r st (lexi_word n tr st)"
proof -
  define scan where "scan = (if starts_number st then scan_number n (CHR ''A'') st else scan_ident n st)"
  define ar where "ar = (if number_start t then num_text (CHR ''A'') t else (takeWhile is_word_char t, dropWhile is_word_char t))"
  obtain a1 r1 where ar: "ar = (a1, r1)" by fastforce
  have app: "a1 @ r1 = t" using ar num_text_append [of "CHR ''A''" t] by (auto simp: ar_def split: if_splits)
  have "takes a1 (length a1) s r1 st scan"
    using scan_number_text [OF assms(1,3), of "CHR ''A''"] scan_ident_text [OF assms(1,3,4)] starts_number_text [OF assms(1)] ar
    by (auto simp: scan_def ar_def split: if_splits)
  then obtain st1 where st1: "scan = go st1" "at_text (drop (length a1) s) r1 st1" "token st1 = a1" "lex_frame st st1"
    using assms(2) by (auto simp: takes_def)
  have nul: "\<not> is_word_char NUL" by (simp add: is_word_char_def ctype_simps)
  have "\<exists>c b. a1 = c # b \<and> (is_word_char c \<or> c = CHR ''.'')"
  proof (cases "number_start t")
    case True
    then show ?thesis using num_text_nonempty [of t] ar by (simp add: ar_def)
  next
    case False
    then show ?thesis using assms(5) ar nul by (cases t) (auto simp: ar_def)
  qed
  then obtain c0 b0 where a1: "a1 = c0 # b0" "is_word_char c0 \<or> c0 = CHR ''.''" by blast
  have K: "lexed_as tk st'" if "tk \<in> word_kinds" "token st' = a1" for tk st'
    using lexed_word [OF that(1), of st'] that(2) a1 by simp
  have a: "a = a1" "r = (if a1 = ''L'' \<and> quote (deref r1) then r1 else dropWhile isblank r1)"
    using assms(6) ar by (auto simp: lex_word_def ar_def [symmetric])
  obtain c r' where r1: "r1 = c # r'" using at_text_last [OF st1(2)] by (cases r1) auto
  have at1: "at_text (drop (length a1) s) (c # r') st1" using st1(2) r1 by simp
  define tail where "tail = (\<lambda>st2. let st3 = set_keyword tr 0 st2; p = st_of tr st3
                        in if last_token p = structure_tok \<and> p_l_follow p = 0
                           then go (decl, set_last_u_d tr True st3)
                           else classify tr (set_last_u_d tr (last_token p = structure_tok) st3))"
  have run: "lexi_word n tr st = (if a1 = ''L'' \<and> quote c then go (strpfx, st1) else andthen (skip_blanks id n st1) tail)"
    unfolding lexi_word_def scan_def [symmetric] st1(1) andthen_simps rd_at [OF at1] tail_def [symmetric]
    by (simp add: st1(3) quote_def)
  show ?thesis
  proof (cases "a1 = ''L'' \<and> quote c")
    case True
    then have "lexi_word n tr st = go (strpfx, st1)" "a = a1" "r = r1" using run a r1 by auto
    with st1 K [of strpfx st1] length_taken [OF app] assms(2) show ?thesis by (auto simp: lexes_def word_kinds_def)
  next
    case False
    have "length r1 < n" using app assms(3) by auto
    from skip_blanks_text [OF st1(2) this, of id] obtain st2 where st2: "skip_blanks id n st1 = go st2"
      "at_text (drop (length (takeWhile isblank r1)) (drop (length a1) s)) (dropWhile isblank r1) st2" "core st2 = core st1" by auto
    have "as_word st2 (tail st2)"
    proof -
      let ?st3 = "set_keyword tr 0 st2"
      have "at_text (drop (length (takeWhile isblank r1)) (drop (length a1) s)) (dropWhile isblank r1) (set_last_u_d tr u ?st3)" for u
        using st2(2) by simp
      from classify_word [OF this] have "as_word (set_last_u_d tr u ?st3) (classify tr (set_last_u_d tr u ?st3))" for u .
      then have "as_word st2 (classify tr (set_last_u_d tr u ?st3))" for u by (rule as_word_from) simp_all
      then show ?thesis unfolding tail_def Let_def by (auto simp: word_kinds_def intro!: as_word_go)
    qed
    then obtain tk st3 where st3: "tail st2 = go (tk, st3)" "tk \<in> word_kinds" "token st3 = token st2" "lex_frame st2 st3"
      "\<And>s t. at_text s t st3 = at_text s t st2" by (auto simp: as_word_def)
    have tk: "token st3 = a1" using st3(3) core_sel(6) [OF st2(3)] st1(3) by simp
    have fr: "lex_frame st st3" using st1(4) lex_frame_core [OF st2(3)] st3(4) lex_frame_trans by blast
    have r: "r = dropWhile isblank r1" using a(2) False r1 by simp
    have "length t - length r = length (takeWhile isblank r1) + length a1"
      using app length_takeWhile [of isblank r1] length_dropWhile_le [of isblank r1] by (auto simp: r)
    then have at3: "at_text (drop (length t - length r) s) r st3" using st2(2) st3(5) by (simp add: r)
    have "lexi_word n tr st = go (tk, st3)" using run False st2(1) st3(1) by simp
    then show ?thesis using K [OF st3(2) tk] at3 tk fr a(1) assms(2) by (auto simp: lexes_def)
  qed
qed

end
