(* ===== verification/Indent_Tokens.thy ===== *)
theory Indent_Tokens
  imports Indent_Scan
begin

text \<open>
  The lexer takes the tokens of a text: \<open>lexi\<close> returns on every text it can read, with the token
  and the rest of the lexer on texts.
\<close>

section \<open>Reading one token\<close>

text \<open>What the lexer can read.\<close>

definition readable :: "string \<Rightarrow> string \<Rightarrow> bool" where
  "readable s t \<longleftrightarrow> \<not> adjacent (CHR 0x5C) NL t \<and> stars_closed t \<and> save_stars s"

lemma adjacent_dropWhile: "\<not> adjacent a b t \<Longrightarrow> \<not> adjacent a b (dropWhile P t)"
  using adjacent_suffix [of a b "dropWhile P t" "takeWhile P t"] by auto

lemma prefix_dropWhile:
  assumes "t = s @ u"
  shows "drop (length (takeWhile P t)) s = [] \<or> drop (length (takeWhile P t)) s = dropWhile P s"
proof (cases "\<forall>c \<in> set s. P c")
  case True
  then show ?thesis using assms by simp
next
  case False
  then have "takeWhile P t = takeWhile P s" using assms by (auto intro: takeWhile_append1)
  then show ?thesis by (metis dropWhile_eq_drop)
qed

lemma at_text_token [simp]: "at_text s t (st\<lparr>token := x\<rparr>) = at_text s t st"
  by (simp add: at_text_def reading_def src_ok_def unread_def save_rest_def main_rest_def file_rest_def)

lemma at_text_prefix: "at_text s t st \<Longrightarrow> \<exists>u. t = s @ u"
  by (auto simp: at_text_def unread_def)

lemma append_length_le: "a @ r = t \<Longrightarrow> length r \<le> length t"
  by auto

lemma lex_op_le:
  assumes "lex_op u c t = (a, r)"
  shows "length r \<le> length t"
proof -
  have j: "length (snd (join P t)) \<le> length t" for P t
    by (auto simp: join_def split: list.splits)
  have jj: "length (snd (join Q y)) \<le> length t" if "join P t = (x, y)" for P Q t x y
    using j [of Q y] j [of P t] that by simp
  have "length (snd (lex_op u c t)) \<le> length t"
    using append_length_le [OF lit_text_append [of c t]] append_length_le [OF same_text_append [of c t]] j
      length_dropWhile_le [of starsp t]
    by (auto simp: lex_op_def intro: jj split: prod.splits)
  with assms show ?thesis by simp
qed

lemma lex_word_le:
  assumes "lex_word t = (a, r)"
  shows "length r \<le> length t"
  using assms append_length_le [OF num_text_append [of "CHR ''A''" t]] length_dropWhile_le [of is_word_char t]
    order_trans [OF length_dropWhile_le [of isblank]]
  by (auto simp: lex_word_def split: prod.splits if_splits)

lemma lexi_text:
  assumes "at_text s t st" "readable s t" "length t < n" "lex_text (last_u_d (st_of tr st)) t = (a, r)"
  shows "\<exists>tk st'. lexi n tr st = go (tk, st') \<and> lexed_as tk st' \<and> token st' = a \<and>
    at_text (drop (length t - length r) s) (topped r) st' \<and> lex_frame st st'"
proof -
  define f where "f = upd_st tr (\<lambda>p. p\<lparr>col_1 := False\<rparr>)"
  define st0 where "st0 = upd_st tr (\<lambda>p. p\<lparr>col_1 := last_nl p, last_nl := False\<rparr>) (st\<lparr>token := []\<rparr>)"
  have tok: "at_text s t (st\<lparr>token := []\<rparr>)" "lex_frame st (st\<lparr>token := []\<rparr>)"
    using assms(1) by (simp_all add: lex_frame_def)
  have st0: "at_text s t st0" "token st0 = []" "lex_frame st st0" "last_u_d (st_of tr st0) = last_u_d (st_of tr st)"
    using tok by (simp_all add: st0_def) (simp_all add: upd_st_def st_of_def upd_ps_def)
  have f: "core (f s) = f (core s)" "f (f s) = f s" "at_text u v (f s) = at_text u v s" "lex_frame st1 (f s) = lex_frame st1 s"
    "token (f s) = token s" "last_u_d (st_of tr (f s)) = last_u_d (st_of tr s)" for s u v st1
    by (simp_all add: f_def) (simp_all add: upd_st_def st_of_def upd_ps_def)
  let ?k = "length (takeWhile isblank t)" and ?t = "dropWhile isblank t"
  from skip_blanks_text [OF st0(1) assms(3), of f] f(1-3) obtain st1 where st1: "skip_blanks f n st0 = go st1"
    "at_text (drop ?k s) ?t st1" "core st1 = core st0 \<or> core st1 = core (f st0)" by blast
  have c1: "lex_frame st st1 \<and> token st1 = [] \<and> last_u_d (st_of tr st1) = last_u_d (st_of tr st)"
  proof -
    obtain s0 where s0: "core st1 = core s0" "lex_frame st s0" "token s0 = []" "last_u_d (st_of tr s0) = last_u_d (st_of tr st)"
      using st1(3) st0 f by metis
    from core_sel(1,6,10) [OF s0(1)] lex_frame_trans [OF s0(2) lex_frame_core [OF s0(1)]] s0 show ?thesis
      by (cases tr) (simp_all add: st_of_def)
  qed
  obtain c t' where t: "?t = c # t'" using at_text_last [OF st1(2)] by (cases ?t) auto
  have at1: "at_text (drop ?k s) (c # t') st1" using st1(2) t by simp
  have len: "length ?t < n" using assms(3) length_dropWhile_le [of isblank t] by linarith
  have bs: "\<not> adjacent (CHR 0x5C) NL ?t" using assms(2) adjacent_dropWhile by (auto simp: readable_def)
  have kt: "?k = length t - length ?t" by (rule length_takeWhile)
  have le: "length ?t \<le> length t" by (rule length_dropWhile_le)
  have run: "lexi n tr st = (if is_word_char c \<or> starts_number st1 then lexi_word n tr st1
      else andthen (adv (push_tok c st1)) (lexi_op n tr c))"
    unfolding lexi_def f_def [symmetric] st0_def [symmetric] st1(1) andthen_simps rd_at [OF at1] ..
  show ?thesis
  proof (cases "is_word_char c \<or> starts_number st1")
    case True
    then have w: "is_word_char (deref ?t) \<or> number_start ?t" using starts_number_text [OF st1(2)] t by auto
    then have lw: "lex_word ?t = (a, r)" using assms(4) by (simp add: lex_text_def Let_def)
    have "lexes lexed_as a (length ?t - length r) (drop ?k s) r st1 (lexi_word n tr st1)"
      using lexi_word_text [OF st1(2) _ len bs w lw] c1 by blast
    moreover have "lexi n tr st = lexi_word n tr st1" using run True by simp
    moreover have "length r \<le> length ?t" using lex_word_le [OF lw] .
    ultimately show ?thesis
      using c1 kt le lex_frame_trans [of st st1] by (auto simp: lexes_def at_text_def reading_unread)
  next
    case False
    then have "\<not> (is_word_char (deref ?t) \<or> number_start ?t)" using starts_number_text [OF st1(2)] t by auto
    then obtain a' where lo: "lex_op (last_u_d (st_of tr st)) c t' = (a', r)" "a = c # a'"
      using assms(4) t by (cases "lex_op (last_u_d (st_of tr st)) c t'") (auto simp: lex_text_def Let_def)
    obtain st2 where st2: "adv (push_tok c st1) = go st2" "at_text (tl (drop ?k s)) (topped t') st2" "core st2 = core (push_tok c st1)"
      using adv_at [of "drop ?k s" c t' "push_tok c st1"] at1 by auto
    have fr2: "lex_frame st st2" using c1 lex_frame_trans [OF _ lex_frame_core [OF st2(3)], of st] by simp
    have tk2: "token st2 = [c]" "last_u_d (st_of tr st2) = last_u_d (st_of tr st)"
      using core_sel(1,6,10) [OF st2(3)] c1 by (auto simp: push_tok_def st_of_def)
    have "lexes lexed_as a' (length t' - length r) (tl (drop ?k s)) (topped r) st2 (lexi_op n tr c st2)"
    proof (cases "c = NL")
      case True
      then have "a' = []" "r = t'" using lo(1) by (auto simp: lex_op_def quote_def)
      then show ?thesis using lexi_op_single [OF st2(2) tk2(1)] True by (simp add: single_def)
    next
      case False
      then have n: "topped t' = t'" using at_text_next [OF at1] by blast
      have at2: "at_text (tl (drop ?k s)) t' st2" using st2(2) n by simp
      have star: "list_ex stopper (takeWhile (\<lambda>c. c \<noteq> NL) (dropWhile starsp t'))" if "c = CHR ''*''"
      proof -
        have "t = takeWhile isblank t @ CHR ''*'' # t'" using t that takeWhile_dropWhile_id [of isblank t] by simp
        then show ?thesis using assms(2) unfolding readable_def stars_closed_def by blast
      qed
      have save: "\<not> list_ex isalpha (tl (drop ?k s))" if c: "c = CHR ''*''"
      proof (cases "drop ?k s")
        case (Cons x xs)
        obtain u where u: "t = s @ u" using at_text_prefix [OF assms(1)] by blast
        have d: "drop ?k s = dropWhile isblank s" using prefix_dropWhile [OF u, of isblank] Cons by auto
        have "x = c" using at_text_prefix [OF at1] Cons by auto
        then have "dropWhile isblank s = CHR ''*'' # xs" using d Cons c by simp
        then show ?thesis using assms(2) Cons unfolding readable_def save_stars_def by auto
      qed simp
      have "\<not> adjacent (CHR 0x5C) NL t'" using bs t adjacent_tl by metis
      moreover have "length t' < n" using len t by simp
      ultimately have "lexes lexed_as a' (length t' - length r) (tl (drop ?k s)) r st2 (lexi_op n tr c st2)"
        using lexi_op_text [OF at2 tk2(1), of n tr a' r] lo(1) tk2(2) star save by auto
      moreover from this have "r \<noteq> []" using at_text_last by (auto simp: lexes_def)
      ultimately show ?thesis by simp
    qed
    moreover have "lexi n tr st = lexi_op n tr c st2" using run False st2(1) by simp
    moreover have "drop (length t' - length r) (tl (drop ?k s)) = drop (length t - length r) s"
    proof -
      have "length r \<le> length t'" using lex_op_le [OF lo(1)] .
      moreover have "length ?t = Suc (length t')" using t by simp
      ultimately have "length t - length r = ?k + Suc (length t' - length r)" using kt le by linarith
      then show ?thesis by (simp add: drop_Suc tl_drop add.commute)
    qed
    ultimately show ?thesis using tk2(1) fr2 lo(2) lex_frame_trans [OF fr2] by (auto simp: lexes_def)
  qed
qed

section \<open>Texts that the lexer can read\<close>

lemma stars_closed_simps [simp]:
  "stars_closed []"
  "stars_closed (c # t) \<longleftrightarrow>
     (c = CHR ''*'' \<longrightarrow> list_ex stopper (takeWhile (\<lambda>c. c \<noteq> NL) (dropWhile starsp t))) \<and> stars_closed t"
  unfolding stars_closed_def by (simp, auto simp: Cons_eq_append_conv) 

lemma save_stars_Nil [simp]: "save_stars []"
  by (simp add: save_stars_def)

text \<open>A run starts at the text of the file.\<close>

lemma start_at_text:
  assumes "quiet file"
  shows "\<exists>st. fill_buffer (trial file) = go st \<and> at_text [] (file @ '' '' @ [NL]) st \<and> core st = core (trial file)"
proof -
  have "src_ok (trial file)" "buf_ptr (trial file) = buf_end (trial file)" "unread (trial file) = file @ '' '' @ [NL]"
    using assms by (auto simp: trial_def start_state_def Let_def src_ok_def lined_def unread_def save_rest_def main_rest_def file_rest_def)
  with fill_buffer_unread [of "trial file"] show ?thesis by (auto simp: at_text_def)
qed

text \<open> C31: the lexer returns, with the token of the text.  From a state in which the unread text is \<open>t\<close>
  (the rest \<open>s\<close> of the save buffer, the rest of the line in the input buffer and the rest of the file),
  a fuel above the length of \<open>t\<close> is enough for every loop of \<open>lexi\<close>: it returns, its token is the one that
  the lexer on texts takes from \<open>t\<close>, and the unread text is what that lexer leaves, across the ends of
  lines and of the save buffer.  \<open>readable\<close> leaves out a backslash before a newline and a declared
  pointer with nothing but letters and blanks behind it on its line.\<close>

theorem lexi_reads_text:
  assumes "at_text s t st" "readable s t" "length t < n" "lex_text (last_u_d (st_of tr st)) t = (a, r)"
  shows "\<exists>tk st'. lexi n tr st = go (tk, st') \<and> token st' = a \<and> unread st' = topped r"
  using lexi_text [OF assms] by (auto simp: at_text_def)

theorem lexi_reads_text_witness:
  "\<exists>st tk st'. fill_buffer (trial (''while_1 >>= 0x1F;'' @ [NL])) = go st \<and> lexi 30 False st = go (tk, st') \<and>
     token st' = ''while_1'' \<and> unread st' = ''>>= 0x1F;'' @ [NL] @ '' '' @ [NL]"
proof -
  define f where "f = ''while_1 >>= 0x1F;'' @ [NL]"
  have "quiet f" by (simp add: f_def quiet_def)
  from start_at_text [OF this] obtain st where st: "fill_buffer (trial f) = go st" "at_text [] (f @ '' '' @ [NL]) st" by blast
  have "readable [] (f @ '' '' @ [NL])" by (simp add: readable_def f_def)
  moreover have "lex_text u (f @ '' '' @ [NL]) = (''while_1'', ''>>= 0x1F;'' @ [NL] @ '' '' @ [NL])" for u
    by (simp add: f_def lex_text_def lex_word_def number_start_def is_word_char_def ctype_simps)
  ultimately show ?thesis using lexi_reads_text [OF st(2), of 30 False] st(1) by (fastforce simp: f_def)
qed

lemma starsp_topped: "list_all starsp t \<Longrightarrow> list_all starsp (topped t)"
proof -
  have "starsp (CHR '' '')" "starsp NL" by (simp_all add: starsp_def ctype_simps)
  then show "list_all starsp t \<Longrightarrow> list_all starsp (topped t)" by (simp add: topped_def)
qed

lemma scan_stars_hangs: "at_text s t st \<Longrightarrow> list_all starsp t \<Longrightarrow> scan_stars n st = None"
proof (induction n arbitrary: s t st)
  case (Suc n)
  then obtain c t' where t: "t = c # t'" using at_text_last [of s t st] by (cases t) auto
  have a: "\<exists>st'. adv st0 = go st' \<and> at_text (tl s) (topped t') st'" if "at_text s (c # t') st0" for st0
    using adv_at [OF that] by blast
  have "list_all starsp (topped t')" using Suc.prems(2) t by (simp add: starsp_topped)
  then have "scan_stars n st' = None" if "at_text (tl s) (topped t') st'" for st' using Suc.IH that by blast
  then show ?case
    using a [of st] a [of "push_tok c st"] Suc.prems t by (auto simp: rd_at starsp_def)
qed simp

text \<open> C32: the lexer need not return.  Where an operator is unary, a star that is followed by stars and white
  space up to the end of the file starts a loop that never ends: it skips the blank line that
  \<open>fill_buffer\<close> makes at the end of the file, again and again, so that no fuel is enough.\<close>

theorem star_at_end_hangs:
  assumes "at_text s (CHR ''*'' # t) st" "list_all starsp t" "last_u_d (st_of tr st)"
  shows "lexi n tr st = None"
proof (cases n)
  case (Suc m)
  define st0 where "st0 = upd_st tr (\<lambda>p. p\<lparr>col_1 := last_nl p, last_nl := False\<rparr>) (st\<lparr>token := []\<rparr>)"
  have at: "at_text s (CHR ''*'' # t) (push_tok (CHR ''*'') st0)" "at_text s (CHR ''*'' # t) st0" using assms(1) by (simp_all add: st0_def)
  have u: "last_u_d (st_of tr (push_tok c st0))" for c
    using assms(3) by (cases tr) (simp_all add: st0_def push_tok_def upd_st_def st_of_def upd_ps_def)
  from adv_at [OF at(1)] obtain st2 where st2: "adv (push_tok (CHR ''*'') st0) = go st2" "at_text (tl s) (topped t) st2"
    "core st2 = core (push_tok (CHR ''*'') st0)" by blast
  have "list_all starsp (topped t)" using assms(2) by (rule starsp_topped)
  then have "scan_stars n st2 = None" by (rule scan_stars_hangs [OF st2(2)])
  moreover have "last_u_d (st_of tr st2)" using u core_sel(1,10) [OF st2(3)] by (cases tr) (simp_all add: st_of_def)
  ultimately have "lexi_star n tr st2 = None" by (simp add: lexi_star_def)
  moreover have "\<not> starts_number st0" using starts_number_text [OF at(2)] by (simp add: number_start_def ctype_simps)
  moreover have "skip_blanks f n st0 = go st0" for f using Suc by (simp add: rd_at [OF at(2)] ctype_simps)
  ultimately show ?thesis
    using st2(1) by (simp add: lexi_def st0_def [symmetric] rd_at [OF at(2)] is_word_char_def ctype_simps lexi_op_def)
qed (simp add: lexi_def)

theorem star_at_end_hangs_witness:
  "\<exists>st. fill_buffer (trial (''*'' @ [NL])) = go st \<and> lexi 1000 False (upd_st False (\<lambda>p. p\<lparr>last_u_d := True\<rparr>) st) = None"
proof -
  have "quiet (''*'' @ [NL])" by (simp add: quiet_def)
  from start_at_text [OF this] obtain st where st: "fill_buffer (trial (''*'' @ [NL])) = go st"
    "at_text [] (CHR ''*'' # [NL] @ '' '' @ [NL]) st" by auto
  have "at_text [] (CHR ''*'' # [NL] @ '' '' @ [NL]) (upd_st False (\<lambda>p. p\<lparr>last_u_d := True\<rparr>) st)" using st(2) by simp
  moreover have "last_u_d (st_of False (upd_st False (\<lambda>p. p\<lparr>last_u_d := True\<rparr>) st))" by (simp add: st_of_def upd_st_def upd_ps_def)
  ultimately show ?thesis using star_at_end_hangs st(1) by (fastforce simp: starsp_def ctype_simps)
qed

end
