(* ===== verification/Indent_Comment.thy ===== *)
theory Indent_Comment
  imports Indent_Lexi
begin

text \<open>
  \<^verbatim>\<open>src/bsd_additions/indent/pr_comment.c\<close>: formatting a comment.  Pointers into the comment
  buffer are offsets from its start; \<open>s_com\<close> is \<open>length (com_pre st)\<close>.
\<close>

section \<open>The comment buffer\<close>

record cvars =
  last_bl :: "nat option"
  adj_max_col :: int
  break_delim :: bool
  l_just_saw_decl :: int

definition e_com :: "ist \<Rightarrow> nat" where
  "e_com st = length (com_pre st) + length (held (comb st))"

definition com_put :: "string \<Rightarrow> ist \<Rightarrow> ist" where
  "com_put s st = st\<lparr>comb := cb_puts s (comb st)\<rparr>"

text \<open>All that is written of the buffer, and the pointers set to \<open>s\<close> and \<open>e\<close>.\<close>

definition com_mem :: "ist \<Rightarrow> string" where
  "com_mem st = com_pre st @ held (comb st) @ stale (comb st)"

definition com_set :: "nat \<Rightarrow> nat \<Rightarrow> ist \<Rightarrow> ist" where
  "com_set s e st =
     (let m = com_mem st
      in st\<lparr>com_pre := take s m, comb := \<lparr>held = take (e - s) (drop s m), stale = drop e m\<rparr>\<rparr>)"

text \<open>
  \<open>CHECK_SIZE_COM\<close>.  The bytes stay where they are in the larger buffer, but \<open>s_com\<close> goes back to
  its start and \<open>e_com\<close> with it.
\<close>

definition CHECK_SIZE_COM :: "nat \<Rightarrow> ist \<Rightarrow> ist" where
  "CHECK_SIZE_COM desired_size st =
     (if com_room st \<le> e_com st + desired_size
      then (com_set 0 (length (held (comb st))) st)
             \<lparr>com_room := com_room st - length (com_pre st) + 394 + desired_size\<rparr>
      else st)"

text \<open>\<open>e_com[-1]\<close>; the byte before the buffer's text is a blank.\<close>

definition com_prev :: "ist \<Rightarrow> char" where
  "com_prev st = last (CHR '' '' # com_pre st @ held (comb st))"

definition star_cont :: "ist \<Rightarrow> ist" where
  "star_cont st = (if \<not> box_com (ps st) \<and> star_comment_cont (opt st) then com_put '' * '' st else st)"

section \<open>Alignment\<close>

text \<open>The column of the end of what is already on the line.\<close>

definition line_end :: "ist \<Rightarrow> int option" where
  "line_end st =
     (let ts = tabsize (opt st)
      in if held (codeb st) \<noteq> []
         then (case (compute_code_target st, cb_string (codeb st)) of
                 (Some t, Some s) \<Rightarrow> Some (count_spaces_until ts t s)
               | _ \<Rightarrow> None)
         else if held (labb st) \<noteq> []
         then map_option (count_spaces_until ts (compute_label_target st)) (cb_string (labb st))
         else Some 1)"

definition set_com_col :: "int \<Rightarrow> ist \<Rightarrow> ist" where
  "set_com_col c = upd_ps (\<lambda>p. p\<lparr>com_col := c\<rparr>)"

definition set_box :: "bool \<Rightarrow> ist \<Rightarrow> ist" where
  "set_box b = upd_ps (\<lambda>p. p\<lparr>box_com := b\<rparr>)"

definition align_comment :: "cvars \<Rightarrow> ist \<Rightarrow> (cvars \<times> ist) irun" where
  "align_comment cv st =
     (let p = ps st; os = opt st
      in if col_1 p \<and> \<not> format_col1_comments os
         then go (cv\<lparr>break_delim := False\<rparr>, set_com_col 1 (set_box True st))
         else rd 0 st (\<lambda>c.
           let box = (c = CHR ''-'' \<or> c = CHR ''*'' \<or> c = NL \<and> \<not> format_block_comments os);
               st1 = (if box then set_box True st else st);
               cv1 = (if box then cv\<lparr>break_delim := False\<rparr> else cv)
           in if held (labb st) = [] \<and> held (codeb st) = []
              then (let col = (ind_level p - unindent_displace os) * ind_size os + 1
                    in go (cv1\<lparr>adj_max_col := block_comment_max_col os\<rparr>,
                           set_com_col (if col \<le> 1 then 1 + of_bool (\<not> format_col1_comments os) else col) st1))
              else case line_end st1 of
                     None \<Rightarrow> wild st1
                   | Some target_col \<Rightarrow>
                       (let c0 = (if decl_on_line p \<or> ind_level p = 0 then decl_com_ind os else com_ind os);
                            col = (if c0 \<le> target_col then tabstop (tabsize os) target_col else c0)
                        in go (cv1\<lparr>break_delim := False,
                                   adj_max_col := (if adj_max_col cv1 < col + 24 then col + 24 else adj_max_col cv1)\<rparr>,
                               set_com_col col st1))))"

text \<open>\<open>while (*buf_ptr == ' ' || *buf_ptr == '\t') buf_ptr++;\<close>\<close>

fun skip_raw :: "nat \<Rightarrow> ist \<Rightarrow> ist irun" where
  "skip_raw 0 st = None"
| "skip_raw (Suc n) st =
     rd 0 st (\<lambda>c. if isblank c then skip_raw n (st\<lparr>buf_ptr := buf_ptr st + 1\<rparr>) else go st)"

text \<open>The text from the start of the buffer in use to two bytes before \<open>buf_ptr\<close>.\<close>

definition text_before :: "ist \<Rightarrow> string option" where
  "text_before st =
     (if buf_ptr st < 2 then None
      else Some (map (\<lambda>i. if from_save st then sc_buf st i else in_buffer st ! i) [0 ..< buf_ptr st - 2]))"

definition comment_delta_of :: "nat \<Rightarrow> ist \<Rightarrow> ist irun" where
  "comment_delta_of n st =
     (if box_com (ps st)
      then (case text_before st of
              None \<Rightarrow> wild st
            | Some s \<Rightarrow>
                go (upd_ps (\<lambda>p. p\<lparr>n_comment_delta := 1 - count_spaces_until (tabsize (opt st)) 1 s\<rparr>) st))
      else skip_raw n (upd_ps (\<lambda>p. p\<lparr>n_comment_delta := 0\<rparr>) st))"

text \<open>
  The search for the end of a comment on its first line, with a pointer \<open>t\<close> of its own into the
  buffer \<open>b\<close>: its position, if it is there.
\<close>

fun find_close :: "nat \<Rightarrow> bool \<Rightarrow> nat \<Rightarrow> ist \<Rightarrow> (nat option \<times> ist) irun" where
  "find_close 0 b t st = None"
| "find_close (Suc n) b t st =
     (case mem_at b t st of
        None \<Rightarrow> wild st
      | Some c \<Rightarrow>
          if c = NUL \<or> c = NL then go (None, st)
          else if b \<noteq> from_save st then wild st
          else andthen (if buf_end st \<le> t then fill_buffer st else go st) (\<lambda>st1.
                 if \<not> b \<and> in_limit st1 \<noteq> in_limit st then wild st1
                 else if mem_at b t st1 \<noteq> Some (CHR ''*'') then find_close n b (t + 1) st1
                 else case mem_at b (t + 1) st1 of
                        None \<Rightarrow> wild st1
                      | Some c1 \<Rightarrow> if c1 = CHR ''/'' then go (Some t, st1) else find_close n b (t + 1) st1))"

definition one_liner :: "nat \<Rightarrow> cvars \<Rightarrow> ist \<Rightarrow> (cvars \<times> ist) irun" where
  "one_liner n cv st =
     (if \<not> break_delim cv then go (cv, st)
      else andthen (find_close n (from_save st) (buf_ptr st) st) (\<lambda>(r, st1).
             case r of
               None \<Rightarrow> go (cv, st1)
             | Some t \<Rightarrow>
                 if from_save st1 \<noteq> from_save st \<or> t + 2 < buf_ptr st1 then wild st1
                 else let tx = map (\<lambda>i. if from_save st1 then sc_buf st1 i else in_buffer st1 ! i) [buf_ptr st1 ..< t + 2]
                      in go (if count_spaces_until (tabsize (opt st1)) (com_col (ps st1)) tx \<le> adj_max_col cv
                             then cv\<lparr>break_delim := False\<rparr> else cv, st1)))"

definition open_block :: "cvars \<Rightarrow> ist \<Rightarrow> ist irun" where
  "open_block cv st =
     (if \<not> break_delim cv then go st
      else let t = e_com st; s = length (com_pre st);
               st1 = com_set s (s + 2) st;
               st2 = st1\<lparr>comb := cb_term (comb st1)\<rparr>;
               st3 = (if blanklines_before_blockcomments (opt st2) \<and> last_token (ps st2) \<noteq> lbrace
                      then st2\<lparr>prefix_blankline_requested := 1\<rparr> else st2)
           in andthen (dump_line st3) (\<lambda>st4. go (star_cont (com_set t t st4))))"

section \<open>Copying\<close>

text \<open>\<open>*e_com = c\<close> without moving the pointer, and \<open>++e_com\<close> over what is there.\<close>

definition com_poke :: "char \<Rightarrow> ist \<Rightarrow> ist" where
  "com_poke c st = st\<lparr>comb := (comb st)\<lparr>stale := c # tl (stale (comb st))\<rparr>\<rparr>"

definition com_over :: "ist \<Rightarrow> ist" where
  "com_over st = com_set (length (com_pre st)) (e_com st + 1) st"

text \<open>\<open>end_of_comment:\<close>\<close>

definition end_of_comment :: "cvars \<Rightarrow> ist \<Rightarrow> ist irun" where
  "end_of_comment cv st0 =
     andthen (adv st0) (\<lambda>st.
       andthen
         (if \<not> break_delim cv then go st
          else if 3 < length (held (comb st))
          then andthen (dump_line st) (\<lambda>st1. go (com_put '' '' st1))
          else go (com_put '' '' (com_set (e_com st) (e_com st) st)))
         (\<lambda>st1.
            let st2 = (if \<not> isblank (com_prev st1) \<and> \<not> box_com (ps st1) then com_put '' '' st1 else st1);
                st3 = com_put ''*/'' st2
            in go (upd_ps (\<lambda>p. p\<lparr>just_saw_decl := l_just_saw_decl cv\<rparr>) (st3\<lparr>comb := cb_term (comb st3)\<rparr>))))"

text \<open>
  The start of the next line of a text comment: blanks and one star are dropped.  The flag
  says whether the comment ends there.
\<close>

fun next_line :: "nat \<Rightarrow> bool \<Rightarrow> ist \<Rightarrow> (bool \<times> ist) irun" where
  "next_line 0 star st = None"
| "next_line (Suc n) star st =
     andthen (adv st) (\<lambda>st1. rd 0 st1 (\<lambda>c.
       if c = CHR ''*'' \<and> star
       then andthen (adv st1) (\<lambda>st2. rd 0 st2 (\<lambda>d.
              if d = CHR ''/'' then go (True, st2)
              else if isblank d then next_line n False st2 else go (False, st2)))
       else if isblank c then next_line n star st1 else go (False, st1)))"

definition com_newline :: "cvars \<Rightarrow> ist \<Rightarrow> (cvars \<times> ist) irun" where
  "com_newline cv0 st0 =
     (let cv = cv0\<lparr>last_bl := None\<rparr>; st = CHECK_SIZE_COM 4 st0;
          next_no = (\<lambda>(cv, st). go (cv, st\<lparr>line_no := line_no st + 1\<rparr>))
      in if box_com (ps st) \<or> last_nl (ps st)
         then (let st1 = (if held (comb st) = [] then com_put '' '' st else st)
               in andthen
                    (if \<not> box_com (ps st1) \<and> 3 < length (held (comb st1))
                     then andthen (dump_line st1) (\<lambda>st2. go (if star_comment_cont (opt st2) then com_put '' * '' st2 else st2))
                     else go st1)
                    (\<lambda>st2. andthen (dump_line st2) (\<lambda>st3. next_no (cv, star_cont st3))))
         else let st1 = upd_ps (\<lambda>p. p\<lparr>last_nl := True\<rparr>) st
              in if isblank (com_prev st1) then next_no (cv\<lparr>last_bl := Some (e_com st1 - 1)\<rparr>, st1)
                 else next_no (cv\<lparr>last_bl := Some (e_com st1)\<rparr>, com_put '' '' st1))"

text \<open>The inner loop over ordinary characters: the column reached.\<close>

fun com_chars :: "nat \<Rightarrow> int \<Rightarrow> cvars \<Rightarrow> ist \<Rightarrow> (int \<times> cvars \<times> ist) irun" where
  "com_chars 0 now_col cv st = None"
| "com_chars (Suc n) now_col cv st =
     (let st1 = CHECK_SIZE_COM 1 st
      in rd 0 st1 (\<lambda>c. andthen (adv (com_poke c st1)) (\<lambda>st2.
           let c' = deref (stale (comb st2));
               cv2 = (if isblank c' then cv\<lparr>last_bl := Some (e_com st2)\<rparr> else cv);
               st3 = com_over st2
           in rd 0 st3 (\<lambda>d.
                if d \<notin> set [CHR ''*'', NL, CR, BS, TAB, NUL] \<and>
                   (now_col + 1 \<le> adj_max_col cv2 \<or> last_bl cv2 = None)
                then com_chars n (now_col + 1) cv2 st3
                else go (now_col + 1, cv2, st3)))))"

text \<open>Moving what follows the break to the start of the next line, within one buffer.\<close>

fun com_copy :: "nat \<Rightarrow> nat \<Rightarrow> cvars \<Rightarrow> ist \<Rightarrow> (cvars \<times> ist) irun" where
  "com_copy 0 t cv st = None"
| "com_copy (Suc n) t cv st =
     (if length (com_mem st) \<le> t then wild st
      else let c = com_mem st ! t
           in if c = NUL then go (cv, st)
              else com_copy n (t + 1) (if isblank c then cv\<lparr>last_bl := Some (e_com st)\<rparr> else cv) (com_put [c] st))"

fun skip_mem :: "nat \<Rightarrow> nat \<Rightarrow> ist \<Rightarrow> nat irun" where
  "skip_mem 0 t st = None"
| "skip_mem (Suc n) t st =
     (if length (com_mem st) \<le> t then wild st
      else if isblank (com_mem st ! t) then skip_mem n (t + 1) st else go t)"

definition com_break :: "nat \<Rightarrow> cvars \<Rightarrow> ist \<Rightarrow> (cvars \<times> ist) irun" where
  "com_break n cv st =
     (case last_bl cv of
        None \<Rightarrow> andthen (dump_line st) (\<lambda>st1. go (cv, star_cont st1))
      | Some bl \<Rightarrow>
          (let st1 = st\<lparr>comb := cb_term (comb st)\<rparr>
           in if bl < length (com_pre st1) then wild st1
              else andthen (dump_line (com_set (length (com_pre st1)) bl st1)) (\<lambda>st2.
                     let st3 = star_cont st2
                     in andthen (skip_mem n (bl + 1) st3) (\<lambda>t.
                          com_copy n t (cv\<lparr>last_bl := None\<rparr>) st3))))"

definition com_text :: "nat \<Rightarrow> cvars \<Rightarrow> ist \<Rightarrow> (cvars \<times> ist) irun" where
  "com_text n cv0 st0 =
     andthen (com_chars n (count_spaces_until (tabsize (opt st0)) (com_col (ps st0)) (held (comb st0))) cv0 st0)
       (\<lambda>(now_col, cv, st1).
          let st = upd_ps (\<lambda>p. p\<lparr>last_nl := False\<rparr>) st1
          in if adj_max_col cv < now_col \<and> \<not> box_com (ps st) \<and> 32 < code (com_prev st) \<and> code (com_prev st) < 128
             then com_break n cv st else go (cv, st))"

definition com_formfeed :: "nat \<Rightarrow> cvars \<Rightarrow> ist \<Rightarrow> (cvars \<times> ist) irun" where
  "com_formfeed n cv st0 =
     (let st = CHECK_SIZE_COM 3 st0
      in if box_com (ps st) then andthen (adv st) (\<lambda>st1. go (cv, com_put [FF] st1))
         else andthen (dump_line (upd_ps (\<lambda>p. p\<lparr>use_ff := True\<rparr>) st)) (\<lambda>st1.
                let st2 = star_cont st1
                in andthen (skip_raw n (st2\<lparr>buf_ptr := buf_ptr st2 + 1\<rparr>)) (\<lambda>st3. go (cv\<lparr>last_bl := None\<rparr>, st3))))"

fun com_loop :: "nat \<Rightarrow> cvars \<Rightarrow> ist \<Rightarrow> ist irun" where
  "com_loop 0 cv st = None"
| "com_loop (Suc n) cv st =
     rd 0 st (\<lambda>c.
       if c = FF then andthen (com_formfeed n cv st) (\<lambda>(cv1, st1). com_loop n cv1 st1)
       else if c = NL
       then (if had_eof st then dump_line (print_out (''Unterminated comment'' @ [NL]) st)
             else andthen (com_newline cv st) (\<lambda>(cv1, st1).
                    if box_com (ps st1) then andthen (adv st1) (com_loop n cv1)
                    else andthen (next_line n True st1) (\<lambda>(ends, st2).
                           if ends then end_of_comment cv1 st2 else com_loop n cv1 st2)))
       else if c = CHR ''*''
       then andthen (adv st) (\<lambda>st1.
              let st2 = CHECK_SIZE_COM 4 st1
              in rd 0 st2 (\<lambda>d. if d = CHR ''/'' then end_of_comment cv st2 else com_loop n cv (com_put ''*'' st2)))
       else andthen (com_text n cv st) (\<lambda>(cv1, st1). com_loop n cv1 st1))"

definition pr_comment :: "nat \<Rightarrow> ist \<Rightarrow> ist irun" where
  "pr_comment n st =
     (let cv = \<lparr>last_bl = None, adj_max_col = max_col (opt st),
                break_delim = comment_delimiter_on_blankline (opt st),
                l_just_saw_decl = just_saw_decl (ps st)\<rparr>;
          st0 = upd_ps (\<lambda>p. p\<lparr>just_saw_decl := 0, box_com := False, out_coms := out_coms p + 1\<rparr>) st
      in andthen (align_comment cv st0) (\<lambda>(cv1, st1).
         andthen (comment_delta_of n st1) (\<lambda>st2. rd 0 st2 (\<lambda>c.
         let st3 = com_put ''/*'' (upd_ps (\<lambda>p. p\<lparr>comment_delta := 0\<rparr>) st2);
             st4 = (if c \<noteq> CHR '' '' \<and> \<not> box_com (ps st3) then com_put '' '' st3 else st3)
         in andthen (one_liner n cv1 st4) (\<lambda>(cv2, st5).
            andthen (open_block cv2 st5) (com_loop n cv2))))))"

end
