(* ===== verification/Indent_Main.thy ===== *)
theory Indent_Main
  imports Indent_Comment Indent_Parse Indent_Args
begin

text \<open>
  The formatter proper, \<open>main\<close> of \<^verbatim>\<open>src/bsd_additions/indent/indent.c\<close> after the options are
  read: the save buffer for what stands between a header and its brace, one definition per kind
  of token, and the loop.  Sizes of the growing text buffers (\<open>CHECK_SIZE_CODE\<close>,
  \<open>CHECK_SIZE_LAB\<close>) have no effect on the text and are left out; the save buffer has its size.
\<close>

section \<open>Small steps\<close>

definition upd_mv :: "(main_vars \<Rightarrow> main_vars) \<Rightarrow> ist \<Rightarrow> ist" where
  "upd_mv f st = st\<lparr>mv := f (mv st)\<rparr>"

definition code_put :: "string \<Rightarrow> ist \<Rightarrow> ist" where
  "code_put s st = st\<lparr>codeb := cb_puts s (codeb st)\<rparr>"

definition lab_put :: "string \<Rightarrow> ist \<Rightarrow> ist" where
  "lab_put s st = st\<lparr>labb := cb_puts s (labb st)\<rparr>"

definition set_want_blank :: "bool \<Rightarrow> ist \<Rightarrow> ist" where
  "set_want_blank b = upd_ps (\<lambda>p. p\<lparr>want_blank := b\<rparr>)"

definition set_force_nl :: "bool \<Rightarrow> ist \<Rightarrow> ist" where
  "set_force_nl b = upd_mv (\<lambda>v. v\<lparr>force_nl := b\<rparr>)"

definition set_in_stmt :: "bool \<Rightarrow> ist \<Rightarrow> ist" where
  "set_in_stmt b = upd_ps (\<lambda>p. p\<lparr>in_stmt := b\<rparr>)"

definition blank_before :: "ist \<Rightarrow> ist" where
  "blank_before st = (if want_blank (ps st) then code_put '' '' st else st)"

definition line_broken :: "ist \<Rightarrow> ist" where
  "line_broken st = (if verbose (opt st) then diag2 False ''Line broken'' st else st)"

definition do_parse :: "code \<Rightarrow> ist \<Rightarrow> ist irun" where
  "do_parse tk st = Some (parse tk st)"

section \<open>The save buffer\<close>

text \<open>\<open>*sc_end++ = c\<close>\<close>

definition save_put :: "char \<Rightarrow> ist \<Rightarrow> ist irun" where
  "save_put c st =
     (case sc_end st of
        None \<Rightarrow> wild st
      | Some e \<Rightarrow>
          if e < sc_size then go (st\<lparr>sc_buf := (sc_buf st)(e := c), sc_end := Some (e + 1)\<rparr>) else wild st)"

fun save_puts :: "string \<Rightarrow> ist \<Rightarrow> ist irun" where
  "save_puts [] st = go st"
| "save_puts (c # s) st = andthen (save_put c st) (save_puts s)"

text \<open>\<open>save_com[0] = save_com[1] = ' '; sc_end = &save_com[2];\<close> at offset \<open>k\<close>.\<close>

definition open_save :: "nat \<Rightarrow> ist \<Rightarrow> ist irun" where
  "open_save k st =
     (if k + 1 < sc_size
      then go (st\<lparr>sc_buf := (sc_buf st)(k := CHR '' '', k + 1 := CHR '' ''), save_com := k, sc_end := Some (k + 2)\<rparr>)
      else wild st)"

text \<open>
  Starting the buffer at a comment: what precedes it on the line is copied, less the two
  characters of the comment mark and the two that are written as blanks.
\<close>

definition open_save_comment :: "ist \<Rightarrow> ist irun" where
  "open_save_comment st =
     (if from_save st \<or> buf_ptr st < 4 \<or> sc_size < buf_ptr st - 4 then wild st
      else let k = buf_ptr st - 4
           in open_save k (st\<lparr>sc_buf := (\<lambda>i. if i < k then in_buffer st ! i else sc_buf st i)\<rparr>))"

text \<open>The comment itself.\<close>

fun save_comment :: "nat \<Rightarrow> ist \<Rightarrow> ist irun" where
  "save_comment 0 st = None"
| "save_comment (Suc n) st =
     rd 0 st (\<lambda>c. andthen (save_put c st) (\<lambda>st1. andthen (adv st1) (\<lambda>st2. rd 0 st2 (\<lambda>d.
       if c = CHR ''*'' \<and> d = CHR ''/'' then go st2
       else if save_com st2 + sc_size \<le> the (sc_end st2)
       then quit (diag2 True ''Internal buffer overflow - Move big comment from right after if, while, or whatever'' st2) [] 1
       else save_comment n st2))))"

text \<open>\<open>while (sc_end > save_com && P(sc_end[-1])) sc_end--;\<close>\<close>

fun trim_save :: "(char \<Rightarrow> bool) \<Rightarrow> nat \<Rightarrow> ist \<Rightarrow> nat" where
  "trim_save P 0 st = 0"
| "trim_save P (Suc e) st = (if save_com st \<le> e \<and> P (sc_buf st e) then trim_save P e st else Suc e)"

definition save_trim :: "(char \<Rightarrow> bool) \<Rightarrow> ist \<Rightarrow> ist" where
  "save_trim P st = st\<lparr>sc_end := map_option (\<lambda>e. trim_save P e st) (sc_end st)\<rparr>"

text \<open>\<open>sw_buffer:\<close> the following tokens come from the save buffer.\<close>

definition switch_buffer :: "ist \<Rightarrow> ist irun" where
  "switch_buffer st =
     andthen (save_put (CHR '' '')
               (st\<lparr>bp_save := Some (from_save st, buf_ptr st, buf_end st), from_save := True, buf_ptr := save_com st\<rparr>))
       (\<lambda>st1. go (st1\<lparr>buf_end := the (sc_end st1), sc_end := None\<rparr>))"

definition stop_search :: "ist \<Rightarrow> ist" where
  "stop_search = upd_ps (\<lambda>p. p\<lparr>search_brace := False\<rparr>)"

fun skip_after_brace :: "nat \<Rightarrow> ist \<Rightarrow> ist irun" where
  "skip_after_brace 0 st = None"
| "skip_after_brace (Suc n) st =
     rd 0 st (\<lambda>c. if isspace c
                  then andthen (adv st) (\<lambda>st1. rd 0 st1 (\<lambda>d. if d = NL then go st1 else skip_after_brace n st1))
                  else go st)"

text \<open>The default case: the start of a statement.  The flag is \<open>goto check_type\<close>.\<close>

definition save_default :: "ist \<Rightarrow> (bool \<times> ist) irun" where
  "save_default st0 =
     (let v = mv st0; tk = type_code v; h = held (codeb st0);
          remove_newlines =
            (tk = sp_nparen \<and> deref (token st0) = CHR ''e'' \<and> h \<noteq> [] \<and> last h = CHR ''}'' \<or>
             tk = sp_paren \<and> deref (token st0) = CHR ''i'' \<and> last_else v \<and> else_if (opt st0));
          st = (if remove_newlines then set_force_nl False st0 else st0)
      in if sc_end st = None then go (True, stop_search st)
         else let st1 = save_trim isblank st;
                  st2 = (if swallow_optional_blanklines (opt st1) \<or> \<not> comment_buffered v \<and> remove_newlines
                         then save_trim (\<lambda>c. c = NL) (set_force_nl (\<not> remove_newlines) st1) else st1)
              in andthen
                   (if force_nl (mv st2)
                    then andthen (save_puts [NL, CHR '' ''] ((set_force_nl False st2)\<lparr>line_no := line_no st2 - 1\<rparr>))
                           (\<lambda>st3. go (line_broken st3))
                    else go st2)
                   (\<lambda>st3. andthen (save_puts (token st3) st3)
                   (\<lambda>st4. andthen (switch_buffer (stop_search st4)) (\<lambda>st5. go (False, st5)))))"

definition save_step :: "nat \<Rightarrow> ist \<Rightarrow> (bool \<times> ist) irun" where
  "save_step n st =
     (let tk = type_code (mv st)
      in if tk = newline
         then andthen (if sc_end st = None then open_save 0 st else go st)
                (\<lambda>st1. andthen (save_put NL st1) (\<lambda>st2. go (False, set_force_nl False st2)))
         else if tk = form_feed then go (False, st)
         else if tk = comment
         then andthen (if sc_end st = None then open_save_comment st else go st)
                (\<lambda>st1. andthen (save_puts ''/*'' (upd_mv (\<lambda>v. v\<lparr>comment_buffered := True\<rparr>) st1))
                (\<lambda>st2. andthen (save_comment n st2)
                (\<lambda>st3. andthen (save_put (CHR ''/'') st3)
                (\<lambda>st4. andthen (adv st4) (\<lambda>st5. go (False, st5))))))
         else if tk = lbrace \<and> sc_end st \<noteq> None \<and> btype_2 (opt st)
         then andthen (skip_after_brace n (st\<lparr>sc_buf := (sc_buf st)(save_com st := CHR ''{'')\<rparr>))
                (\<lambda>st1. andthen (switch_buffer (stop_search st1)) (\<lambda>st2. go (False, st2)))
         else save_default st)"

text \<open>Blanks go into the buffer, so that they are there when the tokens are read again.\<close>

fun save_blanks :: "nat \<Rightarrow> ist \<Rightarrow> ist irun" where
  "save_blanks 0 st = None"
| "save_blanks (Suc n) st =
     rd 0 st (\<lambda>c. if isblank c
                  then andthen (save_put c (st\<lparr>buf_ptr := buf_ptr st + 1\<rparr>))
                         (\<lambda>st1. if save_com st1 + sc_size \<le> the (sc_end st1) then quit st1 ''input too long'' 1
                                else save_blanks n st1)
                  else go st)"

text \<open>Looking at the next token with a copy of the parser's state.\<close>

definition look_ahead :: "nat \<Rightarrow> ist \<Rightarrow> ist irun" where
  "look_ahead n st0 =
     (if type_code (mv st0) = eofcode then go st0
      else andthen (if sc_end st0 = None then go st0 else andthen (save_blanks n st0) check_buf)
             (\<lambda>st1. andthen (lexi n True (st1\<lparr>tstate := ps st1\<rparr>))
             (\<lambda>(tk, st2).
                let st3 = upd_mv (\<lambda>v. v\<lparr>type_code := tk\<rparr>) st2
                in go (if tk \<notin> {newline, form_feed, comment} \<and> \<not> search_brace (tstate st3)
                       then st3\<lparr>ps := tstate st3\<rparr> else st3))))"

text \<open>The loop; the flag says whether it ends by \<open>goto check_type\<close>.\<close>

fun search_loop :: "nat \<Rightarrow> ist \<Rightarrow> (bool \<times> ist) irun" where
  "search_loop 0 st = None"
| "search_loop (Suc n) st =
     (if \<not> search_brace (ps st) then go (False, st)
      else andthen (save_step n st) (\<lambda>(out, st1).
             if out then go (True, st1) else andthen (look_ahead n st1) (search_loop n)))"

section \<open>Declarations\<close>

text \<open>Tabs up to the column of the declared name: their number and the position reached.\<close>

function decl_tabs :: "int \<Rightarrow> int \<Rightarrow> int \<Rightarrow> nat \<times> int" where
  "decl_tabs ts pos target =
     (if 0 < ts \<and> ts * (1 + pos sdiv ts) \<le> target
      then (case decl_tabs ts (ts * (1 + pos sdiv ts)) target of (n, c) \<Rightarrow> (Suc n, c))
      else (0, pos))"
  by pat_completeness auto
termination
proof (relation "measure (\<lambda>(ts, pos, target). nat (target - pos))", goal_cases)
  case (2 ts pos target)
  have "ts * (1 + pos sdiv ts) = tabstop ts (pos + 1) - 1" by (simp add: tabstop_def)
  with 2 tabstop_bounds(1) [of ts "pos + 1"] show ?case by simp
qed simp

declare decl_tabs.simps [simp del]

definition indent_declaration :: "int \<Rightarrow> bool \<Rightarrow> ist \<Rightarrow> ist" where
  "indent_declaration cur_dec_ind tabs st =
     (let ts = tabsize (opt st);
          off = (ind_level (ps st) * ind_size (opt st)) smod ts;
          target = cur_dec_ind + off;
          pos0 = int (length (held (codeb st))) + off;
          (n, pos) = (if tabs then decl_tabs ts pos0 target else (0, pos0));
          pad = replicate n TAB @ replicate (nat (target - pos)) (CHR '' '')
      in if pad = [] \<and> want_blank (ps st) then set_want_blank False (code_put '' '' st)
         else code_put pad st)"

definition decl_indented :: "int \<Rightarrow> ist \<Rightarrow> ist" where
  "decl_indented d st =
     upd_ps (\<lambda>p. p\<lparr>dumped_decl_indent := True\<rparr>) (indent_declaration d (tabs_to_var (mv st)) st)"

section \<open>One definition per token\<close>

text \<open>\<open>copy_id:\<close> the token goes into the line.\<close>

definition copy_id :: "code \<Rightarrow> ist \<Rightarrow> ist" where
  "copy_id tk st =
     (let st1 = code_put (token st) (blank_before st)
      in if tk = funcname then st1 else set_want_blank True st1)"

definition tk_form_feed :: "ist \<Rightarrow> ist irun" where
  "tk_form_feed st =
     andthen (dump_line (upd_ps (\<lambda>p. p\<lparr>use_ff := True\<rparr>) st)) (\<lambda>st1. go (set_want_blank False st1))"

definition tk_newline :: "ist \<Rightarrow> ist irun" where
  "tk_newline st =
     andthen
       (if last_token (ps st) \<noteq> comma \<or> 0 < p_l_follow (ps st) \<or> \<not> leave_comma (opt st) \<or> block_init (ps st) \<or>
           \<not> break_comma st \<or> held (comb st) \<noteq> []
        then andthen (dump_line st) (\<lambda>st1. go (set_want_blank False st1)) else go st)
       (\<lambda>st1. go (st1\<lparr>line_no := line_no st1 + 1\<rparr>))"

definition paren_bit :: "ist \<Rightarrow> 32 word" where
  "paren_bit st = push_bit (nat (p_l_follow (ps st))) 1"

definition tk_lparen :: "ist \<Rightarrow> ist irun" where
  "tk_lparen st0 =
     (let c = deref (token st0);
          st1 = upd_ps (\<lambda>p. p\<lparr>p_l_follow := p_l_follow p + 1\<rparr>) st0;
          st2 = (if p_l_follow (ps st1) = 20
                 then upd_ps (\<lambda>p. p\<lparr>p_l_follow := p_l_follow p - 1\<rparr>)
                        (diag2 False ''Reached internal limit of 20 unclosed parens'' st1)
                 else st1);
          p = ps st2;
          st3 = (if c = CHR ''['' then st2
                 else if in_decl p \<and> \<not> block_init p \<and> \<not> dumped_decl_indent p \<and> procname p = [] \<and> paren_level p = 0
                 then decl_indented (dec_ind (mv st2)) st2
                 else if want_blank p \<and> (last_token p \<noteq> ident \<and> last_token p \<noteq> funcname \<or>
                           proc_calls_space (opt st2) \<or> 2 < keyword p + of_bool (Bill_Shannon (opt st2)))
                 then code_put '' '' st2 else st2);
          st4 = code_put [c] (set_want_blank False st3);
          k = nat (p_l_follow (ps st4) - 1);
          col = to_short (count_spaces_until (tabsize (opt st4)) 1 (held (codeb st4)) - 1);
          st5 = upd_ps (\<lambda>p. p\<lparr>paren_indents := (paren_indents p)(k := col)\<rparr>) st4;
          st6 = (if sp_sw (mv st5) \<and> p_l_follow (ps st5) = 1 \<and> extra_expression_indent (opt st5) \<and>
                    paren_indents (ps st5) 0 < 2 * ind_size (opt st5)
                 then upd_ps (\<lambda>p. p\<lparr>paren_indents := (paren_indents p)(0 := to_short (2 * ind_size (opt st5)))\<rparr>) st5
                 else st5)
      in andthen
           (if in_or_st (ps st6) \<and> c = CHR ''('' \<and> tos (ps st6) \<le> 2
            then andthen (do_parse semicolon st6) (\<lambda>st7. go (upd_ps (\<lambda>p. p\<lparr>in_or_st := False\<rparr>) st7)) else go st6)
           (\<lambda>st7. go (if keyword (ps st7) = 1 \<or> keyword (ps st7) = 2
                      then upd_ps (\<lambda>p. p\<lparr>not_cast_mask := or (not_cast_mask p) (paren_bit st7)\<rparr>) st7 else st7)))"

text \<open>The end of a header's parentheses: \<open>parse(hd_type)\<close> with what goes before it.\<close>

definition end_header :: "ist \<Rightarrow> ist irun" where
  "end_header st =
     do_parse (hd_type (mv st))
       (upd_mv (\<lambda>v. v\<lparr>sp_sw := False, force_nl := True\<rparr>)
         (upd_ps (\<lambda>p. p\<lparr>last_u_d := True, in_stmt := False\<rparr>) st))"

definition tk_rparen :: "ist \<Rightarrow> ist irun" where
  "tk_rparen st0 =
     (let b = paren_bit st0; p = ps st0;
          st1 = (if and (and (cast_mask p) b) (not (not_cast_mask p)) \<noteq> 0
                 then upd_ps (\<lambda>p. p\<lparr>last_u_d := True, cast_mask := and (cast_mask p) (b - 1),
                                    want_blank := space_after_cast (opt st0)\<rparr>) st0
                 else set_want_blank True st0);
          st2 = upd_ps (\<lambda>p. p\<lparr>not_cast_mask := and (not_cast_mask p) (b - 1), p_l_follow := p_l_follow p - 1\<rparr>) st1;
          st3 = (if p_l_follow (ps st2) < 0
                 then diag2 False (''Extra '' @ [deref (token st2)]) (upd_ps (\<lambda>p. p\<lparr>p_l_follow := 0\<rparr>) st2) else st2);
          st4 = (if held (codeb st3) = [] then upd_ps (\<lambda>p. p\<lparr>paren_level := p_l_follow p\<rparr>) st3 else st3);
          st5 = code_put [deref (token st4)] st4
      in andthen (if sp_sw (mv st5) \<and> p_l_follow (ps st5) = 0 then end_header st5 else go st5)
           (\<lambda>st6. go (upd_ps (\<lambda>p. p\<lparr>search_brace := btype_2 (opt st6)\<rparr>) st6)))"

definition tk_unary_op :: "ist \<Rightarrow> ist" where
  "tk_unary_op st =
     (let p = ps st;
          st1 = (if \<not> dumped_decl_indent p \<and> in_decl p \<and> \<not> block_init p \<and> procname p = [] \<and> paren_level p = 0
                 then decl_indented (dec_ind (mv st) - int (length (token st))) st
                 else blank_before st)
      in set_want_blank False (code_put (token st1) st1))"

definition tk_binary_op :: "ist \<Rightarrow> ist" where
  "tk_binary_op st = set_want_blank True (code_put (token st) (blank_before st))"

definition tk_postop :: "ist \<Rightarrow> ist" where
  "tk_postop st = set_want_blank True (code_put (take 2 (token st)) st)"

definition tk_question :: "ist \<Rightarrow> ist" where
  "tk_question st =
     set_want_blank True (code_put ''?'' (blank_before (upd_mv (\<lambda>v. v\<lparr>squest := squest v + 1\<rparr>) st)))"

text \<open>Outside a conditional and a declaration, everything so far is a label.\<close>

definition tk_colon :: "ist \<Rightarrow> ist" where
  "tk_colon st =
     (if 0 < squest (mv st)
      then set_want_blank True (code_put '':'' (blank_before (upd_mv (\<lambda>v. v\<lparr>squest := squest v - 1\<rparr>) st)))
      else if in_or_st (ps st) then set_want_blank False (code_put '':'' st)
      else let sc = scase (mv st);
               st1 = lab_put (held (codeb st) @ '':'') (set_in_stmt False st);
               st2 = st1\<lparr>labb := cb_term (labb st1), codeb := cb_back (length (held (codeb st1))) (codeb st1)\<rparr>
           in set_want_blank False
                (upd_mv (\<lambda>v. v\<lparr>force_nl := sc, scase := False\<rparr>) (upd_ps (\<lambda>p. p\<lparr>pcase := sc\<rparr>) st2)))"

text \<open>Parentheses still open at the end of a statement or before a brace; the header is not lost.\<close>

definition unbalanced :: "ist \<Rightarrow> ist" where
  "unbalanced st = upd_ps (\<lambda>p. p\<lparr>p_l_follow := 0\<rparr>) (diag2 True ''Unbalanced parens'' st)"

definition finish_header :: "ist \<Rightarrow> ist irun" where
  "finish_header st =
     (if sp_sw (mv st) then do_parse (hd_type (mv st)) (upd_mv (\<lambda>v. v\<lparr>sp_sw := False\<rparr>) st) else go st)"

definition tk_semicolon :: "ist \<Rightarrow> ist irun" where
  "tk_semicolon st0 =
     (let st1 = upd_ps (\<lambda>p. p\<lparr>in_or_st := (if dec_nest p = 0 then False else in_or_st p),
                               in_parameter_declaration :=
                                 (if last_token p = rparen then False else in_parameter_declaration p),
                               cast_mask := 0, not_cast_mask := 0, block_init := False, block_init_level := 0,
                               just_saw_decl := just_saw_decl p - 1\<rparr>)
                  (upd_mv (\<lambda>v. v\<lparr>scase := False, squest := 0\<rparr>) st0);
          p = ps st1;
          st2 = (if in_decl p \<and> held (codeb st1) = [] \<and> \<not> block_init p \<and> \<not> dumped_decl_indent p \<and> paren_level p = 0
                 then decl_indented (dec_ind (mv st1) - 1) st1 else st1);
          st3 = upd_ps (\<lambda>p. p\<lparr>in_decl := 0 < dec_nest p\<rparr>) st2
      in andthen
           (if (\<not> sp_sw (mv st3) \<or> hd_type (mv st3) \<noteq> forstmt) \<and> 0 < p_l_follow (ps st3)
            then finish_header (unbalanced st3) else go st3)
           (\<lambda>st4.
              let st5 = upd_ps (\<lambda>p. p\<lparr>in_stmt := 0 < p_l_follow p\<rparr>) (set_want_blank True (code_put '';'' st4))
              in if sp_sw (mv st5) then go st5
                 else andthen (do_parse semicolon st5) (\<lambda>st6. go (set_force_nl True st6))))"

definition tk_lbrace :: "ist \<Rightarrow> ist irun" where
  "tk_lbrace st0 =
     (let st1 = set_in_stmt False st0;
          st2 = (if \<not> block_init (ps st1) then set_force_nl True st1
                 else upd_ps (\<lambda>p. p\<lparr>block_init_level := (if block_init_level p \<le> 0 then 1 else block_init_level p + 1)\<rparr>) st1);
          dump = (\<lambda>st. andthen (dump_line st) (\<lambda>st'. go (set_want_blank False st')))
      in andthen
           (if held (codeb st2) \<noteq> [] \<and> \<not> block_init (ps st2)
            then (if \<not> btype_2 (opt st2) then dump st2
                  else if in_parameter_declaration (ps st2) \<and> \<not> in_or_st (ps st2)
                  then (let st3 = upd_ps (\<lambda>p. p\<lparr>i_l_follow := 0\<rparr>) st2
                        in if function_brace_split (opt st3) then dump st3 else go (set_want_blank True st3))
                  else go st2)
            else go st2)
           (\<lambda>st3.
              let st4 = (if in_parameter_declaration (ps st3) then st3\<lparr>prefix_blankline_requested := 0\<rparr> else st3)
              in andthen
                   (if 0 < p_l_follow (ps st4)
                    then (if sp_sw (mv st4)
                          then andthen (finish_header (unbalanced st4))
                                 (\<lambda>st5. go (upd_ps (\<lambda>p. p\<lparr>ind_level := i_l_follow p\<rparr>) st5))
                          else go (unbalanced st4))
                    else go st4)
                   (\<lambda>st5.
                      let st6 = (if held (codeb st5) = [] then upd_ps (\<lambda>p. p\<lparr>ind_stmt := False\<rparr>) st5 else st5);
                          p = ps st6
                      in andthen
                           (if in_decl p \<and> in_or_st p
                            then (let st7 = upd_ps (\<lambda>p. p\<lparr>dec_nest := dec_nest p + 1\<rparr>)
                                              (upd_mv (\<lambda>v. v\<lparr>di_stack := (di_stack v)(nat (dec_nest p) := dec_ind v)\<rparr>) st6)
                                  in go (if dec_nest (ps st7) = 20
                                         then upd_ps (\<lambda>p. p\<lparr>dec_nest := dec_nest p - 1\<rparr>)
                                                (diag2 False ''Reached internal limit of 20 struct levels'' st7)
                                         else st7))
                            else go (upd_ps (\<lambda>p. p\<lparr>decl_on_line := False, in_parameter_declaration := False, in_decl := False\<rparr>)
                                   (if blanklines_after_declarations_at_proctop (opt st6) \<and> in_parameter_declaration p
                                    then st6\<lparr>postfix_blankline_requested := 1\<rparr> else st6)))
                           (\<lambda>st8. andthen (do_parse lbrace (upd_mv (\<lambda>v. v\<lparr>dec_ind := 0\<rparr>) st8))
                           (\<lambda>st9. go (upd_ps (\<lambda>p. p\<lparr>want_blank := False, just_saw_decl := 0\<rparr>)
                                       (code_put ''{'' (blank_before st9))))))))"

definition tk_rbrace :: "ist \<Rightarrow> ist irun" where
  "tk_rbrace st0 =
     andthen
       (if p_stack (ps st0) (tos (ps st0)) = decl \<and> \<not> block_init (ps st0) then do_parse semicolon st0 else go st0)
       (\<lambda>st1.
          let st2 = (if p_l_follow (ps st1) \<noteq> 0
                     then upd_mv (\<lambda>v. v\<lparr>sp_sw := False\<rparr>) (unbalanced st1) else st1);
              st3 = upd_ps (\<lambda>p. p\<lparr>just_saw_decl := 0, block_init_level := block_init_level p - 1\<rparr>) st2
          in andthen
               (if held (codeb st3) \<noteq> [] \<and> \<not> block_init (ps st3) then dump_line (line_broken st3) else go st3)
               (\<lambda>st4.
                  let st5 = upd_ps (\<lambda>p. p\<lparr>want_blank := True, in_stmt := False, ind_stmt := False\<rparr>) (code_put ''}'' st4);
                      st6 = (if 0 < dec_nest (ps st5)
                             then (let k = dec_nest (ps st5) - 1
                                   in upd_ps (\<lambda>p. p\<lparr>dec_nest := k, in_decl := True,
                                                     just_saw_decl := (if k = 0 \<and> \<not> in_parameter_declaration p then 2
                                                                       else just_saw_decl p)\<rparr>)
                                        (upd_mv (\<lambda>v. v\<lparr>dec_ind := di_stack v (nat k)\<rparr>) st5))
                             else st5)
                  in andthen (do_parse rbrace (st6\<lparr>prefix_blankline_requested := 0\<rparr>))
                       (\<lambda>st7.
                          let p = ps st7;
                              st8 = upd_ps (\<lambda>p. p\<lparr>search_brace := cuddle_else (opt st7) \<and> p_stack p (tos p) = ifhead \<and>
                                                      ind_level p \<le> il p (tos p)\<rparr>) st7
                          in go (if tos p \<le> 1 \<and> blanklines_after_procs (opt st8) \<and> dec_nest p \<le> 0
                                 then st8\<lparr>postfix_blankline_requested := 1\<rparr> else st8))))"

text \<open>\<open>if\<close>, \<open>while\<close>, \<open>for\<close> and \<open>switch\<close>.\<close>

definition tk_header :: "code \<Rightarrow> ist \<Rightarrow> ist" where
  "tk_header tk st =
     (let c = deref (token st);
          h = (if tk = swstmt then swstmt
               else if c = CHR ''i'' then ifstmt else if c = CHR ''w'' then whilestmt else forstmt)
      in copy_id tk (upd_mv (\<lambda>v. v\<lparr>sp_sw := True, hd_type := h\<rparr>) st))"

text \<open>\<open>else\<close> and \<open>do\<close>.\<close>

definition tk_sp_nparen :: "ist \<Rightarrow> ist irun" where
  "tk_sp_nparen st0 =
     (let st = set_in_stmt False st0; h = held (codeb st); e = (deref (token st) = CHR ''e'');
          brk = (h \<noteq> [] \<and> (\<not> e \<or> \<not> cuddle_else (opt st) \<or> last h \<noteq> CHR ''}''))
      in andthen
           (if brk then andthen (dump_line (line_broken st)) (\<lambda>st1. go (set_want_blank False st1)) else go st)
           (\<lambda>st1. andthen (do_parse (if e then elselit else dolit)
                            (upd_mv (\<lambda>v. v\<lparr>force_nl := True, last_else := e\<rparr>) st1))
           (\<lambda>st2. go (copy_id sp_nparen st2))))"

definition tk_decl :: "code \<Rightarrow> ist \<Rightarrow> ist irun" where
  "tk_decl tk st0 =
     (if tk = structure_tok \<and> 0 < p_l_follow (ps st0) then go (copy_id tk st0)
      else andthen (do_parse decl st0) (\<lambda>st1.
           andthen
             (if last_token (ps st1) = rparen \<and> tos (ps st1) \<le> 1 \<and> held (codeb st1) \<noteq> []
              then andthen (dump_line st1) (\<lambda>st2. go (set_want_blank False st2)) else go st1)
             (\<lambda>st2.
                let st3 = (if in_parameter_declaration (ps st2) \<and> indent_parameters (opt st2) \<and> dec_nest (ps st2) = 0
                           then upd_ps (\<lambda>p. p\<lparr>ind_level := 1, i_l_follow := 1, ind_stmt := False\<rparr>) st2 else st2);
                    d = (last_token (ps st3) \<noteq> type_def);
                    st4 = upd_ps (\<lambda>p. p\<lparr>in_or_st := True, in_decl := d, decl_on_line := d,
                                        just_saw_decl := (if dec_nest p \<le> 0 then 2 else just_saw_decl p)\<rparr>)
                            (st3\<lparr>prefix_blankline_requested := 0\<rparr>);
                    i = int (length (token st4)) + 1;
                    w = (if ind_level (ps st4) = 0 \<or> 0 < dec_nest (ps st4) then decl_indent (opt st4)
                         else local_decl_indent (opt st4))
                in go (copy_id tk (upd_mv (\<lambda>v. v\<lparr>dec_ind := (if 0 < w then w else i),
                                                  tabs_to_var := use_tabs (opt st4) \<and> 0 < w\<rparr>) st4)))))"

definition tk_ident :: "code \<Rightarrow> ist \<Rightarrow> ist irun" where
  "tk_ident tk st =
     (let p = ps st
      in andthen
           (if in_decl p
            then (if tk = funcname
                  then (let st1 = upd_ps (\<lambda>p. p\<lparr>in_decl := False\<rparr>) st
                        in andthen
                             (if procnames_start_line (opt st1) \<and> held (codeb st1) \<noteq> []
                              then dump_line (st1\<lparr>codeb := cb_term (codeb st1)\<rparr>) else go (blank_before st1))
                             (\<lambda>st2. go (set_want_blank False st2)))
                  else if \<not> block_init p \<and> \<not> dumped_decl_indent p \<and> paren_level p = 0
                  then go (set_want_blank False (decl_indented (dec_ind (mv st)) st))
                  else go st)
            else if sp_sw (mv st) \<and> p_l_follow p = 0 then end_header st
            else go st)
           (\<lambda>st1. go (copy_id tk st1)))"

definition tk_strpfx :: "ist \<Rightarrow> ist" where
  "tk_strpfx st = set_want_blank False (code_put (token st) (blank_before st))"

definition tk_period :: "ist \<Rightarrow> ist" where
  "tk_period st = set_want_blank False (code_put ''.'' st)"

definition tk_comma :: "ist \<Rightarrow> ist irun" where
  "tk_comma st0 =
     (let st1 = set_want_blank (held (codeb st0) \<noteq> []) st0; p = ps st1;
          st2 = (if in_decl p \<and> procname p = [] \<and> \<not> block_init p \<and> \<not> dumped_decl_indent p \<and> paren_level p = 0
                 then decl_indented (dec_ind (mv st1) - 1) st1 else st1);
          st3 = code_put '','' st2
      in if p_l_follow (ps st3) \<noteq> 0 then go st3
         else let st4 = (if block_init_level (ps st3) \<le> 0 then upd_ps (\<lambda>p. p\<lparr>block_init := False\<rparr>) st3 else st3);
                  os = opt st4
              in if \<not> break_comma st4 then go st4
                 else if \<not> leave_comma os then go (set_force_nl True st4)
                 else case compute_code_target st4 of
                        None \<Rightarrow> wild st4
                      | Some t \<Rightarrow>
                          go (if max_col os - tabsize os < count_spaces_until (tabsize os) t (held (codeb st4))
                              then set_force_nl True st4 else st4))"

section \<open>Preprocessor lines\<close>

text \<open>
  What the scan of a line knows: inside a comment, where the last comment starts and ends in the
  label.  The source's \<open>quote\<close> is only ever 0, so quotes do not hide a comment mark.
\<close>

record cppv =
  in_comment :: bool
  com_from :: nat
  com_to :: nat

text \<open>\<open>*e_lab = c\<close> without moving the pointer, and \<open>e_lab++\<close> over what is there.\<close>

definition lab_poke :: "char \<Rightarrow> ist \<Rightarrow> ist" where
  "lab_poke c st = st\<lparr>labb := (labb st)\<lparr>stale := c # tl (stale (labb st))\<rparr>\<rparr>"

definition lab_over :: "ist \<Rightarrow> ist" where
  "lab_over st = lab_put (take 1 (stale (labb st))) st"

definition lab_len :: "ist \<Rightarrow> nat" where
  "lab_len st = length (held (labb st))"

text \<open>\<open>*e_lab++ = *buf_ptr++\<close> for a character just seen.\<close>

definition lab_take :: "char \<Rightarrow> ist \<Rightarrow> ist" where
  "lab_take c st = (lab_put [c] st)\<lparr>buf_ptr := buf_ptr st + 1\<rparr>"

fun cpp_scan :: "nat \<Rightarrow> cppv \<Rightarrow> ist \<Rightarrow> (cppv \<times> ist) irun" where
  "cpp_scan 0 v st = None"
| "cpp_scan (Suc n) v st =
     rd 0 st (\<lambda>c.
       if c = NL \<and> \<not> (in_comment v \<and> \<not> had_eof st) then go (v, st)
       else andthen (adv (lab_poke c st)) (\<lambda>st1.
              let c' = deref (stale (labb st1)); st2 = lab_over st1
              in rd 0 st2 (\<lambda>d.
                   if c' = CHR 0x5C \<and> \<not> in_comment v then andthen (check_buf (lab_take d st2)) (cpp_scan n v)
                   else if c' = CHR ''/'' \<and> d = CHR ''*'' \<and> \<not> in_comment v
                   then (let st3 = lab_take d st2 in cpp_scan n (v\<lparr>in_comment := True, com_from := lab_len st3 - 2\<rparr>) st3)
                   else if c' = CHR ''*'' \<and> d = CHR ''/'' \<and> in_comment v
                   then (let st3 = lab_take d st2 in cpp_scan n (v\<lparr>in_comment := False, com_to := lab_len st3\<rparr>) st3)
                   else cpp_scan n v st2)))"

definition lab_trim :: "ist \<Rightarrow> ist" where
  "lab_trim st =
     st\<lparr>labb := cb_back (lab_len st - length (rstrip isblank (held (labb st)))) (labb st)\<rparr>"

text \<open>A comment at the end of the line is taken off and read again from the save buffer.\<close>

definition cpp_comment :: "cppv \<Rightarrow> ist \<Rightarrow> ist irun" where
  "cpp_comment v st =
     (if \<not> (lab_len st = com_to v \<and> bp_save st = None) then go st
      else andthen
             (if sc_end st = None then go (st\<lparr>save_com := 0, sc_end := Some 0\<rparr>)
              else andthen (save_puts [NL, CHR '' ''] st) (\<lambda>st1. go (st1\<lparr>line_no := line_no st1 - 1\<rparr>)))
             (\<lambda>st1.
                if com_to v < com_from v then wild st1
                else if sc_size < the (sc_end st1) - save_com st1 + (com_to v - com_from v)
                then quit st1 ''input too long'' 1
                else andthen (save_puts (drop (com_from v) (take (com_to v) (held (labb st1)))) st1)
                       (\<lambda>st2. switch_buffer
                                (lab_trim (st2\<lparr>labb := cb_back (lab_len st2 - com_from v) (labb st2)\<rparr>)))))"

definition recognized :: "string list" where
  "recognized = [''include'', ''define'', ''undef'', ''line'', ''error'', ''pragma'']"

text \<open>The directive; the flag says whether it is known.  \<open>match_state\<close> is only ever written.\<close>

definition cpp_directive :: "ist \<Rightarrow> bool \<times> ist" where
  "cpp_directive st =
     (let s_lab = held (labb st)
      in if take 3 s_lab = ''#if''
         then (True, if length (ifdef_stack st) < 5 then st\<lparr>ifdef_stack := ifdef_stack st @ [ps st]\<rparr>
                     else diag2 True ''#if stack overflow'' st)
         else if take 3 s_lab = ''#el''
         then (True, if ifdef_stack st = []
                     then diag2 True (if take 1 (drop 3 s_lab) = ''i'' then ''Unmatched #elif'' else ''Unmatched #else'') st
                     else st\<lparr>ps := last (ifdef_stack st)\<rparr>)
         else if take 6 s_lab = ''#endif''
         then (True, if ifdef_stack st = [] then diag2 True ''Unmatched #endif'' st
                     else st\<lparr>ifdef_stack := butlast (ifdef_stack st)\<rparr>)
         else if list_ex (\<lambda>d. take (length d) (drop 1 s_lab) = d) recognized then (True, st)
         else (False, diag2 True ''Unrecognized cpp directive'' st))"

definition tk_preesc :: "nat \<Rightarrow> ist \<Rightarrow> ist irun" where
  "tk_preesc n st0 =
     andthen (if empty_line st0 then go st0 else dump_line st0) (\<lambda>st1.
     andthen (skip_blanks id n (lab_put ''#'' st1)) (\<lambda>st2.
     andthen (cpp_scan n \<lparr>in_comment = False, com_from = 0, com_to = 0\<rparr> st2) (\<lambda>(v, st3).
     andthen (cpp_comment v (lab_trim st3)) (\<lambda>st4.
       case cpp_directive (upd_ps (\<lambda>p. p\<lparr>pcase := False\<rparr>) (st4\<lparr>labb := cb_term (labb st4)\<rparr>)) of
         (known, st5) \<Rightarrow>
           go (if \<not> known then st5
               else if blanklines_around_conditional_compilation (opt st5)
               then st5\<lparr>postfix_blankline_requested := postfix_blankline_requested st5 + 1, n_real_blanklines := 0\<rparr>
               else st5\<lparr>postfix_blankline_requested := 0, prefix_blankline_requested := 0\<rparr>)))))"

section \<open>The main loop\<close>

text \<open>\<open>%6.3f\<close> of the statistics: a number of lines divided by a number of lines.\<close>

definition show_ratio :: "int \<Rightarrow> int \<Rightarrow> string" where
  "show_ratio a b =
     (let s = (if b = 0 then (if a = 0 then ''nan'' else ''inf'')
               else case rnd (of_int a / of_int b) of
                      Fin q \<Rightarrow>
                        (let m = nat (round_half_even (q * 1000)); d = show_nat (m mod 1000)
                         in show_nat (m div 1000) @ ''.'' @ replicate (3 - length d) (CHR ''0'') @ d)
                    | _ \<Rightarrow> ''inf'')
      in replicate (6 - length s) (CHR '' '') @ s)"

definition at_eof :: "ist \<Rightarrow> ist irun" where
  "at_eof st0 =
     andthen (if empty_line st0 then go st0 else dump_line st0) (\<lambda>st1.
       let st2 = (if 1 < tos (ps st1) then diag2 True ''Stuff missing from end of file'' st1 else st1);
           st3 = (if verbose (opt st2)
                  then print_out
                         (''There were '' @ show_int (out_lines (ps st2)) @ '' output lines and '' @
                          show_int (out_coms (ps st2)) @ '' comments'' @ [NL] @
                          ''(Lines with comments)/(Lines with code): '' @
                          show_ratio (com_lines (ps st2)) (code_lines st2) @ [NL]) st2
                  else st2)
       in quit st3 [] (if found_err st3 then 1 else 0))"

text \<open>A comment in the middle of a line of code becomes part of the code.\<close>

definition embed_comment :: "ist \<Rightarrow> ist" where
  "embed_comment st =
     (if held (comb st) = [] then st
      else let st1 = code_put ('' '' @ held (comb st) @ '' '') st
           in set_want_blank False
                (st1\<lparr>codeb := cb_term (codeb st1), comb := cb_back (length (held (comb st1))) (comb st1)\<rparr>))"

definition before_token :: "code \<Rightarrow> ist \<Rightarrow> ist irun" where
  "before_token tk st =
     (if tk \<in> {comment, newline, preesc, form_feed}
      then go (if tk = comment then st else set_force_nl False st)
      else andthen
             (if force_nl (mv st) \<and> tk \<noteq> semicolon \<and> (tk \<noteq> lbrace \<or> \<not> btype_2 (opt st))
              then andthen (dump_line (line_broken st)) (\<lambda>st1. go (set_force_nl False (set_want_blank False st1)))
              else go st)
             (\<lambda>st1. go (embed_comment (set_in_stmt True st1))))"

definition do_token :: "nat \<Rightarrow> code \<Rightarrow> ist \<Rightarrow> ist irun" where
  "do_token n tk st =
     (if tk = form_feed then tk_form_feed st
      else if tk = newline then tk_newline st
      else if tk = lparen then tk_lparen st
      else if tk = rparen then tk_rparen st
      else if tk = unary_op then go (tk_unary_op st)
      else if tk = binary_op then go (tk_binary_op st)
      else if tk = postop then go (tk_postop st)
      else if tk = question then go (tk_question st)
      else if tk = casestmt then go (copy_id tk (upd_mv (\<lambda>v. v\<lparr>scase := True\<rparr>) st))
      else if tk = colon then go (tk_colon st)
      else if tk = semicolon then tk_semicolon st
      else if tk = lbrace then tk_lbrace st
      else if tk = rbrace then tk_rbrace st
      else if tk = swstmt \<or> tk = sp_paren then go (tk_header tk st)
      else if tk = sp_nparen then tk_sp_nparen st
      else if tk = type_def \<or> tk = storage then go (copy_id tk (st\<lparr>prefix_blankline_requested := 0\<rparr>))
      else if tk = structure_tok \<or> tk = decl then tk_decl tk st
      else if tk = funcname \<or> tk = ident then tk_ident tk st
      else if tk = strpfx then go (tk_strpfx st)
      else if tk = period then go (tk_period st)
      else if tk = comma then tk_comma st
      else if tk = preesc then tk_preesc n st
      else if tk = comment then pr_comment n st
      else go st)"

definition after_token :: "code \<Rightarrow> ist \<Rightarrow> ist" where
  "after_token tk st =
     (let st1 = st\<lparr>codeb := cb_term (codeb st)\<rparr>
      in if tk \<in> {comment, newline, preesc} then st1 else upd_ps (\<lambda>p. p\<lparr>last_token := tk\<rparr>) st1)"

definition main_step :: "nat \<Rightarrow> ist \<Rightarrow> ist irun" where
  "main_step n st0 =
     andthen (lexi n False (upd_mv (\<lambda>v. v\<lparr>comment_buffered := False\<rparr>) st0)) (\<lambda>(tk0, st1).
     andthen (search_loop n (upd_mv (\<lambda>v. v\<lparr>type_code := tk0\<rparr>) st1)) (\<lambda>(out, st2).
       let st3 = (if out then st2 else upd_mv (\<lambda>v. v\<lparr>last_else := False\<rparr>) st2); tk = type_code (mv st3)
       in if tk = eofcode then at_eof st3
          else andthen (before_token tk st3) (\<lambda>st4. andthen (do_token n tk st4) (\<lambda>st5. go (after_token tk st5)))))"

fun main_loop :: "nat \<Rightarrow> ist \<Rightarrow> ist irun" where
  "main_loop 0 st = None"
| "main_loop (Suc n) st = andthen (main_step n st) (main_loop n)"

section \<open>The program\<close>

text \<open>The indentation of the first line sets the level to start from.\<close>

definition first_level :: "ist \<Rightarrow> ist irun" where
  "first_level st =
     (let col = count_spaces_until (tabsize (opt st)) 1 (takeWhile isblank (drop (buf_ptr st) (in_buffer st)));
          sz = ind_size (opt st)
      in if col \<le> sz then go st
         else if sz = 0 then wild st
         else go (upd_ps (\<lambda>p. p\<lparr>ind_level := col sdiv sz, i_l_follow := col sdiv sz\<rparr>) st))"

definition format_start :: "ist \<Rightarrow> ist irun" where
  "format_start st0 =
     (if tabsize (opt st0) = 0 then wild st0
      else andthen (fill_buffer st0) (\<lambda>st1. andthen (do_parse semicolon st1) first_level))"

definition format_file :: "nat \<Rightarrow> indent_options \<Rightarrow> typetab \<Rightarrow> string \<Rightarrow> bool \<Rightarrow> ist irun" where
  "format_file n os tab file out = andthen (format_start (start_state os tab file out)) (main_loop n)"

text \<open>
  \<open>bakcopy\<close>: the file system is a map from names to contents, \<open>creatable\<close> says which names
  \<open>creat\<close> and \<open>fopen\<close> can open for writing.  The result is the text of the new input and the
  file system with the input file truncated for the output.
\<close>

type_synonym files = "string \<Rightarrow> string option"

definition MAXPATHLEN :: nat where "MAXPATHLEN = 1024"

definition bakfile :: "string \<Rightarrow> string \<Rightarrow> string" where
  "bakfile in_name simple_backup_suffix =
     rev (takeWhile (\<lambda>c. c \<noteq> CHR ''/'') (rev in_name)) @ simple_backup_suffix"

definition bakcopy :: "(string \<Rightarrow> bool) \<Rightarrow> string \<Rightarrow> string \<Rightarrow> files \<Rightarrow> (string \<times> files) run" where
  "bakcopy creatable in_name sfx fs =
     (let b = bakfile in_name sfx
      in if MAXPATHLEN \<le> length b then Undef []
         else if \<not> creatable b then Exit [] b 1
         else let fs1 = fs(b \<mapsto> []);
                  fs2 = fs1(b \<mapsto> the (fs1 in_name))
              in if creatable in_name then Ret [] (the (fs2 b), fs2(in_name \<mapsto> []))
                 else Exit [] in_name 1)"

text \<open>
  The program: options, input and output, and the formatting.  \<open>stdin\<close> is what standard input
  holds; what the options print goes to standard output first.
\<close>

definition indent_main ::
  "nat \<Rightarrow> files \<Rightarrow> (string \<Rightarrow> bool) \<Rightarrow> string option \<Rightarrow> string option \<Rightarrow> string list \<Rightarrow> string \<Rightarrow>
   indent_options \<Rightarrow> ist irun" where
  "indent_main n fs creatable home envval argv stdin zero =
     (case main_options fs creatable home argv zero of
        Exit out err k \<Rightarrow> Some (Exit out err k)
      | Undef out \<Rightarrow> Some (Undef out)
      | Ret out a \<Rightarrow>
          (let format = (\<lambda>file to_out.
                 let st = start_state (a_opt a) (a_names a) file to_out
                 in andthen (format_start (if to_out then st\<lparr>outp := out\<rparr> else st\<lparr>sout := out\<rparr>)) (main_loop n))
           in case a_input a of
                Some (File f) \<Rightarrow>
                  (case a_output a of
                     None \<Rightarrow>
                       (case bakcopy creatable f (case envval of None \<Rightarrow> ''.BAK'' | Some s \<Rightarrow> s) fs of
                          Exit _ err k \<Rightarrow> Some (Exit out err k)
                        | Undef _ \<Rightarrow> Some (Undef out)
                        | Ret _ (file, _) \<Rightarrow> format file False)
                   | Some w \<Rightarrow> format (the (fs f)) (w = Stdout))
              | _ \<Rightarrow> format stdin (case a_output a of None \<Rightarrow> True | Some w \<Rightarrow> w = Stdout)))"

end
