(* ===== verification/Indent_Runs.thy ===== *)
theory Indent_Runs
  imports Indent_Main "HOL-Library.Sublist"
begin

text \<open>
  What no step of the formatter ever takes back: text that is written stays written, an error that
  is reported stays reported, and the options and type names stay as they were read.
\<close>

section \<open>The order of states\<close>

definition grows :: "ist \<Rightarrow> ist \<Rightarrow> bool" where
  "grows st st' \<longleftrightarrow>
     opt st' = opt st \<and> typenames st' = typenames st \<and> to_stdout st' = to_stdout st \<and> (found_err st \<longrightarrow> found_err st') \<and>
     prefix (outp st) (outp st') \<and> prefix (errp st) (errp st')"

lemma grows_refl [simp]: "grows st st"
  by (simp add: grows_def)

lemma grows_trans [trans]: "grows a b \<Longrightarrow> grows b c \<Longrightarrow> grows a c"
  by (auto simp: grows_def)

lemma grows_upd [simp]:
  "grows st (s\<lparr>ps := p\<rparr>) = grows st s" "grows st (s\<lparr>labb := b\<rparr>) = grows st s" "grows st (s\<lparr>codeb := b\<rparr>) = grows st s"
  "grows st (s\<lparr>comb := b\<rparr>) = grows st s" "grows st (s\<lparr>com_pre := x\<rparr>) = grows st s" "grows st (s\<lparr>com_room := n\<rparr>) = grows st s"
  "grows st (s\<lparr>token := x\<rparr>) = grows st s" "grows st (s\<lparr>in_buffer := x\<rparr>) = grows st s" "grows st (s\<lparr>in_limit := n\<rparr>) = grows st s"
  "grows st (s\<lparr>sc_buf := f\<rparr>) = grows st s" "grows st (s\<lparr>save_com := n\<rparr>) = grows st s" "grows st (s\<lparr>sc_end := e\<rparr>) = grows st s"
  "grows st (s\<lparr>from_save := q\<rparr>) = grows st s" "grows st (s\<lparr>buf_ptr := n\<rparr>) = grows st s" "grows st (s\<lparr>buf_end := n\<rparr>) = grows st s"
  "grows st (s\<lparr>bp_save := v\<rparr>) = grows st s" "grows st (s\<lparr>n_real_blanklines := i\<rparr>) = grows st s"
  "grows st (s\<lparr>prefix_blankline_requested := i\<rparr>) = grows st s" "grows st (s\<lparr>postfix_blankline_requested := i\<rparr>) = grows st s"
  "grows st (s\<lparr>break_comma := q\<rparr>) = grows st s" "grows st (s\<lparr>case_ind := r\<rparr>) = grows st s" "grows st (s\<lparr>code_lines := i\<rparr>) = grows st s"
  "grows st (s\<lparr>had_eof := q\<rparr>) = grows st s" "grows st (s\<lparr>line_no := i\<rparr>) = grows st s" "grows st (s\<lparr>inhibit_formatting := q\<rparr>) = grows st s"
  "grows st (s\<lparr>suppress_blanklines := i\<rparr>) = grows st s" "grows st (s\<lparr>comment_open := q\<rparr>) = grows st s"
  "grows st (s\<lparr>paren_target := i\<rparr>) = grows st s" "grows st (s\<lparr>not_first_line := q\<rparr>) = grows st s"
  "grows st (s\<lparr>tstate := p\<rparr>) = grows st s" "grows st (s\<lparr>ifdef_stack := ss\<rparr>) = grows st s" "grows st (s\<lparr>mv := v'\<rparr>) = grows st s"
  "grows st (s\<lparr>infile := x\<rparr>) = grows st s" "grows st (s\<lparr>sout := x\<rparr>) = grows st s"
  by (simp_all add: grows_def)

lemma grows_upd_ps [simp]: "grows st (upd_ps f s) = grows st s"
  by (simp add: upd_ps_def)

lemma grows_emit [simp]: "grows st s \<Longrightarrow> grows st (emit x s)"
  by (auto simp: grows_def emit_def)

lemma grows_diag2 [simp]: "grows st s \<Longrightarrow> grows st (diag2 l m s)"
  by (auto simp: grows_def diag2_def Let_def emit_def)

lemma grows_print_out [simp]: "grows st s \<Longrightarrow> grows st (print_out x s)"
  by (auto simp: print_out_def)

lemma diag2_error: "found_err (diag2 True m s)"
  by (simp add: diag2_def Let_def emit_def)

section \<open>Runs\<close>

text \<open>A run from \<open>st\<close> whose result \<open>a\<close> has the state \<open>sel a\<close>.\<close>

definition runs :: "ist \<Rightarrow> ('a \<Rightarrow> ist) \<Rightarrow> 'a irun \<Rightarrow> bool" where
  "runs st sel r \<longleftrightarrow>
     (case r of
        None \<Rightarrow> True
      | Some (Ret out a) \<Rightarrow> grows st (sel a)
      | Some (Exit out err k) \<Rightarrow> prefix (outp st) out \<and> prefix (errp st) err \<and> (found_err st \<longrightarrow> k \<noteq> 0)
      | Some (Undef out) \<Rightarrow> prefix (outp st) out)"

definition itself :: "ist \<Rightarrow> ist" where
  "itself s = s"

lemma grows_itself [simp]: "grows st (itself s) = grows st s"
  by (simp add: itself_def)

named_theorems run_intros

lemma runs_None [run_intros, simp]: "runs st sel None"
  by (simp add: runs_def)

lemma runs_go [run_intros]: "grows st (sel a) \<Longrightarrow> runs st sel (go a)"
  by (simp add: runs_def go_def)

lemma runs_wild [run_intros]: "grows st s \<Longrightarrow> runs st sel (wild s)"
  by (simp add: runs_def wild_def grows_def)

lemma runs_quit [run_intros]: "grows st s \<Longrightarrow> (found_err s \<Longrightarrow> k \<noteq> 0) \<Longrightarrow> runs st sel (quit s m k)"
  by (auto simp: runs_def quit_def grows_def)

lemma runs_andthen:
  assumes "runs st sel r" "\<And>a. grows st (sel a) \<Longrightarrow> runs st sel' (f a)"
  shows "runs st sel' (andthen r f)"
proof (cases "\<exists>out a. r = Some (Ret out a)")
  case True
  then obtain out a where "r = Some (Ret out a)" by blast
  with assms show ?thesis by (simp add: runs_def [of st sel] andthen_def)
next
  case False
  with assms(1) show ?thesis by (auto simp: runs_def andthen_def split: option.splits run.splits)
qed

lemma runs_state [run_intros]:
  "runs st itself r \<Longrightarrow> (\<And>a. grows st a \<Longrightarrow> runs st sel (f a)) \<Longrightarrow> runs st sel (andthen r f)"
  by (rule runs_andthen [where sel = itself]) (simp_all add: itself_def)

lemma runs_pair [run_intros]:
  "runs st snd r \<Longrightarrow> (\<And>a s. grows st s \<Longrightarrow> runs st sel (f (a, s))) \<Longrightarrow> runs st sel (andthen r f)"
  by (rule runs_andthen [where sel = snd]) auto

lemma runs_rd [run_intros]: "grows st s \<Longrightarrow> (\<And>c. runs st sel (f c)) \<Longrightarrow> runs st sel (rd k s f)"
  by (auto simp: rd_def runs_wild split: option.splits)

lemma runs_if [run_intros]:
  "(b \<Longrightarrow> runs st sel x) \<Longrightarrow> (\<not> b \<Longrightarrow> runs st sel y) \<Longrightarrow> runs st sel (if b then x else y)"
  by simp

lemma runs_prod: "(\<And>x y. p = (x, y) \<Longrightarrow> runs st sel (f x y)) \<Longrightarrow> runs st sel (case p of (x, y) \<Rightarrow> f x y)"
  by (cases p) simp

lemma runs_option [run_intros]:
  "(o' = None \<Longrightarrow> runs st sel x) \<Longrightarrow> (\<And>a. o' = Some a \<Longrightarrow> runs st sel (f a)) \<Longrightarrow>
     runs st sel (case o' of None \<Rightarrow> x | Some a \<Rightarrow> f a)"
  by (cases o') simp_all

lemma runs_triple [run_intros]:
  "(\<And>a b e. p = (a, b, e) \<Longrightarrow> runs st sel (f a b e)) \<Longrightarrow> runs st sel (case p of (a, b, e) \<Rightarrow> f a b e)"
  by (cases p) simp

lemma runs_Let: "(\<And>x. runs st sel (f x)) \<Longrightarrow> runs st sel (let x = e in f x)"
  by simp

lemma runs_Let_state: "grows st s \<Longrightarrow> (\<And>x. grows st x \<Longrightarrow> runs st sel (f x)) \<Longrightarrow> runs st sel (let x = s in f x)"
  by simp

lemma runs_Let_fun:
  assumes "\<And>s. grows st s \<Longrightarrow> runs st itself (d s)" "\<And>x. (\<And>s. grows st s \<Longrightarrow> runs st itself (x s)) \<Longrightarrow> runs st sel (f x)"
  shows "runs st sel (let x = d in f x)"
  unfolding Let_def using assms by blast

lemma grows_Let: "(\<And>x. grows st (f x)) \<Longrightarrow> grows st (let x = e in f x)"
  by simp

lemmas let_intros = runs_Let_state runs_Let_fun runs_Let grows_Let

section \<open>Output and input\<close>

lemma grows_close [simp]: "grows st s \<Longrightarrow> grows st (close_comment s)"
  by (simp add: close_comment_def)

lemma grows_label:
  assumes "grows st s"
  shows "grows st (snd (dump_label s))"
  using assms by (simp add: dump_label_def Let_def split: prod.splits)

lemma grows_dump [simp]:
  "grows st s \<Longrightarrow> grows st (dump_blanklines s)" "grows st s \<Longrightarrow> grows st (dump_newline s)"
  "grows st (dump_reset s) = grows st s"
  by (simp_all add: dump_blanklines_def dump_newline_def dump_reset_def Let_def)

lemma runs_code [run_intros]: "grows st s \<Longrightarrow> runs st snd (dump_code (c, s))"
  by (auto simp: dump_code_def Let_def intro!: run_intros split: option.splits prod.splits)

lemma runs_comment [run_intros]: "grows st s \<Longrightarrow> runs st itself (dump_comment (c, s))"
  by (auto simp: dump_comment_def Let_def intro!: run_intros split: option.splits prod.splits)

lemma runs_label [run_intros]:
  assumes "grows st s" "\<And>c s'. grows st s' \<Longrightarrow> runs st sel (f c s')"
  shows "runs st sel (case dump_label s of (c, s') \<Rightarrow> f c s')"
  using grows_label [OF assms(1)] assms(2) by (cases "dump_label s") auto

lemma runs_dump_line [run_intros]: "grows st s \<Longrightarrow> runs st itself (dump_line s)"
  unfolding dump_line_def Let_def by (rule run_intros conjI impI | simp)+

lemma grows_load [simp]: "grows st (load_line l r e s) = grows st s"
  by (simp add: load_line_def)

lemma grows_echo [simp]: "grows st s \<Longrightarrow> grows st (echo_line s)"
  by (simp add: echo_line_def)

lemma runs_switch [run_intros]: "grows st s \<Longrightarrow> runs st itself (formatting_switch c s)"
  by (auto simp: formatting_switch_def intro!: run_intros)

lemma runs_fill_line [run_intros]: "grows st s \<Longrightarrow> runs st itself (fill_line s)"
proof (induction s rule: fill_line.induct)
  case (1 s)
  obtain l r e where r: "read_line (infile s) = (l, r, e)" by (cases "read_line (infile s)") auto
  show ?case
    by (subst fill_line.simps) (use r 1 in \<open>auto intro!: run_intros\<close>)
qed

lemma runs_fill [run_intros]: "grows st s \<Longrightarrow> runs st itself (fill_buffer s)"
  by (auto simp: fill_buffer_def Let_def intro!: run_intros)

lemma runs_check_buf [run_intros]: "grows st s \<Longrightarrow> runs st itself (check_buf s)"
  by (auto simp: check_buf_def intro!: run_intros)

lemma runs_adv [run_intros]: "grows st s \<Longrightarrow> runs st itself (adv s)"
  by (auto simp: adv_def intro!: run_intros)

section \<open>The lexer\<close>

lemma grows_lexi [simp]:
  "grows st (push_tok c s) = grows st s" "grows st (upd_st tr f s) = grows st s" "grows st (set_last_u_d tr b s) = grows st s"
  "grows st (set_keyword tr k s) = grows st s" "grows st (bump c s) = grows st s"
  by (simp_all add: push_tok_def upd_st_def set_last_u_d_def set_keyword_def bump_def)

lemma runs_skip_blanks [run_intros]: "(\<And>s. grows st s \<Longrightarrow> grows st (f s)) \<Longrightarrow> grows st s \<Longrightarrow> runs st itself (skip_blanks f n s)"
  by (induction n arbitrary: s) (rule run_intros conjI impI | simp)+

lemma runs_scan_number [run_intros]: "grows st s \<Longrightarrow> runs st itself (scan_number n q s)"
  by (induction n arbitrary: q s) (rule run_intros conjI impI | simp)+

lemma runs_scan_ident [run_intros]: "grows st s \<Longrightarrow> runs st itself (scan_ident n s)"
  by (induction n arbitrary: s) (rule run_intros conjI impI | simp)+

lemma runs_scan_lit [run_intros]: "grows st s \<Longrightarrow> runs st itself (scan_lit n q s)"
  by (induction n arbitrary: s) (rule run_intros conjI impI | simp)+

lemma runs_scan_stars [run_intros]: "grows st s \<Longrightarrow> runs st itself (scan_stars n s)"
  by (induction n arbitrary: s) (rule run_intros conjI impI | simp)+

lemma runs_scan_same [run_intros]: "grows st s \<Longrightarrow> runs st itself (scan_same n s)"
  by (induction n arbitrary: s) (rule run_intros conjI impI | simp)+

lemma runs_scan_tp [run_intros]: "grows st s \<Longrightarrow> runs st snd (scan_tp n b t s)"
  by (induction n arbitrary: t s) (rule run_intros conjI impI | simp)+

lemma runs_finish [run_intros]: "grows st s \<Longrightarrow> runs st snd (finish tr c u s)"
  unfolding finish_def Let_def by (rule run_intros conjI impI | simp)+

lemma runs_lexi_sign [run_intros]: "grows st s \<Longrightarrow> runs st snd (lexi_sign tr c s)"
  unfolding lexi_sign_def Let_def by (rule run_intros conjI impI | simp)+

lemma runs_lexi_star [run_intros]: "grows st s \<Longrightarrow> runs st snd (lexi_star n tr s)"
  unfolding lexi_star_def Let_def by (rule run_intros conjI impI | simp)+

lemma runs_word_tail [run_intros]: "grows st s \<Longrightarrow> runs st snd (word_tail tr s)"
  unfolding word_tail_def Let_def by (rule run_intros conjI impI | simp)+

lemma runs_found [run_intros]: "grows st s \<Longrightarrow> runs st snd (found_typename tr cls s)"
  unfolding found_typename_def Let_def by (rule run_intros conjI impI | simp)+

lemma runs_classify [run_intros]: "grows st s \<Longrightarrow> runs st snd (classify tr s)"
  unfolding classify_def Let_def by (rule run_intros conjI impI runs_prod | simp)+

lemma runs_lexi_word [run_intros]: "grows st s \<Longrightarrow> runs st snd (lexi_word n tr s)"
  unfolding lexi_word_def Let_def by (rule run_intros conjI impI | simp)+

lemma runs_lexi_op [run_intros]: "grows st s \<Longrightarrow> runs st snd (lexi_op n tr c s)"
  unfolding lexi_op_def Let_def by (rule run_intros conjI impI | simp)+

lemma runs_lexi [run_intros]: "grows st s \<Longrightarrow> runs st snd (lexi n tr s)"
  unfolding lexi_def by (rule run_intros conjI impI | simp)+

section \<open>Comments\<close>

lemma grows_com [simp]:
  "grows st (com_put x s) = grows st s" "grows st (com_set i j s) = grows st s" "grows st (CHECK_SIZE_COM d s) = grows st s"
  "grows st (star_cont s) = grows st s" "grows st (set_com_col c s) = grows st s" "grows st (set_box b s) = grows st s"
  "grows st (com_poke ch s) = grows st s" "grows st (com_over s) = grows st s"
  by (simp_all add: com_put_def com_set_def CHECK_SIZE_COM_def star_cont_def set_com_col_def set_box_def com_poke_def com_over_def Let_def)

lemma runs_align [run_intros]: "grows st s \<Longrightarrow> runs st snd (align_comment cv s)"
  unfolding align_comment_def Let_def by (rule run_intros conjI impI | simp)+

lemma runs_skip_raw [run_intros]: "grows st s \<Longrightarrow> runs st itself (skip_raw n s)"
  by (induction n arbitrary: s) (rule run_intros conjI impI | simp)+

lemma runs_delta [run_intros]: "grows st s \<Longrightarrow> runs st itself (comment_delta_of n s)"
  unfolding comment_delta_of_def by (rule run_intros conjI impI | simp)+

lemma runs_find_close [run_intros]: "grows st s \<Longrightarrow> runs st snd (find_close n b t s)"
proof (induction n arbitrary: t s)
  case (Suc n)
  then show ?case unfolding find_close.simps by - (rule run_intros Suc.IH conjI impI | simp)+
qed (simp add: run_intros)

lemma runs_one_liner [run_intros]: "grows st s \<Longrightarrow> runs st snd (one_liner n cv s)"
  unfolding one_liner_def Let_def by (rule run_intros conjI impI | simp)+

lemma runs_open_block [run_intros]: "grows st s \<Longrightarrow> runs st itself (open_block cv s)"
  unfolding open_block_def Let_def by (rule run_intros conjI impI | simp)+

lemma runs_end_of_comment [run_intros]: "grows st s \<Longrightarrow> runs st itself (end_of_comment cv s)"
  unfolding end_of_comment_def Let_def by (rule run_intros conjI impI | simp)+

lemma runs_next_line [run_intros]: "grows st s \<Longrightarrow> runs st snd (next_line n b s)"
proof (induction n arbitrary: b s)
  case (Suc n)
  then show ?case unfolding next_line.simps by - (rule run_intros Suc.IH conjI impI | simp)+
qed (simp add: run_intros)

lemma runs_com_newline [run_intros]: "grows st s \<Longrightarrow> runs st snd (com_newline cv s)"
  unfolding com_newline_def Let_def by (rule run_intros conjI impI | simp)+

lemma runs_com_chars [run_intros]: "grows st s \<Longrightarrow> runs st (\<lambda>r. snd (snd r)) (com_chars n k cv s)"
proof (induction n arbitrary: k cv s)
  case (Suc n)
  then show ?case unfolding com_chars.simps Let_def by - (rule run_intros Suc.IH conjI impI | simp)+
qed (simp add: run_intros)

lemma runs_com_copy [run_intros]: "grows st s \<Longrightarrow> runs st snd (com_copy n t cv s)"
proof (induction n arbitrary: t cv s)
  case (Suc n)
  then show ?case unfolding com_copy.simps Let_def by - (rule run_intros Suc.IH conjI impI | simp)+
qed (simp add: run_intros)

lemma runs_skip_mem [run_intros]: "grows st s \<Longrightarrow> runs st (\<lambda>_. s) (skip_mem n t s)"
proof (induction n arbitrary: t)
  case (Suc n)
  then show ?case unfolding skip_mem.simps by - (rule run_intros Suc.IH conjI impI | simp)+
qed (simp add: run_intros)

lemma runs_after_skip_mem [run_intros]:
  "grows st s \<Longrightarrow> (\<And>t. runs st sel (f t)) \<Longrightarrow> runs st sel (andthen (skip_mem n t s) f)"
  by (rule runs_andthen [OF runs_skip_mem])

lemma runs_after_chars [run_intros]:
  "grows st s \<Longrightarrow> (\<And>k cv s'. grows st s' \<Longrightarrow> runs st sel (f (k, cv, s'))) \<Longrightarrow> runs st sel (andthen (com_chars n k cv s) f)"
  by (rule runs_andthen [OF runs_com_chars]) auto

lemma runs_com_break [run_intros]: "grows st s \<Longrightarrow> runs st snd (com_break n cv s)"
  unfolding com_break_def Let_def by (rule run_intros conjI impI | simp)+

lemma runs_com_text [run_intros]: "grows st s \<Longrightarrow> runs st snd (com_text n cv s)"
  unfolding com_text_def Let_def by (rule run_intros conjI impI | simp)+

lemma runs_com_formfeed [run_intros]: "grows st s \<Longrightarrow> runs st snd (com_formfeed n cv s)"
  unfolding com_formfeed_def Let_def by (rule run_intros conjI impI | simp)+

lemma runs_com_loop [run_intros]: "grows st s \<Longrightarrow> runs st itself (com_loop n cv s)"
proof (induction n arbitrary: cv s)
  case (Suc n)
  then show ?case unfolding com_loop.simps Let_def by - (rule run_intros Suc.IH conjI impI | simp)+
qed (simp add: run_intros)

lemma runs_pr_comment [run_intros]: "grows st s \<Longrightarrow> runs st itself (pr_comment n s)"
  unfolding pr_comment_def Let_def by (rule run_intros conjI impI | simp)+

section \<open>The parser\<close>

lemma grows_reduce_step: "reduce_step s = Some (Some s') \<Longrightarrow> grows st s' = grows st s"
  by (auto simp: reduce_step_def Let_def split: if_splits option.splits)

lemma grows_reduce: "reduce s = Some s' \<Longrightarrow> grows st s' = grows st s"
proof (induction s rule: reduce.induct)
  case (1 s)
  then show ?case
    by (subst (asm) (2) reduce.simps) (auto split: option.splits dest: grows_reduce_step [of _ _ st])
qed

lemma grows_resolve: "resolve_ifs tk s = Some s' \<Longrightarrow> grows st s' = grows st s"
proof (induction tk s rule: resolve_ifs.induct)
  case (1 tk s)
  then show ?case
    by (subst (asm) (2) resolve_ifs.simps) (auto split: if_splits option.splits dest: grows_reduce [of _ _ st])
qed

lemma grows_push: "push c l s = Some s' \<Longrightarrow> grows st s' = grows st s"
  by (auto simp: push_def Let_def split: if_splits)

lemma grows_brace [simp]: "grows st (set_search_brace b s) = grows st s"
  by (simp add: set_search_brace_def)

lemma grows_shift_head: "shift_head tk s = Some s' \<Longrightarrow> grows st s' = grows st s"
  by (auto simp: shift_head_def Let_def split: option.splits dest: grows_push [of _ _ _ _ st])

lemma grows_shift: "shift tk s = Some s' \<Longrightarrow> grows st s \<Longrightarrow> grows st s'"
  by (auto simp: shift_def shift_decl_def shift_if_def shift_lbrace_def shift_while_def shift_else_def shift_rbrace_def shift_switch_def Let_def
      split: code.splits option.splits if_splits dest: grows_push [of _ _ _ _ st] grows_shift_head [of _ _ _ st])

lemma runs_Some [run_intros]:
  "grows st s \<Longrightarrow> runs st itself (Some (ret s))" "grows st s \<Longrightarrow> runs st sel (Some (Undef (outp s)))"
  "grows st s \<Longrightarrow> k \<noteq> 0 \<Longrightarrow> runs st sel (Some (Exit (outp s) (errp s @ m) k))"
  using runs_go [of st itself s] runs_wild [of st s sel] runs_quit [of st s k sel m] by (simp_all add: go_def wild_def quit_def)

lemma runs_do_parse [run_intros]:
  assumes "grows st s"
  shows "runs st itself (do_parse tk s)"
proof (cases "resolve_ifs tk s")
  case None
  then show ?thesis using runs_Some(2) [OF assms] by (simp add: do_parse_def parse_def)
next
  case (Some s1)
  have g1: "grows st s1" using grows_resolve [OF Some] assms by blast
  show ?thesis
  proof (cases "shift tk s1")
    case None
    then show ?thesis using Some g1 by (auto simp: do_parse_def parse_def intro!: runs_Some)
  next
    case (Some s2)
    have "grows st s2" using grows_shift [OF Some] g1 by blast
    moreover have "grows st s3" if "reduce s2 = Some s3" for s3 using grows_reduce [OF that] calculation by blast
    ultimately show ?thesis using Some \<open>resolve_ifs tk s = Some s1\<close> g1
      by (auto simp: do_parse_def parse_def intro!: runs_Some split: option.splits)
  qed
qed

section \<open>The formatter\<close>

lemma grows_main [simp]:
  "grows st (upd_mv f s) = grows st s" "grows st (code_put x s) = grows st s" "grows st (lab_put x s) = grows st s"
  "grows st (set_want_blank b s) = grows st s" "grows st (set_force_nl b s) = grows st s" "grows st (set_in_stmt b s) = grows st s"
  "grows st (blank_before s) = grows st s" "grows st (save_trim P s) = grows st s" "grows st (stop_search s) = grows st s"
  "grows st (copy_id tk s) = grows st s"
  by (simp_all add: upd_mv_def code_put_def lab_put_def set_want_blank_def set_force_nl_def set_in_stmt_def blank_before_def
      save_trim_def stop_search_def copy_id_def Let_def)

lemma grows_line_broken [simp]: "grows st s \<Longrightarrow> grows st (line_broken s)"
  by (simp add: line_broken_def)

lemma runs_save_put [run_intros]: "grows st s \<Longrightarrow> runs st itself (save_put c s)"
  unfolding save_put_def by (rule run_intros conjI impI | simp)+

lemma runs_save_puts [run_intros]: "grows st s \<Longrightarrow> runs st itself (save_puts x s)"
  by (induction x arbitrary: s) (rule run_intros conjI impI | simp)+

lemma runs_open_save [run_intros]: "grows st s \<Longrightarrow> runs st itself (open_save k s)"
  unfolding open_save_def by (rule run_intros conjI impI | simp)+

lemma runs_open_save_comment [run_intros]: "grows st s \<Longrightarrow> runs st itself (open_save_comment s)"
  unfolding open_save_comment_def by (rule run_intros let_intros conjI impI | simp)+

lemma runs_save_comment [run_intros]: "grows st s \<Longrightarrow> runs st itself (save_comment n s)"
proof (induction n arbitrary: s)
  case (Suc n)
  then show ?case unfolding save_comment.simps by - (rule run_intros Suc.IH conjI impI | simp)+
qed (simp add: run_intros)

lemma runs_switch_buffer [run_intros]: "grows st s \<Longrightarrow> runs st itself (switch_buffer s)"
  unfolding switch_buffer_def by (rule run_intros conjI impI | simp)+

lemma runs_skip_after_brace [run_intros]: "grows st s \<Longrightarrow> runs st itself (skip_after_brace n s)"
  by (induction n arbitrary: s) (rule run_intros conjI impI | simp)+

lemma runs_save_default [run_intros]: "grows st s \<Longrightarrow> runs st snd (save_default s)"
  unfolding save_default_def by (rule run_intros let_intros conjI impI | simp)+

lemma runs_save_step [run_intros]: "grows st s \<Longrightarrow> runs st snd (save_step n s)"
  unfolding save_step_def by (rule run_intros let_intros conjI impI | simp)+

lemma runs_save_blanks [run_intros]: "grows st s \<Longrightarrow> runs st itself (save_blanks n s)"
  by (induction n arbitrary: s) (rule run_intros conjI impI | simp)+

lemma runs_look_ahead [run_intros]: "grows st s \<Longrightarrow> runs st itself (look_ahead n s)"
  unfolding look_ahead_def by (rule run_intros let_intros conjI impI | simp)+

lemma runs_search_loop [run_intros]: "grows st s \<Longrightarrow> runs st snd (search_loop n s)"
  by (induction n arbitrary: s) (rule run_intros conjI impI | simp)+

lemma grows_decl [simp]: "grows st (indent_declaration d t s) = grows st s" "grows st (decl_indented d s) = grows st s"
  by (simp_all add: indent_declaration_def decl_indented_def Let_def split: prod.splits)

lemma grows_tokens [simp]:
  "grows st (tk_unary_op s) = grows st s" "grows st (tk_binary_op s) = grows st s" "grows st (tk_postop s) = grows st s"
  "grows st (tk_question s) = grows st s" "grows st (tk_colon s) = grows st s" "grows st (tk_header tk s) = grows st s"
  "grows st (tk_strpfx s) = grows st s" "grows st (tk_period s) = grows st s" "grows st (embed_comment s) = grows st s"
  "grows st (after_token tk s) = grows st s" "grows st (lab_poke c s) = grows st s" "grows st (lab_over s) = grows st s"
  "grows st (lab_take c s) = grows st s" "grows st (lab_trim s) = grows st s"
  by (simp_all add: tk_unary_op_def tk_binary_op_def tk_postop_def tk_question_def tk_colon_def tk_header_def tk_strpfx_def
      tk_period_def embed_comment_def after_token_def lab_poke_def lab_over_def lab_take_def lab_trim_def Let_def)

lemma grows_unbalanced [simp]: "grows st s \<Longrightarrow> grows st (unbalanced s)"
  by (simp add: unbalanced_def)

lemma runs_tk_form_feed [run_intros]: "grows st s \<Longrightarrow> runs st itself (tk_form_feed s)"
  unfolding tk_form_feed_def by (rule run_intros let_intros conjI impI | simp)+

lemma runs_tk_newline [run_intros]: "grows st s \<Longrightarrow> runs st itself (tk_newline s)"
  unfolding tk_newline_def by (rule run_intros let_intros conjI impI | simp)+

lemma runs_tk_lparen [run_intros]: "grows st s \<Longrightarrow> runs st itself (tk_lparen s)"
  unfolding tk_lparen_def by (rule run_intros let_intros conjI impI | simp)+

lemma runs_end_header [run_intros]: "grows st s \<Longrightarrow> runs st itself (end_header s)"
  unfolding end_header_def by (rule run_intros let_intros conjI impI | simp)+

lemma runs_tk_rparen [run_intros]: "grows st s \<Longrightarrow> runs st itself (tk_rparen s)"
  unfolding tk_rparen_def by (rule run_intros let_intros conjI impI | simp)+

lemma runs_finish_header [run_intros]: "grows st s \<Longrightarrow> runs st itself (finish_header s)"
  unfolding finish_header_def by (rule run_intros let_intros conjI impI | simp)+

lemma runs_tk_semicolon [run_intros]: "grows st s \<Longrightarrow> runs st itself (tk_semicolon s)"
  unfolding tk_semicolon_def by (rule run_intros let_intros conjI impI | simp)+

lemma runs_tk_lbrace [run_intros]: "grows st s \<Longrightarrow> runs st itself (tk_lbrace s)"
  unfolding tk_lbrace_def by (rule run_intros let_intros conjI impI | simp)+

lemma runs_tk_rbrace [run_intros]: "grows st s \<Longrightarrow> runs st itself (tk_rbrace s)"
  unfolding tk_rbrace_def by (rule run_intros let_intros conjI impI | simp)+

lemma runs_tk_sp_nparen [run_intros]: "grows st s \<Longrightarrow> runs st itself (tk_sp_nparen s)"
  unfolding tk_sp_nparen_def by (rule run_intros let_intros conjI impI | simp)+

lemma runs_tk_decl [run_intros]: "grows st s \<Longrightarrow> runs st itself (tk_decl tk s)"
  unfolding tk_decl_def by (rule run_intros let_intros conjI impI | simp)+

lemma runs_tk_ident [run_intros]: "grows st s \<Longrightarrow> runs st itself (tk_ident tk s)"
  unfolding tk_ident_def by (rule run_intros let_intros conjI impI | simp)+

lemma runs_tk_comma [run_intros]: "grows st s \<Longrightarrow> runs st itself (tk_comma s)"
  unfolding tk_comma_def by (rule run_intros let_intros conjI impI | simp)+

lemma runs_cpp_scan [run_intros]: "grows st s \<Longrightarrow> runs st snd (cpp_scan n v s)"
proof (induction n arbitrary: v s)
  case (Suc n)
  then show ?case unfolding cpp_scan.simps by - (rule run_intros let_intros Suc.IH conjI impI | simp)+
qed (simp add: run_intros)

lemma runs_cpp_comment [run_intros]: "grows st s \<Longrightarrow> runs st itself (cpp_comment v s)"
  unfolding cpp_comment_def by (rule run_intros let_intros conjI impI | simp)+

lemma grows_cpp_directive: "grows st s \<Longrightarrow> grows st (snd (cpp_directive s))"
  by (simp add: cpp_directive_def Let_def)

lemma runs_directive [run_intros]:
  assumes "grows st s" "\<And>b s'. grows st s' \<Longrightarrow> runs st sel (f b s')"
  shows "runs st sel (case cpp_directive s of (b, s') \<Rightarrow> f b s')"
  using grows_cpp_directive [OF assms(1)] assms(2) by (cases "cpp_directive s") auto

lemma runs_tk_preesc [run_intros]: "grows st s \<Longrightarrow> runs st itself (tk_preesc n s)"
  unfolding tk_preesc_def by (rule run_intros let_intros conjI impI | simp)+

lemma runs_at_eof [run_intros]: "grows st s \<Longrightarrow> runs st itself (at_eof s)"
  unfolding at_eof_def by (rule run_intros let_intros conjI impI | simp)+

lemma runs_before_token [run_intros]: "grows st s \<Longrightarrow> runs st itself (before_token tk s)"
  unfolding before_token_def by (rule run_intros let_intros conjI impI | simp)+

lemma runs_do_token [run_intros]: "grows st s \<Longrightarrow> runs st itself (do_token n tk s)"
  unfolding do_token_def by (rule run_intros let_intros conjI impI | simp)+

lemma runs_main_step [run_intros]: "grows st s \<Longrightarrow> runs st itself (main_step n s)"
  unfolding main_step_def by (rule run_intros let_intros conjI impI | simp)+

lemma runs_main_loop [run_intros]: "grows st s \<Longrightarrow> runs st itself (main_loop n s)"
  by (induction n arbitrary: s) (rule run_intros conjI impI | simp)+

lemma runs_first_level [run_intros]: "grows st s \<Longrightarrow> runs st itself (first_level s)"
  unfolding first_level_def by (rule run_intros let_intros conjI impI | simp)+

lemma runs_format_start [run_intros]: "grows st s \<Longrightarrow> runs st itself (format_start s)"
  unfolding format_start_def by (rule run_intros let_intros conjI impI | simp)+

section \<open>Property\<close>


text \<open>How a run ends, for evaluation.\<close>

definition exit_of :: "'a irun \<Rightarrow> (string \<times> string \<times> int) option" where
  "exit_of r = (case r of Some (Exit out err k) \<Rightarrow> Some (out, err, k) | _ \<Rightarrow> None)"

lemma exit_of_Some [simp]: "exit_of r = Some (out, err, k) \<longleftrightarrow> r = Some (Exit out err k)"
  by (auto simp: exit_of_def split: option.splits run.splits)

definition after_error :: ist where
  "after_error = diag2 True ''Unbalanced parens'' (load_line (''x;'' @ [NL]) [] False (trial []))"

lemma after_error_run: "exit_of (main_loop 12 after_error) = Some (''x;'' @ [NL], ''Error@1: Unbalanced parens'' @ [NL], 1)"
  by code_simp


end
