(* ===== verification/Tiffdump.thy ===== *)
theory Tiffdump
  imports C_Double
begin

text \<open>
  The program \<open>tiffdump\<close> (\<^verbatim>\<open>mk/compat/libtiff/tiffdump.c\<close> with \<^verbatim>\<open>tiffiop.h\<close> beside it): the
  directories of TIFF files, printed.  Objects in memory are lists of bytes, and \<open>host\<close> says
  whether the machine is big-endian.  What comes from the installed libtiff is a parameter, the
  record \<open>libtiff\<close>: the values of its macros and its byte swapping and allocating functions.
  Accesses that are not aligned are not told apart from aligned ones.
\<close>

section \<open>What libtiff supplies\<close>

datatype tiff_type =
    T_BYTE | T_ASCII | T_SHORT | T_LONG | T_RATIONAL | T_SBYTE | T_UNDEFINED | T_SSHORT | T_SLONG
  | T_SRATIONAL | T_FLOAT | T_DOUBLE | T_IFD | T_LONG8 | T_SLONG8 | T_IFD8

text \<open>The swapping functions change an object in place: its bytes before, its bytes after.\<close>

record libtiff =
  TIFF_BIGENDIAN :: "16 word"
  TIFF_LITTLEENDIAN :: "16 word"
  MDI_BIGENDIAN :: "16 word"
  MDI_LITTLEENDIAN :: "16 word"
  type_no :: "tiff_type \<Rightarrow> 16 word"
  tag_no :: "string \<Rightarrow> 16 word"
  TIFFSwabShort :: "string \<Rightarrow> string"
  TIFFSwabLong :: "string \<Rightarrow> string"
  TIFFSwabLong8 :: "string \<Rightarrow> string"
  TIFFSwabArrayOfShort :: "nat \<Rightarrow> string \<Rightarrow> string"
  TIFFSwabArrayOfLong :: "nat \<Rightarrow> string \<Rightarrow> string"
  TIFFSwabArrayOfLong8 :: "nat \<Rightarrow> string \<Rightarrow> string"
  TIFFmalloc :: "nat \<Rightarrow> bool"

section \<open>Numbers in memory and in print\<close>

fun le_val :: "string \<Rightarrow> nat" where
  "le_val [] = 0"
| "le_val (c # m) = code c + 256 * le_val m"

definition load :: "bool \<Rightarrow> string \<Rightarrow> nat" where
  "load host m = le_val (if host then rev m else m)"

definition load16 :: "bool \<Rightarrow> string \<Rightarrow> 16 word" where "load16 host m = word_of_nat (load host m)"
definition load32 :: "bool \<Rightarrow> string \<Rightarrow> 32 word" where "load32 host m = word_of_nat (load host m)"
definition load64 :: "bool \<Rightarrow> string \<Rightarrow> 64 word" where "load64 host m = word_of_nat (load host m)"

text \<open>\<open>TIFFSafeMultiply\<close> of \<^verbatim>\<open>tiffiop.h\<close>, at the width in which C multiplies its arguments.\<close>

definition TIFFSafeMultiply :: "'a::len word \<Rightarrow> 'a word \<Rightarrow> 'a word" where
  "TIFFSafeMultiply v m = (if m \<noteq> 0 \<and> (v * m) div m = v then v * m else 0)"

text \<open>\<open>%#x\<close>, and with the flag 0 and a width.\<close>

definition alt_hex :: "nat \<Rightarrow> nat \<Rightarrow> string" where
  "alt_hex w n =
     (let p = (if n = 0 then [] else ''0x''); d = show_hex n
      in p @ replicate (w - length p - length d) (CHR ''0'') @ d)"

text \<open>
  \<open>%g\<close> of a number with its sign: six significant digits without trailing zeros, with an exponent
  when it is below -4 or above 5.  \<open>dec_exp q\<close> is the exponent of the leading digit of \<open>q\<close>.
\<close>

definition dec_exp :: "rat \<Rightarrow> int" where
  "dec_exp q =
     (if 1 \<le> q then int (length (show_nat (nat \<lfloor>q\<rfloor>))) - 1
      else - int (length (show_nat (nat (\<lceil>1 / q\<rceil> - 1)))))"

definition strip_zeros :: "string \<Rightarrow> string" where
  "strip_zeros s = rev (dropWhile (\<lambda>c. c = CHR ''0'') (rev s))"

definition fraction :: "string \<Rightarrow> string" where
  "fraction s = (let d = strip_zeros s in if d = [] then [] else CHR ''.'' # d)"

definition show_g :: "rat \<Rightarrow> string" where
  "show_g q =
     (if q = 0 then ''0''
      else let x0 = dec_exp q; m0 = nat (round_half_even (q * exact_power 10 (5 - x0)));
               x = (if m0 = 1000000 then x0 + 1 else x0); m = (if m0 = 1000000 then 100000 else m0);
               d = show_nat m
           in if x < -4 \<or> 6 \<le> x
              then take 1 d @ fraction (drop 1 d) @ ''e'' @ (if x < 0 then ''-'' else ''+'') @
                   (let e = show_nat (nat \<bar>x\<bar>) in replicate (2 - length e) (CHR ''0'') @ e)
              else if 0 \<le> x then take (nat x + 1) d @ fraction (drop (nat x + 1) d)
              else ''0'' @ fraction (replicate (nat (- x) - 1) (CHR ''0'') @ d))"

definition signed_g :: "bool \<Rightarrow> rat \<Rightarrow> string" where
  "signed_g neg q = (if neg then ''-'' else []) @ show_g q"

definition show_double :: "bool \<Rightarrow> double \<Rightarrow> string" where
  "show_double neg d =
     (case d of NaN \<Rightarrow> ''nan'' | Inf _ \<Rightarrow> (if neg then ''-inf'' else ''inf'') | Fin q \<Rightarrow> signed_g neg \<bar>q\<bar>)"

text \<open>A \<open>float\<close> and a \<open>double\<close> from their bits: \<open>m\<close> bits of fraction, the bias \<open>b\<close> and the largest exponent.\<close>

definition ieee :: "nat \<Rightarrow> nat \<Rightarrow> nat \<Rightarrow> nat \<Rightarrow> bool \<times> double" where
  "ieee w m b n =
     (let neg = odd (n div 2 ^ (w - 1)); e = n div 2 ^ m mod 2 ^ (w - 1 - m); f = n mod 2 ^ m
      in (neg,
          if e = 2 ^ (w - 1 - m) - 1 then (if f = 0 then Inf neg else NaN)
          else if e = 0 then Fin (of_nat f * scale (1 - int b - int m))
          else Fin (of_nat (2 ^ m + f) * scale (int e - int b - int m))))"

definition show_float32 :: "nat \<Rightarrow> string" where
  "show_float32 n = (case ieee 32 23 127 n of (neg, d) \<Rightarrow> show_double neg d)"

definition show_float64 :: "nat \<Rightarrow> string" where
  "show_float64 n = (case ieee 64 52 1023 n of (neg, d) \<Rightarrow> show_double neg d)"

text \<open>\<open>(double)a / (double)b\<close> for integers of 32 bits and \<open>b\<close> not 0; zero keeps its sign.\<close>

definition show_quotient :: "int \<Rightarrow> int \<Rightarrow> string" where
  "show_quotient a b = show_double (if a = 0 then b < 0 else (a < 0) \<noteq> (b < 0)) (rnd (of_int a / of_int b))"

section \<open>State and results\<close>

record td =
  fdata :: string
  fpos :: nat
  tout :: string
  terr :: string
  swabflag :: bool
  bigtiff :: bool

record td_opts =
  hex_mode :: bool
  maxitems :: "32 word"

text \<open>A step goes on, or the program has exited with \<open>EXIT_FAILURE\<close>, or has left what C defines.\<close>

datatype 'a trun = Cont 'a td | Died td | Stray td

fun after :: "'a trun \<Rightarrow> ('a \<Rightarrow> td \<Rightarrow> 'b trun) \<Rightarrow> 'b trun" where
  "after (Cont a st) f = f a st"
| "after (Died st) f = Died st"
| "after (Stray st) f = Stray st"

definition say :: "string \<Rightarrow> td \<Rightarrow> td" where
  "say s st = st\<lparr>tout := tout st @ s\<rparr>"

text \<open>\<open>Error\<close> and \<open>Fatal\<close>; \<open>curfile\<close> is the name of the file.\<close>

definition vError :: "string \<Rightarrow> string \<Rightarrow> td \<Rightarrow> td" where
  "vError curfile msg st = st\<lparr>terr := terr st @ curfile @ '': '' @ msg @ ''.'' @ [NL]\<rparr>"

definition Fatal :: "string \<Rightarrow> string \<Rightarrow> td \<Rightarrow> 'a trun" where
  "Fatal curfile msg st = Died (vError curfile msg st)"

definition ReadError :: "string \<Rightarrow> string \<Rightarrow> td \<Rightarrow> 'a trun" where
  "ReadError curfile what st = Fatal curfile (''Error while reading '' @ what) st"

text \<open>\<open>read\<close> returns what is there; \<open>lseek\<close> to a negative offset fails with -1 and moves nothing.\<close>

definition read_fd :: "nat \<Rightarrow> td \<Rightarrow> string \<times> td" where
  "read_fd n st = (let m = take n (drop (fpos st) (fdata st)) in (m, st\<lparr>fpos := fpos st + length m\<rparr>))"

definition lseek :: "int \<Rightarrow> td \<Rightarrow> int \<times> td" where
  "lseek off st = (if off < 0 then (-1, st) else (off, st\<lparr>fpos := nat off\<rparr>))"

section \<open>Printing\<close>

text \<open>A tag number of the table: a macro of \<^verbatim>\<open>tiff.h\<close>, or written out.\<close>

datatype tag_ref = Macro string | Lit "16 word"

fun tag_val :: "libtiff \<Rightarrow> tag_ref \<Rightarrow> 16 word" where
  "tag_val L (Macro m) = tag_no L m"
| "tag_val L (Lit n) = n"

definition tagnames :: "(tag_ref \<times> string) list" where
  "tagnames =
    [(Macro ''TIFFTAG_SUBFILETYPE'', ''SubFileType''), (Macro ''TIFFTAG_OSUBFILETYPE'', ''OldSubFileType''),
     (Macro ''TIFFTAG_IMAGEWIDTH'', ''ImageWidth''), (Macro ''TIFFTAG_IMAGELENGTH'', ''ImageLength''),
     (Macro ''TIFFTAG_BITSPERSAMPLE'', ''BitsPerSample''), (Macro ''TIFFTAG_COMPRESSION'', ''Compression''),
     (Macro ''TIFFTAG_PHOTOMETRIC'', ''Photometric''), (Macro ''TIFFTAG_THRESHHOLDING'', ''Threshholding''),
     (Macro ''TIFFTAG_CELLWIDTH'', ''CellWidth''), (Macro ''TIFFTAG_CELLLENGTH'', ''CellLength''),
     (Macro ''TIFFTAG_FILLORDER'', ''FillOrder''), (Macro ''TIFFTAG_DOCUMENTNAME'', ''DocumentName''),
     (Macro ''TIFFTAG_IMAGEDESCRIPTION'', ''ImageDescription''), (Macro ''TIFFTAG_MAKE'', ''Make''),
     (Macro ''TIFFTAG_MODEL'', ''Model''), (Macro ''TIFFTAG_STRIPOFFSETS'', ''StripOffsets''),
     (Macro ''TIFFTAG_ORIENTATION'', ''Orientation''), (Macro ''TIFFTAG_SAMPLESPERPIXEL'', ''SamplesPerPixel''),
     (Macro ''TIFFTAG_ROWSPERSTRIP'', ''RowsPerStrip''), (Macro ''TIFFTAG_STRIPBYTECOUNTS'', ''StripByteCounts''),
     (Macro ''TIFFTAG_MINSAMPLEVALUE'', ''MinSampleValue''), (Macro ''TIFFTAG_MAXSAMPLEVALUE'', ''MaxSampleValue''),
     (Macro ''TIFFTAG_XRESOLUTION'', ''XResolution''), (Macro ''TIFFTAG_YRESOLUTION'', ''YResolution''),
     (Macro ''TIFFTAG_PLANARCONFIG'', ''PlanarConfig''), (Macro ''TIFFTAG_PAGENAME'', ''PageName''),
     (Macro ''TIFFTAG_XPOSITION'', ''XPosition''), (Macro ''TIFFTAG_YPOSITION'', ''YPosition''),
     (Macro ''TIFFTAG_FREEOFFSETS'', ''FreeOffsets''), (Macro ''TIFFTAG_FREEBYTECOUNTS'', ''FreeByteCounts''),
     (Macro ''TIFFTAG_GRAYRESPONSEUNIT'', ''GrayResponseUnit''), (Macro ''TIFFTAG_GRAYRESPONSECURVE'', ''GrayResponseCurve''),
     (Macro ''TIFFTAG_GROUP3OPTIONS'', ''Group3Options''), (Macro ''TIFFTAG_GROUP4OPTIONS'', ''Group4Options''),
     (Macro ''TIFFTAG_RESOLUTIONUNIT'', ''ResolutionUnit''), (Macro ''TIFFTAG_PAGENUMBER'', ''PageNumber''),
     (Macro ''TIFFTAG_COLORRESPONSEUNIT'', ''ColorResponseUnit''), (Macro ''TIFFTAG_TRANSFERFUNCTION'', ''TransferFunction''),
     (Macro ''TIFFTAG_SOFTWARE'', ''Software''), (Macro ''TIFFTAG_DATETIME'', ''DateTime''),
     (Macro ''TIFFTAG_ARTIST'', ''Artist''), (Macro ''TIFFTAG_HOSTCOMPUTER'', ''HostComputer''),
     (Macro ''TIFFTAG_PREDICTOR'', ''Predictor''), (Macro ''TIFFTAG_WHITEPOINT'', ''Whitepoint''),
     (Macro ''TIFFTAG_PRIMARYCHROMATICITIES'', ''PrimaryChromaticities''), (Macro ''TIFFTAG_COLORMAP'', ''Colormap''),
     (Macro ''TIFFTAG_HALFTONEHINTS'', ''HalftoneHints''), (Macro ''TIFFTAG_TILEWIDTH'', ''TileWidth''),
     (Macro ''TIFFTAG_TILELENGTH'', ''TileLength''), (Macro ''TIFFTAG_TILEOFFSETS'', ''TileOffsets''),
     (Macro ''TIFFTAG_TILEBYTECOUNTS'', ''TileByteCounts''), (Macro ''TIFFTAG_BADFAXLINES'', ''BadFaxLines''),
     (Macro ''TIFFTAG_CLEANFAXDATA'', ''CleanFaxData''), (Macro ''TIFFTAG_CONSECUTIVEBADFAXLINES'', ''ConsecutiveBadFaxLines''),
     (Macro ''TIFFTAG_SUBIFD'', ''SubIFD''), (Macro ''TIFFTAG_INKSET'', ''InkSet''),
     (Macro ''TIFFTAG_INKNAMES'', ''InkNames''), (Macro ''TIFFTAG_NUMBEROFINKS'', ''NumberOfInks''),
     (Macro ''TIFFTAG_DOTRANGE'', ''DotRange''), (Macro ''TIFFTAG_TARGETPRINTER'', ''TargetPrinter''),
     (Macro ''TIFFTAG_EXTRASAMPLES'', ''ExtraSamples''), (Macro ''TIFFTAG_SAMPLEFORMAT'', ''SampleFormat''),
     (Macro ''TIFFTAG_SMINSAMPLEVALUE'', ''SMinSampleValue''), (Macro ''TIFFTAG_SMAXSAMPLEVALUE'', ''SMaxSampleValue''),
     (Macro ''TIFFTAG_JPEGPROC'', ''JPEGProcessingMode''), (Macro ''TIFFTAG_JPEGIFOFFSET'', ''JPEGInterchangeFormat''),
     (Macro ''TIFFTAG_JPEGIFBYTECOUNT'', ''JPEGInterchangeFormatLength''), (Macro ''TIFFTAG_JPEGRESTARTINTERVAL'', ''JPEGRestartInterval''),
     (Macro ''TIFFTAG_JPEGLOSSLESSPREDICTORS'', ''JPEGLosslessPredictors''), (Macro ''TIFFTAG_JPEGPOINTTRANSFORM'', ''JPEGPointTransform''),
     (Macro ''TIFFTAG_JPEGTABLES'', ''JPEGTables''), (Macro ''TIFFTAG_JPEGQTABLES'', ''JPEGQTables''),
     (Macro ''TIFFTAG_JPEGDCTABLES'', ''JPEGDCTables''), (Macro ''TIFFTAG_JPEGACTABLES'', ''JPEGACTables''),
     (Macro ''TIFFTAG_YCBCRCOEFFICIENTS'', ''YCbCrCoefficients''), (Macro ''TIFFTAG_YCBCRSUBSAMPLING'', ''YCbCrSubsampling''),
     (Macro ''TIFFTAG_YCBCRPOSITIONING'', ''YCbCrPositioning''), (Macro ''TIFFTAG_REFERENCEBLACKWHITE'', ''ReferenceBlackWhite''),
     (Macro ''TIFFTAG_REFPTS'', ''IgReferencePoints (Island Graphics)''), (Macro ''TIFFTAG_REGIONTACKPOINT'', ''IgRegionTackPoint (Island Graphics)''),
     (Macro ''TIFFTAG_REGIONWARPCORNERS'', ''IgRegionWarpCorners (Island Graphics)''), (Macro ''TIFFTAG_REGIONAFFINE'', ''IgRegionAffine (Island Graphics)''),
     (Macro ''TIFFTAG_MATTEING'', ''OBSOLETE Matteing (Silicon Graphics)''), (Macro ''TIFFTAG_DATATYPE'', ''OBSOLETE DataType (Silicon Graphics)''),
     (Macro ''TIFFTAG_IMAGEDEPTH'', ''ImageDepth (Silicon Graphics)''), (Macro ''TIFFTAG_TILEDEPTH'', ''TileDepth (Silicon Graphics)''),
     (Lit 32768, ''OLD BOGUS Matteing tag''), (Macro ''TIFFTAG_COPYRIGHT'', ''Copyright''),
     (Macro ''TIFFTAG_ICCPROFILE'', ''ICC Profile''), (Macro ''TIFFTAG_JBIGOPTIONS'', ''JBIG Options''),
     (Macro ''TIFFTAG_STONITS'', ''StoNits''), (Macro ''TIFFTAG_GDAL_METADATA'', ''GDALMetadata''),
     (Macro ''TIFFTAG_GDAL_NODATA'', ''GDALNoDataValue'')]"

definition PrintTag :: "libtiff \<Rightarrow> 16 word \<Rightarrow> string" where
  "PrintTag L tag =
     (case find (\<lambda>(t, n). tag_val L t = tag) tagnames of
        Some (t, n) \<Rightarrow> n @ '' ('' @ show_nat (unat tag) @ '')''
      | None \<Rightarrow> show_nat (unat tag) @ '' ('' @ alt_hex 0 (unat tag) @ '')'')"

definition typenames :: "string list" where
  "typenames =
    [''0'', ''BYTE'', ''ASCII'', ''SHORT'', ''LONG'', ''RATIONAL'', ''SBYTE'', ''UNDEFINED'', ''SSHORT'', ''SLONG'',
     ''SRATIONAL'', ''FLOAT'', ''DOUBLE'', ''IFD'', ''14'', ''15'', ''LONG8'', ''SLONG8'', ''IFD8'']"

definition PrintType :: "16 word \<Rightarrow> string" where
  "PrintType type =
     (if unat type < length typenames then typenames ! unat type @ '' ('' @ show_nat (unat type) @ '')''
      else show_nat (unat type) @ '' ('' @ alt_hex 0 (unat type) @ '')'')"

text \<open>The character behind a match in the table of escapes, NUL at its end.\<close>

fun find_escape :: "string \<Rightarrow> char \<Rightarrow> char" where
  "find_escape (a # b # tp) c = (if a = c then b else find_escape tp c)"
| "find_escape _ c = NUL"

definition escapes :: string where
  "escapes = [TAB, CHR ''t'', BS, CHR ''b'', CR, CHR ''r'', NL, CHR ''n'', CHR 0x0B, CHR ''v'']"

definition PrintChar :: "char \<Rightarrow> string" where
  "PrintChar c =
     (if isprint c then [c]
      else if find_escape escapes c \<noteq> NUL then [CHR 0x5C, find_escape escapes c]
      else if c \<noteq> NUL then CHR 0x5C # (let o' = show_base 8 (code c) in replicate (3 - length o') (CHR ''0'') @ o')
      else [CHR 0x5C, CHR ''0''])"

text \<open>\<open>cc\<close> bytes from \<open>cp\<close>; \<open>None\<close> is a read past the end of the data.\<close>

definition PrintASCII :: "nat \<Rightarrow> string \<Rightarrow> string option" where
  "PrintASCII cc cp = (if length cp < cc then None else Some (concat (map PrintChar (take cc cp))))"

text \<open>The loops of \<open>PrintData\<close>: \<open>count\<close> items of \<open>w\<close> bytes.\<close>

fun print_items :: "nat \<Rightarrow> (string \<Rightarrow> string) \<Rightarrow> string \<Rightarrow> nat \<Rightarrow> string \<Rightarrow> string option" where
  "print_items w f sep 0 m = Some []"
| "print_items w f sep (Suc count) m =
     (if length m < w then None
      else map_option (\<lambda>s. sep @ f (take w m) @ s) (print_items w f '' '' count (drop w m)))"

definition rational :: "bool \<Rightarrow> string \<Rightarrow> string" where
  "rational host m =
     (let a = load host (take 4 m); b = load host (drop 4 m)
      in if b = 0 then ''Nan ('' @ show_nat a @ ''/'' @ show_nat b @ '')'' else show_quotient (int a) (int b))"

definition srational :: "bool \<Rightarrow> string \<Rightarrow> string" where
  "srational host m =
     (let a = sint (load32 host (take 4 m)); b = sint (load32 host (drop 4 m))
      in if b = 0 then ''Nan ('' @ show_int a @ ''/'' @ show_int b @ '')'' else show_quotient a b)"

fun print_data :: "bool \<Rightarrow> bool \<Rightarrow> tiff_type \<Rightarrow> nat \<Rightarrow> string \<Rightarrow> string option" where
  "print_data host hex T_BYTE count m = print_items 1 (\<lambda>b. alt_hex 2 (load host b)) [] count m"
| "print_data host hex T_SBYTE count m =
     print_items 1 (\<lambda>b. show_int (sint (word_of_nat (load host b) :: 8 word))) [] count m"
| "print_data host hex T_UNDEFINED count m = print_items 1 (\<lambda>b. alt_hex 2 (load host b)) [] count m"
| "print_data host hex T_ASCII count m = PrintASCII count m"
| "print_data host hex T_SHORT count m =
     print_items 2 (\<lambda>b. if hex then alt_hex 0 (load host b) else show_nat (load host b)) [] count m"
| "print_data host hex T_SSHORT count m =
     print_items 2 (\<lambda>b. if hex then alt_hex 0 (load host b) else show_int (sint (load16 host b))) [] count m"
| "print_data host hex T_LONG count m =
     print_items 4 (\<lambda>b. if hex then alt_hex 0 (load host b) else show_nat (load host b)) [] count m"
| "print_data host hex T_SLONG count m =
     print_items 4 (\<lambda>b. if hex then alt_hex 0 (load host b) else show_int (sint (load32 host b))) [] count m"
| "print_data host hex T_LONG8 count m = print_items 8 (\<lambda>b. show_nat (load host b)) [] count m"
| "print_data host hex T_SLONG8 count m = print_items 8 (\<lambda>b. show_int (sint (load64 host b))) [] count m"
| "print_data host hex T_RATIONAL count m = print_items 8 (rational host) [] count m"
| "print_data host hex T_SRATIONAL count m = print_items 8 (srational host) [] count m"
| "print_data host hex T_FLOAT count m = print_items 4 (\<lambda>b. show_float32 (load host b)) [] count m"
| "print_data host hex T_DOUBLE count m = print_items 8 (\<lambda>b. show_float64 (load host b)) [] count m"
| "print_data host hex T_IFD count m = print_items 4 (\<lambda>b. alt_hex 4 (load host b)) [] count m"
| "print_data host hex T_IFD8 count m = print_items 8 (\<lambda>b. alt_hex 8 (load host b)) [] count m"

definition all_types :: "tiff_type list" where
  "all_types = [T_BYTE, T_ASCII, T_SHORT, T_LONG, T_RATIONAL, T_SBYTE, T_UNDEFINED, T_SSHORT, T_SLONG,
     T_SRATIONAL, T_FLOAT, T_DOUBLE, T_IFD, T_LONG8, T_SLONG8, T_IFD8]"

text \<open>The case of a switch that a type selects.\<close>

definition type_case :: "libtiff \<Rightarrow> 16 word \<Rightarrow> tiff_type option" where
  "type_case L type = find (\<lambda>t. type_no L t = type) all_types"

definition PrintData :: "libtiff \<Rightarrow> bool \<Rightarrow> bool \<Rightarrow> 16 word \<Rightarrow> 32 word \<Rightarrow> string \<Rightarrow> string option" where
  "PrintData L host hex type count m =
     (case type_case L type of None \<Rightarrow> Some [] | Some t \<Rightarrow> print_data host hex t (unat count) m)"

section \<open>Directories\<close>

definition datawidth :: "nat list" where
  "datawidth = [0, 1, 1, 2, 4, 8, 1, 1, 2, 4, 8, 4, 8, 4, 0, 0, 8, 8, 8]"

definition swabbed :: "bool \<Rightarrow> (string \<Rightarrow> string) \<Rightarrow> string \<Rightarrow> string" where
  "swabbed flag f m = (if flag then f m else m)"

text \<open>An array function on the first \<open>n\<close> items of \<open>w\<close> bytes; \<open>None\<close> when the memory is shorter.\<close>

definition swab_array :: "nat \<Rightarrow> (nat \<Rightarrow> string \<Rightarrow> string) \<Rightarrow> nat \<Rightarrow> string \<Rightarrow> string option" where
  "swab_array w f n m = (if length m < n * w then None else Some (f n (take (n * w) m) @ drop (n * w) m))"

fun swab_data :: "libtiff \<Rightarrow> tiff_type \<Rightarrow> nat \<Rightarrow> string \<Rightarrow> string option" where
  "swab_data L T_SHORT count m = swab_array 2 (TIFFSwabArrayOfShort L) count m"
| "swab_data L T_SSHORT count m = swab_array 2 (TIFFSwabArrayOfShort L) count m"
| "swab_data L T_LONG count m = swab_array 4 (TIFFSwabArrayOfLong L) count m"
| "swab_data L T_SLONG count m = swab_array 4 (TIFFSwabArrayOfLong L) count m"
| "swab_data L T_FLOAT count m = swab_array 4 (TIFFSwabArrayOfLong L) count m"
| "swab_data L T_IFD count m = swab_array 4 (TIFFSwabArrayOfLong L) count m"
| "swab_data L T_RATIONAL count m = swab_array 4 (TIFFSwabArrayOfLong L) (count * 2) m"
| "swab_data L T_SRATIONAL count m = swab_array 4 (TIFFSwabArrayOfLong L) (count * 2) m"
| "swab_data L T_DOUBLE count m = swab_array 8 (TIFFSwabArrayOfLong8 L) count m"
| "swab_data L T_LONG8 count m = swab_array 8 (TIFFSwabArrayOfLong8 L) count m"
| "swab_data L T_SLONG8 count m = swab_array 8 (TIFFSwabArrayOfLong8 L) count m"
| "swab_data L T_IFD8 count m = swab_array 8 (TIFFSwabArrayOfLong8 L) count m"
| "swab_data L _ count m = Some m"

text \<open>How much of the data of an entry is printed: whether it is cut, the number of items and their size.\<close>

definition data_limit :: "32 word \<Rightarrow> 64 word \<Rightarrow> 64 word \<Rightarrow> (bool \<times> 64 word \<times> 64 word) option" where
  "data_limit items count0 typewidth =
     (let datasize0 = TIFFSafeMultiply count0 typewidth;
          datasizeoverflow = (0 < typewidth \<and> datasize0 div typewidth \<noteq> count0)
      in if (datasizeoverflow \<or> 0x10000 < datasize0) \<and> typewidth = 0 then None
         else let (trunc1, count1) = (if datasizeoverflow \<or> 0x10000 < datasize0 then (True, 0x10000 div typewidth)
                                      else (False, count0));
                  (trunc2, count2) = (if ucast items < count1 then (True, ucast items) else (trunc1, count1))
              in Some (trunc2, count2, TIFFSafeMultiply count2 typewidth))"

text \<open>Whether the data does not fit into the entry itself.\<close>

definition data_outside :: "64 word \<Rightarrow> 64 word \<Rightarrow> 64 word \<Rightarrow> bool" where
  "data_outside room count typewidth =
     (let datasize = TIFFSafeMultiply count typewidth
      in 0 < typewidth \<and> datasize div typewidth \<noteq> count \<or> room < datasize)"

definition fetch_data :: "libtiff \<Rightarrow> string \<Rightarrow> 16 word \<Rightarrow> 64 word \<Rightarrow> 64 word \<Rightarrow> td \<Rightarrow> string option \<times> td" where
  "fetch_data L curfile tag dataoffset datasize st =
     (let n = show_nat (unat tag)
      in if \<not> TIFFmalloc L (unat datasize) then (None, vError curfile (''No space for data for tag '' @ n) st)
         else case lseek (sint dataoffset) st of (r, st1) \<Rightarrow>
                if r \<noteq> sint dataoffset then (None, vError curfile (''Seek error accessing tag '' @ n @ '' value'') st1)
                else case read_fd (unat datasize) st1 of (m, st2) \<Rightarrow>
                       if length m \<noteq> unat datasize
                       then (None, vError curfile (''Read error accessing tag '' @ n @ '' value'') st2)
                       else (Some m, st2))"

text \<open>Swapping and printing the data in memory.\<close>

definition show_data :: "libtiff \<Rightarrow> bool \<Rightarrow> bool \<Rightarrow> bool \<Rightarrow> 16 word \<Rightarrow> 64 word \<Rightarrow> string \<Rightarrow> string option" where
  "show_data L host hex swab type count m =
     (case (if swab then (case type_case L type of None \<Rightarrow> Some m | Some t \<Rightarrow> swab_data L t (unat count) m) else Some m) of
        None \<Rightarrow> None
      | Some m' \<Rightarrow> PrintData L host hex type (ucast count) m')"

text \<open>The fields of an entry: counts and offsets have 4 bytes, in a BigTIFF file 8.\<close>

definition room :: "td \<Rightarrow> nat" where
  "room st = (if bigtiff st then 8 else 4)"

definition dir_short :: "libtiff \<Rightarrow> bool \<Rightarrow> td \<Rightarrow> string \<Rightarrow> 16 word" where
  "dir_short L host st m = load16 host (swabbed (swabflag st) (TIFFSwabShort L) m)"

definition dir_long :: "libtiff \<Rightarrow> bool \<Rightarrow> td \<Rightarrow> string \<Rightarrow> 64 word" where
  "dir_long L host st m = ucast (load32 host (swabbed (swabflag st) (TIFFSwabLong L) m))"

definition dir_number :: "libtiff \<Rightarrow> bool \<Rightarrow> td \<Rightarrow> string \<Rightarrow> 64 word" where
  "dir_number L host st m =
     (if bigtiff st then load64 host (swabbed (swabflag st) (TIFFSwabLong8 L) m) else dir_long L host st m)"

definition typewidth :: "16 word \<Rightarrow> 64 word" where
  "typewidth type = (if length datawidth \<le> unat type then 0 else word_of_nat (datawidth ! unat type))"

text \<open>The data of an entry, whose last field is \<open>inside\<close>: the data itself or its offset.\<close>

definition entry_data ::
  "libtiff \<Rightarrow> bool \<Rightarrow> td_opts \<Rightarrow> string \<Rightarrow> 16 word \<Rightarrow> 16 word \<Rightarrow> 64 word \<Rightarrow> string \<Rightarrow> td \<Rightarrow> unit trun" where
  "entry_data L host os curfile tag type count inside st =
     (case data_limit (maxitems os) count (typewidth type) of
        None \<Rightarrow> Stray st
      | Some (truncated, count', datasize) \<Rightarrow>
          (case (if data_outside (word_of_nat (room st)) count (typewidth type)
                 then fetch_data L curfile tag (dir_number L host st inside) datasize st else (Some inside, st)) of
             (None, st1) \<Rightarrow> Cont () (say (''>'' @ [NL]) st1)
           | (Some m, st1) \<Rightarrow>
               (case show_data L host (hex_mode os) (swabflag st1) type count' m of
                  None \<Rightarrow> Stray st1
                | Some s \<Rightarrow> Cont () (say (s @ (if truncated then '' ...'' else []) @ ''>'' @ [NL]) st1))))"

text \<open>
  One entry at \<open>dp\<close>; the result is the pointer behind it.  Reading behind the directory in memory
  is not defined.
\<close>

definition ReadEntry :: "libtiff \<Rightarrow> bool \<Rightarrow> td_opts \<Rightarrow> string \<Rightarrow> string \<Rightarrow> td \<Rightarrow> string trun" where
  "ReadEntry L host os curfile dp st =
     (let r = room st
      in if length dp < 4 + 2 * r then Stray st
         else let tag = dir_short L host st (take 2 dp);
                  type = dir_short L host st (take 2 (drop 2 dp));
                  count = dir_number L host st (take r (drop 4 dp))
              in after (entry_data L host os curfile tag type count (take r (drop (4 + r) dp))
                          (say (PrintTag L tag @ '' '' @ PrintType type @ '' '' @ show_nat (unat count) @ ''<'') st))
                   (\<lambda>_ st1. Cont (drop (4 + 2 * r) dp) st1))"

fun ReadEntries :: "libtiff \<Rightarrow> bool \<Rightarrow> td_opts \<Rightarrow> string \<Rightarrow> nat \<Rightarrow> string \<Rightarrow> td \<Rightarrow> unit trun" where
  "ReadEntries L host os curfile 0 dp st = Cont () st"
| "ReadEntries L host os curfile (Suc n) dp st =
     after (ReadEntry L host os curfile dp st) (ReadEntries L host os curfile n)"

text \<open>The number of entries and the size of one; no number when it is too large to be true.\<close>

definition read_dircount :: "libtiff \<Rightarrow> bool \<Rightarrow> string \<Rightarrow> td \<Rightarrow> (16 word \<times> 32 word) option trun" where
  "read_dircount L host curfile st =
     (if \<not> bigtiff st
      then (case read_fd 2 st of (m, st1) \<Rightarrow>
              if length m \<noteq> 2 then ReadError curfile ''directory count'' st1
              else Cont (Some (dir_short L host st m, 12)) st1)
      else (case read_fd 8 st of (m, st1) \<Rightarrow>
              if length m \<noteq> 8 then ReadError curfile ''directory count'' st1
              else let dircount64 = dir_number L host st m
                   in if 0xFFFF < dircount64
                      then Cont None (vError curfile ''Sanity check on directory count failed'' st1)
                      else Cont (Some (ucast dircount64, 20)) st1))"

definition read_next :: "libtiff \<Rightarrow> bool \<Rightarrow> td \<Rightarrow> 64 word \<times> td" where
  "read_next L host st =
     (case read_fd (room st) st of (m, st1) \<Rightarrow>
        (dir_number L host st (if length m \<noteq> room st then replicate (room st) NUL else m), st1))"

definition show_offset :: "64 word \<Rightarrow> string" where
  "show_offset off = show_nat (unat off) @ '' ('' @ alt_hex 0 (unat off) @ '')''"

text \<open>The directory itself, once the number of its entries and their size are known.\<close>

definition read_dirmem ::
  "libtiff \<Rightarrow> bool \<Rightarrow> td_opts \<Rightarrow> string \<Rightarrow> 32 word \<Rightarrow> 64 word \<Rightarrow> 16 word \<Rightarrow> 32 word \<Rightarrow> td \<Rightarrow> 64 word trun" where
  "read_dirmem L host os curfile ix off dircount direntrysize st =
     (if \<not> TIFFmalloc L (unat (TIFFSafeMultiply (ucast dircount) direntrysize))
      then Fatal curfile ''No space for TIFF directory'' st
      else case read_fd (unat (ucast dircount * direntrysize)) st of (dirmem, st1) \<Rightarrow>
        let short = (length dirmem \<noteq> unat (ucast dircount * direntrysize));
            n = (if short then length dirmem div unat direntrysize else unat dircount);
            (nextdiroff, st2) =
              (if short
               then (0, vError curfile (''Could only read '' @ show_nat n @ '' of '' @ show_nat (unat dircount) @
                          '' entries in directory at offset '' @ show_nat (unat off)) st1)
               else read_next L host st1);
            st3 = say (''Directory '' @ show_nat (unat ix) @ '': offset '' @ show_offset off @ '' next '' @
                       show_offset nextdiroff @ [NL]) st2
        in after (ReadEntries L host os curfile n dirmem st3) (\<lambda>_ st4. Cont nextdiroff st4))"

definition ReadDirectory :: "libtiff \<Rightarrow> bool \<Rightarrow> td_opts \<Rightarrow> string \<Rightarrow> 32 word \<Rightarrow> 64 word \<Rightarrow> td \<Rightarrow> 64 word trun" where
  "ReadDirectory L host os curfile ix off st =
     (if off = 0 then Cont 0 st
      else case lseek (sint off) st of (r, st1) \<Rightarrow>
        if r \<noteq> sint off then Fatal curfile ''Seek error accessing TIFF directory'' st1
        else after (read_dircount L host curfile st1) (\<lambda>dc st2.
          case dc of
            None \<Rightarrow> Cont 0 st2
          | Some (dircount, direntrysize) \<Rightarrow> read_dirmem L host os curfile ix off dircount direntrysize st2))"

section \<open>Files\<close>

text \<open>
  The loop over the directories from \<open>diroff\<close>; \<open>visited\<close> is the array of the offsets seen so far.
  It ends because an offset that comes again is fatal and there are only \<open>2^64\<close> of them.
\<close>

function dump_dirs :: "libtiff \<Rightarrow> bool \<Rightarrow> td_opts \<Rightarrow> string \<Rightarrow> 64 word list \<Rightarrow> 64 word \<Rightarrow> td \<Rightarrow> unit trun" where
  "dump_dirs L host os curfile visited diroff st =
     (if diroff = 0 then Cont () st
      else if diroff \<in> set visited then Fatal curfile ''Cycle detected in chaining of TIFF directories!'' st
      else if TIFFSafeMultiply (ucast (word_of_nat (length visited) + 1 :: 32 word) :: 64 word) 8 = 0
      then Fatal curfile ''Out of memory'' st
      else case ReadDirectory L host os curfile (word_of_nat (length visited)) diroff
                  (if visited = [] then st else say [NL] st) of
             Cont next st1 \<Rightarrow> dump_dirs L host os curfile (visited @ [diroff]) next st1
           | Died st1 \<Rightarrow> Died st1
           | Stray st1 \<Rightarrow> Stray st1)"
  by pat_completeness auto
termination
proof (relation "measure (\<lambda>(L, host, os, curfile, visited, diroff, st). card (- set visited))", goal_cases)
  case (2 L host os curfile visited diroff)
  then have "- set (visited @ [diroff]) \<subset> - set visited" by auto
  then show ?case by (simp add: psubset_card_mono)
qed simp

declare dump_dirs.simps [simp del]

text \<open>The text of a number in the two messages about a bad header.\<close>

definition bad_number :: "16 word \<Rightarrow> string" where
  "bad_number n = show_nat (unat n) @ '' ('' @ alt_hex 0 (unat n) @ '')''"

definition magic_line :: "libtiff \<Rightarrow> 16 word \<Rightarrow> nat \<Rightarrow> string \<Rightarrow> string" where
  "magic_line L magic version what =
     ''Magic: '' @ alt_hex 0 (unat magic) @ '' <'' @ (if magic = TIFF_BIGENDIAN L then ''big'' else ''little'') @
     ''-endian> Version: '' @ alt_hex 0 version @ '' <'' @ what @ ''>'' @ [NL]"

text \<open>The rest of the header and the offset of the first directory.\<close>

definition read_classic :: "libtiff \<Rightarrow> bool \<Rightarrow> string \<Rightarrow> 16 word \<Rightarrow> 64 word \<Rightarrow> td \<Rightarrow> 64 word trun" where
  "read_classic L host curfile magic diroff st =
     (case read_fd 4 st of (m, st1) \<Rightarrow>
        if length m \<noteq> 4 then ReadError curfile ''TIFF header'' st1
        else let off = dir_long L host st1 m
             in Cont (if diroff = 0 then off else diroff) (say (magic_line L magic 42 ''ClassicTIFF'') st1))"

definition read_big :: "libtiff \<Rightarrow> bool \<Rightarrow> string \<Rightarrow> 16 word \<Rightarrow> 64 word \<Rightarrow> td \<Rightarrow> 64 word trun" where
  "read_big L host curfile magic diroff st =
     (case read_fd 12 st of (m, st1) \<Rightarrow>
        if length m \<noteq> 12 then ReadError curfile ''TIFF header'' st1
        else let st2 = st1\<lparr>bigtiff := True\<rparr>;
                 offsetsize = dir_short L host st2 (take 2 m);
                 unused = dir_short L host st2 (take 2 (drop 2 m));
                 off = dir_number L host st2 (drop 4 m)
             in Cont (if diroff = 0 then off else diroff)
                  (say (magic_line L magic 43 ''BigTIFF'' @ ''OffsetSize: '' @ alt_hex 0 (unat offsetsize) @ '' Unused: '' @
                        alt_hex 0 (unat unused) @ [NL]) st2))"

definition read_rest :: "libtiff \<Rightarrow> bool \<Rightarrow> string \<Rightarrow> 16 word \<Rightarrow> 16 word \<Rightarrow> 64 word \<Rightarrow> td \<Rightarrow> 64 word trun" where
  "read_rest L host curfile magic version diroff st =
     (if version = 42 then read_classic L host curfile magic diroff st
      else if version = 43 then read_big L host curfile magic diroff st
      else Fatal curfile (''Not a TIFF file, bad version number '' @ bad_number version) st)"

text \<open>Whether the bytes of the file need swapping, and whether a magic number is known.\<close>

definition swab_for :: "libtiff \<Rightarrow> bool \<Rightarrow> 16 word \<Rightarrow> bool" where
  "swab_for L host magic = (if magic = TIFF_BIGENDIAN L \<or> magic = MDI_BIGENDIAN L then \<not> host else host)"

definition good_magic :: "libtiff \<Rightarrow> 16 word \<Rightarrow> bool" where
  "good_magic L magic \<longleftrightarrow> magic = TIFF_BIGENDIAN L \<or> magic = TIFF_LITTLEENDIAN L \<or> MDI_LITTLEENDIAN L = magic"

definition dump :: "libtiff \<Rightarrow> bool \<Rightarrow> td_opts \<Rightarrow> string \<Rightarrow> 64 word \<Rightarrow> td \<Rightarrow> unit trun" where
  "dump L host os curfile diroff st0 =
     (case read_fd 4 (snd (lseek 0 st0)) of (hdr, st) \<Rightarrow>
        if length hdr \<noteq> 4 then ReadError curfile ''TIFF header'' st
        else let magic = load16 host (take 2 hdr); st1 = st\<lparr>swabflag := swab_for L host magic\<rparr>
             in if \<not> good_magic L magic
                then Fatal curfile (''Not a TIFF or MDI file, bad magic number '' @ bad_number magic) st
                else after (read_rest L host curfile magic (dir_short L host st1 (drop 2 hdr)) diroff st1)
                       (dump_dirs L host os curfile []))"

section \<open>The program\<close>

text \<open>
  The options: \<open>getopt(argc, argv, "m:o:h")\<close> up to the first word that is not an option, an option
  letter at a time.  \<open>None\<close> is a call of \<open>usage\<close>; else the options, the offset and the files.
\<close>

fun tiff_letters :: "string \<Rightarrow> string list \<Rightarrow> td_opts \<times> 64 word \<Rightarrow> ((td_opts \<times> 64 word) \<times> string list) option" where
  "tiff_letters [] rest ov = Some (ov, rest)"
| "tiff_letters (c # cs) rest (os, diroff) =
     (if c = CHR ''h'' then tiff_letters cs rest (os\<lparr>hex_mode := True\<rparr>, diroff)
      else if c = CHR ''m'' \<or> c = CHR ''o''
      then (case (if cs \<noteq> [] then Some (cs, rest) else case rest of [] \<Rightarrow> None | a # r \<Rightarrow> Some (a, r)) of
              None \<Rightarrow> None
            | Some (optarg, r) \<Rightarrow>
                (let v = fst (strtoul 0 optarg)
                 in Some (if c = CHR ''m'' then (os\<lparr>maxitems := ucast v\<rparr>, diroff) else (os, v), r)))
      else None)"

lemma tiff_letters_shorter: "tiff_letters cs rest ov = Some (ov', r) \<Longrightarrow> length r \<le> length rest"
  by (induction cs rest ov rule: tiff_letters.induct) (auto simp: Let_def split: if_splits list.splits)

function tiff_getopt :: "string list \<Rightarrow> td_opts \<times> 64 word \<Rightarrow> ((td_opts \<times> 64 word) \<times> string list) option" where
  "tiff_getopt [] ov = Some (ov, [])"
| "tiff_getopt (a # args) ov =
     (if a = ''--'' then Some (ov, args)
      else if deref a = CHR ''-'' \<and> a \<noteq> ''-''
      then (case tiff_letters (tl a) args ov of None \<Rightarrow> None | Some (ov', r) \<Rightarrow> tiff_getopt r ov')
      else Some (ov, a # args))"
  by pat_completeness auto
termination
  by (relation "measure (\<lambda>(args, ov). length args)") (auto dest: tiff_letters_shorter)

text \<open>
  \<open>fs\<close> opens a file: its bytes, or the message of the system why not.  What \<open>getopt\<close> itself
  reports on the standard error is left out.
\<close>

fun dump_files :: "libtiff \<Rightarrow> bool \<Rightarrow> (string \<Rightarrow> string + string) \<Rightarrow> string \<Rightarrow> td_opts \<Rightarrow> 64 word \<Rightarrow> string list \<Rightarrow> string \<Rightarrow> string \<Rightarrow> unit run" where
  "dump_files L host fs appname os diroff [] out err = Exit out err 0"
| "dump_files L host fs appname os diroff (f # files) out err =
     (case fs f of
        Inl why \<Rightarrow> Exit out (err @ appname @ '': '' @ why @ [NL]) 1
      | Inr bytes \<Rightarrow>
          (case dump L host os f diroff
                  \<lparr>fdata = bytes, fpos = 0, tout = out @ f @ '':'' @ [NL], terr = err, swabflag = False, bigtiff = False\<rparr> of
             Cont _ st \<Rightarrow> dump_files L host fs appname os diroff files (tout st) (terr st)
           | Died st \<Rightarrow> Exit (tout st) (terr st) 1
           | Stray st \<Rightarrow> Undef (tout st)))"

definition tiff_usage :: "string \<Rightarrow> unit run" where
  "tiff_usage appname =
     Exit [] ([NL] @ ''Display directory information from TIFF files'' @ [NL, NL] @
       ''usage: '' @ appname @ '' [-h] [-o offset] [-m maxitems] file.tif ...'' @ [NL]) 1"

definition tiff_main :: "libtiff \<Rightarrow> bool \<Rightarrow> (string \<Rightarrow> string + string) \<Rightarrow> string \<Rightarrow> string list \<Rightarrow> unit run" where
  "tiff_main L host fs appname args =
     (case tiff_getopt args (\<lparr>hex_mode = False, maxitems = 24\<rparr>, 0) of
        None \<Rightarrow> tiff_usage appname
      | Some ((os, diroff), files) \<Rightarrow>
          if files = [] then tiff_usage appname else dump_files L host fs appname os diroff files [] [])"

end
