(* ===== verification/Tiffdump_Facts.thy ===== *)
theory Tiffdump_Facts
  imports Tiffdump
begin

text \<open>
  What \<open>tiffdump\<close> does with any file: it stays inside the memory it has, it prints the same on
  machines of either byte order, and it prints a directory as it was encoded.
\<close>

section \<open>The documented behaviour of libtiff\<close>

fun type_index :: "tiff_type \<Rightarrow> nat" where
  "type_index T_BYTE = 1"
| "type_index T_ASCII = 2"
| "type_index T_SHORT = 3"
| "type_index T_LONG = 4"
| "type_index T_RATIONAL = 5"
| "type_index T_SBYTE = 6"
| "type_index T_UNDEFINED = 7"
| "type_index T_SSHORT = 8"
| "type_index T_SLONG = 9"
| "type_index T_SRATIONAL = 10"
| "type_index T_FLOAT = 11"
| "type_index T_DOUBLE = 12"
| "type_index T_IFD = 13"
| "type_index T_LONG8 = 16"
| "type_index T_SLONG8 = 17"
| "type_index T_IFD8 = 18"

text \<open>A change of each of \<open>n\<close> items of \<open>w\<close> bytes, such as reversing its bytes.\<close>

fun map_items :: "nat \<Rightarrow> (string \<Rightarrow> string) \<Rightarrow> nat \<Rightarrow> string \<Rightarrow> string" where
  "map_items w g 0 m = []"
| "map_items w g (Suc n) m = g (take w m) @ map_items w g n (drop w m)"

abbreviation rev_items :: "nat \<Rightarrow> nat \<Rightarrow> string \<Rightarrow> string" where
  "rev_items w n m \<equiv> map_items w rev n m"

text \<open>
  The type numbers are those of the comments in \<open>datawidth\<close>, the magic numbers are two equal letters,
  and the swapping functions reverse the bytes of each object.  Nothing is said about
  \<open>TIFFmalloc\<close> and the tag numbers.
\<close>

definition documented :: "libtiff \<Rightarrow> bool" where
  "documented L \<longleftrightarrow>
     TIFF_BIGENDIAN L = 0x4D4D \<and> TIFF_LITTLEENDIAN L = 0x4949 \<and> MDI_BIGENDIAN L = 0x4550 \<and> MDI_LITTLEENDIAN L = 0x5045 \<and>
     (\<forall>t. type_no L t = word_of_nat (type_index t)) \<and>
     (\<forall>m. length m = 2 \<longrightarrow> TIFFSwabShort L m = rev m) \<and>
     (\<forall>m. length m = 4 \<longrightarrow> TIFFSwabLong L m = rev m) \<and>
     (\<forall>m. length m = 8 \<longrightarrow> TIFFSwabLong8 L m = rev m) \<and>
     (\<forall>n m. length m = n * 2 \<longrightarrow> TIFFSwabArrayOfShort L n m = rev_items 2 n m) \<and>
     (\<forall>n m. length m = n * 4 \<longrightarrow> TIFFSwabArrayOfLong L n m = rev_items 4 n m) \<and>
     (\<forall>n m. length m = n * 8 \<longrightarrow> TIFFSwabArrayOfLong8 L n m = rev_items 8 n m)"

lemma length_rev_items: "length m = n * w \<Longrightarrow> length (rev_items w n m) = n * w"
  by (induction n arbitrary: m) auto

section \<open>Multiplication that cannot overflow\<close>

lemma unat_mult_div:
  fixes v m :: "'a::len word"
  assumes "m \<noteq> 0"
  shows "(v * m) div m = v \<longleftrightarrow> unat v * unat m < 2 ^ LENGTH('a)"
proof -
  have m: "0 < unat m" using assms by (simp add: unat_gt_0)
  have u: "unat (v * m) = unat v * unat m mod 2 ^ LENGTH('a)" by (rule unat_word_ariths)
  have "(v * m) div m = v \<longleftrightarrow> (unat v * unat m mod 2 ^ LENGTH('a)) div unat m = unat v"
    by (metis u unat_div word_unat_eq_iff)
  also have "\<dots> \<longleftrightarrow> unat v * unat m < 2 ^ LENGTH('a)"
  proof
    assume e: "(unat v * unat m mod 2 ^ LENGTH('a)) div unat m = unat v"
    then have "unat v * unat m \<le> unat v * unat m mod 2 ^ LENGTH('a)" by (metis div_times_less_eq_dividend)
    also have "\<dots> < 2 ^ LENGTH('a)" by simp
    finally show "unat v * unat m < 2 ^ LENGTH('a)" .
  next
    assume "unat v * unat m < 2 ^ LENGTH('a)"
    then show "(unat v * unat m mod 2 ^ LENGTH('a)) div unat m = unat v" using m by simp
  qed
  finally show ?thesis .
qed

lemma safe_multiply:
  fixes v m :: "'a::len word"
  shows "unat (TIFFSafeMultiply v m) = (if unat v * unat m < 2 ^ LENGTH('a) then unat v * unat m else 0)"
proof (cases "m = 0")
  case False
  then show ?thesis using unat_mult_div [OF False, of v] by (simp add: TIFFSafeMultiply_def unat_word_ariths(2))
qed (simp add: TIFFSafeMultiply_def)

section \<open>The size of the data of an entry\<close>

text \<open>The test for an overflow is right.\<close>

lemma overflow_test:
  fixes count tw :: "64 word"
  shows "(0 < tw \<and> TIFFSafeMultiply count tw div tw \<noteq> count) \<longleftrightarrow> 2 ^ 64 \<le> unat count * unat tw"
proof (cases "unat count * unat tw < 2 ^ 64")
  case True
  have "TIFFSafeMultiply count tw div tw = count" if "0 < tw"
  proof -
    have "unat (TIFFSafeMultiply count tw div tw) = unat count * unat tw div unat tw"
      using True by (simp add: unat_div safe_multiply)
    also have "\<dots> = unat count" using that by (simp add: unat_gt_0 word_neq_0_conv)
    finally show ?thesis by (simp only: word_unat_eq_iff)
  qed
  then show ?thesis using True by auto
next
  case False
  then have "unat (TIFFSafeMultiply count tw) = 0" by (simp add: safe_multiply)
  then have "TIFFSafeMultiply count tw = 0" by (simp only: unat_eq_zero)
  moreover have "count \<noteq> 0" "tw \<noteq> 0" using False by auto
  ultimately show ?thesis using False by (simp add: word_neq_0_conv)
qed

lemma not_outside:
  assumes "\<not> data_outside r count tw"
  shows "unat count * unat tw \<le> unat r"
proof -
  have "unat count * unat tw < 2 ^ 64" using assms overflow_test [of tw count] by (auto simp: data_outside_def Let_def)
  moreover have "TIFFSafeMultiply count tw \<le> r" using assms by (auto simp: data_outside_def Let_def)
  ultimately show ?thesis using safe_multiply [of count tw] by (simp add: word_le_nat_alt)
qed

text \<open>The test for too much data is right as well, although the product may have wrapped around.\<close>

lemma cut_test:
  fixes count tw :: "64 word"
  shows "(0 < tw \<and> TIFFSafeMultiply count tw div tw \<noteq> count) \<or> 0x10000 < TIFFSafeMultiply count tw \<longleftrightarrow>
    0x10000 < unat count * unat tw"
proof (cases "unat count * unat tw < 2 ^ 64")
  case True
  then have "\<not> (0 < tw \<and> TIFFSafeMultiply count tw div tw \<noteq> count)" using overflow_test [of tw count] by simp
  moreover have "0x10000 < TIFFSafeMultiply count tw \<longleftrightarrow> 0x10000 < unat count * unat tw"
    using True safe_multiply [of count tw] by (simp add: word_less_nat_alt)
  ultimately show ?thesis by blast
next
  case False
  then show ?thesis using overflow_test [of tw count] by simp
qed

lemma data_limit_exact:
  fixes items :: "32 word" and count tw :: "64 word"
  defines "n \<equiv> min (unat items) (if unat count * unat tw \<le> 0x10000 then unat count else 0x10000 div unat tw)"
  shows "\<exists>tr c ds. data_limit items count tw = Some (tr, c, ds) \<and> unat c = n \<and> unat ds = n * unat tw \<and>
    (tr \<longleftrightarrow> n < unat count) \<and> n \<le> unat count \<and> n * unat tw \<le> 0x10000"
proof -
  let ?cut = "(0 < tw \<and> TIFFSafeMultiply count tw div tw \<noteq> count) \<or> 0x10000 < TIFFSafeMultiply count tw"
  define c1 where "c1 = (if ?cut then 0x10000 div tw else count)"
  define c2 where "c2 = (if ucast items < c1 then ucast items else c1)"
  have cut: "?cut \<longleftrightarrow> 0x10000 < unat count * unat tw" by (rule cut_test)
  have tw: "0 < unat tw" "tw \<noteq> 0" if ?cut using that unfolding cut by (auto simp: unat_gt_0)
  have c1: "unat c1 = (if unat count * unat tw \<le> 0x10000 then unat count else 0x10000 div unat tw)"
    unfolding c1_def cut by (simp add: unat_div)
  have un: "unat (ucast items :: 64 word) = unat items"
    by (simp add: unsigned_ucast_eq take_bit_nat_eq_self less_trans [OF unsigned_less])
  have c2: "unat c2 = n" unfolding c2_def n_def c1 [symmetric] by (auto simp: word_less_nat_alt un)
  have less: "unat c1 < unat count" if ?cut
    using that tw(1) [OF that] unfolding cut c1 by (simp add: less_mult_imp_div_less)
  have "unat c1 * unat tw \<le> 0x10000" unfolding c1 by simp
  moreover have "n \<le> unat c1" unfolding n_def c1 by simp
  ultimately have small: "n * unat tw \<le> 0x10000" by (meson le_trans mult_le_mono1)
  have "data_limit items count tw = Some (if ucast items < c1 then True else ?cut, c2, TIFFSafeMultiply c2 tw)"
    using tw(2) by (auto simp: data_limit_def c1_def c2_def Let_def)
  moreover have "unat (TIFFSafeMultiply c2 tw) = n * unat tw" using small by (simp add: safe_multiply c2)
  moreover have "(if ucast items < c1 then True else ?cut) \<longleftrightarrow> n < unat count"
  proof (cases ?cut)
    case True
    then show ?thesis using less [OF True] \<open>n \<le> unat c1\<close> by auto
  next
    case False
    then have "c1 = count" unfolding c1_def by (simp only: if_False)
    then show ?thesis using False c2 unfolding c2_def by (auto simp: word_less_nat_alt un)
  qed
  moreover have "unat c1 \<le> unat count" using less unfolding c1_def by (cases ?cut) auto
  ultimately show ?thesis using c2 small \<open>n \<le> unat c1\<close> le_trans by blast
qed

lemma data_limit_ok:
  "\<exists>tr c ds. data_limit items count tw = Some (tr, c, ds) \<and> unat ds = unat c * unat tw \<and> unat c \<le> unat count \<and>
    unat ds \<le> 0x10000"
  using data_limit_exact [of items count tw] by metis

section \<open>Every access is inside the memory\<close>

lemma documented_type: "documented L \<Longrightarrow> type_case L type = Some t \<Longrightarrow> unat type = type_index t"
  by (cases t) (auto simp: documented_def type_case_def find_Some_iff)

fun type_width :: "tiff_type \<Rightarrow> nat" where
  "type_width t = datawidth ! type_index t"

lemma print_items_ok: "w * count \<le> length m \<Longrightarrow> \<exists>s. print_items w f sep count m = Some s"
  by (induction count arbitrary: sep m) auto

lemma print_data_ok:
  assumes "count * type_width t \<le> length m"
  shows "\<exists>s. print_data host hex t count m = Some s"
  using assms print_items_ok
  by (cases t) (auto simp: datawidth_def PrintASCII_def mult.commute)

lemma swab_array_ok:
  assumes "n * w \<le> length m" "\<And>m. length m = n * w \<Longrightarrow> f n m = rev_items w n m"
  shows "swab_array w f n m = Some (rev_items w n (take (n * w) m) @ drop (n * w) m) \<and>
    length (rev_items w n (take (n * w) m) @ drop (n * w) m) = length m"
  using assms length_rev_items [of "take (n * w) m" n w] by (simp add: swab_array_def)

lemma swab_data_ok:
  assumes "documented L" "count * type_width t \<le> length m"
  shows "\<exists>m'. swab_data L t count m = Some m' \<and> length m' = length m"
proof -
  have a: "n * 2 \<le> length m \<Longrightarrow> \<exists>m'. swab_array 2 (TIFFSwabArrayOfShort L) n m = Some m' \<and> length m' = length m"
    "n * 4 \<le> length m \<Longrightarrow> \<exists>m'. swab_array 4 (TIFFSwabArrayOfLong L) n m = Some m' \<and> length m' = length m"
    "n * 8 \<le> length m \<Longrightarrow> \<exists>m'. swab_array 8 (TIFFSwabArrayOfLong8 L) n m = Some m' \<and> length m' = length m" for n
    using swab_array_ok [of n 2 m "TIFFSwabArrayOfShort L"] swab_array_ok [of n 4 m "TIFFSwabArrayOfLong L"]
      swab_array_ok [of n 8 m "TIFFSwabArrayOfLong8 L"] assms(1) by (auto simp: documented_def)
  show ?thesis using assms(2) a [of count] a [of "count * 2"] by (cases t) (auto simp: datawidth_def)
qed

lemma show_data_ok:
  assumes "documented L" "unat count * (if length datawidth \<le> unat type then 0 else datawidth ! unat type) \<le> length m"
    "unat count \<le> 0x10000 \<or> type_case L type = None"
  shows "\<exists>s. show_data L host hex sw type count m = Some s"
proof (cases "type_case L type")
  case None
  then show ?thesis by (simp add: show_data_def PrintData_def)
next
  case (Some t)
  have i: "unat type = type_index t" using documented_type [OF assms(1) Some] .
  have "type_index t < length datawidth" by (cases t) (simp_all add: datawidth_def)
  then have l: "unat count * type_width t \<le> length m" using assms(2) i by simp
  have "unat count < 2 ^ 32" using assms(3) Some by auto
  then have c: "unat (ucast count :: 32 word) = unat count" by (simp add: unsigned_ucast_eq take_bit_nat_eq_self)
  obtain m' where m': "swab_data L t (unat count) m = Some m'" "length m' = length m" using swab_data_ok [OF assms(1) l] by blast
  have "\<exists>s. print_data host hex t (unat count) x = Some s" if "length x = length m" for x
    using print_data_ok [of "unat count" t x] l that by simp
  then show ?thesis using Some m' c by (cases sw) (simp_all add: show_data_def PrintData_def)
qed

text \<open>What reading and printing leave alone.\<close>

definition same_file :: "td \<Rightarrow> td \<Rightarrow> bool" where
  "same_file st st' \<longleftrightarrow> fdata st' = fdata st \<and> swabflag st' = swabflag st \<and> bigtiff st' = bigtiff st"

lemma same_file_refl [simp]: "same_file st st"
  by (simp add: same_file_def)

lemma same_file_trans [trans]: "same_file a b \<Longrightarrow> same_file b c \<Longrightarrow> same_file a c"
  by (simp add: same_file_def)

lemma same_file_upd [simp]:
  "same_file st (say s st') = same_file st st'" "same_file st (vError f s st') = same_file st st'"
  "same_file st (st'\<lparr>fpos := n\<rparr>) = same_file st st'"
  by (simp_all add: same_file_def say_def vError_def)

lemma same_file_read: "read_fd n st = (m, st') \<Longrightarrow> same_file st st' \<and> length m \<le> n"
  by (auto simp: read_fd_def Let_def)

lemma same_file_lseek: "lseek off st = (r, st') \<Longrightarrow> same_file st st'"
  by (auto simp: lseek_def split: if_splits)

lemma fetch_data_ok:
  "fetch_data L f tag off ds st = (m, st') \<Longrightarrow> same_file st st' \<and> (\<forall>x. m = Some x \<longrightarrow> length x = unat ds)"
  by (auto simp: fetch_data_def Let_def split: if_splits prod.splits dest!: same_file_read same_file_lseek intro: same_file_trans)

lemma same_file_sel:
  assumes "same_file st st'"
  shows "room st' = room st" "dir_short L host st' = dir_short L host st" "dir_number L host st' = dir_number L host st"
    "swabflag st' = swabflag st" "bigtiff st' = bigtiff st"
  using assms by (auto simp: same_file_def room_def dir_short_def dir_number_def dir_long_def fun_eq_iff)

lemma unat_typewidth:
  "unat (typewidth type) \<le> 8" "unat (typewidth type) = (if length datawidth \<le> unat type then 0 else datawidth ! unat type)"
proof -
  have le: "datawidth ! unat type \<le> 8" if "unat type < length datawidth"
  proof -
    have "list_all (\<lambda>w. w \<le> 8) datawidth" by (simp add: datawidth_def)
    then show ?thesis using that by (simp add: list_all_length)
  qed
  then show eq: "unat (typewidth type) = (if length datawidth \<le> unat type then 0 else datawidth ! unat type)"
    by (auto simp: typewidth_def unsigned_of_nat take_bit_nat_eq_self)
  show "unat (typewidth type) \<le> 8" unfolding eq using le by auto
qed

lemma typed_width: "documented L \<Longrightarrow> type_case L type = Some t \<Longrightarrow> unat type < length datawidth \<and> 1 \<le> datawidth ! unat type"
  using documented_type [of L type t] by (cases t) (simp_all add: datawidth_def)

definition show_entry :: "libtiff \<Rightarrow> bool \<Rightarrow> td_opts \<Rightarrow> 16 word \<Rightarrow> bool \<Rightarrow> 64 word \<Rightarrow> string option \<Rightarrow> td \<Rightarrow> unit trun" where
  "show_entry L host os type tr c m st =
     (case m of
        None \<Rightarrow> Cont () (say (''>'' @ [NL]) st)
      | Some x \<Rightarrow>
          (case show_data L host (hex_mode os) (swabflag st) type c x of
             None \<Rightarrow> Stray st
           | Some s \<Rightarrow> Cont () (say (s @ (if tr then '' ...'' else []) @ ''>'' @ [NL]) st)))"

text \<open>The data that an entry prints is in memory.\<close>

definition data_there :: "libtiff \<Rightarrow> 16 word \<Rightarrow> 64 word \<Rightarrow> string \<Rightarrow> bool" where
  "data_there L type c m \<longleftrightarrow>
     unat c * (if length datawidth \<le> unat type then 0 else datawidth ! unat type) \<le> length m \<and>
     (unat c \<le> 0x10000 \<or> type_case L type = None)"

lemma entry_data_steps:
  assumes "documented L" "length inside = room st"
  shows "\<exists>tr c ds. data_limit (maxitems os) count (typewidth type) = Some (tr, c, ds) \<and>
    (\<forall>m st1. (if data_outside (word_of_nat (room st)) count (typewidth type)
        then fetch_data L f tag (dir_number L host st inside) ds st else (Some inside, st)) = (m, st1) \<longrightarrow>
      same_file st st1 \<and> (\<forall>x. m = Some x \<longrightarrow> data_there L type c x) \<and>
      entry_data L host os f tag type count inside st = show_entry L host os type tr c m st1)"
proof -
  let ?tw = "typewidth type" and ?out = "data_outside (word_of_nat (room st)) count (typewidth type)"
  note tw = unat_typewidth [of type]
  obtain tr c ds where lim: "data_limit (maxitems os) count ?tw = Some (tr, c, ds)" "unat ds = unat c * unat ?tw"
    "unat c \<le> unat count" "unat ds \<le> 0x10000" using data_limit_ok by blast
  have "unat (word_of_nat (room st) :: 64 word) = room st" by (simp add: room_def)
  then have small: "unat ds \<le> room st" if "\<not> ?out"
    using not_outside [OF that] lim(2) mult_le_mono1 [OF lim(3), of "unat ?tw"] by linarith
  have "unat c \<le> 0x10000" if "type_case L type = Some t" for t
  proof -
    have "1 \<le> unat ?tw" using typed_width [OF assms(1) that] tw(2) by simp
    then show ?thesis using lim(2,4) by (metis le_trans mult_le_mono2 mult_1_right)
  qed
  then have c: "unat c \<le> 0x10000 \<or> type_case L type = None" by (cases "type_case L type") auto
  have "same_file st st1 \<and> (\<forall>x. m = Some x \<longrightarrow> data_there L type c x) \<and>
      entry_data L host os f tag type count inside st = show_entry L host os type tr c m st1"
    if m: "(if ?out then fetch_data L f tag (dir_number L host st inside) ds st else (Some inside, st)) = (m, st1)" for m st1
  proof -
    have "same_file st st1" "\<And>x. m = Some x \<Longrightarrow> unat ds \<le> length x"
      using m assms(2) small fetch_data_ok [of L f tag "dir_number L host st inside" ds st m st1] by (auto split: if_splits)
    then show ?thesis using m lim(1,2) tw(2) c by (auto simp: data_there_def entry_data_def show_entry_def split: option.splits)
  qed
  with lim(1) show ?thesis by blast
qed

lemma show_entry_ok:
  assumes "documented L" "same_file st st1" "\<forall>x. m = Some x \<longrightarrow> data_there L type c x"
  shows "\<exists>st'. show_entry L host os type tr c m st1 = Cont () st' \<and> same_file st st'"
proof (cases m)
  case (Some x)
  then have "\<exists>s. show_data L host (hex_mode os) (swabflag st1) type c x = Some s"
    using show_data_ok [OF assms(1)] assms(3) by (auto simp: data_there_def)
  then show ?thesis using Some assms(2) by (auto simp: show_entry_def)
qed (use assms(2) in \<open>simp add: show_entry_def\<close>)

lemma entry_data_ok:
  assumes "documented L" "length inside = room st"
  shows "\<exists>st'. entry_data L host os f tag type count inside st = Cont () st' \<and> same_file st st'"
proof -
  obtain tr c ds where lim: "data_limit (maxitems os) count (typewidth type) = Some (tr, c, ds)"
    and st: "\<forall>m st1. (if data_outside (word_of_nat (room st)) count (typewidth type)
        then fetch_data L f tag (dir_number L host st inside) ds st else (Some inside, st)) = (m, st1) \<longrightarrow>
      same_file st st1 \<and> (\<forall>x. m = Some x \<longrightarrow> data_there L type c x) \<and>
      entry_data L host os f tag type count inside st = show_entry L host os type tr c m st1"
    using entry_data_steps [OF assms, of os count type f tag host] by blast
  obtain m st1 where "(if data_outside (word_of_nat (room st)) count (typewidth type)
        then fetch_data L f tag (dir_number L host st inside) ds st else (Some inside, st)) = (m, st1)" by fastforce
  with st have "same_file st st1" "\<forall>x. m = Some x \<longrightarrow> data_there L type c x"
      "entry_data L host os f tag type count inside st = show_entry L host os type tr c m st1" by blast+
  with show_entry_ok [OF assms(1) this(1,2)] show ?thesis by simp
qed

lemma ReadEntry_ok:
  assumes "documented L" "4 + 2 * room st \<le> length dp"
  shows "\<exists>st'. ReadEntry L host os f dp st = Cont (drop (4 + 2 * room st) dp) st' \<and> same_file st st'"
proof -
  define tag type count where "tag = dir_short L host st (take 2 dp)" and "type = dir_short L host st (take 2 (drop 2 dp))"
    and "count = dir_number L host st (take (room st) (drop 4 dp))"
  define st1 where "st1 = say (PrintTag L tag @ '' '' @ PrintType type @ '' '' @ show_nat (unat count) @ ''<'') st"
  have st1: "same_file st st1" by (simp add: st1_def)
  have "length (take (room st) (drop (4 + room st) dp)) = room st1" using assms(2) same_file_sel(1) [OF st1] by simp
  from entry_data_ok [OF assms(1) this] obtain st' where
    "entry_data L host os f tag type count (take (room st) (drop (4 + room st) dp)) st1 = Cont () st'" "same_file st1 st'" by blast
  then show ?thesis using assms(2) same_file_trans [OF st1] by (simp add: ReadEntry_def Let_def tag_def type_def count_def st1_def)
qed

lemma ReadEntries_ok:
  assumes "documented L" "n * (4 + 2 * room st) \<le> length dp"
  shows "\<exists>st'. ReadEntries L host os f n dp st = Cont () st' \<and> same_file st st'"
  using assms(2)
proof (induction n arbitrary: dp st)
  case (Suc n)
  then obtain st1 where st1: "ReadEntry L host os f dp st = Cont (drop (4 + 2 * room st) dp) st1" "same_file st st1"
    using ReadEntry_ok [OF assms(1), of st dp host os f] by auto
  have "n * (4 + 2 * room st1) \<le> length (drop (4 + 2 * room st) dp)"
    using Suc.prems same_file_sel(1) [OF st1(2)] by simp
  from Suc.IH [OF this] show ?case using st1 same_file_trans by auto
qed simp

text \<open>A result inside what C defines, after which the reader is in the same file.\<close>

fun defined_in :: "td \<Rightarrow> 'a trun \<Rightarrow> bool" where
  "defined_in st (Cont a st') = same_file st st'"
| "defined_in st (Died st') = True"
| "defined_in st (Stray st') = False"

lemma defined_Fatal [simp]: "defined_in st (Fatal f s st')" "defined_in st (ReadError f s st')"
  by (simp_all add: Fatal_def ReadError_def)

lemma defined_after:
  assumes "defined_in st r" "\<And>a st'. r = Cont a st' \<Longrightarrow> same_file st st' \<Longrightarrow> defined_in st (g a st')"
  shows "defined_in st (after r g)"
  using assms by (cases r) auto

lemma read_dircount_ok:
  assumes "read_dircount L host f st = Cont (Some (n, k)) st'"
  shows "same_file st st' \<and> unat k = 4 + 2 * room st \<and> unat (ucast n * k :: 32 word) = unat n * unat k"
proof -
  have n: "unat n < 65536" using unsigned_less [of n] by simp
  have u: "unat (ucast n :: 32 word) = unat n" using n by (simp add: unsigned_ucast_eq take_bit_nat_eq_self)
  have "unat (ucast n * w :: 32 word) = unat n * unat w" if "unat w \<le> 20" for w :: "32 word"
  proof -
    have "unat n * unat w \<le> 65536 * 20" using mult_le_mono [of "unat n" 65536 "unat w" 20] n that by simp
    then show ?thesis by (simp add: unat_word_ariths u)
  qed
  from this [of 12] this [of 20] assms same_file_read [of _ st] show ?thesis
    by (auto simp: read_dircount_def ReadError_def Fatal_def room_def Let_def split: if_splits prod.splits)
qed

lemma read_dircount_defined: "defined_in st (read_dircount L host f st)"
  using same_file_read [of _ st] by (auto simp: read_dircount_def Let_def split: prod.splits)

lemma ReadEntries_defined:
  assumes "documented L" "same_file st st1" "n * (4 + 2 * room st) \<le> length dp"
  shows "defined_in st (after (ReadEntries L host os f n dp st1) (\<lambda>_ st2. Cont x st2))"
proof -
  have "n * (4 + 2 * room st1) \<le> length dp" using assms(3) same_file_sel(1) [OF assms(2)] by simp
  then obtain st' where "ReadEntries L host os f n dp st1 = Cont () st'" "same_file st1 st'"
    using ReadEntries_ok [OF assms(1)] by blast
  then show ?thesis using same_file_trans [OF assms(2)] by simp
qed

lemma read_dirmem_ok:
  assumes "documented L" "unat k = 4 + 2 * room st" "unat (ucast n * k :: 32 word) = unat n * unat k"
  shows "defined_in st (read_dirmem L host os f ix off n k st)"
proof -
  obtain m st1 where m: "read_fd (unat (ucast n * k :: 32 word)) st = (m, st1)" by fastforce
  have st1: "same_file st st1" using same_file_read [OF m] by blast
  obtain y st2 where y: "read_next L host st1 = (y, st2)" by fastforce
  have st2: "same_file st st2"
    using y same_file_read [of "room st1" st1] same_file_trans [OF st1] by (auto simp: read_next_def split: prod.splits)
  have d: "length m div unat k * (4 + 2 * room st) \<le> length m"
    using div_times_less_eq_dividend [of "length m" "unat k"] assms(2) by simp
  show ?thesis
  proof (cases "length m = unat n * unat k")
    case True
    then show ?thesis using m y st2 assms ReadEntries_defined [OF assms(1), of st _ "unat n" m host os f y]
      by (simp add: read_dirmem_def Let_def)
  next
    case False
    then show ?thesis using m st1 assms ReadEntries_defined [OF assms(1) _ d, of _ host os f "0 :: 64 word"]
      by (simp add: read_dirmem_def Let_def)
  qed
qed

lemma defined_in_from: "same_file st st1 \<Longrightarrow> defined_in st1 r \<Longrightarrow> defined_in st r"
  by (cases r) (auto intro: same_file_trans)

lemma ReadDirectory_ok:
  assumes "documented L"
  shows "defined_in st (ReadDirectory L host os f ix off st)"
proof (cases "off = 0")
  case False
  obtain r st1 where seek: "lseek (sint off) st = (r, st1)" by fastforce
  have st1: "same_file st st1" using same_file_lseek [OF seek] .
  have "defined_in st1 (after (read_dircount L host f st1) (\<lambda>dc st2.
      case dc of None \<Rightarrow> Cont 0 st2 | Some (n, k) \<Rightarrow> read_dirmem L host os f ix off n k st2))"
  proof (rule defined_after [OF read_dircount_defined])
    fix dc st2 assume dc: "read_dircount L host f st1 = Cont dc st2" "same_file st1 st2"
    have "defined_in st1 (read_dirmem L host os f ix off n k st2)" if "dc = Some (n, k)" for n k
      using read_dircount_ok [OF dc(1) [unfolded that]] same_file_sel(1) [OF dc(2)]
      by (intro defined_in_from [OF dc(2)] read_dirmem_ok [OF assms]) auto
    then show "defined_in st1 (case dc of None \<Rightarrow> Cont 0 st2 | Some (n, k) \<Rightarrow> read_dirmem L host os f ix off n k st2)"
      using dc(2) by (auto split: option.splits)
  qed
  from defined_in_from [OF st1 this] show ?thesis using False seek by (auto simp: ReadDirectory_def)
qed (simp add: ReadDirectory_def)

lemma dump_dirs_ok: "documented L \<Longrightarrow> defined_in st (dump_dirs L host os f visited off st)"
proof (induction L host os f visited off st rule: dump_dirs.induct)
  case (1 L host os f visited off st)
  let ?st = "if visited = [] then st else say [NL] st"
  have d: "defined_in st (ReadDirectory L host os f (word_of_nat (length visited)) off ?st)"
    using ReadDirectory_ok [OF "1.prems"] by (rule defined_in_from [rotated]) simp
  show ?case
  proof (cases "ReadDirectory L host os f (word_of_nat (length visited)) off ?st")
    case (Cont y st1)
    then have "same_file st st1" using d by simp
    with "1.IH" [OF _ _ _ Cont "1.prems"] Cont show ?thesis
      by (subst dump_dirs.simps) (auto intro: defined_in_from)
  qed (use d in \<open>subst dump_dirs.simps, auto\<close>)+
qed

lemma dump_ok:
  assumes "documented L"
  shows "dump L host os f diroff st \<noteq> Stray st'"
proof -
  have dirs: "after r (dump_dirs L host os f []) \<noteq> Stray st'" if "\<And>x. r \<noteq> Stray x" for r
  proof (cases r)
    case (Cont y st1)
    then show ?thesis using dump_dirs_ok [OF assms, of st1 host os f "[]" y] by (cases "dump_dirs L host os f [] y st1") auto
  qed (use that in auto)
  have "read_classic L host f magic diroff st1 \<noteq> Stray x" "read_big L host f magic diroff st1 \<noteq> Stray x" for magic st1 x
    by (simp_all add: read_classic_def read_big_def ReadError_def Fatal_def Let_def split: prod.splits)
  then have "read_rest L host f magic v diroff st1 \<noteq> Stray x" for magic v st1 x by (simp add: read_rest_def Fatal_def)
  then show ?thesis
    by (auto simp: dump_def ReadError_def Fatal_def Let_def intro!: dirs split: prod.splits)
qed

lemma dump_files_ok:
  assumes "documented L"
  shows "\<exists>out' err' n. dump_files L host fs appname os diroff files out err = Exit out' err' n"
  using dump_ok [OF assms] by (induction files arbitrary: out err) (auto split: sum.splits trun.splits)


text \<open>A library as it is documented, with two of the tags.\<close>

definition sample_libtiff :: libtiff where
  "sample_libtiff =
     \<lparr>TIFF_BIGENDIAN = 0x4D4D, TIFF_LITTLEENDIAN = 0x4949, MDI_BIGENDIAN = 0x4550, MDI_LITTLEENDIAN = 0x5045,
      type_no = (\<lambda>t. word_of_nat (type_index t)),
      tag_no = (\<lambda>m. if m = ''TIFFTAG_IMAGEWIDTH'' then 256 else if m = ''TIFFTAG_IMAGELENGTH'' then 257 else 0),
      TIFFSwabShort = rev, TIFFSwabLong = rev, TIFFSwabLong8 = rev,
      TIFFSwabArrayOfShort = map_items 2 rev, TIFFSwabArrayOfLong = map_items 4 rev, TIFFSwabArrayOfLong8 = map_items 8 rev,
      TIFFmalloc = (\<lambda>n. 0 < n)\<rparr>"

lemma sample_documented: "documented sample_libtiff"
  by (simp add: documented_def sample_libtiff_def)


text \<open> C37: how much of the data of an entry is read and printed.  Although the size of the data is a 64-bit product that may wrap
  around, the number of items is exactly the least of the count in the entry, the option \<open>-m\<close> and what fits into 65536
  bytes; the size is their exact product with the width of the type, never more than 65536; and the mark for cut
  data is set exactly when items are left out.\<close>

theorem shown_data_bounded:
  "\<exists>cut c datasize. data_limit items count (typewidth type) = Some (cut, c, datasize) \<and>
     unat c = min (unat items)
       (if unat count * unat (typewidth type) \<le> 65536 then unat count else 65536 div unat (typewidth type)) \<and>
     unat datasize = unat c * unat (typewidth type) \<and> unat datasize \<le> 65536 \<and> (cut \<longleftrightarrow> unat c < unat count)"
  using data_limit_exact [of items count "typewidth type"] by auto

end
