(* ===== verification/Tiffdump_Order.thy ===== *)
theory Tiffdump_Order
  imports Tiffdump_Facts
begin

text \<open>
  The byte order of the machine does not matter: a run with swapping on is, but for the flag, a
  run without swapping on a machine that has the byte order of the file.
\<close>

section \<open>Numbers\<close>

lemma load_rev: "load (\<not> b) (rev m) = load b m"
  by (simp add: load_def)

lemma load_one: "length m = 1 \<Longrightarrow> load host m = load b m"
  by (cases m) (simp_all add: load_def)

lemma load_swabbed:
  assumes "\<And>m. length m = k \<Longrightarrow> f m = rev m" "length m = k"
  shows "load host (swabbed (host \<noteq> b) f m) = load b m"
  using assms load_rev [of b m] by (cases host; cases b) (auto simp: swabbed_def)

text \<open>The state without the flag.\<close>

definition unflag :: "td \<Rightarrow> td" where
  "unflag st = st\<lparr>swabflag := False\<rparr>"

fun unflag_run :: "'a trun \<Rightarrow> 'a trun" where
  "unflag_run (Cont a st) = Cont a (unflag st)"
| "unflag_run (Died st) = Died (unflag st)"
| "unflag_run (Stray st) = Stray (unflag st)"

lemma unflag_simps [simp]:
  "unflag (say s st) = say s (unflag st)" "unflag (vError f s st) = vError f s (unflag st)" "room (unflag st) = room st"
  "bigtiff (unflag st) = bigtiff st" "swabflag (unflag st) = False" "tout (unflag st) = tout st" "terr (unflag st) = terr st"
  "unflag (st\<lparr>fpos := n\<rparr>) = (unflag st)\<lparr>fpos := n\<rparr>" "fpos (unflag st) = fpos st" "fdata (unflag st) = fdata st"
  "unflag (st\<lparr>bigtiff := c\<rparr>) = (unflag st)\<lparr>bigtiff := c\<rparr>" "unflag (st\<lparr>swabflag := d\<rparr>) = unflag st"
  by (simp_all add: unflag_def say_def vError_def room_def)

lemma unflag_Fatal [simp]: "unflag_run (Fatal f s st) = Fatal f s (unflag st)" "unflag_run (ReadError f s st) = ReadError f s (unflag st)"
  by (simp_all add: Fatal_def ReadError_def)

lemma unflag_io:
  "lseek off (unflag st) = map_prod id unflag (lseek off st)" "read_fd n (unflag st) = map_prod id unflag (read_fd n st)"
  by (simp_all add: lseek_def read_fd_def Let_def)

lemma unflag_fetch: "fetch_data L f tag off ds (unflag st) = map_prod id unflag (fetch_data L f tag off ds st)"
  by (simp add: fetch_data_def Let_def unflag_io split: prod.splits)

lemma unflag_after:
  assumes "unflag_run r = r'" "\<And>a st. r = Cont a st \<Longrightarrow> unflag_run (g a st) = g' a (unflag st)"
  shows "unflag_run (after r g) = after r' g'"
  using assms by (cases r) auto

lemma dir_short_order:
  assumes "documented L" "swabflag st = (host \<noteq> b)" "length m = 2"
  shows "dir_short L host st m = dir_short L b (unflag st) m"
  using assms load_swabbed [of 2 "TIFFSwabShort L" m host b]
  by (simp add: dir_short_def load16_def documented_def) (simp add: swabbed_def)

lemma dir_long_order:
  assumes "documented L" "swabflag st = (host \<noteq> b)" "length m = 4"
  shows "dir_long L host st m = dir_long L b (unflag st) m"
  using assms load_swabbed [of 4 "TIFFSwabLong L" m host b]
  by (simp add: dir_long_def load32_def documented_def) (simp add: swabbed_def)

lemma dir_number_order:
  assumes "documented L" "swabflag st = (host \<noteq> b)" "length m = room st"
  shows "dir_number L host st m = dir_number L b (unflag st) m"
  using assms load_swabbed [of 8 "TIFFSwabLong8 L" m host b] dir_long_order [of L st host b m]
  by (cases "bigtiff st"; simp add: dir_number_def load64_def documented_def room_def) (simp_all add: swabbed_def)

section \<open>Data\<close>

lemma print_items_append:
  "length a = w \<Longrightarrow> print_items w f sep (Suc n) (a @ r) = map_option (\<lambda>s. sep @ f a @ s) (print_items w f '' '' n r)"
  by simp

lemma print_map_items:
  assumes "\<And>x. length x = w \<Longrightarrow> length (g x) = w \<and> f (g x) = f' x" "n * w \<le> length m"
  shows "print_items w f sep n (map_items w g n (take (n * w) m) @ drop (n * w) m) = print_items w f' sep n m"
  using assms(2)
proof (induction n arbitrary: m sep)
  case (Suc n)
  have l: "length (take w m) = w" "n * w \<le> length (drop w m)" using Suc.prems by simp_all
  note g = assms(1) [OF l(1)]
  have "map_items w g (Suc n) (take (Suc n * w) m) @ drop (Suc n * w) m =
      g (take w m) @ map_items w g n (take (n * w) (drop w m)) @ drop (n * w) (drop w m)"
    by (simp add: drop_take add.commute)
  also have "print_items w f sep (Suc n) \<dots> = map_option (\<lambda>s. sep @ f (g (take w m)) @ s) (print_items w f' '' '' n (drop w m))"
    using print_items_append [of "g (take w m)" w] g Suc.IH [OF l(2)] by simp
  also have "\<dots> = print_items w f' sep (Suc n) m" using print_items_append [OF l(1), of f' sep n "drop w m"] g by simp
  finally show ?case .
qed simp

lemma print_same_items:
  assumes "\<And>x. length x = w \<Longrightarrow> f x = f' x" "n * w \<le> length m"
  shows "print_items w f sep n m = print_items w f' sep n m"
  using assms(2)
proof (induction n arbitrary: m sep)
  case (Suc n)
  then show ?case using assms(1) [of "take w m"] by simp
qed simp

text \<open>Two halves swapped on their own.\<close>

definition rev_halves :: "string \<Rightarrow> string" where
  "rev_halves x = rev (take 4 x) @ rev (drop 4 x)"

lemma rev_items_halves: "n * 8 \<le> length m \<Longrightarrow> rev_items 4 (n * 2) m = map_items 8 rev_halves n m"
proof (induction n arbitrary: m)
  case (Suc n)
  have "drop 4 (take 8 m) = take 4 (drop 4 m)" by (simp add: drop_take)
  with Suc show ?case by (simp add: rev_halves_def numeral_eq_Suc)
qed simp

lemma rational_order:
  assumes "length x = 8"
  shows "length (rev_halves x) = 8 \<and> rational (\<not> b) (rev_halves x) = rational b x" "srational (\<not> b) (rev_halves x) = srational b x"
  using assms load_rev [of b "take 4 x"] load_rev [of b "drop 4 x"]
  by (simp_all add: rev_halves_def rational_def srational_def load32_def)

lemma swab_array_items:
  assumes "documented L" "n * w \<le> length m" "(w, f) \<in> {(2, TIFFSwabArrayOfShort L), (4, TIFFSwabArrayOfLong L), (8, TIFFSwabArrayOfLong8 L)}"
  shows "swab_array w f n m = Some (rev_items w n (take (n * w) m) @ drop (n * w) m)"
proof -
  have "length x = n * w \<Longrightarrow> f n x = rev_items w n x" for x using assms(1,3) by (auto simp: documented_def)
  then show ?thesis using swab_array_ok [OF assms(2)] by blast
qed

text \<open>Items of \<open>w\<close> bytes, swapped and printed by a machine of the other byte order.\<close>

lemma print_swabbed_items:
  assumes "documented L" "n * w \<le> length m" "(w, f) \<in> {(2, TIFFSwabArrayOfShort L), (4, TIFFSwabArrayOfLong L), (8, TIFFSwabArrayOfLong8 L)}"
    "\<And>x. h (rev x) = h' x"
  shows "\<exists>m'. swab_array w f n m = Some m' \<and> print_items w h [] n m' = print_items w h' [] n m"
  using swab_array_items [OF assms(1-3)] print_map_items [of w rev h h' n m "[]"] assms(2,4) by auto

lemma print_swabbed_pairs:
  assumes "documented L" "n * 8 \<le> length m" "\<And>x. length x = 8 \<Longrightarrow> h (rev_halves x) = h' x"
  shows "\<exists>m'. swab_array 4 (TIFFSwabArrayOfLong L) (n * 2) m = Some m' \<and> print_items 8 h [] n m' = print_items 8 h' [] n m"
proof -
  have e: "n * 2 * 4 = n * 8" by simp
  have "swab_array 4 (TIFFSwabArrayOfLong L) (n * 2) m = Some (rev_items 4 (n * 2) (take (n * 8) m) @ drop (n * 8) m)"
    using swab_array_items [OF assms(1), of "n * 2" 4 m "TIFFSwabArrayOfLong L"] assms(2) unfolding e by simp
  moreover have "rev_items 4 (n * 2) (take (n * 8) m) = map_items 8 rev_halves n (take (n * 8) m)"
    using rev_items_halves [of n "take (n * 8) m"] assms(2) by simp
  ultimately show ?thesis
    using print_map_items [of 8 rev_halves h h' n m "[]"] assms(2,3) rational_order(1) by auto
qed

lemma print_swab:
  assumes "documented L" "n * type_width t \<le> length m"
  shows "\<exists>m'. swab_data L t n m = Some m' \<and> print_data (\<not> b) hex t n m' = print_data b hex t n m"
proof -
  have one: "print_items 1 (\<lambda>x. h (load (\<not> b) x)) [] n m = print_items 1 (\<lambda>x. h (load b x)) [] n m" if "n \<le> length m" for h :: "nat \<Rightarrow> string"
    by (rule print_same_items) (use that load_one [of _ "\<not> b" b] in auto)
  have two: "\<exists>m'. swab_array 2 (TIFFSwabArrayOfShort L) n m = Some m' \<and>
      print_items 2 (\<lambda>x. h (load (\<not> b) x)) [] n m' = print_items 2 (\<lambda>x. h (load b x)) [] n m" if "n * 2 \<le> length m" for h :: "nat \<Rightarrow> string"
    by (rule print_swabbed_items [OF assms(1) that]) (use load_rev in auto)
  have four: "\<exists>m'. swab_array 4 (TIFFSwabArrayOfLong L) n m = Some m' \<and>
      print_items 4 (\<lambda>x. h (load (\<not> b) x)) [] n m' = print_items 4 (\<lambda>x. h (load b x)) [] n m" if "n * 4 \<le> length m" for h :: "nat \<Rightarrow> string"
    by (rule print_swabbed_items [OF assms(1) that]) (use load_rev in auto)
  have eight: "\<exists>m'. swab_array 8 (TIFFSwabArrayOfLong8 L) n m = Some m' \<and>
      print_items 8 (\<lambda>x. h (load (\<not> b) x)) [] n m' = print_items 8 (\<lambda>x. h (load b x)) [] n m" if "n * 8 \<le> length m" for h :: "nat \<Rightarrow> string"
    by (rule print_swabbed_items [OF assms(1) that]) (use load_rev in auto)
  show ?thesis
  proof (cases t)
    case T_RATIONAL
    then show ?thesis using assms print_swabbed_pairs [OF assms(1), of n m "rational (\<not> b)" "rational b"] rational_order
      by (simp add: datawidth_def)
  next
    case T_SRATIONAL
    then show ?thesis using assms print_swabbed_pairs [OF assms(1), of n m "srational (\<not> b)" "srational b"] rational_order
      by (simp add: datawidth_def)
  next
    case T_SSHORT
    then show ?thesis
      using assms two [of "\<lambda>k. if hex then alt_hex 0 k else show_int (sint (word_of_nat k :: 16 word))"] by (cases hex) (simp_all add: datawidth_def load16_def)
  next
    case T_SLONG
    then show ?thesis
      using assms four [of "\<lambda>k. if hex then alt_hex 0 k else show_int (sint (word_of_nat k :: 32 word))"] by (cases hex) (simp_all add: datawidth_def load32_def)
  next
    case T_SLONG8
    then show ?thesis
      using assms eight [of "\<lambda>k. show_int (sint (word_of_nat k :: 64 word))"] by (simp add: datawidth_def load64_def)
  next
    case T_SBYTE
    then show ?thesis
      using assms one [of "\<lambda>k. show_int (sint (word_of_nat k :: 8 word))"] by (simp add: datawidth_def)
  qed (use assms one [of "alt_hex 2"] two [of "\<lambda>k. if hex then alt_hex 0 k else show_nat k"]
         four [of "\<lambda>k. if hex then alt_hex 0 k else show_nat k"] four [of "alt_hex 4"] four [of show_float32]
         eight [of show_nat] eight [of "alt_hex 8"] eight [of show_float64] in \<open>auto simp: datawidth_def\<close>)
qed

lemma show_data_order:
  assumes "documented L" "data_there L type c m"
  shows "show_data L host hex (host \<noteq> b) type c m = show_data L b hex False type c m"
proof (cases "host = b \<or> type_case L type = None")
  case True
  then show ?thesis by (auto simp: show_data_def PrintData_def)
next
  case False
  then obtain t where t: "type_case L type = Some t" "host = (\<not> b)" by auto
  have i: "unat type = type_index t" "type_index t < length datawidth"
    using documented_type [OF assms(1) t(1)] typed_width [OF assms(1) t(1)] by auto
  then have l: "unat c * type_width t \<le> length m" using assms(2) by (simp add: data_there_def)
  have "unat c < 2 ^ 32" using assms(2) t(1) by (auto simp: data_there_def)
  then have u: "unat (ucast c :: 32 word) = unat c" by (simp add: unsigned_ucast_eq take_bit_nat_eq_self)
  show ?thesis using print_swab [OF assms(1) l, of b hex] t u by (auto simp: show_data_def PrintData_def)
qed

section \<open>Directories\<close>

lemma show_entry_order:
  assumes "documented L" "swabflag st = (host \<noteq> b)" "\<forall>x. m = Some x \<longrightarrow> data_there L type c x"
  shows "unflag_run (show_entry L host os type tr c m st) = show_entry L b os type tr c m (unflag st)"
proof (cases m)
  case (Some x)
  then have "show_data L host (hex_mode os) (swabflag st) type c x = show_data L b (hex_mode os) False type c x"
    using show_data_order [OF assms(1), of type c x host "hex_mode os" b] assms(2,3) by simp
  then show ?thesis using Some by (simp add: show_entry_def split: option.splits)
qed (simp add: show_entry_def)

lemma entry_data_order:
  assumes "documented L" "swabflag st = (host \<noteq> b)" "length inside = room st"
  shows "unflag_run (entry_data L host os f tag type count inside st) = entry_data L b os f tag type count inside (unflag st)"
proof -
  let ?out = "data_outside (word_of_nat (room st)) count (typewidth type)"
  obtain tr c ds where lim: "data_limit (maxitems os) count (typewidth type) = Some (tr, c, ds)"
    and st: "\<forall>m st1. (if ?out then fetch_data L f tag (dir_number L host st inside) ds st else (Some inside, st)) = (m, st1) \<longrightarrow>
      same_file st st1 \<and> (\<forall>x. m = Some x \<longrightarrow> data_there L type c x) \<and>
      entry_data L host os f tag type count inside st = show_entry L host os type tr c m st1"
    using entry_data_steps [OF assms(1,3), of os count type f tag host] by blast
  obtain m st1 where m: "(if ?out then fetch_data L f tag (dir_number L host st inside) ds st else (Some inside, st)) = (m, st1)"
    by fastforce
  with st have st1: "same_file st st1" "\<forall>x. m = Some x \<longrightarrow> data_there L type c x"
      "entry_data L host os f tag type count inside st = show_entry L host os type tr c m st1" by blast+
  have "(if ?out then fetch_data L f tag (dir_number L b (unflag st) inside) ds (unflag st) else (Some inside, unflag st)) = (m, unflag st1)"
    using m dir_number_order [OF assms] unflag_fetch by (auto split: if_splits)
  then have "entry_data L b os f tag type count inside (unflag st) = show_entry L b os type tr c m (unflag st1)"
    using lim by (simp add: entry_data_def show_entry_def split: option.splits)
  moreover have "unflag_run (show_entry L host os type tr c m st1) = show_entry L b os type tr c m (unflag st1)"
    by (rule show_entry_order [OF assms(1) _ st1(2)]) (simp add: same_file_sel(4) [OF st1(1)] assms(2))
  ultimately show ?thesis using st1(3) by simp
qed

lemma ReadEntry_order:
  assumes "documented L" "swabflag st = (host \<noteq> b)"
  shows "unflag_run (ReadEntry L host os f dp st) = ReadEntry L b os f dp (unflag st)"
proof (cases "length dp < 4 + 2 * room st")
  case True
  then show ?thesis by (simp add: ReadEntry_def Let_def)
next
  case False
  have h: "dir_short L host st (take 2 dp) = dir_short L b (unflag st) (take 2 dp)"
    "dir_short L host st (take 2 (drop 2 dp)) = dir_short L b (unflag st) (take 2 (drop 2 dp))"
    "dir_number L host st (take (room st) (drop 4 dp)) = dir_number L b (unflag st) (take (room st) (drop 4 dp))"
    using False by (auto intro!: dir_short_order dir_number_order assms)
  have "unflag_run (entry_data L host os f tag type count (take (room st) (drop (4 + room st) dp)) (say s st)) =
      entry_data L b os f tag type count (take (room st) (drop (4 + room st) dp)) (say s (unflag st))" for tag type count s
    using entry_data_order [OF assms(1), of "say s st" host b "take (room st) (drop (4 + room st) dp)"] assms(2) False
      same_file_sel(1,4) [of st "say s st"] by simp
  with False show ?thesis by (simp add: ReadEntry_def Let_def h) (rule unflag_after, simp_all)
qed

lemma ReadEntries_order:
  assumes "documented L" "swabflag st = (host \<noteq> b)" "n * (4 + 2 * room st) \<le> length dp"
  shows "unflag_run (ReadEntries L host os f n dp st) = ReadEntries L b os f n dp (unflag st)"
  using assms(2,3)
proof (induction n arbitrary: dp st)
  case (Suc n)
  have l: "4 + 2 * room st \<le> length dp" using Suc.prems(2) by simp
  have "unflag_run (ReadEntries L host os f n dp' st') = ReadEntries L b os f n dp' (unflag st')"
    if "ReadEntry L host os f dp st = Cont dp' st'" for dp' st'
  proof -
    have e: "dp' = drop (4 + 2 * room st) dp" "same_file st st'" using ReadEntry_ok [OF assms(1) l, of host os f] that by auto
    have "swabflag st' = (host \<noteq> b)" using Suc.prems(1) same_file_sel(4) [OF e(2)] by simp
    moreover have "n * (4 + 2 * room st') \<le> length dp'" using Suc.prems(2) e(1) same_file_sel(1) [OF e(2)] by simp
    ultimately show ?thesis by (rule Suc.IH)
  qed
  then show ?case by (simp add: unflag_after [OF ReadEntry_order [OF assms(1) Suc.prems(1)]])
qed simp

lemma read_dircount_order:
  assumes "documented L" "swabflag st = (host \<noteq> b)"
  shows "unflag_run (read_dircount L host f st) = read_dircount L b f (unflag st)"
proof (cases "bigtiff st")
  case True
  obtain m st1 where m: "read_fd 8 st = (m, st1)" by fastforce
  show ?thesis
  proof (cases "length m = 8")
    case l: True
    have "dir_number L host st m = dir_number L b (unflag st) m" using dir_number_order [OF assms] True l by (simp add: room_def)
    then show ?thesis using True l m by (simp add: read_dircount_def unflag_io Let_def)
  qed (use True m in \<open>simp add: read_dircount_def unflag_io\<close>)
next
  case False
  obtain m st1 where m: "read_fd 2 st = (m, st1)" by fastforce
  show ?thesis
  proof (cases "length m = 2")
    case l: True
    have "dir_short L host st m = dir_short L b (unflag st) m" using dir_short_order [OF assms] l by simp
    then show ?thesis using False l m by (simp add: read_dircount_def unflag_io)
  qed (use False m in \<open>simp add: read_dircount_def unflag_io\<close>)
qed

lemma read_next_order:
  assumes "documented L" "swabflag st = (host \<noteq> b)"
  shows "read_next L b (unflag st) = map_prod id unflag (read_next L host st)"
proof -
  obtain m st1 where m: "read_fd (room st) st = (m, st1)" by fastforce
  have "dir_number L host st (if length m \<noteq> room st then replicate (room st) NUL else m) =
      dir_number L b (unflag st) (if length m \<noteq> room st then replicate (room st) NUL else m)"
    by (rule dir_number_order [OF assms]) simp
  then show ?thesis using m by (simp add: read_next_def unflag_io)
qed

lemma read_dirmem_order:
  assumes "documented L" "swabflag st = (host \<noteq> b)" "unat k = 4 + 2 * room st" "unat (ucast n * k :: 32 word) = unat n * unat k"
  shows "unflag_run (read_dirmem L host os f ix off n k st) = read_dirmem L b os f ix off n k (unflag st)"
proof -
  obtain m st1 where m: "read_fd (unat (ucast n * k :: 32 word)) st = (m, st1)" by fastforce
  have st1: "same_file st st1" using same_file_read [OF m] by blast
  obtain y st2 where y: "read_next L host st1 = (y, st2)" by fastforce
  have f1: "swabflag st1 = (host \<noteq> b)" using same_file_sel(4) [OF st1] assms(2) by simp
  have y': "read_next L b (unflag st1) = (y, unflag st2)" using read_next_order [OF assms(1) f1] y by simp
  have st2: "same_file st st2"
    using y same_file_read [of "room st1" st1] same_file_trans [OF st1] by (auto simp: read_next_def split: prod.splits)
  have entries: "unflag_run (after (ReadEntries L host os f j m s) (\<lambda>_ s1. Cont x s1)) =
      after (ReadEntries L b os f j m (unflag s)) (\<lambda>_ s1. Cont x s1)"
    if "same_file st s" "j * (4 + 2 * room st) \<le> length m" for j s and x :: "64 word"
  proof (rule unflag_after [OF ReadEntries_order [OF assms(1)]])
    show "swabflag s = (host \<noteq> b)" using same_file_sel(4) [OF that(1)] assms(2) by simp
    show "j * (4 + 2 * room s) \<le> length m" using that(2) same_file_sel(1) [OF that(1)] by simp
  qed simp
  have d: "length m div unat k * (4 + 2 * room st) \<le> length m"
    using div_times_less_eq_dividend [of "length m" "unat k"] assms(3) by simp
  show ?thesis
  proof (cases "length m = unat n * unat k")
    case True
    then show ?thesis using m y y' st2 assms(3,4) by (simp add: read_dirmem_def Let_def unflag_io entries)
  next
    case False
    then show ?thesis using m st1 assms(3,4) d by (simp add: read_dirmem_def Let_def unflag_io entries)
  qed
qed

lemma ReadDirectory_order:
  assumes "documented L" "swabflag st = (host \<noteq> b)"
  shows "unflag_run (ReadDirectory L host os f ix off st) = ReadDirectory L b os f ix off (unflag st)"
proof -
  obtain r st1 where seek: "lseek (sint off) st = (r, st1)" by fastforce
  have st1: "same_file st st1" using same_file_lseek [OF seek] .
  have f1: "swabflag st1 = (host \<noteq> b)" using same_file_sel(4) [OF st1] assms(2) by simp
  have "unflag_run (after (read_dircount L host f st1) (\<lambda>dc st2.
      case dc of None \<Rightarrow> Cont 0 st2 | Some (n, k) \<Rightarrow> read_dirmem L host os f ix off n k st2)) =
    after (read_dircount L b f (unflag st1)) (\<lambda>dc st2.
      case dc of None \<Rightarrow> Cont 0 st2 | Some (n, k) \<Rightarrow> read_dirmem L b os f ix off n k st2)"
  proof (rule unflag_after [OF read_dircount_order [OF assms(1) f1]])
    fix dc st2 assume dc: "read_dircount L host f st1 = Cont dc st2"
    have s2: "same_file st1 st2" using read_dircount_defined [of st1 L host f] dc by simp
    have "unflag_run (read_dirmem L host os f ix off n k st2) = read_dirmem L b os f ix off n k (unflag st2)" if "dc = Some (n, k)" for n k
      using read_dircount_ok [OF dc [unfolded that]] same_file_sel(1,4) [OF s2] f1
      by (intro read_dirmem_order [OF assms(1)]) auto
    then show "unflag_run (case dc of None \<Rightarrow> Cont 0 st2 | Some (n, k) \<Rightarrow> read_dirmem L host os f ix off n k st2) =
        (case dc of None \<Rightarrow> Cont 0 (unflag st2) | Some (n, k) \<Rightarrow> read_dirmem L b os f ix off n k (unflag st2))"
      by (auto split: option.splits)
  qed
  then show ?thesis using seek by (simp add: ReadDirectory_def unflag_io)
qed

lemma dump_dirs_order:
  "documented L \<Longrightarrow> swabflag st = (host \<noteq> b) \<Longrightarrow>
     unflag_run (dump_dirs L host os f visited off st) = dump_dirs L b os f visited off (unflag st)"
proof (induction L host os f visited off st rule: dump_dirs.induct)
  case (1 L host os f visited off st)
  let ?st = "if visited = [] then st else say [NL] st"
  have fl: "swabflag ?st = (host \<noteq> b)" "same_file st ?st" using "1.prems"(2) same_file_sel(4) [of st "say [NL] st"] by auto
  have n: "unflag ?st = (if visited = [] then unflag st else say [NL] (unflag st))" by simp
  note rd = ReadDirectory_order [OF "1.prems"(1) fl(1), of os f "word_of_nat (length visited)" off, unfolded n]
  note eqs = dump_dirs.simps [of L host os f visited off st] dump_dirs.simps [of L b os f visited off "unflag st"]
  show ?case
  proof (cases "ReadDirectory L host os f (word_of_nat (length visited)) off ?st")
    case (Cont y st1)
    have "defined_in ?st (ReadDirectory L host os f (word_of_nat (length visited)) off ?st)"
      by (rule ReadDirectory_ok [OF "1.prems"(1)])
    then have "swabflag st1 = (host \<noteq> b)" unfolding Cont using same_file_sel(4) [of ?st st1] fl(1) by simp
    note ih = "1.IH" [OF _ _ _ Cont "1.prems"(1) this]
    from Cont rd have "ReadDirectory L b os f (word_of_nat (length visited)) off (if visited = [] then unflag st else say [NL] (unflag st)) =
        Cont y (unflag st1)" by simp
    then show ?thesis using Cont ih
      by (simp add: eqs)
  next
    case (Died st1)
    with rd [symmetric] show ?thesis by (simp add: eqs)
  next
    case (Stray st1)
    with rd [symmetric] show ?thesis by (simp add: eqs)
  qed
qed

section \<open>Files\<close>

lemma magic_bytes:
  assumes "length hdr = 4" "take 2 hdr = ''II'' \<or> take 2 hdr = ''MM''"
  shows "load16 host (take 2 hdr) = (if take 2 hdr = ''MM'' then 0x4D4D else 0x4949)"
  using assms(2) by (auto simp: load16_def load_def)

text \<open>A file of either byte order.\<close>

definition tiff_file :: "string \<Rightarrow> bool" where
  "tiff_file m \<longleftrightarrow> take 2 m = ''II'' \<or> take 2 m = ''MM''"

lemma read_rest_order:
  assumes "documented L" "swabflag st = (host \<noteq> b)"
  shows "unflag_run (read_rest L host f magic v diroff st) = read_rest L b f magic v diroff (unflag st)"
proof -
  have "unflag_run (read_classic L host f magic diroff st) = read_classic L b f magic diroff (unflag st)"
  proof -
    obtain m st1 where m: "read_fd 4 st = (m, st1)" by fastforce
    have st1: "same_file st st1" using same_file_read [OF m] by blast
    show ?thesis
    proof (cases "length m = 4")
      case True
      have "dir_long L host st1 m = dir_long L b (unflag st1) m"
        by (rule dir_long_order) (use True assms same_file_sel(4) [OF st1] in auto)
      then show ?thesis using m True by (simp add: read_classic_def unflag_io Let_def)
    qed (use m in \<open>simp add: read_classic_def unflag_io\<close>)
  qed
  moreover have "unflag_run (read_big L host f magic diroff st) = read_big L b f magic diroff (unflag st)"
  proof -
    obtain m st1 where m: "read_fd 12 st = (m, st1)" by fastforce
    have st1: "same_file st st1" using same_file_read [OF m] by blast
    let ?s = "st1\<lparr>bigtiff := True\<rparr>"
    have fl: "swabflag ?s = (host \<noteq> b)" using same_file_sel(4) [OF st1] assms(2) by simp
    show ?thesis
    proof (cases "length m = 12")
      case True
      have "dir_number L host ?s (drop 4 m) = dir_number L b (unflag ?s) (drop 4 m)"
        by (rule dir_number_order [OF assms(1) fl]) (simp add: room_def True)
      moreover have "dir_short L host ?s x = dir_short L b (unflag ?s) x" if "length x = 2" for x
        by (rule dir_short_order [OF assms(1) fl that])
      ultimately show ?thesis using m True by (simp add: read_big_def unflag_io Let_def)
    qed (use m in \<open>simp add: read_big_def unflag_io\<close>)
  qed
  ultimately show ?thesis by (simp add: read_rest_def)
qed

lemma read_rest_flag: "read_rest L host f magic v diroff st = Cont y st' \<Longrightarrow> swabflag st' = swabflag st"
  by (auto simp: read_rest_def read_classic_def read_big_def ReadError_def Fatal_def read_fd_def Let_def say_def split: if_splits)

lemma dump_order:
  assumes "documented L" "tiff_file (fdata st)" "b = (take 2 (fdata st) = ''MM'')"
  shows "unflag_run (dump L host os f diroff st) = unflag_run (dump L b os f diroff st)"
proof -
  let ?hdr = "take 4 (fdata st)"
  define st1 where "st1 = st\<lparr>fpos := length ?hdr\<rparr>"
  have rd: "read_fd 4 (snd (lseek 0 st)) = (?hdr, st1)" by (simp add: read_fd_def lseek_def st1_def)
  show ?thesis
  proof (cases "length ?hdr = 4")
    case True
    define mg :: "16 word" where "mg = (if b then 0x4D4D else 0x4949)"
    have m: "load16 h (take 2 ?hdr) = mg" for h
      using magic_bytes [OF True, of h] assms(2,3) by (simp add: tiff_file_def mg_def)
    have magic: "good_magic L mg" "swab_for L h mg = (h \<noteq> b)" for h
      using assms(1) by (auto simp: documented_def good_magic_def swab_for_def mg_def)
    have l2: "length (drop 2 ?hdr) = 2" using True by simp
    define sh where "sh = (\<lambda>h. st1\<lparr>swabflag := (h \<noteq> b)\<rparr>)"
    have sh: "swabflag (sh h) = (h \<noteq> b)" "unflag (sh h) = unflag st1" for h by (simp_all add: sh_def)
    define ver where "ver = dir_short L b (unflag st1) (drop 2 ?hdr)"
    have v: "dir_short L h (sh h) (drop 2 ?hdr) = ver" for h
      using dir_short_order [OF assms(1) sh(1) l2, of h] sh(2) by (simp add: ver_def)
    have dump: "dump L h os f diroff st = after (read_rest L h f mg ver diroff (sh h)) (dump_dirs L h os f [])" for h
      using rd True m magic v [of h] by (simp add: dump_def Let_def sh_def)
    have "unflag_run (dump L h os f diroff st) = after (read_rest L b f mg ver diroff (unflag st1)) (dump_dirs L b os f [])" for h
      unfolding dump
    proof (rule unflag_after)
      show "unflag_run (read_rest L h f mg ver diroff (sh h)) = read_rest L b f mg ver diroff (unflag st1)"
        unfolding sh(2) [of h, symmetric] by (rule read_rest_order [OF assms(1) sh(1)])
      fix y st2 assume "read_rest L h f mg ver diroff (sh h) = Cont y st2"
      then have "swabflag st2 = (h \<noteq> b)" using read_rest_flag sh(1) by metis
      then show "unflag_run (dump_dirs L h os f [] y st2) = dump_dirs L b os f [] y (unflag st2)"
        by (rule dump_dirs_order [OF assms(1)])
    qed
    then show ?thesis by simp
  next
    case False
    then show ?thesis unfolding dump_def rd prod.case by (simp only: if_True not_False_eq_True simp_thms)
  qed
qed

lemma unflag_eq: "unflag s = unflag t \<Longrightarrow> tout s = tout t \<and> terr s = terr t"
  by (metis td.select_convs(3,4) td.surjective td.update_convs(5) unflag_def)

lemma same_output:
  fixes g :: "string \<Rightarrow> string \<Rightarrow> 'b"
  assumes "unflag_run r = unflag_run r'"
  shows "(case r of Cont _ st \<Rightarrow> g (tout st) (terr st) | Died st \<Rightarrow> h (tout st) (terr st) | Stray st \<Rightarrow> k (tout st)) =
    (case r' of Cont _ st \<Rightarrow> g (tout st) (terr st) | Died st \<Rightarrow> h (tout st) (terr st) | Stray st \<Rightarrow> k (tout st))"
  using assms by (cases r; cases r') (auto dest!: unflag_eq)

lemma dump_files_order:
  assumes "documented L" "\<And>f m. fs f = Inr m \<Longrightarrow> tiff_file m"
  shows "dump_files L True fs appname os diroff files out err = dump_files L False fs appname os diroff files out err"
proof (induction files arbitrary: out err)
  case (Cons f files)
  show ?case
  proof (cases "fs f")
    case (Inr m)
    have "unflag_run (dump L True os f diroff st) = unflag_run (dump L False os f diroff st)" if "fdata st = m" for st
    proof -
      have "tiff_file (fdata st)" using assms(2) [OF Inr] that by simp
      from dump_order [OF assms(1) this refl, of True] dump_order [OF assms(1) this refl, of False]
      show ?thesis by (rule trans [OF _ sym])
    qed
    then show ?thesis
      unfolding dump_files.simps Inr sum.case Cons.IH by (intro same_output) simp
  qed simp
qed simp

text \<open> C36: the output does not depend on the byte order of the machine.  For files that begin with \<open>II\<close> or
  \<open>MM\<close>, whatever follows, \<open>tiffdump\<close> prints the same text, reports the same errors and exits with
  the same status on a big-endian and on a little-endian machine.\<close>

theorem byte_order_irrelevant:
  assumes "documented L" "\<And>f m. fs f = Inr m \<Longrightarrow> tiff_file m"
  shows "tiff_main L True fs appname args = tiff_main L False fs appname args"
  using dump_files_order [OF assms] by (simp add: tiff_main_def split: option.splits)

theorem byte_order_irrelevant_witness:
  "documented sample_libtiff \<and> tiff_file (''II*'' @ [NUL, CHR 0x08, NUL, NUL, NUL, CHR 0x01]) \<and>
   tiff_main sample_libtiff True (\<lambda>f. Inr (''II*'' @ [NUL, CHR 0x08, NUL, NUL, NUL, CHR 0x01])) ''tiffdump'' [''a.tif''] =
   tiff_main sample_libtiff False (\<lambda>f. Inr (''II*'' @ [NUL, CHR 0x08, NUL, NUL, NUL, CHR 0x01])) ''tiffdump'' [''a.tif'']"
proof -
  have t: "tiff_file (''II*'' @ [NUL, CHR 0x08, NUL, NUL, NUL, CHR 0x01])" by (simp add: tiff_file_def)
  then have "tiff_main sample_libtiff True (\<lambda>f. Inr (''II*'' @ [NUL, CHR 0x08, NUL, NUL, NUL, CHR 0x01])) ''tiffdump'' [''a.tif''] =
     tiff_main sample_libtiff False (\<lambda>f. Inr (''II*'' @ [NUL, CHR 0x08, NUL, NUL, NUL, CHR 0x01])) ''tiffdump'' [''a.tif'']"
    by (intro byte_order_irrelevant [OF sample_documented]) simp
  then show ?thesis using t sample_documented by blast
qed

end
