(* ===== verification/Tiffdump_Encode.thy ===== *)
theory Tiffdump_Encode
  imports Tiffdump_Order
begin

text \<open>
  What a TIFF file means and what \<open>tiffdump\<close> prints of it: files with a chain of directories are
  encoded in either byte order, and the text printed is that of the directories.
\<close>

section \<open>Writing numbers\<close>

fun le_bytes :: "nat \<Rightarrow> nat \<Rightarrow> string" where
  "le_bytes 0 n = []"
| "le_bytes (Suc w) n = char_of (n mod 256) # le_bytes w (n div 256)"

definition put :: "bool \<Rightarrow> nat \<Rightarrow> nat \<Rightarrow> string" where
  "put b w n = (if b then rev (le_bytes w n) else le_bytes w n)"

lemma length_le_bytes [simp]: "length (le_bytes w n) = w"
  by (induction w arbitrary: n) auto

lemma length_put [simp]: "length (put b w n) = w"
  by (simp add: put_def)

lemma le_val_bytes: "n < 256 ^ w \<Longrightarrow> le_val (le_bytes w n) = n"
  by (induction w arbitrary: n) (auto simp: less_mult_imp_div_less mult.commute)

lemma load_put: "n < 256 ^ w \<Longrightarrow> load b (put b w n) = n"
  by (simp add: load_def put_def le_val_bytes)

section \<open>Encoding directories\<close>

text \<open>An entry: a tag with one number of 16 or of 32 bits.\<close>

datatype field = Short "16 word" | Long "32 word"

fun encode_entry :: "bool \<Rightarrow> 16 word \<times> field \<Rightarrow> string" where
  "encode_entry b (tag, Short v) = put b 2 (unat tag) @ put b 2 3 @ put b 4 1 @ put b 2 (unat v) @ [NUL, NUL]"
| "encode_entry b (tag, Long v) = put b 2 (unat tag) @ put b 2 4 @ put b 4 1 @ put b 4 (unat v)"

type_synonym tiff_dir = "(16 word \<times> field) list"

definition dir_size :: "tiff_dir \<Rightarrow> nat" where
  "dir_size d = 12 * length d + 6"

definition next_dir :: "nat \<Rightarrow> tiff_dir \<Rightarrow> tiff_dir list \<Rightarrow> nat" where
  "next_dir off d ds = (if ds = [] then 0 else off + dir_size d)"

fun encode_dirs :: "bool \<Rightarrow> nat \<Rightarrow> tiff_dir list \<Rightarrow> string" where
  "encode_dirs b off [] = []"
| "encode_dirs b off (d # ds) =
     put b 2 (length d) @ concat (map (encode_entry b) d) @ put b 4 (next_dir off d ds) @
     encode_dirs b (off + dir_size d) ds"

definition encode_tiff :: "bool \<Rightarrow> tiff_dir list \<Rightarrow> string" where
  "encode_tiff b ds = (if b then ''MM'' else ''II'') @ put b 2 42 @ put b 4 8 @ encode_dirs b 8 ds"

text \<open>The file has a directory, none of them is empty or has too many entries, and offsets fit into 32 bits.\<close>

definition encodable :: "tiff_dir list \<Rightarrow> bool" where
  "encodable ds \<longleftrightarrow> ds \<noteq> [] \<and> (\<forall>d \<in> set ds. d \<noteq> [] \<and> length d < 65536) \<and> 8 + sum_list (map dir_size ds) < 2 ^ 32"

text \<open>The text of a directory.\<close>

fun field_text :: "field \<Rightarrow> string" where
  "field_text (Short v) = '' SHORT (3) 1<'' @ show_nat (unat v) @ ''>'' @ [NL]"
| "field_text (Long v) = '' LONG (4) 1<'' @ show_nat (unat v) @ ''>'' @ [NL]"

definition entry_text :: "libtiff \<Rightarrow> 16 word \<times> field \<Rightarrow> string" where
  "entry_text L e = PrintTag L (fst e) @ field_text (snd e)"

definition offset_text :: "nat \<Rightarrow> string" where
  "offset_text n = show_nat n @ '' ('' @ alt_hex 0 n @ '')''"

fun dirs_text :: "libtiff \<Rightarrow> nat \<Rightarrow> nat \<Rightarrow> tiff_dir list \<Rightarrow> string" where
  "dirs_text L i off [] = []"
| "dirs_text L i off (d # ds) =
     (if i = 0 then [] else [NL]) @
     ''Directory '' @ show_nat i @ '': offset '' @ offset_text off @ '' next '' @ offset_text (next_dir off d ds) @ [NL] @
     concat (map (entry_text L) d) @ dirs_text L (Suc i) (off + dir_size d) ds"

definition tiff_text :: "libtiff \<Rightarrow> bool \<Rightarrow> tiff_dir list \<Rightarrow> string" where
  "tiff_text L b ds =
     (if b then ''Magic: 0x4d4d <big-endian> Version: 0x2a <ClassicTIFF>''
      else ''Magic: 0x4949 <little-endian> Version: 0x2a <ClassicTIFF>'') @ [NL] @ dirs_text L 0 8 ds"

section \<open>Reading numbers back\<close>

lemma dir_short_put:
  assumes "documented L" "swabflag st = (host \<noteq> b)" "n < 65536"
  shows "dir_short L host st (put b 2 n) = word_of_nat n"
  using dir_short_order [OF assms(1,2), of "put b 2 n"] load_put [of n 2 b] assms(3)
  by (simp add: dir_short_def load16_def swabbed_def)

lemma dir_long_put:
  assumes "documented L" "swabflag st = (host \<noteq> b)" "n < 2 ^ 32"
  shows "dir_long L host st (put b 4 n) = word_of_nat n"
proof -
  have "dir_long L host st (put b 4 n) = ucast (word_of_nat n :: 32 word)"
    using dir_long_order [OF assms(1,2), of "put b 4 n"] load_put [of n 4 b] assms(3)
    by (simp add: dir_long_def load32_def swabbed_def)
  also have "\<dots> = word_of_nat n"
    using assms(3) by (simp add: word_unat_eq_iff unsigned_ucast_eq unsigned_of_nat take_bit_nat_eq_self)
  finally show ?thesis .
qed

lemma dir_number_put:
  assumes "documented L" "swabflag st = (host \<noteq> b)" "\<not> bigtiff st" "n < 2 ^ 32"
  shows "dir_number L host st (put b 4 n) = word_of_nat n"
  using dir_long_put [OF assms(1,2,4)] assms(3) by (simp add: dir_number_def)

section \<open>An entry\<close>

lemma length_encode_entry [simp]: "length (encode_entry b e) = 12"
  by (cases e; cases "snd e") auto

text \<open>The options without option arguments.\<close>

abbreviation no_opts :: td_opts where
  "no_opts \<equiv> \<lparr>hex_mode = False, maxitems = 24\<rparr>"

lemma one_item:
  "data_limit 24 1 (typewidth 3) = Some (False, 1, 2)" "data_limit 24 1 (typewidth 4) = Some (False, 1, 4)"
  "\<not> data_outside 4 1 (typewidth 3)" "\<not> data_outside 4 1 (typewidth 4)"
  by code_simp+

lemma case_number:
  assumes "documented L"
  shows "type_case L 3 = Some T_SHORT" "type_case L 4 = Some T_LONG"
  using assms by (simp_all add: type_case_def documented_def all_types_def)

lemma print_one: "w \<le> length m \<Longrightarrow> print_items w f [] (Suc 0) m = Some (f (take w m))"
  by simp

lemma data_put:
  assumes "documented L"
  shows "show_data L host False (host \<noteq> b) 3 1 (put b 2 (unat (v :: 16 word)) @ [NUL, NUL]) = Some (show_nat (unat v))"
    and "show_data L host False (host \<noteq> b) 4 1 (put b 4 (unat (u :: 32 word))) = Some (show_nat (unat u))"
proof -
  have v: "unat v < 65536" and u: "unat u < 4294967296" using unsigned_less [of v] unsigned_less [of u] by simp_all
  have "data_there L 3 1 (put b 2 (unat v) @ [NUL, NUL])" "data_there L 4 1 (put b 4 (unat u))"
    using case_number [OF assms] by (simp_all add: data_there_def datawidth_def)
  note o = this [THEN show_data_order [OF assms]]
  show "show_data L host False (host \<noteq> b) 3 1 (put b 2 (unat v) @ [NUL, NUL]) = Some (show_nat (unat v))"
    unfolding o(1) using case_number [OF assms] v load_put [of "unat v" 2 b]
    by (simp add: show_data_def PrintData_def print_one del: print_items.simps)
  show "show_data L host False (host \<noteq> b) 4 1 (put b 4 (unat u)) = Some (show_nat (unat u))"
    unfolding o(2) using case_number [OF assms] u load_put [of "unat u" 4 b]
    by (simp add: show_data_def PrintData_def print_one del: print_items.simps)
qed

lemma ReadEntry_put:
  assumes "documented L" "swabflag st = (host \<noteq> b)" "\<not> bigtiff st"
  shows "ReadEntry L host no_opts f (encode_entry b e @ rest) st = Cont rest (say (entry_text L e) st)"
proof -
  obtain tag fl where e: "e = (tag, fl)" by fastforce
  have t: "dir_short L host st (put b 2 (unat tag)) = tag"
    using dir_short_put [OF assms(1,2), of "unat tag"] unsigned_less [of tag] by simp
  have n: "dir_number L host st (put b 4 (Suc 0)) = 1" using dir_number_put [OF assms, of 1] by simp
  have ty: "dir_short L host st (put b 2 3) = 3" "dir_short L host st (put b 2 4) = 4"
    using dir_short_put [OF assms(1,2)] by simp_all
  have r: "room st = 4" "room (st\<lparr>tout := x\<rparr>) = 4" for x using assms(3) by (simp_all add: room_def)
  have names: "PrintType 3 = ''SHORT (3)''" "PrintType 4 = ''LONG (4)''" "show_nat (Suc 0) = ''1''" by code_simp+
  show ?thesis
    unfolding e using assms(2)
    by (cases fl) (simp_all add: ReadEntry_def Let_def r t n ty names entry_data_def one_item
        data_put [OF assms(1), simplified] entry_text_def
        say_def)
qed

section \<open>A directory and the chain of directories\<close>

lemma ReadEntries_put:
  assumes "documented L" "swabflag st = (host \<noteq> b)" "\<not> bigtiff st"
  shows "ReadEntries L host no_opts f (length d) (concat (map (encode_entry b) d)) st =
    Cont () (say (concat (map (entry_text L) d)) st)"
  using assms(2,3)
proof (induction d arbitrary: st)
  case (Cons e d)
  then show ?case by (simp add: ReadEntry_put [OF assms(1)] say_def)
qed (simp add: say_def)

lemma length_entries: "length (concat (map (encode_entry b) d)) = 12 * length d"
  by (induction d) auto

lemma length_encode_dirs: "length (encode_dirs b off ds) = sum_list (map dir_size ds)"
  by (induction ds arbitrary: off) (auto simp: length_entries dir_size_def)

text \<open>The number of bytes of a directory, at the widths of the program.\<close>

lemma dir_bytes:
  assumes "n < 65536"
  shows "unat (ucast (word_of_nat n :: 16 word) * 12 :: 32 word) = 12 * n"
    and "unat (TIFFSafeMultiply (ucast (word_of_nat n :: 16 word)) 12 :: 32 word) = 12 * n"
proof -
  have u: "unat (ucast (word_of_nat n :: 16 word) :: 32 word) = n"
    using assms by (simp add: unsigned_ucast_eq unsigned_of_nat take_bit_nat_eq_self)
  show "unat (ucast (word_of_nat n :: 16 word) * 12 :: 32 word) = 12 * n"
    using assms by (simp add: unat_word_ariths(2) u)
  show "unat (TIFFSafeMultiply (ucast (word_of_nat n :: 16 word)) 12 :: 32 word) = 12 * n"
    using assms by (simp add: safe_multiply u)
qed

lemma read_at:
  assumes "drop p (fdata st) = x @ rest" "length x = n"
  shows "read_fd n (st\<lparr>fpos := p\<rparr>) = (x, st\<lparr>fpos := p + n\<rparr>) \<and> drop (p + n) (fdata st) = rest"
proof -
  have "drop (p + n) (fdata st) = drop n (drop p (fdata st))" by (simp add: add.commute)
  then show ?thesis using assms by (simp add: read_fd_def)
qed

lemma small_offset:
  assumes "0 < n" "n < 2 ^ 32"
  shows "sint (word_of_nat n :: 64 word) = int n \<and> unat (word_of_nat n :: 64 word) = n \<and> (word_of_nat n :: 64 word) \<noteq> 0"
proof -
  have u: "unat (word_of_nat n :: 64 word) = n" using assms by (simp add: unsigned_of_nat take_bit_nat_eq_self)
  have "uint (word_of_nat n :: 64 word) = int n" using u by (metis uint_nat)
  then have "sint (word_of_nat n :: 64 word) = int n" using assms by (simp add: sint_uint signed_take_bit_int_eq_self)
  moreover have "(word_of_nat n :: 64 word) \<noteq> 0" using u assms(1) by (metis unat_eq_zero less_irrefl)
  ultimately show ?thesis using u by blast
qed

lemma ReadDirectory_put:
  assumes "documented L" "\<And>n. 0 < n \<Longrightarrow> TIFFmalloc L n" "swabflag st = (host \<noteq> b)" "\<not> bigtiff st"
    and d: "d \<noteq> []" "length d < 65536" and off: "0 < off" "off < 2 ^ 32" "next_dir off d ds < 2 ^ 32"
    and data: "drop off (fdata st) = put b 2 (length d) @ concat (map (encode_entry b) d) @ put b 4 (next_dir off d ds) @ rest"
  shows "\<exists>p. ReadDirectory L host no_opts f ix (word_of_nat off) st =
    Cont (word_of_nat (next_dir off d ds))
      (say (''Directory '' @ show_nat (unat ix) @ '': offset '' @ offset_text off @ '' next '' @
            offset_text (next_dir off d ds) @ [NL] @ concat (map (entry_text L) d)) (st\<lparr>fpos := p\<rparr>))"
proof -
  let ?n = "length d" and ?es = "concat (map (encode_entry b) d)" and ?nx = "next_dir off d ds"
  have so: "sint (word_of_nat off :: 64 word) = int off" "unat (word_of_nat off :: 64 word) = off" "(word_of_nat off :: 64 word) \<noteq> 0"
    using small_offset [OF off(1,2)] by auto
  have nx: "unat (word_of_nat ?nx :: 64 word) = ?nx" using off(3) by (simp add: unsigned_of_nat take_bit_nat_eq_self)
  define s1 where "s1 = st\<lparr>fpos := off\<rparr>"
  define s2 where "s2 = st\<lparr>fpos := off + 2\<rparr>"
  define s3 where "s3 = st\<lparr>fpos := off + 2 + 12 * ?n\<rparr>"
  define s4 where "s4 = st\<lparr>fpos := off + 2 + 12 * ?n + 4\<rparr>"
  from read_at [OF data] have r1: "read_fd 2 s1 = (put b 2 ?n, s2)" and d1: "drop (off + 2) (fdata st) = ?es @ put b 4 ?nx @ rest"
    by (simp_all add: s1_def s2_def)
  from read_at [OF d1 length_entries] have r2: "read_fd (12 * ?n) s2 = (?es, s3)" and
    d2: "drop (off + 2 + 12 * ?n) (fdata st) = put b 4 ?nx @ rest" by (simp_all add: s2_def s3_def)
  from read_at [OF d2] have r3: "read_fd 4 s3 = (put b 4 ?nx, s4)" by (simp add: s3_def s4_def)
  have fl: "swabflag s = (host \<noteq> b) \<and> \<not> bigtiff s \<and> room s = 4" if "s = s1 \<or> s = s2 \<or> s = s3 \<or> s = s4" for s
    using that assms(3,4) by (auto simp: s1_def s2_def s3_def s4_def room_def)
  have "read_next L host s3 = (word_of_nat ?nx, s4)"
    using r3 dir_number_put [OF assms(1), of s3 host b ?nx] fl [of s3] off(3) by (simp add: read_next_def)
  note rn = this
  have seek: "lseek (int off) st = (int off, s1)" by (simp add: lseek_def s1_def)
  have dc: "read_dircount L host f s1 = Cont (Some (word_of_nat ?n, 12)) s2"
    using r1 fl [of s1] dir_short_put [OF assms(1), of s1 host b ?n] d(2) by (simp add: read_dircount_def)
  have un: "unat (word_of_nat ?n :: 16 word) = ?n" using d(2) by (simp add: unsigned_of_nat take_bit_nat_eq_self)
  have al: "TIFFmalloc L (12 * ?n)" using assms(2) d(1) by simp
  have "ReadDirectory L host no_opts f ix (word_of_nat off) st = read_dirmem L host no_opts f ix (word_of_nat off) (word_of_nat ?n) 12 s2"
    using so by (simp add: ReadDirectory_def seek dc)
  also have "\<dots> = Cont (word_of_nat ?nx)
      (say (''Directory '' @ show_nat (unat ix) @ '': offset '' @ offset_text off @ '' next '' @
            offset_text ?nx @ [NL] @ concat (map (entry_text L) d)) s4)"
    using d(2) al fl [of s4]
    by (simp add: read_dirmem_def dir_bytes [OF d(2)] un r2 rn Let_def length_entries ReadEntries_put [OF assms(1)] say_def
        show_offset_def offset_text_def so nx)
  finally show ?thesis unfolding s4_def by blast
qed

lemma visited_count:
  assumes "n < 2 ^ 31"
  shows "unat (word_of_nat n :: 32 word) = n"
    and "TIFFSafeMultiply (ucast (word_of_nat n + 1 :: 32 word) :: 64 word) 8 \<noteq> 0"
proof -
  show u: "unat (word_of_nat n :: 32 word) = n" using assms by (simp add: unsigned_of_nat take_bit_nat_eq_self)
  have "unat (ucast (word_of_nat n + 1 :: 32 word) :: 64 word) = Suc n"
    using assms u by (simp add: unsigned_ucast_eq unat_word_ariths(1) take_bit_nat_eq_self)
  then have "unat (TIFFSafeMultiply (ucast (word_of_nat n + 1 :: 32 word) :: 64 word) 8) = Suc n * 8"
    using assms by (simp add: safe_multiply)
  then show "TIFFSafeMultiply (ucast (word_of_nat n + 1 :: 32 word) :: 64 word) 8 \<noteq> 0" by (metis unat_0 mult_eq_0_iff nat.simps(3) zero_neq_numeral)
qed

lemma dump_dirs_put:
  assumes "documented L" "\<And>n. 0 < n \<Longrightarrow> TIFFmalloc L n"
  shows "swabflag st = (host \<noteq> b) \<Longrightarrow> \<not> bigtiff st \<Longrightarrow> \<forall>d \<in> set ds. d \<noteq> [] \<and> length d < 65536 \<Longrightarrow>
    off + sum_list (map dir_size ds) < 2 ^ 32 \<Longrightarrow> drop off (fdata st) = encode_dirs b off ds \<Longrightarrow>
    \<forall>v \<in> set visited. unat v < off \<Longrightarrow> 2 * length visited < off \<Longrightarrow>
    \<exists>p. dump_dirs L host no_opts f visited (word_of_nat (if ds = [] then 0 else off)) st =
      Cont () (say (dirs_text L (length visited) off ds) (st\<lparr>fpos := p\<rparr>))"
proof (induction ds arbitrary: off visited st)
  case Nil
  show ?case by (rule exI [of _ "fpos st"]) (simp add: dump_dirs.simps say_def)
next
  case (Cons d ds)
  let ?off = "word_of_nat off :: 64 word" and ?st = "if visited = [] then st else say [NL] st"
  let ?nx = "next_dir off d ds" and ?head = "''Directory '' @ show_nat (length visited) @ '': offset '' @ offset_text off @ '' next '' @
      offset_text (next_dir off d ds) @ [NL] @ concat (map (entry_text L) d)"
  have off: "0 < off" "off < 2 ^ 32" "?nx < 2 ^ 32" using Cons.prems(4,7) by (auto simp: next_dir_def)
  have u: "unat ?off = off" "?off \<noteq> 0" using small_offset [OF off(1,2)] by auto
  have new: "?off \<notin> set visited" using Cons.prems(6) u(1) by fastforce
  have few: "length visited < 2 ^ 31" using Cons.prems(7) off(2) by simp
  have data: "drop off (fdata ?st) = put b 2 (length d) @ concat (map (encode_entry b) d) @ put b 4 ?nx @
      encode_dirs b (off + dir_size d) ds" using Cons.prems(5) by (simp add: say_def)
  have dd: "d \<noteq> []" "length d < 65536" using Cons.prems(3) by auto
  have fl: "swabflag ?st = (host \<noteq> b)" "\<not> bigtiff ?st" using Cons.prems(1,2) by (simp_all add: say_def)
  from ReadDirectory_put [OF assms fl dd off data, of f "word_of_nat (length visited)"] visited_count(1) [OF few]
  obtain p where r: "ReadDirectory L host no_opts f (word_of_nat (length visited)) ?off ?st =
      Cont (word_of_nat ?nx) (say ?head (?st\<lparr>fpos := p\<rparr>))" by auto
  let ?st1 = "say ?head (?st\<lparr>fpos := p\<rparr>)"
  have step: "dump_dirs L host no_opts f visited ?off st = dump_dirs L host no_opts f (visited @ [?off]) (word_of_nat ?nx) ?st1"
    using u(2) new visited_count(2) [OF few] r by (subst dump_dirs.simps) simp
  have nx: "?nx = (if ds = [] then 0 else off + dir_size d)" by (simp add: next_dir_def)
  have "drop (off + dir_size d) (fdata st) = encode_dirs b (off + dir_size d) ds"
  proof -
    have "drop (off + dir_size d) (fdata st) = drop (dir_size d) (drop off (fdata st))" by (simp add: add.commute)
    then show ?thesis using Cons.prems(5) by (simp add: dir_size_def length_entries)
  qed
  then have "\<exists>p. dump_dirs L host no_opts f (visited @ [?off]) (word_of_nat (if ds = [] then 0 else off + dir_size d)) ?st1 =
      Cont () (say (dirs_text L (length (visited @ [?off])) (off + dir_size d) ds) (?st1\<lparr>fpos := p\<rparr>))"
    using Cons.prems u(1) by (intro Cons.IH) (auto simp: say_def dir_size_def)
  then obtain q where "dump_dirs L host no_opts f (visited @ [?off]) (word_of_nat ?nx) ?st1 =
      Cont () (say (dirs_text L (Suc (length visited)) (off + dir_size d) ds) (?st1\<lparr>fpos := q\<rparr>))"
    unfolding nx by auto
  with step show ?case by (intro exI [of _ q]) (simp add: say_def)
qed

section \<open>A file\<close>

lemma dump_put:
  assumes "documented L" "\<And>n. 0 < n \<Longrightarrow> TIFFmalloc L n" "encodable ds" "fdata st = encode_tiff b ds" "\<not> bigtiff st"
  shows "\<exists>p. dump L host no_opts f 0 st = Cont () (say (tiff_text L b ds) (st\<lparr>fpos := p, swabflag := (host \<noteq> b)\<rparr>))"
proof -
  have swap: "st\<lparr>fpos := n, swabflag := x\<rparr> = st\<lparr>swabflag := x, fpos := n\<rparr>" for n x by simp
  let ?mm = "if b then ''MM'' else ''II''" and ?rest = "encode_dirs b 8 ds"
  define mg :: "16 word" where "mg = (if b then 0x4D4D else 0x4949)"
  define s4 where "s4 = st\<lparr>fpos := 4, swabflag := (host \<noteq> b)\<rparr>"
  define s8 where "s8 = st\<lparr>fpos := 8, swabflag := (host \<noteq> b)\<rparr>"
  have data: "drop 0 (fdata st) = (?mm @ put b 2 42) @ put b 4 8 @ ?rest" using assms(4) by (simp add: encode_tiff_def)
  from read_at [OF data, of 4] have r: "read_fd 4 (snd (lseek 0 st)) = (?mm @ put b 2 42, st\<lparr>fpos := 4\<rparr>)" and
    d4: "drop 4 (fdata s4) = put b 4 8 @ ?rest" by (auto simp: lseek_def s4_def)
  from read_at [OF d4, of 4] have r4: "read_fd 4 s4 = (put b 4 8, s8)" and d8: "drop 8 (fdata s8) = ?rest"
    by (auto simp: s4_def s8_def swap)
  have mm: "load16 host ?mm = mg" by (auto simp: load16_def load_def mg_def)
  have magic: "good_magic L mg" "swab_for L host mg = (host \<noteq> b)"
    using assms(1) by (auto simp: documented_def good_magic_def swab_for_def mg_def)
  have fl: "swabflag s4 = (host \<noteq> b)" "swabflag s8 = (host \<noteq> b)" "\<not> bigtiff s8" using assms(5) by (simp_all add: s4_def s8_def)
  have v: "dir_short L host s4 (put b 2 42) = 42" using dir_short_put [OF assms(1) fl(1), of 42] by simp
  have o8: "dir_long L host s8 (put b 4 8) = 8" using dir_long_put [OF assms(1) fl(2), of 8] by simp
  have "dump L host no_opts f 0 st = after (read_classic L host f mg 0 s4) (dump_dirs L host no_opts f [])"
    using r mm magic v by (simp add: dump_def Let_def s4_def read_rest_def)
  also have "\<dots> = dump_dirs L host no_opts f [] 8 (say (magic_line L mg 42 ''ClassicTIFF'') s8)"
    by (simp add: read_classic_def r4 o8 Let_def)
  finally have "dump L host no_opts f 0 st = dump_dirs L host no_opts f [] 8 (say (magic_line L mg 42 ''ClassicTIFF'') s8)" .
  moreover have "\<exists>p. dump_dirs L host no_opts f [] (word_of_nat (if ds = [] then 0 else 8)) (say (magic_line L mg 42 ''ClassicTIFF'') s8) =
      Cont () (say (dirs_text L (length ([] :: 64 word list)) 8 ds) ((say (magic_line L mg 42 ''ClassicTIFF'') s8)\<lparr>fpos := p\<rparr>))"
    using assms(3) fl d8 by (intro dump_dirs_put [OF assms(1,2)]) (auto simp: say_def encodable_def)
  moreover have "alt_hex 0 0x4D4D = ''0x4d4d''" "alt_hex 0 0x4949 = ''0x4949''" "alt_hex 0 42 = ''0x2a''"
    by (simp_all add: alt_hex_def show_hex_def show_base.simps hexchar_def char_of_eq)
  then have "magic_line L mg 42 ''ClassicTIFF'' @ dirs_text L 0 8 ds = tiff_text L b ds"
    using assms(1) by (simp add: magic_line_def mg_def tiff_text_def documented_def)
  ultimately show ?thesis using assms(3) by (auto simp: encodable_def say_def s8_def swap)
qed


definition small_file :: "string \<Rightarrow> string + string" where
  "small_file f = (if f = ''a.tif'' then Inr (encode_tiff True [[(256, Short 640), (257, Long 480)], [(256, Short 1)]]) else Inl ''No such file or directory'')"


end
