(* ===== verification/Ee_Buffer.thy ===== *)
theory Ee_Buffer
  imports Prelude
begin

text \<open>
  The text of the editor \<open>ee\<close> (\<^verbatim>\<open>ee.c\<close>): lines, the cursor and the operations on them.

  The doubly linked list of lines is a zipper: the lines above the current one, nearest first, the current line
  and the lines below.  \<open>line\<close> holds the characters of a line without the NUL behind them, so the C field
  \<open>line_length\<close> is one more than its length.  The pointer \<open>point\<close> is an offset into the current line, apart from \<open>position\<close>,
  which the code keeps beside it and which counts from 1.  What curses is told to draw is left out; the
  column and row of the cursor, which decide where it moves and where lines are broken, are kept.  The mode for
  characters of two bytes (\<open>ee_chinese\<close>, off unless asked for) is not modelled.

  \<open>None\<close> is a store outside of an allocated line, a read of memory that was never written, or a loop that
  has used up the number of rounds written with it.
\<close>

section \<open>State\<close>

record text_line =
  line :: string
  line_number :: int
  max_length :: int

abbreviation line_length :: "text_line \<Rightarrow> int" where
  "line_length t \<equiv> int (length (line t)) + 1"

record ee =
  above :: "text_line list"
  curr_line :: text_line
  below :: "text_line list"
  point :: nat
  position :: int
  scr_pos :: int
  scr_vert :: int
  scr_horz :: int
  absolute_lin :: int
  horiz_offset :: int
  last_line :: int
  COLS :: int
  text_changes :: bool
  formatted :: bool
  auto_format :: bool
  observ_margins :: bool
  right_margin :: int
  expand_tabs :: bool
  eightbit :: bool
  case_sen :: bool
  in_key :: int
  d_char :: "char option"
  d_word :: "string option"
  d_wrd_len :: int
  d_line :: "string option"
  dlt_length :: int
  srch_str :: "string option"
  u_srch_str :: "string option"

abbreviation last_col :: "ee \<Rightarrow> int" where
  "last_col st \<equiv> COLS st - 1"

text \<open>The byte at an offset of the current line; behind its characters there is a NUL.\<close>

definition byte :: "ee \<Rightarrow> nat \<Rightarrow> char" where
  "byte st i = (if i < length (line (curr_line st)) then line (curr_line st) ! i else NUL)"

abbreviation blank :: "char \<Rightarrow> bool" where
  "blank c \<equiv> c = CHR '' '' \<or> c = TAB"

abbreviation at_end :: "ee \<Rightarrow> bool" where
  "at_end st \<equiv> line_length (curr_line st) \<le> position st"

text \<open>A loop with at most \<open>n\<close> rounds.\<close>

primrec while_upto :: "nat \<Rightarrow> ('a \<Rightarrow> bool) \<Rightarrow> ('a \<Rightarrow> 'a option) \<Rightarrow> 'a \<Rightarrow> 'a option" where
  "while_upto 0 b f s = (if b s then None else Some s)"
| "while_upto (Suc n) b f s = (if b s then Option.bind (f s) (while_upto n b f) else Some s)"

primrec times :: "nat \<Rightarrow> ('a \<Rightarrow> 'a option) \<Rightarrow> 'a \<Rightarrow> 'a option" where
  "times 0 f s = Some s"
| "times (Suc n) f s = Option.bind (f s) (times n f)"

section \<open>Columns\<close>

definition tabshift :: "int \<Rightarrow> int" where
  "tabshift temp_int = (let leftover = (temp_int + 1) mod 8 in if leftover = 0 then 1 else 9 - leftover)"

definition len_char :: "bool \<Rightarrow> int \<Rightarrow> int \<Rightarrow> int" where
  "len_char eight character column =
     (if character = 9 then tabshift column
      else if 0 \<le> character \<and> character < 32 then 2
      else if 32 \<le> character \<and> character \<le> 126 then 1
      else if character = 127 then 2
      else if \<not> eight then 5
      else 1)"

text \<open>What \<open>out_char\<close> returns: the width of what it draws.\<close>

definition out_char :: "bool \<Rightarrow> int \<Rightarrow> int \<Rightarrow> int" where
  "out_char eight character column =
     (if character = 9 then tabshift column
      else if 0 \<le> character \<and> character < 32 then 2
      else if character < 0 \<or> 127 \<le> character
      then (if character = 127 then 2
            else if \<not> eight then int (length (''<'' @ show_int (if character < 0 then character + 256 else character) @ ''>''))
            else 1)
      else 1)"

definition scan_step :: "bool \<Rightarrow> int \<Rightarrow> char \<Rightarrow> int" where
  "scan_step eight temp c =
     (if code c \<le> 8 then temp + 2
      else if code c = 9 then temp + tabshift temp
      else if 10 \<le> code c \<and> code c \<le> 31 then temp + 2
      else if 32 \<le> code c \<and> code c < 127 then temp + 1
      else if code c = 127 then temp + 2
      else if \<not> eight then temp + 5
      else temp + 1)"

text \<open>The row that \<open>midscreen\<close> gives the current line.\<close>

definition mid_row :: "int \<Rightarrow> ee \<Rightarrow> int" where
  "mid_row ln st = max 0 (min (min ln (last_line st)) (int (length (above st))))"

text \<open>
  \<open>scanline(point)\<close>.  When the text is moved sideways it calls \<open>midscreen\<close>, which calls it again; with at
  least 8 columns that call finds the column on the screen.
\<close>

definition scanline :: "ee \<Rightarrow> ee" where
  "scanline st =
     (let h = foldl (scan_step (eightbit st)) 0 (take (point st) (line (curr_line st)));
          st1 = st\<lparr>scr_horz := h\<rparr>
      in if last_col st < h - horiz_offset st
         then st1\<lparr>horiz_offset := h - h mod 8 - (COLS st - 8), scr_vert := mid_row (scr_vert st) st\<rparr>
         else if h < horiz_offset st
         then st1\<lparr>horiz_offset := max 0 (h - h mod 8), scr_vert := mid_row (scr_vert st) st\<rparr>
         else st1)"

definition midscreen :: "int \<Rightarrow> ee \<Rightarrow> ee" where
  "midscreen ln st = scanline (st\<lparr>scr_vert := mid_row ln st\<rparr>)"

text \<open>The cursor column becomes the one that vertical moves keep to.\<close>

definition keep_col :: "ee \<Rightarrow> ee" where
  "keep_col st = st\<lparr>scr_pos := scr_horz st\<rparr>"

section \<open>Moving\<close>

text \<open>The links: the next and the previous line become the current one.\<close>

definition to_next :: "ee \<Rightarrow> ee" where
  "to_next st =
     (case below st of [] \<Rightarrow> st
      | t # ts \<Rightarrow> st\<lparr>above := curr_line st # above st, curr_line := t, below := ts\<rparr>)"

definition to_prev :: "ee \<Rightarrow> ee" where
  "to_prev st =
     (case above st of [] \<Rightarrow> st
      | t # ts \<Rightarrow> st\<lparr>above := ts, curr_line := t, below := curr_line st # below st\<rparr>)"

definition nextline :: "ee \<Rightarrow> ee" where
  "nextline st =
     (let st1 = (to_next st)\<lparr>absolute_lin := absolute_lin st + 1, point := 0, position := 1\<rparr>
      in if scr_vert st = last_line st then st1 else st1\<lparr>scr_vert := scr_vert st + 1\<rparr>)"

definition prevline :: "ee \<Rightarrow> ee" where
  "prevline st =
     (let st1 = (to_prev st)\<lparr>absolute_lin := absolute_lin st - 1\<rparr>;
          st2 = (if scr_vert st = 0 then st1 else st1\<lparr>scr_vert := scr_vert st - 1\<rparr>)
      in st2\<lparr>point := length (line (curr_line st2)), position := line_length (curr_line st2)\<rparr>)"

definition ee_left :: "bool \<Rightarrow> ee \<Rightarrow> ee" where
  "ee_left disp st =
     (if point st \<noteq> 0
      then keep_col (scanline (st\<lparr>point := point st - 1, position := position st - 1\<rparr>))
      else if above st \<noteq> []
      then (if \<not> disp
            then let st1 = (to_prev st)\<lparr>absolute_lin := absolute_lin st - 1\<rparr>
                 in st1\<lparr>point := length (line (curr_line st1)) + 1, position := line_length (curr_line st1)\<rparr>
            else keep_col (scanline (prevline (st\<lparr>position := 1\<rparr>))))
      else st)"

definition ee_right :: "bool \<Rightarrow> ee \<Rightarrow> ee" where
  "ee_right disp st =
     (if position st < line_length (curr_line st)
      then keep_col (scanline (st\<lparr>point := point st + 1, position := position st + 1\<rparr>))
      else if below st \<noteq> []
      then (if \<not> disp then (to_next st)\<lparr>absolute_lin := absolute_lin st + 1, point := 0, position := 1\<rparr>
            else let st1 = (nextline st)\<lparr>scr_horz := 0, scr_pos := 0\<rparr>
                 in (if horiz_offset st1 \<noteq> 0 then midscreen (scr_vert st1) (st1\<lparr>horiz_offset := 0\<rparr>) else st1)\<lparr>position := 1\<rparr>)
      else st)"

text \<open>The loop of \<open>find_pos\<close>, which starts at the first character of the line.\<close>

fun find_col :: "ee \<Rightarrow> nat \<Rightarrow> ee" where
  "find_col st 0 = st"
| "find_col st (Suc n) =
     (if scr_horz st < scr_pos st \<and> position st < line_length (curr_line st)
      then let c = byte st (point st);
               w = (if code c = 9 then tabshift (scr_horz st) else if code c < 32 then 2 else 1)
           in find_col (st\<lparr>scr_horz := scr_horz st + w, position := position st + 1, point := point st + 1\<rparr>) n
      else st)"

text \<open>Moving the text sideways, as in \<open>scanline\<close>; here the column counted before stays when nothing is moved.\<close>

definition find_pos :: "ee \<Rightarrow> ee" where
  "find_pos st =
     (let st1 = find_col (st\<lparr>scr_horz := 0, position := 1\<rparr>) (length (line (curr_line st)))
      in if last_col st < scr_horz st1 - horiz_offset st1
         then midscreen (scr_vert st1) (st1\<lparr>horiz_offset := scr_horz st1 - scr_horz st1 mod 8 - (COLS st - 8)\<rparr>)
         else if scr_horz st1 < horiz_offset st1
         then midscreen (scr_vert st1) (st1\<lparr>horiz_offset := max 0 (scr_horz st1 - scr_horz st1 mod 8)\<rparr>)
         else st1)"

definition ee_up :: "ee \<Rightarrow> ee" where
  "ee_up st = (if above st \<noteq> [] then find_pos ((prevline st)\<lparr>point := 0\<rparr>) else st)"

definition ee_down :: "ee \<Rightarrow> ee" where
  "ee_down st = (if below st \<noteq> [] then find_pos (nextline st) else st)"

text \<open>The loops over the lines of \<open>bottom\<close> and \<open>top\<close>.\<close>

definition to_last :: "ee \<Rightarrow> ee" where
  "to_last st = (to_next ^^ length (below st)) st"

definition to_first :: "ee \<Rightarrow> ee" where
  "to_first st = (to_prev ^^ length (above st)) st"

definition ee_bottom :: "ee \<Rightarrow> ee" where
  "ee_bottom st =
     keep_col (midscreen (last_line st)
       ((to_last st)\<lparr>absolute_lin := absolute_lin st + int (length (below st)), point := 0, horiz_offset := 0, position := 1\<rparr>))"

definition ee_top :: "ee \<Rightarrow> ee" where
  "ee_top st =
     keep_col (midscreen 0
       ((to_first st)\<lparr>absolute_lin := absolute_lin st - int (length (above st)), point := 0, horiz_offset := 0, position := 1\<rparr>))"

text \<open>\<open>while (position < curr_line->line_length) right(TRUE);\<close>\<close>

definition to_eol :: "ee \<Rightarrow> ee option" where
  "to_eol st = while_upto (length (line (curr_line st))) (\<lambda>s. position s < line_length (curr_line s)) (\<lambda>s. Some (ee_right True s)) st"

definition eol :: "ee \<Rightarrow> ee option" where
  "eol st =
     (if position st < line_length (curr_line st) then to_eol st
      else if below st \<noteq> [] then to_eol (ee_right True st)
      else Some st)"

definition bol :: "ee \<Rightarrow> ee option" where
  "bol st =
     (if point st \<noteq> 0 then while_upto (length (line (curr_line st))) (\<lambda>s. point s \<noteq> 0) (\<lambda>s. Some (ee_left True s)) st
      else if above st \<noteq> [] then Some (ee_up (st\<lparr>scr_pos := 0\<rparr>))
      else Some st)"

definition adv_line :: "ee \<Rightarrow> ee option" where
  "adv_line st =
     (if point st \<noteq> 0 \<or> 0 < scr_pos st then map_option (ee_right True) (to_eol st)
      else if below st \<noteq> [] then Some (ee_down (st\<lparr>scr_pos := 0\<rparr>))
      else Some st)"

definition adv_word :: "ee \<Rightarrow> ee option" where
  "adv_word st =
     (let n = length (line (curr_line st))
      in Option.bind
           (while_upto n (\<lambda>s. position s < line_length (curr_line s) \<and> \<not> blank (byte s (point s))) (\<lambda>s. Some (ee_right True s)) st)
           (while_upto n (\<lambda>s. position s < line_length (curr_line s) \<and> blank (byte s (point s))) (\<lambda>s. Some (ee_right True s))))"

definition prev_word :: "ee \<Rightarrow> ee option" where
  "prev_word st =
     (if position st \<noteq> 1
      then let n = Suc (length (line (curr_line st)));
               skip = (\<lambda>b. while_upto n (\<lambda>s. position s \<noteq> 1 \<and> blank (byte s (point s)) = b) (\<lambda>s. Some (ee_left True s)))
           in Option.bind (if blank (byte st (point st - 1)) then skip False st else Some st) (\<lambda>s1.
              Option.bind (skip True s1) (\<lambda>s2.
              Option.bind (skip False s2) (\<lambda>s3.
              Some (if position s3 \<noteq> 1 \<and> blank (byte s3 (point s3)) then ee_right True s3 else s3))))
      else Some (ee_left True st))"

text \<open>
  \<open>move_rel\<close>.  Its last part moves on by up to five lines to find how many rows there are and comes back: the
  current line and \<open>point\<close> are restored, \<open>position\<close> and \<open>scr_pos\<close> stay as they were left.
\<close>

definition look_up :: "ee \<Rightarrow> ee" where
  "look_up st =
     (let i = min 5 (length (above st)); s = (ee_up ^^ i) st
      in scanline (s\<lparr>scr_vert := scr_vert s + int i, absolute_lin := absolute_lin s + int i,
                     above := above st, curr_line := curr_line st, below := below st, point := point st\<rparr>))"

definition look_down :: "ee \<Rightarrow> ee" where
  "look_down st =
     (let i = min 5 (length (below st)); s = (ee_down ^^ i) st
      in scanline (s\<lparr>scr_vert := scr_vert s - int i, absolute_lin := absolute_lin s - int i,
                     above := above st, curr_line := curr_line st, below := below st, point := point st\<rparr>))"

definition move_rel :: "bool \<Rightarrow> nat \<Rightarrow> ee \<Rightarrow> ee option" where
  "move_rel upward lines st =
     (if upward
      then map_option (\<lambda>s. let s1 = (ee_up ^^ lines) s in if 5 < last_line s1 \<and> scr_vert s1 < 4 then look_up s1 else s1)
             (while_upto (length (line (curr_line st))) (\<lambda>s. 1 < position s) (\<lambda>s. Some (ee_left True s)) (st\<lparr>scr_pos := 0\<rparr>))
      else map_option (\<lambda>s. let s1 = (ee_down ^^ (lines - 1)) s
                           in if 10 < last_line s1 \<and> last_line s1 - 5 < scr_vert s1 then look_down s1 else s1)
             (if position st \<noteq> 1 \<and> below st \<noteq> []
              then let s = (nextline st)\<lparr>scr_pos := 0, scr_horz := 0\<rparr>
                   in Some (if horiz_offset s \<noteq> 0 then midscreen (scr_vert s) (s\<lparr>horiz_offset := 0\<rparr>) else s)
              else adv_line st))"

end
