(* ===== verification/Ee_Edit.thy ===== *)
theory Ee_Edit
  imports Ee_Buffer
begin

text \<open>
  The editing commands of \<open>ee\<close>: inserting and deleting characters, words and lines, breaking lines at the margin,
  and searching.  Loops that copy bytes are written as the bytes they leave, in terms of both \<open>point\<close> and
  \<open>position\<close> as in the code; stores are checked against the size of the line.
\<close>

section \<open>Inserting\<close>

definition resiz_line :: "int \<Rightarrow> text_line \<Rightarrow> text_line" where
  "resiz_line factor t = t\<lparr>max_length := max_length t + factor\<rparr>"

text \<open>
  The bytes after \<open>insert\<close>: \<open>n\<close> bytes from the cursor on, as many as \<open>position\<close> says there are, move up by
  one.  The byte behind the NUL, which moves with it, is arbitrary.
\<close>

definition insert_at :: "nat \<Rightarrow> nat \<Rightarrow> char \<Rightarrow> string \<Rightarrow> string" where
  "insert_at pt n c l =
     (let m = l @ [NUL, NUL] in take (Suc (length l)) (take pt m @ [c] @ take n (drop pt m) @ drop (pt + n + 1) m))"

definition insert_raw :: "int \<Rightarrow> ee \<Rightarrow> ee option" where
  "insert_raw character st =
     (let t = curr_line st; c = char_of (nat (character mod 256));
          grow = (max_length t - line_length t < 5);
          t1 = (if grow then resiz_line 10 t else t);
          pt = (if grow then nat (position st - 1) else point st);
          n = nat (line_length t + 1 - position st) + 1;
          h = scr_horz st + (if isprint c then 1 else out_char (eightbit st) character (scr_horz st))
      in if int (pt + n) < max_length t1
         then Some (st\<lparr>text_changes := True, curr_line := t1\<lparr>line := insert_at pt n c (line t)\<rparr>,
                       scr_pos := h, scr_horz := h, point := pt + 1, position := position st + 1\<rparr>)
         else None)"

text \<open>The size of a new line after \<open>k\<close> characters have been copied into it.\<close>

fun grown :: "nat \<Rightarrow> int \<Rightarrow> int \<Rightarrow> int" where
  "grown 0 len mx = mx"
| "grown (Suc k) len mx = grown k (len + 1) (if mx - len < 5 then mx + 10 else mx)"

definition insert_line :: "bool \<Rightarrow> ee \<Rightarrow> ee option" where
  "insert_line disp st =
     (let t = curr_line st; k = nat (line_length t - position st);
          moved = take k (drop (point st) (line t));
          t1 = t\<lparr>line := take (nat (position st - 1)) (if k = 0 then line t else (line t)[point st := NUL]),
                 max_length := max_length t - int k\<rparr>;
          nod = \<lparr>line = moved, line_number = line_number t + 1, max_length = grown k 1 10\<rparr>;
          st1 = st\<lparr>text_changes := True, above := t1 # above st, curr_line := nod, absolute_lin := absolute_lin st + 1,
                   position := 1, point := 0\<rparr>;
          st2 = (if scr_vert st < last_line st then st1\<lparr>scr_vert := scr_vert st + 1\<rparr> else st1)\<lparr>scr_pos := 0, scr_horz := 0\<rparr>
      in if max_length t1 < position st \<or> max_length nod < line_length nod then None
         else if \<not> disp then Some st1
         else Some (if horiz_offset st2 \<noteq> 0 then midscreen (scr_vert st2) (st2\<lparr>horiz_offset := 0\<rparr>) else st2))"

text \<open>Breaking the line when the cursor is behind the right margin.\<close>

definition wrap :: "ee \<Rightarrow> ee option" where
  "wrap st =
     (if observ_margins st \<and> right_margin st < scr_pos st
      then Option.bind (while_upto (Suc (length (line (curr_line st)))) (\<lambda>s. right_margin s < scr_pos s) prev_word st) (\<lambda>s.
             if scr_pos s = 0
             then while_upto (length (line (curr_line s))) (\<lambda>u. position u < position st) (\<lambda>u. Some (ee_right True u)) s
             else Option.bind (insert_line True s) (times (nat (position st - position s)) (\<lambda>u. Some (ee_right True u))))
      else Some st)"

text \<open>\<open>insert\<close>; the call of \<open>Auto_Format\<close> is the parameter \<open>af\<close>.\<close>

definition insert_char :: "(ee \<Rightarrow> ee option) \<Rightarrow> int \<Rightarrow> ee \<Rightarrow> ee option" where
  "insert_char af character st =
     Option.bind (insert_raw character st) (\<lambda>s. Option.bind (wrap s) (\<lambda>s.
       let s1 = (if last_col s < scr_horz s - horiz_offset s
                 then midscreen (scr_vert s) (s\<lparr>horiz_offset := horiz_offset s + 8\<rparr>) else s)
       in if auto_format s1 \<and> character = 32 \<and> \<not> formatted s1 then af s1
          else Some (if character \<noteq> 32 \<and> character \<noteq> 9 then s1\<lparr>formatted := False\<rparr> else s1)))"

definition ee_insert :: "(ee \<Rightarrow> ee option) \<Rightarrow> int \<Rightarrow> ee \<Rightarrow> ee option" where
  "ee_insert af character st =
     (if character = 9 \<and> expand_tabs st
      then Option.bind (times (nat (len_char (eightbit st) 9 (scr_horz st))) (insert_char af 32) st)
             (\<lambda>s. if auto_format s then af s else Some s)
      else insert_char af character st)"

section \<open>Deleting\<close>

text \<open>The bytes after a deletion in front of \<open>point\<close>; \<open>n\<close> bytes, counted from \<open>position\<close>, move down.\<close>

definition delete_at :: "nat \<Rightarrow> nat \<Rightarrow> string \<Rightarrow> string" where
  "delete_at pt n l = (let m = l @ [NUL] in take (length l - 1) (take (pt - 1) m @ take n (drop pt m) @ drop (pt - 1 + n) m))"

definition ee_delete :: "bool \<Rightarrow> ee \<Rightarrow> ee option" where
  "ee_delete disp st =
     (if point st \<noteq> 0
      then let t = curr_line st; c = byte st (point st - 1); n = nat (line_length t - position st + 1);
               s1 = st\<lparr>text_changes := True, point := point st - 1, position := position st - 1\<rparr>;
               s2 = keep_col (if code c < 32 \<or> 127 \<le> code c then scanline s1 else s1\<lparr>scr_horz := scr_horz st - 1\<rparr>);
               s3 = s2\<lparr>d_char := (if in_key st = 8 then Some c else d_char st), curr_line := t\<lparr>line := delete_at (point st) n (line t)\<rparr>\<rparr>;
               s4 = (if scr_horz s3 < horiz_offset s3 \<and> 0 < horiz_offset s3
                     then midscreen (scr_vert s3) (s3\<lparr>horiz_offset := horiz_offset s3 - 8\<rparr>) else s3)
           in Some (s4\<lparr>formatted := False\<rparr>)
      else if above st \<noteq> []
      then let s1 = ee_left disp (st\<lparr>text_changes := True\<rparr>);
               pt = nat (position s1 - 1)
           in (case below s1 of
                 [] \<Rightarrow> None
               | nxt # rest \<Rightarrow>
                   let t = resiz_line (line_length nxt) (curr_line s1);
                       t1 = t\<lparr>line := take pt (line t) @ line nxt\<rparr>
                   in if max_length t1 < line_length t1 then None
                      else Some (keep_col (s1\<lparr>point := pt, curr_line := t1, below := rest,
                             d_char := (if in_key st = 8 then Some NL else d_char st), formatted := False\<rparr>)))
      else Some (st\<lparr>formatted := False\<rparr>))"

definition del_char :: "ee \<Rightarrow> ee option" where
  "del_char st =
     (let st1 = st\<lparr>in_key := 8\<rparr>
      in if position st < line_length (curr_line st)
         then ee_delete True (scanline (st1\<lparr>position := position st + 1, point := point st + 1\<rparr>))
         else ee_delete True (ee_right True st1))"

definition undel_char :: "(ee \<Rightarrow> ee option) \<Rightarrow> ee \<Rightarrow> ee option" where
  "undel_char af st =
     (case d_char st of
        None \<Rightarrow> None
      | Some c \<Rightarrow>
          if c = NL then insert_line True st
          else ee_insert af (int (code c)) (st\<lparr>in_key := int (code c)\<rparr>))"

text \<open>What is left of the line, the first \<open>k\<close> bytes from \<open>point\<close>, and the word with the blanks behind it in it.\<close>

definition rest_of_line :: "ee \<Rightarrow> string" where
  "rest_of_line st = take (nat (line_length (curr_line st) - position st)) (drop (point st) (line (curr_line st)))"

definition word_at :: "string \<Rightarrow> string" where
  "word_at r = takeWhile (\<lambda>c. \<not> blank c) r @ takeWhile blank (dropWhile (\<lambda>c. \<not> blank c) r)"

definition del_word :: "ee \<Rightarrow> ee" where
  "del_word st =
     (let t = curr_line st; r = rest_of_line st; w = word_at r; k = length r - length w; m = line t @ [NUL];
          l = take (length (line t) - length w) (take (point st) m @ drop (length w) r @ [NUL] @ drop (point st + k + 1) m)
      in st\<lparr>d_word := Some (w @ [NUL]), d_wrd_len := int (length w), curr_line := t\<lparr>line := l\<rparr>,
            text_changes := True, formatted := False\<rparr>)"

definition undel_word :: "ee \<Rightarrow> ee option" where
  "undel_word st =
     (let t = curr_line st; grow = (max_length t - (line_length t + d_wrd_len st) < 5);
          t1 = (if grow then resiz_line (d_wrd_len st) t else t);
          pt = (if grow then nat (position st - 1) else point st);
          w = (case d_word st of None \<Rightarrow> [] | Some m \<Rightarrow> m); n = nat (d_wrd_len st);
          new = take n w @ rest_of_line (st\<lparr>point := pt\<rparr>)
      in if length w < n \<or> max_length t1 \<le> int (pt + length new) then None
         else Some (st\<lparr>curr_line := t1\<lparr>line := take (length (line t) + n) (take pt (line t) @ new @ [NUL] @ drop (pt + length new + 1) (line t))\<rparr>,
                       point := pt\<rparr>))"

definition del_line :: "ee \<Rightarrow> ee option" where
  "del_line st =
     (let t = curr_line st; r = rest_of_line st;
          st1 = st\<lparr>d_line := Some (r @ [NUL]), dlt_length := 1 + int (length r),
                   curr_line := t\<lparr>line := take (nat (position st - 1)) ((line t)[point st := NUL])\<rparr>\<rparr>
      in map_option (\<lambda>s. s\<lparr>text_changes := True\<rparr>)
           (if below st1 \<noteq> [] then ee_delete False (ee_right False st1) else Some st1))"

definition undel_line :: "ee \<Rightarrow> ee option" where
  "undel_line st =
     (if dlt_length st = 0 then Some st
      else Option.bind (insert_line True st) (\<lambda>s.
        let s1 = ee_left True s; pt = nat (position s1 - 1); t = resiz_line (dlt_length st) (curr_line s1);
            n = nat (dlt_length st - 1); t1 = (\<lambda>m. t\<lparr>line := take pt (line t) @ take n m\<rparr>)
        in (case d_line s1 of
              None \<Rightarrow> None
            | Some m \<Rightarrow>
                if length m < n \<or> max_length t \<le> int (pt + n) then None
                else Some (s1\<lparr>point := pt, curr_line := t1 m\<rparr>))))"

section \<open>Searching\<close>

definition srch_match :: "ee \<Rightarrow> string \<Rightarrow> string \<Rightarrow> bool" where
  "srch_match st pat r = (take (length pat) (if case_sen st then r else map toupper r) = pat)"

text \<open>The number of lines moved and \<open>iter\<close>, the position on the line where the search stops.\<close>

fun srch_below :: "ee \<Rightarrow> string \<Rightarrow> nat \<Rightarrow> text_line list \<Rightarrow> (nat \<times> int) option" where
  "srch_below st pat moved [] = None"
| "srch_below st pat moved (t # ts) =
     (case find (\<lambda>i. srch_match st pat (drop i (line t))) [0..<length (line t)] of
        Some i \<Rightarrow> Some (moved, int i + 1)
      | None \<Rightarrow> srch_below st pat (Suc moved) ts)"

definition srch_from :: "ee \<Rightarrow> string \<Rightarrow> (nat \<times> int) option" where
  "srch_from st pat =
     (case find (\<lambda>i. srch_match st pat (drop (point st + i) (line (curr_line st)))) [1..<nat (line_length (curr_line st) - position st)] of
        Some i \<Rightarrow> Some (0, position st + int i)
      | None \<Rightarrow> srch_below st pat 1 (below st))"

definition rights_to :: "int \<Rightarrow> ee \<Rightarrow> ee option" where
  "rights_to iter st = while_upto (nat iter) (\<lambda>s. position s < iter) (\<lambda>s. Some (ee_right True s)) st"

definition ee_search :: "ee \<Rightarrow> (bool \<times> ee) option" where
  "ee_search st =
     (case srch_str st of
        None \<Rightarrow> Some (False, st)
      | Some str \<Rightarrow>
          if str = [] then Some (False, st)
          else (case map_option (srch_from st) (if case_sen st then Some str else u_srch_str st) of
                  None \<Rightarrow> None
                | Some None \<Rightarrow> Some (False, st)
                | Some (Some (moved, iter)) \<Rightarrow>
                    map_option (Pair True)
                      (if moved = 0 then rights_to iter st
                       else if moved < 30 then Option.bind (move_rel False moved st) (rights_to iter)
                       else let s = (to_next ^^ moved) st\<lparr>absolute_lin := absolute_lin st + int moved\<rparr>
                            in Some (midscreen (last_line s div 2) (keep_col (scanline (s\<lparr>point := nat (iter - 1), position := iter\<rparr>)))))))"

definition search_prompt :: "string \<Rightarrow> ee \<Rightarrow> (bool \<times> ee) option" where
  "search_prompt answer st = ee_search (st\<lparr>srch_str := Some answer, u_srch_str := Some (map toupper answer)\<rparr>)"

text \<open>\<open>goto_line\<close>: the line with a number, the number of steps to it and whether the last of them went down.\<close>

fun goto_up :: "int \<Rightarrow> nat \<Rightarrow> ee \<Rightarrow> nat \<times> ee" where
  "goto_up number 0 s = (0, s)"
| "goto_up number (Suc n) s =
     (if number < line_number (curr_line s) \<and> above s \<noteq> []
      then (case goto_up number n (to_prev s) of (i, s') \<Rightarrow> (Suc i, s')) else (0, s))"

fun goto_down :: "int \<Rightarrow> nat \<Rightarrow> ee \<Rightarrow> nat \<times> ee" where
  "goto_down number 0 s = (0, s)"
| "goto_down number (Suc n) s =
     (if line_number (curr_line s) < number \<and> below s \<noteq> []
      then (case goto_down number n (to_next s) of (i, s') \<Rightarrow> (Suc i, s')) else (0, s))"

definition goto_line :: "string \<Rightarrow> ee \<Rightarrow> ee option" where
  "goto_line cmd_str st =
     (let number = int (digits_val 10 (takeWhile isdigit cmd_str));
          (u, s1) = goto_up number (length (above st)) st;
          (d, s2) = goto_down number (length (below s1)) s1;
          i = u + d; down = (0 < d)
      in if i < 30 \<and> 0 < i then move_rel (\<not> down) i st
         else Some (keep_col (midscreen (last_line st div 2)
                (s2\<lparr>absolute_lin := (if \<not> down then absolute_lin st + int i else absolute_lin st - int i), point := 0, position := 1\<rparr>))))"

section \<open>Keys\<close>

text \<open>
  The commands that talk to the user or the system are parameters: \<open>ask\<close> is what \<open>get_string\<close> returns with the
  key that ended it, \<open>command_prompt\<close>, \<open>menu_op\<close> and \<open>paint_info_win\<close> are functions on the state.
\<close>

record dialogs =
  ask :: "string \<times> int"
  command_prompt :: "ee \<Rightarrow> ee option"
  menu_op :: "ee \<Rightarrow> ee option"
  paint_info_win :: "ee \<Rightarrow> ee option"

definition page :: "ee \<Rightarrow> nat" where
  "page st = nat (max 5 (last_line st - 5))"

text \<open>A character by its number, as \<open>atoi\<close> reads it.\<close>

definition insert_code :: "(ee \<Rightarrow> ee option) \<Rightarrow> dialogs \<Rightarrow> ee \<Rightarrow> ee option" where
  "insert_code af D st =
     (case ask D of (str, k) \<Rightarrow>
        if str = [] then Some (st\<lparr>in_key := k\<rparr>)
        else case atoi str of None \<Rightarrow> None | Some v \<Rightarrow> ee_insert af v (st\<lparr>in_key := v\<rparr>))"

definition asked_search :: "dialogs \<Rightarrow> ee \<Rightarrow> ee option" where
  "asked_search D st = map_option snd (search_prompt (fst (ask D)) (st\<lparr>in_key := snd (ask D)\<rparr>))"

definition control :: "(ee \<Rightarrow> ee option) \<Rightarrow> dialogs \<Rightarrow> ee \<Rightarrow> ee option" where
  "control af D st =
     (let k = in_key st
      in if k = 1 then insert_code af D st
         else if k = 2 then Some (ee_bottom st)
         else if k = 3 then command_prompt D st
         else if k = 4 then Some (ee_down st)
         else if k = 5 then asked_search D st
         else if k = 6 then undel_char af st
         else if k = 7 then bol st
         else if k = 8 then ee_delete True st
         else if k = 10 then insert_line True st
         else if k = 11 then del_char st
         else if k = 12 then Some (ee_left True st)
         else if k = 13 then insert_line True st
         else if k = 14 then move_rel False (page st) st
         else if k = 15 then eol st
         else if k = 16 then move_rel True (page st) st
         else if k = 18 then Some (ee_right True st)
         else if k = 20 then Some (ee_top st)
         else if k = 21 then Some (ee_up st)
         else if k = 22 then undel_word st
         else if k = 23 then Some (del_word st)
         else if k = 24 then map_option snd (ee_search st)
         else if k = 25 then del_line st
         else if k = 26 then undel_line st
         else if k = 27 then menu_op D st
         else Some st)"

definition emacs_control :: "(ee \<Rightarrow> ee option) \<Rightarrow> dialogs \<Rightarrow> ee \<Rightarrow> ee option" where
  "emacs_control af D st =
     (let k = in_key st
      in if k = 1 then bol st
         else if k = 2 then Some (ee_left True st)
         else if k = 3 then command_prompt D st
         else if k = 4 then del_char st
         else if k = 5 then eol st
         else if k = 6 then Some (ee_right True st)
         else if k = 7 then move_rel True (page st) st
         else if k = 8 then ee_delete True st
         else if k = 10 then undel_char af st
         else if k = 11 then del_line st
         else if k = 12 then undel_line st
         else if k = 13 then insert_line True st
         else if k = 14 then Some (ee_down st)
         else if k = 15 then insert_code af D st
         else if k = 16 then Some (ee_up st)
         else if k = 18 then undel_word st
         else if k = 20 then Some (ee_top st)
         else if k = 21 then Some (ee_bottom st)
         else if k = 22 then move_rel False (page st) st
         else if k = 23 then Some (del_word st)
         else if k = 24 then map_option snd (ee_search st)
         else if k = 25 then asked_search D st
         else if k = 26 then adv_word st
         else if k = 27 then menu_op D st
         else Some st)"

text \<open>One round of the loop of \<open>main\<close> for a key below 256.\<close>

definition main_key :: "(ee \<Rightarrow> ee option) \<Rightarrow> dialogs \<Rightarrow> bool \<Rightarrow> int \<Rightarrow> ee \<Rightarrow> ee option" where
  "main_key af D emacs_keys_mode k st =
     (let st = st\<lparr>in_key := k\<rparr>
      in if k = 8 \<or> k = 127 then ee_delete True (st\<lparr>in_key := 8\<rparr>)
         else if 31 < k \<or> k = 9 then ee_insert af k st
         else if 0 \<le> k then (if emacs_keys_mode then emacs_control af D st else control af D st)
         else Some st)"

end
