(* ===== verification/Ee_Moves.thy ===== *)
theory Ee_Moves
  imports Ee_Edit
begin

text \<open>
  Moving never changes the text: for every movement of the cursor the lines and everything beside cursor and screen
  stay, the cursor stays on the text and its line number is right.
\<close>

named_theorems goes_intros

section \<open>What a movement may change\<close>

definition lines :: "ee \<Rightarrow> text_line list" where
  "lines st = rev (above st) @ curr_line st # below st"

text \<open>Everything but text, cursor and screen position.\<close>

definition frame :: "ee \<Rightarrow> ee" where
  "frame st = st\<lparr>above := [], curr_line := \<lparr>line = [], line_number = 0, max_length = 0\<rparr>, below := [], point := 0, position := 0,
     scr_pos := 0, scr_vert := 0, scr_horz := 0, absolute_lin := 0, horiz_offset := 0\<rparr>"

lemma frame_upd [simp]:
  "frame (st\<lparr>above := a\<rparr>) = frame st" "frame (st\<lparr>curr_line := c\<rparr>) = frame st" "frame (st\<lparr>below := b\<rparr>) = frame st"
  "frame (st\<lparr>point := n\<rparr>) = frame st" "frame (st\<lparr>position := i\<rparr>) = frame st" "frame (st\<lparr>scr_pos := i\<rparr>) = frame st"
  "frame (st\<lparr>scr_vert := i\<rparr>) = frame st" "frame (st\<lparr>scr_horz := i\<rparr>) = frame st" "frame (st\<lparr>absolute_lin := i\<rparr>) = frame st"
  "frame (st\<lparr>horiz_offset := i\<rparr>) = frame st"
  by (simp_all add: frame_def)

lemma frame_sel:
  assumes "frame s = frame st"
  shows "last_line s = last_line st" "COLS s = COLS st" "text_changes s = text_changes st" "formatted s = formatted st"
    "auto_format s = auto_format st" "observ_margins s = observ_margins st" "right_margin s = right_margin st"
    "expand_tabs s = expand_tabs st" "eightbit s = eightbit st" "case_sen s = case_sen st" "in_key s = in_key st"
    "d_char s = d_char st" "d_word s = d_word st" "d_wrd_len s = d_wrd_len st" "d_line s = d_line st" "dlt_length s = dlt_length st"
    "srch_str s = srch_str st" "u_srch_str s = u_srch_str st"
proof -
  have "f (frame s) = f (frame st)" for f :: "ee \<Rightarrow> 'b" using assms by simp
  from this [of last_line] this [of COLS] this [of text_changes] this [of formatted] this [of auto_format] this [of observ_margins]
    this [of right_margin] this [of expand_tabs] this [of eightbit] this [of case_sen] this [of in_key] this [of d_char]
    this [of d_word] this [of d_wrd_len] this [of d_line] this [of dlt_length] this [of srch_str] this [of u_srch_str]
  show "last_line s = last_line st" "COLS s = COLS st" "text_changes s = text_changes st" "formatted s = formatted st"
    "auto_format s = auto_format st" "observ_margins s = observ_margins st" "right_margin s = right_margin st"
    "expand_tabs s = expand_tabs st" "eightbit s = eightbit st" "case_sen s = case_sen st" "in_key s = in_key st"
    "d_char s = d_char st" "d_word s = d_word st" "d_wrd_len s = d_wrd_len st" "d_line s = d_line st" "dlt_length s = dlt_length st"
    "srch_str s = srch_str st" "u_srch_str s = u_srch_str st"
    by (simp_all add: frame_def)
qed

text \<open>The two forms of the cursor agree, it is on the line, and the number of lines from the top is right.\<close>

definition cursor_ok :: "ee \<Rightarrow> bool" where
  "cursor_ok st \<longleftrightarrow> position st = int (point st) + 1 \<and> point st \<le> length (line (curr_line st)) \<and>
     absolute_lin st = int (length (above st)) + 1"

definition goes :: "ee \<Rightarrow> ee \<Rightarrow> bool" where
  "goes st s \<longleftrightarrow> lines s = lines st \<and> frame s = frame st \<and> (cursor_ok st \<longrightarrow> cursor_ok s)"

lemma goes_refl [simp, goes_intros]: "goes st st"
  by (simp add: goes_def)

lemma goes_trans: "goes a b \<Longrightarrow> goes b c \<Longrightarrow> goes a c"
  by (simp add: goes_def)

lemma goes_funpow: "(\<And>s. goes s (f s)) \<Longrightarrow> goes st ((f ^^ n) st)"
  by (induction n) (auto intro: goes_trans)

lemma goes_while:
  assumes "while_upto n b f st = Some s" "\<And>u v. f u = Some v \<Longrightarrow> goes u v"
  shows "goes st s"
  using assms(1)
proof (induction n arbitrary: st)
  case (Suc n)
  then show ?case using assms(2) goes_trans by (auto split: if_splits bind_splits) blast
qed (auto split: if_splits)

section \<open>The screen\<close>

definition screen_only :: "ee \<Rightarrow> ee \<Rightarrow> bool" where
  "screen_only st s \<longleftrightarrow> (\<exists>a b c d. s = st\<lparr>scr_pos := a, scr_vert := b, scr_horz := c, horiz_offset := d\<rparr>)"

lemma screen_only_sel:
  assumes "screen_only st s"
  shows "above s = above st" "curr_line s = curr_line st" "below s = below st" "point s = point st" "position s = position st"
    "absolute_lin s = absolute_lin st" "frame s = frame st" "lines s = lines st"
  using assms by (auto simp: screen_only_def lines_def)

lemma screen_only_goes: "screen_only st s \<Longrightarrow> goes st s"
  using screen_only_sel [of st s] by (simp add: goes_def cursor_ok_def)

lemma screen_onlyI: "s = st\<lparr>scr_pos := a, scr_vert := b, scr_horz := c, horiz_offset := d\<rparr> \<Longrightarrow> screen_only st s"
  by (auto simp: screen_only_def)

lemma scanline_screen: "screen_only st (scanline st)"
  by (rule screen_onlyI [where a = "scr_pos st" and b = "scr_vert (scanline st)" and c = "scr_horz (scanline st)" and
      d = "horiz_offset (scanline st)"])
     (simp add: scanline_def Let_def)

lemma keep_col_screen: "screen_only st (keep_col st)"
  by (rule screen_onlyI [where a = "scr_horz st" and b = "scr_vert st" and c = "scr_horz st" and d = "horiz_offset st"]) (simp add: keep_col_def)

lemma midscreen_screen: "screen_only st (midscreen n st)"
  by (rule screen_onlyI [where a = "scr_pos st" and b = "scr_vert (midscreen n st)" and c = "scr_horz (midscreen n st)" and
      d = "horiz_offset (midscreen n st)"])
     (simp add: midscreen_def scanline_def Let_def)

lemmas screen_simps [simp] =
  screen_only_sel [OF scanline_screen] screen_only_sel [OF keep_col_screen] screen_only_sel [OF midscreen_screen]

lemma lines_upd [simp]:
  "lines (st\<lparr>point := n\<rparr>) = lines st" "lines (st\<lparr>position := i\<rparr>) = lines st" "lines (st\<lparr>scr_pos := i\<rparr>) = lines st"
  "lines (st\<lparr>scr_vert := i\<rparr>) = lines st" "lines (st\<lparr>scr_horz := i\<rparr>) = lines st" "lines (st\<lparr>absolute_lin := i\<rparr>) = lines st"
  "lines (st\<lparr>horiz_offset := i\<rparr>) = lines st"
  by (simp_all add: lines_def)

section \<open>Movements\<close>

lemma to_next_lines [simp]: "lines (to_next st) = lines st" "frame (to_next st) = frame st"
  by (auto simp: to_next_def lines_def split: list.splits)

lemma to_prev_lines [simp]: "lines (to_prev st) = lines st" "frame (to_prev st) = frame st"
  by (auto simp: to_prev_def lines_def split: list.splits)

lemma goes_left: "goes st (ee_left True st)"
  by (cases "above st") (auto simp: goes_def ee_left_def prevline_def to_prev_def cursor_ok_def lines_def Let_def)

lemma goes_right: "goes st (ee_right True st)"
  by (cases "below st") (auto simp: goes_def ee_right_def nextline_def to_next_def cursor_ok_def lines_def Let_def)

lemma find_col_goes:
  assumes "position st = int (point st) + 1" "point st \<le> length (line (curr_line st))"
  shows "lines (find_col st n) = lines st \<and> frame (find_col st n) = frame st \<and> above (find_col st n) = above st \<and>
    curr_line (find_col st n) = curr_line st \<and> below (find_col st n) = below st \<and>
    absolute_lin (find_col st n) = absolute_lin st \<and>
    position (find_col st n) = int (point (find_col st n)) + 1 \<and> point (find_col st n) \<le> length (line (curr_line st))"
  using assms by (induction st n rule: find_col.induct) (auto simp: Let_def)

lemma find_pos_goes:
  assumes "point st = 0"
  shows "lines (find_pos st) = lines st \<and> frame (find_pos st) = frame st \<and> above (find_pos st) = above st \<and>
    curr_line (find_pos st) = curr_line st \<and> below (find_pos st) = below st \<and>
    absolute_lin (find_pos st) = absolute_lin st \<and>
    position (find_pos st) = int (point (find_pos st)) + 1 \<and> point (find_pos st) \<le> length (line (curr_line st))"
  using find_col_goes [of "st\<lparr>scr_horz := 0, position := 1\<rparr>" "length (line (curr_line st))"] assms
  by (simp add: find_pos_def Let_def)

lemma goes_up: "goes st (ee_up st)"
proof (cases "above st")
  case (Cons t ts)
  have "point ((prevline st)\<lparr>point := 0\<rparr>) = 0" by simp
  note f = find_pos_goes [OF this]
  show ?thesis using f Cons
    by (simp add: goes_def ee_up_def cursor_ok_def) (auto simp: prevline_def to_prev_def lines_def Let_def)
qed (simp add: ee_up_def)

lemma goes_down: "goes st (ee_down st)"
proof (cases "below st")
  case (Cons t ts)
  have "point (nextline st) = 0" by (simp add: nextline_def Let_def)
  note f = find_pos_goes [OF this]
  show ?thesis using f Cons
    by (simp add: goes_def ee_down_def cursor_ok_def) (auto simp: nextline_def to_next_def lines_def Let_def)
qed (simp add: ee_down_def)

section \<open>Sliding along a line\<close>

text \<open>A move within the current line.\<close>

definition slides :: "ee \<Rightarrow> ee \<Rightarrow> bool" where
  "slides st s \<longleftrightarrow> above s = above st \<and> curr_line s = curr_line st \<and> below s = below st \<and> absolute_lin s = absolute_lin st \<and>
     frame s = frame st \<and> cursor_ok s"

lemma slides_refl: "cursor_ok st \<Longrightarrow> slides st st"
  by (simp add: slides_def)

lemma slides_trans: "slides a b \<Longrightarrow> slides b c \<Longrightarrow> slides a c"
  by (simp add: slides_def)

lemma slides_goes: "slides st s \<Longrightarrow> goes st s"
  by (simp add: slides_def goes_def lines_def)

lemma slides_sel:
  assumes "slides st s"
  shows "above s = above st" "curr_line s = curr_line st" "below s = below st" "frame s = frame st" "cursor_ok s" "byte s = byte st"
  using assms by (auto simp: slides_def byte_def)

text \<open>The column of the cursor.\<close>

definition column :: "ee \<Rightarrow> int" where
  "column st = foldl (scan_step (eightbit st)) 0 (take (point st) (line (curr_line st)))"

definition settled :: "ee \<Rightarrow> bool" where
  "settled st \<longleftrightarrow> scr_pos st = column st \<and> scr_horz st = column st"

lemma settled_scanline [simp]: "settled (keep_col (scanline st))"
  by (simp add: settled_def keep_col_def scanline_def column_def Let_def)

lemma right_slides:
  assumes "cursor_ok st" "point st < length (line (curr_line st))"
  shows "slides st (ee_right True st)" "point (ee_right True st) = point st + 1" "settled (ee_right True st)"
  using assms by (auto simp: slides_def ee_right_def cursor_ok_def)

lemma left_slides:
  assumes "cursor_ok st" "point st \<noteq> 0"
  shows "slides st (ee_left True st)" "point (ee_left True st) = point st - 1" "settled (ee_left True st)"
  using assms by (auto simp: slides_def ee_left_def cursor_ok_def)

lemma while_upto_some:
  assumes "P st" "m st \<le> (n :: nat)"
    and "\<And>s. P s \<Longrightarrow> b s \<Longrightarrow> \<exists>s'. f s = Some s' \<and> P s' \<and> m s' < m s"
  shows "\<exists>s. while_upto n b f st = Some s \<and> P s \<and> \<not> b s"
  using assms(1,2)
proof (induction n arbitrary: st)
  case 0
  then show ?case using assms(3) [of st] by auto
next
  case (Suc n)
  show ?case
  proof (cases "b st")
    case True
    then obtain s' where s': "f st = Some s'" "P s'" "m s' < m st" using assms(3) Suc.prems(1) by blast
    then have "m s' \<le> n" using Suc.prems(2) by simp
    from Suc.IH [OF s'(2) this] show ?thesis using True s'(1) by simp
  qed (use Suc.prems in simp)
qed

lemma rights:
  assumes "cursor_ok st" "length (line (curr_line st)) - point st \<le> n"
    and "\<And>s. slides st s \<Longrightarrow> point st \<le> point s \<Longrightarrow> b s \<Longrightarrow> point s < length (line (curr_line st))"
  shows "\<exists>s. while_upto n b (\<lambda>s. Some (ee_right True s)) st = Some s \<and> slides st s \<and> point st \<le> point s \<and> \<not> b s"
proof (rule exE [OF while_upto_some [where P = "\<lambda>s. slides st s \<and> point st \<le> point s"
      and m = "\<lambda>s. length (line (curr_line st)) - point s" and st = st and n = n and b = b and f = "\<lambda>s. Some (ee_right True s)"]])
  fix s assume s: "slides st s \<and> point st \<le> point s" "b s"
  then have p: "point s < length (line (curr_line s))" using assms(3) slides_sel(2) [of st s] by metis
  show "\<exists>s'. Some (ee_right True s) = Some s' \<and> (slides st s' \<and> point st \<le> point s') \<and>
      length (line (curr_line st)) - point s' < length (line (curr_line st)) - point s"
    using s(1) right_slides(1,2) [OF slides_sel(5) p, of st] slides_trans p slides_sel(2) [of st s] by force
qed (use assms slides_refl in auto)

lemma lefts:
  assumes "cursor_ok st" "point st \<le> n" "\<And>s. slides st s \<Longrightarrow> point s \<le> point st \<Longrightarrow> b s \<Longrightarrow> point s \<noteq> 0"
  shows "\<exists>s. while_upto n b (\<lambda>s. Some (ee_left True s)) st = Some s \<and> slides st s \<and> point s \<le> point st \<and> \<not> b s"
proof (rule exE [OF while_upto_some [where P = "\<lambda>s. slides st s \<and> point s \<le> point st" and m = point and st = st
      and n = n and b = b and f = "\<lambda>s. Some (ee_left True s)"]])
  fix s assume s: "slides st s \<and> point s \<le> point st" "b s"
  then have p: "point s \<noteq> 0" using assms(3) by blast
  show "\<exists>s'. Some (ee_left True s) = Some s' \<and> (slides st s' \<and> point s' \<le> point st) \<and> point s' < point s"
    using s(1) left_slides(1,2) [OF slides_sel(5) p, of st] slides_trans p by force
qed (use assms slides_refl in auto)

section \<open>Commands that move\<close>

lemma to_eol_ok:
  assumes "cursor_ok st"
  shows "\<exists>s. to_eol st = Some s \<and> slides st s \<and> point s = length (line (curr_line st))"
proof -
  have "\<exists>s. to_eol st = Some s \<and> slides st s \<and> point st \<le> point s \<and> \<not> position s < line_length (curr_line s)"
    unfolding to_eol_def by (rule rights [OF assms]) (auto simp: slides_def cursor_ok_def)
  then show ?thesis by (auto simp: slides_def cursor_ok_def)
qed

lemma eol_ok: "cursor_ok st \<Longrightarrow> \<exists>s. eol st = Some s \<and> goes st s"
  using to_eol_ok [of st] to_eol_ok [of "ee_right True st"] goes_right [of st] slides_goes goes_trans
  by (auto simp: eol_def goes_def)

lemma bol_ok: "cursor_ok st \<Longrightarrow> \<exists>s. bol st = Some s \<and> goes st s"
proof (cases "point st = 0")
  case False
  assume c: "cursor_ok st"
  have "\<exists>s. bol st = Some s \<and> slides st s \<and> point s \<le> point st \<and> \<not> point s \<noteq> 0"
    unfolding bol_def if_P [OF False] by (rule lefts) (use c in \<open>auto simp: cursor_ok_def\<close>)
  then show ?thesis using slides_goes by blast
next
  case True
  have "goes st (st\<lparr>scr_pos := 0\<rparr>)" by (simp add: goes_def cursor_ok_def)
  then show ?thesis using True goes_up goes_trans by (auto simp: bol_def)
qed

lemma adv_line_ok: "cursor_ok st \<Longrightarrow> \<exists>s. adv_line st = Some s \<and> goes st s"
proof (cases "point st \<noteq> 0 \<or> 0 < scr_pos st")
  case True
  assume "cursor_ok st"
  then obtain s where "to_eol st = Some s" "slides st s" using to_eol_ok by blast
  then show ?thesis using True goes_trans [OF slides_goes goes_right] by (simp add: adv_line_def)
next
  case False
  have "goes st (st\<lparr>scr_pos := 0\<rparr>)" by (simp add: goes_def cursor_ok_def)
  then show ?thesis using False goes_down goes_trans by (auto simp: adv_line_def)
qed

lemma adv_word_ok: "cursor_ok st \<Longrightarrow> \<exists>s. adv_word st = Some s \<and> slides st s \<and> point st \<le> point s"
proof -
  assume c: "cursor_ok st"
  let ?n = "length (line (curr_line st))"
  obtain s1 where s1: "while_upto ?n (\<lambda>s. position s < line_length (curr_line s) \<and> \<not> blank (byte s (point s))) (\<lambda>s. Some (ee_right True s)) st = Some s1"
      "slides st s1" "point st \<le> point s1"
    using rights [OF c, of ?n "\<lambda>s. position s < line_length (curr_line s) \<and> \<not> blank (byte s (point s))"]
    by (auto simp: slides_def cursor_ok_def)
  have c1: "cursor_ok s1" "curr_line s1 = curr_line st" using s1(2) slides_sel by blast+
  obtain s2 where s2: "while_upto ?n (\<lambda>s. position s < line_length (curr_line s) \<and> blank (byte s (point s))) (\<lambda>s. Some (ee_right True s)) s1 = Some s2"
      "slides s1 s2" "point s1 \<le> point s2"
    using rights [OF c1(1), of ?n "\<lambda>s. position s < line_length (curr_line s) \<and> blank (byte s (point s))"] c1(2)
    by (auto simp: slides_def cursor_ok_def)
  show ?thesis using s1 s2 slides_trans [OF s1(2) s2(2)] by (auto simp: adv_word_def Let_def)
qed

text \<open>The loops of \<open>prev_word\<close> stop at the nearest character of the other kind, or at the start of the line.\<close>

lemma skips:
  assumes "cursor_ok st"
  shows "\<exists>s. while_upto (Suc (length (line (curr_line st)))) (\<lambda>s. position s \<noteq> 1 \<and> blank (byte s (point s)) = b) (\<lambda>s. Some (ee_left True s)) st = Some s \<and>
    slides st s \<and> point s \<le> point st \<and> (s = st \<or> settled s) \<and> (point s = 0 \<or> blank (byte st (point s)) = (\<not> b)) \<and>
    (\<forall>i. point s < i \<and> i \<le> point st \<longrightarrow> blank (byte st i) = b)"
proof -
  let ?P = "\<lambda>s. slides st s \<and> point s \<le> point st \<and> (s = st \<or> settled s) \<and> (\<forall>i. point s < i \<and> i \<le> point st \<longrightarrow> blank (byte st i) = b)"
  have "\<exists>s. while_upto (Suc (length (line (curr_line st)))) (\<lambda>s. position s \<noteq> 1 \<and> blank (byte s (point s)) = b) (\<lambda>s. Some (ee_left True s)) st = Some s \<and>
      ?P s \<and> \<not> (position s \<noteq> 1 \<and> blank (byte s (point s)) = b)"
  proof (rule while_upto_some [where m = point])
    fix s assume s: "?P s" "position s \<noteq> 1 \<and> blank (byte s (point s)) = b"
    have p: "point s \<noteq> 0" using s slides_sel(5) [of st s] by (auto simp: cursor_ok_def)
    note l = left_slides [OF slides_sel(5) p, of st]
    have "slides st (ee_left True s)" "point (ee_left True s) = point s - 1" "settled (ee_left True s)" using s(1) l slides_trans by blast+
    moreover have "blank (byte st i) = b" if "point s - 1 < i" "i \<le> point st" for i
      using that s slides_sel(6) [of st s] p by (cases "i = point s") auto
    ultimately show "\<exists>s'. Some (ee_left True s) = Some s' \<and> ?P s' \<and> point s' < point s" using p s(1) by auto
  qed (use assms slides_refl in \<open>auto simp: cursor_ok_def\<close>)
  then obtain s where s: "while_upto (Suc (length (line (curr_line st)))) (\<lambda>s. position s \<noteq> 1 \<and> blank (byte s (point s)) = b) (\<lambda>s. Some (ee_left True s)) st = Some s"
      "?P s" "\<not> (position s \<noteq> 1 \<and> blank (byte s (point s)) = b)" by blast
  have "cursor_ok s" "byte s = byte st" using s(2) slides_sel [of st s] by simp_all
  then have "point s = 0 \<or> blank (byte st (point s)) = (\<not> b)" using s(3) by (auto simp: cursor_ok_def)
  then show ?thesis using s(1,2) by (intro exI [of _ s]) simp
qed

lemma prev_word_ok:
  assumes "cursor_ok st" "point st \<noteq> 0"
  shows "\<exists>s. prev_word st = Some s \<and> slides st s \<and> point s < point st \<and> settled s"
proof -
  let ?n = "Suc (length (line (curr_line st)))"
  let ?skip = "\<lambda>b. while_upto ?n (\<lambda>s. position s \<noteq> 1 \<and> blank (byte s (point s)) = b) (\<lambda>s. Some (ee_left True s))"
  let ?B = "\<lambda>i. blank (byte st i)"
  have step: "\<exists>v. ?skip b u = Some v \<and> slides st v \<and> point v \<le> point u \<and> (v = u \<or> settled v) \<and> (point v = 0 \<or> ?B (point v) = (\<not> b)) \<and>
      (\<forall>i. point v < i \<and> i \<le> point u \<longrightarrow> ?B i = b)" if "slides st u" for u b
    using skips [of u b] that slides_sel [OF that] slides_trans [OF that] by auto
  have st: "slides st st" by (rule slides_refl [OF assms(1)])
  obtain s1 where s1: "(if ?B (point st - 1) then ?skip False st else Some st) = Some s1" "slides st s1" "point s1 \<le> point st" "s1 = st \<or> settled s1"
      "?B (point st - 1) \<Longrightarrow> point s1 = 0 \<or> ?B (point s1)"
    using step [OF st, of False] st by (cases "?B (point st - 1)") auto
  obtain s2 where s2: "?skip True s1 = Some s2" "slides st s2" "point s2 \<le> point s1" "s2 = s1 \<or> settled s2" "point s2 = 0 \<or> \<not> ?B (point s2)"
    using step [OF s1(2), of True] by auto
  obtain s3 where s3: "?skip False s2 = Some s3" "slides st s3" "point s3 \<le> point s2" "s3 = s2 \<or> settled s3" "point s3 = 0 \<or> ?B (point s3)"
    using step [OF s2(2), of False] by auto
  have c3: "cursor_ok s3" "curr_line s3 = curr_line st" "byte s3 = byte st" using slides_sel [OF s3(2)] by auto
  have p: "position st \<noteq> 1" using assms by (simp add: cursor_ok_def)
  have e: "prev_word st = Some (if position s3 \<noteq> 1 \<and> blank (byte s3 (point s3)) then ee_right True s3 else s3)"
    using p s1(1) s2(1) s3(1) by (simp add: prev_word_def Let_def split: if_splits)
  show ?thesis
  proof (cases "point s3 = 0")
    case True
    then have "s3 \<noteq> st" using assms(2) by auto
    then have "settled s3" using s1(4) s2(4) s3(4) by auto
    then show ?thesis using e True c3(1) assms(2) s3(2) by (simp add: cursor_ok_def)
  next
    case False
    then have B3: "?B (point s3)" and B2: "\<not> ?B (point s2)" using s3(3,5) s2(5) by auto
    then have "point s3 < point s2" using s3(3) by (metis le_neq_implies_less)
    moreover have "point s3 + 1 \<noteq> point st"
    proof
      assume a: "point s3 + 1 = point st"
      then have "point s1 = point st" "point s2 = point st" using \<open>point s3 < point s2\<close> s1(3) s2(3) by auto
      moreover have "?B (point st - 1)" using a B3 by (metis add_diff_cancel_right')
      ultimately show False using s1(5) B2 assms(2) by auto
    qed
    ultimately have less: "point s3 + 1 < point st" using s1(3) s2(3) by simp
    then have "point s3 < length (line (curr_line s3))" using assms(1) c3(2) by (simp add: cursor_ok_def)
    note r = right_slides [OF c3(1) this]
    have "position s3 \<noteq> 1" using False c3(1) by (simp add: cursor_ok_def)
    then show ?thesis using e B3 c3(3) r slides_trans [OF s3(2) r(1)] less by simp
  qed
qed

section \<open>Moves over lines\<close>

lemma to_next_pow:
  assumes "n \<le> length (below st)"
  shows "length (above ((to_next ^^ n) st)) = length (above st) + n" "length (below ((to_next ^^ n) st)) = length (below st) - n"
    "lines ((to_next ^^ n) st) = lines st" "frame ((to_next ^^ n) st) = frame st" "absolute_lin ((to_next ^^ n) st) = absolute_lin st"
    "scr_pos ((to_next ^^ n) st) = scr_pos st"
  using assms by (induction n) (auto simp: to_next_def lines_def split: list.splits)

lemma to_prev_pow:
  assumes "n \<le> length (above st)"
  shows "length (above ((to_prev ^^ n) st)) = length (above st) - n" "lines ((to_prev ^^ n) st) = lines st" "frame ((to_prev ^^ n) st) = frame st"
    "absolute_lin ((to_prev ^^ n) st) = absolute_lin st"
  using assms by (induction n) (auto simp: to_prev_def lines_def split: list.splits)

lemma goes_bottom: "goes st (ee_bottom st)"
  using to_next_pow [of "length (below st)" st] by (auto simp: ee_bottom_def to_last_def goes_def cursor_ok_def)

lemma goes_top: "goes st (ee_top st)"
  using to_prev_pow [of "length (above st)" st] by (auto simp: ee_top_def to_first_def goes_def cursor_ok_def)

text \<open>The cursor is at the start of another line, \<open>n\<close> below.\<close>

definition landed :: "ee \<Rightarrow> nat \<Rightarrow> ee \<Rightarrow> bool" where
  "landed st n s \<longleftrightarrow> above s = above ((to_next ^^ n) st) \<and> curr_line s = curr_line ((to_next ^^ n) st) \<and> below s = below ((to_next ^^ n) st) \<and>
     point s = 0 \<and> position s = 1 \<and> scr_pos s = 0 \<and> absolute_lin s = absolute_lin st + int n \<and> frame s = frame st"

lemma landed_goes: "landed st n s \<Longrightarrow> n \<le> length (below st) \<Longrightarrow> goes st s"
  using to_next_pow [of n st] by (auto simp: landed_def goes_def cursor_ok_def lines_def)

lemma find_pos_start:
  assumes "point st = 0" "scr_pos st = 0"
  shows "point (find_pos st) = 0 \<and> position (find_pos st) = 1 \<and> scr_pos (find_pos st) = 0"
proof -
  have "find_col (st\<lparr>scr_horz := 0, position := 1\<rparr>) n = st\<lparr>scr_horz := 0, position := 1\<rparr>" for n
    using assms by (cases n) simp_all
  then show ?thesis using assms by (simp add: find_pos_def Let_def midscreen_def scanline_def)
qed

lemma to_next_sel: "scr_pos (to_next st) = scr_pos st" "absolute_lin (to_next st) = absolute_lin st"
  by (auto simp: to_next_def split: list.splits)

lemma nextline_sel:
  "above (nextline st) = above (to_next st)" "curr_line (nextline st) = curr_line (to_next st)" "below (nextline st) = below (to_next st)"
  "point (nextline st) = 0" "position (nextline st) = 1" "scr_pos (nextline st) = scr_pos st" "absolute_lin (nextline st) = absolute_lin st + 1"
  "frame (nextline st) = frame st"
  by (simp_all add: nextline_def Let_def to_next_sel)

lemma down_lands:
  assumes "landed st n s" "below s \<noteq> []"
  shows "landed st (Suc n) (ee_down s)"
proof -
  have "point (nextline s) = 0" "scr_pos (nextline s) = 0" using assms(1) by (simp_all add: nextline_sel landed_def)
  note f = find_pos_goes [OF this(1)] find_pos_start [OF this]
  have "above (to_next s) = above (to_next ((to_next ^^ n) st)) \<and> curr_line (to_next s) = curr_line (to_next ((to_next ^^ n) st)) \<and>
      below (to_next s) = below (to_next ((to_next ^^ n) st))"
    using assms(1) by (auto simp: landed_def to_next_def split: list.splits)
  then show ?thesis using f assms by (simp add: ee_down_def landed_def nextline_sel)
qed

lemma downs_land:
  assumes "landed st n s" "n + k \<le> length (below st)"
  shows "landed st (n + k) ((ee_down ^^ k) s)"
  using assms(2)
proof (induction k)
  case (Suc k)
  then have l: "landed st (n + k) ((ee_down ^^ k) s)" by simp
  have "below ((ee_down ^^ k) s) \<noteq> []" using l to_next_pow(2) [of "n + k" st] Suc.prems by (auto simp: landed_def)
  from down_lands [OF l this] show ?case by simp
qed (use assms(1) in simp)

lemma downs_stop:
  assumes "landed st n s" "n \<le> length (below st)"
  shows "landed st (min (n + k) (length (below st))) ((ee_down ^^ k) s)"
proof (induction k)
  case (Suc k)
  show ?case
  proof (cases "n + k < length (below st)")
    case True
    then show ?thesis using downs_land [OF assms(1), of "Suc k"] by simp
  next
    case False
    then have "below ((ee_down ^^ k) s) = []" using Suc.IH to_next_pow(2) [of "length (below st)" st] by (auto simp: landed_def min_def)
    then have "(ee_down ^^ Suc k) s = (ee_down ^^ k) s" by (simp add: ee_down_def)
    then show ?thesis using Suc False by (simp add: min_def split: if_splits)
  qed
qed (use assms in simp)

lemma look_down_lands:
  assumes "landed st n s" "n \<le> length (below st)"
  shows "landed st n (look_down s)"
proof -
  let ?i = "min 5 (length (below s))"
  have b: "length (below s) = length (below st) - n" using assms to_next_pow(2) [of n st] by (simp add: landed_def)
  have "landed st (n + ?i) ((ee_down ^^ ?i) s)" by (rule downs_land [OF assms(1)]) (use b assms(2) in simp)
  then show ?thesis using assms(1) by (simp add: look_down_def landed_def Let_def scanline_def)
qed

lemma right_over:
  assumes "cursor_ok st" "point st = length (line (curr_line st))" "below st \<noteq> []"
  shows "landed st 1 (ee_right True st)"
  using assms by (auto simp: landed_def ee_right_def cursor_ok_def nextline_sel Let_def midscreen_def scanline_def)

lemma landed_slides: "slides st u \<Longrightarrow> landed u 1 s \<Longrightarrow> landed st 1 s"
  by (auto simp: landed_def slides_def to_next_def split: list.splits)

lemma first_step_down:
  assumes "cursor_ok st" "below st \<noteq> []"
  shows "\<exists>s. (if position st \<noteq> 1 \<and> below st \<noteq> []
              then let s = (nextline st)\<lparr>scr_pos := 0, scr_horz := 0\<rparr>
                   in Some (if horiz_offset s \<noteq> 0 then midscreen (scr_vert s) (s\<lparr>horiz_offset := 0\<rparr>) else s)
              else adv_line st) = Some s \<and> landed st 1 s"
proof (cases "position st = 1")
  case False
  then show ?thesis using assms(2) by (auto simp: landed_def nextline_sel Let_def midscreen_def scanline_def)
next
  case True
  then have p: "point st = 0" using assms(1) by (simp add: cursor_ok_def)
  show ?thesis
  proof (cases "0 < scr_pos st")
    case True
    obtain s where s: "to_eol st = Some s" "slides st s" "point s = length (line (curr_line st))" using to_eol_ok [OF assms(1)] by blast
    then have "landed s 1 (ee_right True s)" using slides_sel [OF s(2)] assms(2) by (intro right_over) simp_all
    then show ?thesis using landed_slides [OF s(2)] s(1) True \<open>position st = 1\<close> by (simp add: adv_line_def)
  next
    case False
    have "landed st 0 (st\<lparr>scr_pos := 0\<rparr>)" using p \<open>position st = 1\<close> by (simp add: landed_def)
    then show ?thesis using False p \<open>position st = 1\<close> down_lands [of st 0 "st\<lparr>scr_pos := 0\<rparr>"] assms(2) by (simp add: adv_line_def)
  qed
qed

lemma move_rel_down:
  assumes "cursor_ok st" "below st \<noteq> []"
  shows "\<exists>s. move_rel False n st = Some s \<and> landed st (min (Suc (n - 1)) (length (below st))) s"
proof -
  from first_step_down [OF assms] obtain s where s: "(if position st \<noteq> 1 \<and> below st \<noteq> []
              then let s = (nextline st)\<lparr>scr_pos := 0, scr_horz := 0\<rparr>
                   in Some (if horiz_offset s \<noteq> 0 then midscreen (scr_vert s) (s\<lparr>horiz_offset := 0\<rparr>) else s)
              else adv_line st) = Some s" "landed st 1 s" by blast
  have "1 \<le> length (below st)" using assms(2) by (cases "below st") auto
  from downs_stop [OF s(2) this, of "n - 1"]
  have d: "landed st (min (Suc (n - 1)) (length (below st))) ((ee_down ^^ (n - 1)) s)" by simp
  show ?thesis unfolding move_rel_def if_False s(1) using d look_down_lands [OF d] by (simp add: Let_def)
qed

lemma move_rel_bottom:
  assumes "cursor_ok st" "below st = []"
  shows "\<exists>s. move_rel False n st = Some s \<and> goes st s"
proof -
  obtain s where s: "adv_line st = Some s" "slides st s"
  proof (cases "point st \<noteq> 0 \<or> 0 < scr_pos st")
    case True
    obtain s where "to_eol st = Some s" "slides st s" "point s = length (line (curr_line st))" using to_eol_ok [OF assms(1)] by blast
    then show ?thesis using True assms(2) slides_sel [of st s] that by (simp add: adv_line_def ee_right_def cursor_ok_def)
  qed (use assms slides_refl that in \<open>simp add: adv_line_def\<close>)
  have b: "below s = []" using slides_sel(3) [OF s(2)] assms(2) by simp
  have d: "(ee_down ^^ k) s = s" for k using b by (induction k) (simp_all add: ee_down_def)
  have "goes s (look_down s)" using b by (simp add: look_down_def goes_def lines_def cursor_ok_def Let_def)
  then have "goes st (look_down s)" using slides_goes [OF s(2)] goes_trans by blast
  then show ?thesis using assms(2) s(1) slides_goes [OF s(2)] d by (simp add: move_rel_def Let_def)
qed

lemma up_start:
  assumes "point s = 0" "position s = 1" "scr_pos s = 0"
  shows "point (ee_up s) = 0" "position (ee_up s) = 1" "scr_pos (ee_up s) = 0"
  using assms find_pos_start [of "(prevline s)\<lparr>point := 0\<rparr>"]
  by (auto simp: ee_up_def prevline_def Let_def to_prev_def split: list.splits)

lemma ups_start:
  assumes "point s = 0" "position s = 1" "scr_pos s = 0"
  shows "point ((ee_up ^^ n) s) = 0 \<and> position ((ee_up ^^ n) s) = 1 \<and> scr_pos ((ee_up ^^ n) s) = 0"
  by (induction n) (use assms up_start in auto)

lemma up_count:
  assumes "above u \<noteq> []"
  shows "absolute_lin (ee_up u) = absolute_lin u - 1 \<and> length (above (ee_up u)) = length (above u) - 1"
proof -
  have "absolute_lin ((prevline u)\<lparr>point := 0\<rparr>) = absolute_lin u - 1" "length (above ((prevline u)\<lparr>point := 0\<rparr>)) = length (above u) - 1"
    using assms by (auto simp: prevline_def Let_def to_prev_def split: list.splits)
  then show ?thesis using assms find_pos_goes [of "(prevline u)\<lparr>point := 0\<rparr>"] by (simp add: ee_up_def)
qed

lemma ups_count:
  "i \<le> length (above s) \<Longrightarrow> absolute_lin ((ee_up ^^ i) s) = absolute_lin s - int i \<and> length (above ((ee_up ^^ i) s)) = length (above s) - i"
proof (induction i)
  case (Suc i)
  have "above ((ee_up ^^ i) s) \<noteq> []" using Suc by auto
  then show ?case using Suc up_count by simp
qed simp

lemma goes_look_up:
  assumes "point s = 0" "position s = 1" "scr_pos s = 0"
  shows "goes s (look_up s)"
proof -
  let ?i = "min 5 (length (above s))"
  have "frame ((ee_up ^^ ?i) s) = frame s" using goes_funpow [OF goes_up, of s ?i] by (simp add: goes_def)
  moreover have "position ((ee_up ^^ ?i) s) = 1" "absolute_lin ((ee_up ^^ ?i) s) = absolute_lin s - int ?i"
    using ups_start [OF assms, of ?i] ups_count [of ?i s] by simp_all
  ultimately show ?thesis using assms by (simp add: look_up_def goes_def lines_def cursor_ok_def Let_def)
qed

lemma move_rel_up:
  assumes "cursor_ok st"
  shows "\<exists>s. move_rel True n st = Some s \<and> goes st s"
proof -
  let ?st = "st\<lparr>scr_pos := 0\<rparr>"
  have c: "cursor_ok ?st" using assms by (simp add: cursor_ok_def)
  have "\<exists>s. while_upto (length (line (curr_line st))) (\<lambda>s. 1 < position s) (\<lambda>s. Some (ee_left True s)) ?st = Some s \<and>
      (slides ?st s \<and> (s = ?st \<or> settled s)) \<and> \<not> 1 < position s"
  proof (rule while_upto_some [where m = point])
    fix s assume s: "slides ?st s \<and> (s = ?st \<or> settled s)" "1 < position s"
    then have p: "point s \<noteq> 0" using slides_sel(5) [of ?st s] by (auto simp: cursor_ok_def)
    then show "\<exists>s'. Some (ee_left True s) = Some s' \<and> (slides ?st s' \<and> (s' = ?st \<or> settled s')) \<and> point s' < point s"
      using s(1) left_slides [OF slides_sel(5) p, of ?st] slides_trans by force
  qed (use c slides_refl in \<open>auto simp: cursor_ok_def\<close>)
  then obtain s where s: "while_upto (length (line (curr_line st))) (\<lambda>s. 1 < position s) (\<lambda>s. Some (ee_left True s)) ?st = Some s"
      "slides ?st s" "s = ?st \<or> settled s" "\<not> 1 < position s" by blast
  have p: "point s = 0" "position s = 1" using s(4) slides_sel(5) [OF s(2)] by (auto simp: cursor_ok_def)
  then have "scr_pos s = 0" using s(3) by (auto simp: settled_def column_def)
  note start = ups_start [OF p this]
  define s1 where "s1 = (ee_up ^^ n) s"
  have g1: "goes st s1" using goes_trans [OF _ goes_funpow [OF goes_up]] slides_goes [OF s(2)] by (auto simp: s1_def goes_def cursor_ok_def)
  have "goes s1 (look_up s1)" unfolding s1_def by (rule goes_look_up) (use start in auto)
  then show ?thesis using s(1) g1 goes_trans by (auto simp: move_rel_def Let_def s1_def)
qed

end
