(* ===== verification/Spec2Isabelle.thy ===== *)
theory Spec2Isabelle
  imports Factor Timeout Indent_Grammar Indent_Tokens Indent_Runs Tiffdump_Encode Ee_Moves
begin

text \<open>
  Verification of the command-line programs whose C sources the repository itself carries:
  \<open>factor\<close>, \<open>timeout\<close> and \<open>indent\<close> under \<^verbatim>\<open>src/bsd_additions\<close> and \<open>tiffdump\<close> under \<^verbatim>\<open>mk/compat/libtiff\<close>.  The rest of the repository builds
  and patches programs whose sources lie elsewhere.

  \<^bold>\<open>The parts and where they are.\<close>  The four programs are independent processes.  They share
  \<open>Prelude\<close>: the outcome \<open>'a run\<close> of a C program (it returns, it exits with what it wrote and its
  status, or it does something undefined), the character classes of the C locale, C strings and the
  numbers of \<open>strtol\<close>.

  \<^item> \<open>factor\<close>, \<^verbatim>\<open>factor/factor.c\<close> and \<^verbatim>\<open>factor/pr_tbl.c\<close>: theories \<open>Prime_Table\<close> (the table of 6,543
    primes as the source has it) and \<open>Factor\<close> (\<open>convert_str2bn\<close>, \<open>is_hex_str\<close>, \<open>pr_fact\<close> with its two
    loops, \<open>pr_print\<close>, reading standard input with \<open>fgets\<close>, \<open>main\<close>).  The big numbers of the build without
    OpenSSL are 64-bit words there and so they are here.
  \<^item> \<open>timeout\<close>, \<^verbatim>\<open>timeout/timeout.c\<close> with the shim \<^verbatim>\<open>include/sys/prctl.h\<close>: theories \<open>C_Double\<close> (the binary64
    arithmetic that durations use) and \<open>Timeout\<close> (\<open>parse_duration\<close>, \<open>parse_signal\<close>, the option scanner,
    the signal handler, \<open>set_interval\<close>, the loop around \<open>sigsuspend\<close>, the exit status).  The world is
    a list of events, each the signals that one \<open>sigsuspend\<close> delivers with the results of the calls of
    \<open>waitpid\<close> after it; what the system calls answer is the record \<open>sys\<close>, a parameter.
  \<^item> \<open>indent\<close>, all of \<^verbatim>\<open>indent/\<close>: \<open>Indent_Names\<close> (the keyword table and the table of type names of
    \<^verbatim>\<open>lexi.c\<close>), \<open>Indent_Globs\<close> (\<^verbatim>\<open>indent_globs.h\<close>, \<^verbatim>\<open>indent_codes.h\<close>: the options, the parser state and
    all other globals as one record \<open>ist\<close>), \<open>Indent_Args\<close> (\<^verbatim>\<open>args.c\<close> and the first half of \<open>main\<close>),
    \<open>Indent_Parse\<close> (\<^verbatim>\<open>parse.c\<close>), \<open>Indent_Io\<close> (\<^verbatim>\<open>io.c\<close>), \<open>Indent_Lexi\<close> (\<^verbatim>\<open>lexi.c\<close>), \<open>Indent_Comment\<close>
    (\<^verbatim>\<open>pr_comment.c\<close>) and \<open>Indent_Main\<close> (the formatting loop of \<^verbatim>\<open>indent.c\<close>: the search for a brace with
    its save buffer, one definition for each kind of token, preprocessor lines, \<open>indent_declaration\<close>,
    \<open>bakcopy\<close>).  Definitions keep the names of the C functions; a part of a long function has a name
    of its own, and the names \<open>tk_...\<close> are the cases of the big switch of \<open>main\<close>.
  \<^item> \<open>tiffdump\<close>, \<^verbatim>\<open>tiffdump.c\<close> with \<^verbatim>\<open>tiffiop.h\<close>: theory \<open>Tiffdump\<close> (\<open>PrintTag\<close>, \<open>PrintType\<close>, \<open>PrintData\<close> for all sixteen
    types, \<open>ReadDirectory\<close> in its parts, \<open>dump\<close> with the array of visited directories, \<open>main\<close>).  The installed libtiff is the
    record \<open>libtiff\<close>, a parameter; the predicate \<open>documented\<close> says what the theorems rely on.  Words keep their width, since the sizes
    in a file are hostile.

  \<^bold>\<open>How the state corresponds.\<close>  A C pointer into a buffer is an index, a section buffer (\<open>labbuf\<close>,
  \<open>codebuf\<close>, \<open>combuf\<close>) is a \<open>cbuf\<close>: the text between its start and end pointers and the stale bytes
  behind, which some reads reach.  The arrays of the parser are total functions with their size
  checked where they are written or read.  A read or write outside what C defines is the outcome
  \<open>Undef\<close> (\<open>wild\<close> in \<open>indent\<close>), so a theorem that names another outcome also says that nothing
  undefined happens.  Growing buffers are lists without a capacity, except the comment buffer, whose growing moves pointers.
\<close>

text \<open>
  \<^bold>\<open>What the theorems show.\<close>

  \<^item> \<open>Factor\<close>: the table is complete and ascending; every number below 65537 * 65539 is printed with
    exactly its prime factors in order; for all 64-bit numbers what is printed is described, with the
    inputs on which the loop reads past the table characterised exactly; the conversions of
    the program's own output read back; the program as a whole.  The locale \<open>trial_table\<close> holds the argument about trial
    division for any table and is interpreted on the table of the source.
  \<^item> \<open>Timeout\<close>: safety in background and foreground mode for all event lists (whom the program may
    signal, how often, with what), the exit status, a complete run, durations and signal names, and three
    executions in which a time-out is lost or the command is left running.
  \<^item> \<open>Indent_Names\<close>, \<open>Indent_Args\<close>: the type table is a set (locale \<open>name_set\<close>), the binary
    search is right, the defaults are those of the manual, an option selects its own entry of
    the table, profiles are sequences of options, all options are in range at the start.
  \<^item> \<open>Indent_Parse\<close>, \<open>Indent_Grammar\<close>: the parser with its array of 256 entries refines a machine on an unbounded
    stack up to the overflow; for every derivation of C statements (an inductive grammar of tokens)
    the parser ends with the stack and the indentation it started with.
  \<^item> \<open>Indent_Io\<close>: padding reaches its column; \<open>dump_line\<close> writes all visible characters of label and
    code; the lines of the file arrive in order.
  \<^item> \<open>Indent_Reading\<close>, \<open>Indent_Scan\<close>, \<open>Indent_Tokens\<close>: what the buffers hold is one unread text, and \<open>lexi\<close> takes from it
    the token that a lexer on texts takes; it returns with fuel above the length of the text, and on the one kind of text where it hangs no
    fuel is enough.
  \<^item> \<open>Indent_Runs\<close>: a judgement \<open>runs\<close> that every function of the formatter meets, with the property that an error
    once reported is never lost: the exit status is 1.
  \<^item> \<open>Tiffdump_Facts\<close>, \<open>Tiffdump_Order\<close>, \<open>Tiffdump_Encode\<close>: for arbitrary bytes \<open>tiffdump\<close> exits and stays inside its memory;
    the amount of data shown is exact although sizes may wrap around; the output does not depend on the byte order of the
    machine; a chain of directories that is encoded in either byte order is printed as it was meant.

  \<^bold>\<open>Fuel.\<close>  Loops of \<open>indent\<close> that read input take fuel, since at the end of the file \<open>fill_buffer\<close>
  supplies a blank line each time it is called.  Out of fuel is \<open>None\<close>, apart from every outcome of the program.  Fuel above the length of the unread text
  is enough for \<open>lexi\<close> by the theorem on it; the outer loop takes one unit for each token.  The loop
  \<open>divide_out\<close> of \<open>factor\<close> is a partial function, proved to return on what it is called with.  Everything else terminates by proof.

  \<^bold>\<open>Bounds of the model.\<close>  In \<open>indent\<close>, columns and counters are integers (no overflow of \<open>int\<close>), allocation
  does not fail, tabs are at least 1 wide, and the text of system error messages and the
  program name before messages are left out.  In \<open>tiffdump\<close>, \<open>read\<close> does not fail, unaligned accesses count as aligned ones, and the messages
  of \<open>getopt\<close> are left out.  \<open>match_state\<close> is written and never read, so it is left out.
  The contents of \<open>procname\<close> matter only as far as they are read.

  \<^bold>\<open>Not modelled.\<close>  The branch of \<open>factor\<close> for OpenSSL (Pollard's p-1 method on its big numbers), which the
  build leaves out.  The screen editor \<open>ee\<close> with its curses library: terminal control and key input.
  The configuration headers of libtiff, the
  FSKit stub, private system headers and framework headers: declarations without operations.  The makefiles and scripts.
\<close>

end
